(* ===== verification/Cpp_Prelude.thy ===== *)
theory Cpp_Prelude
  imports Main "HOL-Library.AList" "HOL-Library.Word" "HOL-Library.Sublist"
begin

text \<open>
  The part of the C++ language and standard library that the sources use, as executable HOL
  functions: exceptions as values, \<^verbatim>\<open>std::string\<close> searching and slicing, \<^verbatim>\<open>std::stoi\<close> and
  \<^verbatim>\<open>std::to_string\<close>, \<^verbatim>\<open>std::find_if\<close> with erase and in-place update on vectors,
  \<^verbatim>\<open>std::unordered_map\<close> as an association list with distinct keys, and \<^verbatim>\<open>std::put_time\<close> of a
  UTC time.  A \<^verbatim>\<open>std::string\<close> is a list of bytes, which is what the type \<^typ>\<open>string\<close> is.
  The lemmas here are the generic facts the component theories share.
\<close>

section \<open>Exceptions\<close>

text \<open>
  What a C++ call may do instead of returning: throw \<^verbatim>\<open>std::invalid_argument\<close>,
  \<^verbatim>\<open>std::out_of_range\<close> or \<^verbatim>\<open>std::length_error\<close>, run into undefined behaviour (dereferencing an end iterator,
  reading past the end of a vector, overflowing a signed integer), or end the program by
  \<^verbatim>\<open>std::terminate\<close> (assigning to a thread that is still joinable).
\<close>

datatype cpp_exn = Invalid_argument | Out_of_range | Undefined_behaviour | Terminated | Length_error

type_synonym 'a exn = "cpp_exn + 'a"

definition exn_bind :: "'a exn \<Rightarrow> ('a \<Rightarrow> 'b exn) \<Rightarrow> 'b exn" where
  "exn_bind m f = (case m of Inl e \<Rightarrow> Inl e | Inr x \<Rightarrow> f x)"

lemma exn_bind_simps [simp]:
  "exn_bind (Inl e) f = Inl e"
  "exn_bind (Inr x) f = f x"
  by (simp_all add: exn_bind_def)

lemma exn_bind_eq_Inr:
  "exn_bind m f = Inr y \<longleftrightarrow> (\<exists>x. m = Inr x \<and> f x = Inr y)"
  by (simp add: exn_bind_def split: sum.splits)

named_theorems cpp_std \<open>facts about the modelled standard library\<close>

section \<open>Characters and numbers\<close>

definition char_code :: "char \<Rightarrow> nat" where
  "char_code c = of_char c"

definition is_digit :: "char \<Rightarrow> bool" where
  "is_digit c \<longleftrightarrow> 48 \<le> char_code c \<and> char_code c \<le> 57"

definition is_space :: "char \<Rightarrow> bool" where
  "is_space c \<longleftrightarrow> char_code c = 32 \<or> (9 \<le> char_code c \<and> char_code c \<le> 13)"

definition digit_val :: "char \<Rightarrow> nat" where
  "digit_val c = char_code c - 48"

definition digit_char :: "nat \<Rightarrow> char" where
  "digit_char n = char_of (48 + n)"

lemma char_code_digit_char: "n < 10 \<Longrightarrow> char_code (digit_char n) = 48 + n"
  by (simp add: char_code_def digit_char_def)

lemma is_digit_digit_char [simp]: "n < 10 \<Longrightarrow> is_digit (digit_char n)"
  by (simp add: is_digit_def char_code_digit_char)

lemma digit_val_digit_char [simp]: "n < 10 \<Longrightarrow> digit_val (digit_char n) = n"
  by (simp add: digit_val_def char_code_digit_char)

lemma digit_not_space: "is_digit c \<Longrightarrow> \<not> is_space c"
  by (auto simp: is_digit_def is_space_def)

text \<open>The decimal text of a number, as \<^verbatim>\<open>std::to_string\<close> and \<^verbatim>\<open>ostream <<\<close> write it.\<close>

fun nat_str :: "nat \<Rightarrow> string" where
  "nat_str n = (if n < 10 then [digit_char n] else nat_str (n div 10) @ [digit_char (n mod 10)])"

declare nat_str.simps [simp del]

definition to_string :: "int \<Rightarrow> string" where
  "to_string i = (if i < 0 then CHR ''-'' # nat_str (nat (- i)) else nat_str (nat i))"

definition digits_value :: "nat \<Rightarrow> string \<Rightarrow> nat" where
  "digits_value n ds = foldl (\<lambda>a d. 10 * a + digit_val d) n ds"

lemma nat_str_digits: "\<forall>c \<in> set (nat_str n). is_digit c"
proof (induction n rule: nat_str.induct)
  case (1 n)
  show ?case
  proof (cases "n < 10")
    case True
    then show ?thesis by (subst nat_str.simps) simp
  next
    case False
    with 1 show ?thesis by (subst nat_str.simps) auto
  qed
qed

lemma nat_str_not_Nil [simp]: "nat_str n \<noteq> []"
  by (subst nat_str.simps) simp

lemma digits_value_nat_str: "digits_value 0 (nat_str n) = n"
proof (induction n rule: nat_str.induct)
  case (1 n)
  show ?case
  proof (cases "n < 10")
    case True
    then show ?thesis by (subst nat_str.simps) (simp add: digits_value_def)
  next
    case False
    with 1 have "digits_value 0 (nat_str (n div 10)) = n div 10" by simp
    with False show ?thesis
      by (subst nat_str.simps) (simp add: digits_value_def)
  qed
qed

lemma nat_str_inject [simp]: "nat_str m = nat_str n \<longleftrightarrow> m = n"
  by (metis digits_value_nat_str)

text \<open>
  \<^verbatim>\<open>std::stoi\<close>, \<^verbatim>\<open>std::stol\<close> and \<^verbatim>\<open>std::stoll\<close> in base ten: leading white space and a sign
  are skipped, the longest run of digits is read and what follows it is ignored.  No digit is
  \<^verbatim>\<open>invalid_argument\<close>, a value outside the result type is \<^verbatim>\<open>out_of_range\<close>.
\<close>

definition read_digits :: "string \<Rightarrow> nat option" where
  "read_digits s = (let ds = takeWhile is_digit s
     in if ds = [] then None else Some (digits_value 0 ds))"

definition read_int :: "string \<Rightarrow> int option" where
  "read_int s = (case dropWhile is_space s of
       [] \<Rightarrow> None
     | c # cs \<Rightarrow> if c = CHR ''-'' then map_option (\<lambda>n. - int n) (read_digits cs)
               else if c = CHR ''+'' then map_option int (read_digits cs)
               else map_option int (read_digits (c # cs)))"

definition sto :: "int \<Rightarrow> int \<Rightarrow> string \<Rightarrow> int exn" where
  "sto lo hi s = (case read_int s of
       None \<Rightarrow> Inl Invalid_argument
     | Some i \<Rightarrow> if lo \<le> i \<and> i \<le> hi then Inr i else Inl Out_of_range)"

definition int32_min :: int where "int32_min = - 2147483648"
definition int32_max :: int where "int32_max = 2147483647"
definition int64_min :: int where "int64_min = - 9223372036854775808"
definition int64_max :: int where "int64_max = 9223372036854775807"

definition stoi :: "string \<Rightarrow> int exn" where
  "stoi s = sto int32_min int32_max s"

definition stoll :: "string \<Rightarrow> int exn" where
  "stoll s = sto int64_min int64_max s"

text \<open>\<open>ends_number rest\<close>: no digit follows, so a number in front of \<open>rest\<close> ends there.\<close>

definition ends_number :: "string \<Rightarrow> bool" where
  "ends_number rest \<longleftrightarrow> (case rest of [] \<Rightarrow> True | c # _ \<Rightarrow> \<not> is_digit c)"

lemma takeWhile_digits_append:
  "\<forall>c \<in> set ds. is_digit c \<Longrightarrow> ends_number rest \<Longrightarrow> takeWhile is_digit (ds @ rest) = ds"
  by (auto simp: takeWhile_append2 ends_number_def split: list.splits)

lemma read_digits_nat_str: "ends_number rest \<Longrightarrow> read_digits (nat_str n @ rest) = Some n"
  using takeWhile_digits_append [OF nat_str_digits, of rest n]
  by (simp add: read_digits_def digits_value_nat_str del: takeWhile_append2)

lemma nat_str_Cons: "\<exists>c cs. nat_str n = c # cs \<and> is_digit c"
  using nat_str_digits [of n] nat_str_not_Nil [of n] by (cases "nat_str n") auto

lemma sign_not_digit [simp]: "\<not> is_digit CHR ''-''" "\<not> is_digit CHR ''+''" "\<not> is_space CHR ''-''"
  by (simp_all add: is_digit_def is_space_def char_code_def)

lemma read_int_to_string [cpp_std]:
  assumes "ends_number rest"
  shows "read_int (to_string i @ rest) = Some i"
proof (cases "i < 0")
  case True
  with assms show ?thesis
    by (simp add: to_string_def read_int_def read_digits_nat_str)
next
  case False
  obtain c cs where c: "nat_str (nat i) = c # cs" "is_digit c"
    using nat_str_Cons by blast
  then have "c \<noteq> CHR ''-''" "c \<noteq> CHR ''+''" "\<not> is_space c"
    by (auto dest: digit_not_space)
  moreover have "read_digits (c # cs @ rest) = Some (nat i)"
    using read_digits_nat_str [OF assms, of "nat i"] c by simp
  ultimately show ?thesis using False c
    by (simp add: to_string_def read_int_def)
qed

lemma sto_to_string:
  "ends_number rest \<Longrightarrow> lo \<le> i \<Longrightarrow> i \<le> hi \<Longrightarrow> sto lo hi (to_string i @ rest) = Inr i"
  by (simp add: sto_def read_int_to_string)

lemma ends_number_simps [simp]: "ends_number []" "ends_number (c # cs) \<longleftrightarrow> \<not> is_digit c"
  by (simp_all add: ends_number_def)

lemma stoi_to_string [cpp_std]:
  "ends_number rest \<Longrightarrow> int32_min \<le> i \<Longrightarrow> i \<le> int32_max \<Longrightarrow> stoi (to_string i @ rest) = Inr i"
  by (simp add: stoi_def sto_to_string)

lemma stoll_to_string [cpp_std]:
  "ends_number rest \<Longrightarrow> int64_min \<le> i \<Longrightarrow> i \<le> int64_max \<Longrightarrow> stoll (to_string i @ rest) = Inr i"
  by (simp add: stoll_def sto_to_string)

lemmas stoi_to_string0 [cpp_std] = stoi_to_string [of "[]", simplified]
lemmas stoll_to_string0 [cpp_std] = stoll_to_string [of "[]", simplified]

lemma to_string_inject [simp]: "to_string i = to_string j \<longleftrightarrow> i = j"
  by (metis append_Nil2 ends_number_simps(1) option.inject read_int_to_string)

lemma to_string_not_Nil [simp]: "to_string i \<noteq> []"
  by (simp add: to_string_def)

lemma to_string_chars: "c \<in> set (to_string i) \<Longrightarrow> is_digit c \<or> c = CHR ''-''"
  using nat_str_digits by (auto simp: to_string_def split: if_splits)

end
