(* ===== verification/Cpp_Strings.thy ===== *)
theory Cpp_Strings
  imports Cpp_Prelude
begin

text \<open>
  \<^verbatim>\<open>std::string\<close> as the sources use it: \<^verbatim>\<open>find\<close>, \<^verbatim>\<open>rfind\<close>, \<^verbatim>\<open>find_first_of\<close>,
  \<^verbatim>\<open>substr\<close>, splitting with \<^verbatim>\<open>std::getline\<close>, and the ISO 8601 text of a UTC time.
  A position that \<^verbatim>\<open>find\<close> reports is a value of type \<^typ>\<open>nat option\<close>, with \<^term>\<open>None\<close>
  for \<^verbatim>\<open>std::string::npos\<close>.
\<close>

section \<open>Searching and slicing\<close>

text \<open>A text that is not ASCII, by its bytes (UTF-8).\<close>

definition crlf :: string where
  "crlf = [CHR 0x0D, CHR 0x0A]"

definition bytes :: "nat list \<Rightarrow> string" where
  "bytes bs = map char_of bs"

fun find_sub :: "string \<Rightarrow> string \<Rightarrow> nat option" where
  "find_sub p [] = (if p = [] then Some 0 else None)"
| "find_sub p (c # cs) = (if prefix p (c # cs) then Some 0 else map_option Suc (find_sub p cs))"

definition find_from :: "string \<Rightarrow> string \<Rightarrow> nat \<Rightarrow> nat option" where
  "find_from s p i = (if i \<le> length s then map_option ((+) i) (find_sub p (drop i s)) else None)"

fun find_char :: "(char \<Rightarrow> bool) \<Rightarrow> string \<Rightarrow> nat option" where
  "find_char P [] = None"
| "find_char P (c # cs) = (if P c then Some 0 else map_option Suc (find_char P cs))"

definition find_first_of :: "string \<Rightarrow> string \<Rightarrow> nat \<Rightarrow> nat option" where
  "find_first_of s cs i =
     (if i \<le> length s then map_option ((+) i) (find_char (\<lambda>c. c \<in> set cs) (drop i s)) else None)"

text \<open>\<^verbatim>\<open>s.substr(i, n)\<close> throws when \<open>i\<close> is past the end; \<^verbatim>\<open>s.substr(i)\<close> is the whole rest.\<close>

definition substr :: "string \<Rightarrow> nat \<Rightarrow> nat \<Rightarrow> string exn" where
  "substr s i n = (if length s < i then Inl Out_of_range else Inr (take n (drop i s)))"

definition substr_from :: "string \<Rightarrow> nat \<Rightarrow> string exn" where
  "substr_from s i = (if length s < i then Inl Out_of_range else Inr (drop i s))"

text \<open>\<^verbatim>\<open>s.find(p) == 0\<close>, the idiom for \<open>s\<close> starts with \<open>p\<close>.\<close>

definition starts_with :: "string \<Rightarrow> string \<Rightarrow> bool" where
  "starts_with s p \<longleftrightarrow> find_sub p s = Some 0"

text \<open>\<^verbatim>\<open>std::getline(ss, segment, d)\<close> until the stream ends: a final delimiter opens no segment.\<close>

fun getline_aux :: "char \<Rightarrow> string \<Rightarrow> string \<Rightarrow> string list" where
  "getline_aux d acc [] = (if acc = [] then [] else [rev acc])"
| "getline_aux d acc (c # cs) =
     (if c = d then rev acc # getline_aux d [] cs else getline_aux d (c # acc) cs)"

definition getlines :: "char \<Rightarrow> string \<Rightarrow> string list" where
  "getlines d s = getline_aux d [] s"

section \<open>Hexadecimal output\<close>

definition hex_digits :: string where
  "hex_digits = ''0123456789abcdef''"

definition hex_char :: "nat \<Rightarrow> char" where
  "hex_char n = hex_digits ! n"

text \<open>A number written to a stream after \<^verbatim>\<open>std::hex\<close>.\<close>

fun hex_str :: "nat \<Rightarrow> string" where
  "hex_str n = (if n < 16 then [hex_char n] else hex_str (n div 16) @ [hex_char (n mod 16)])"

declare hex_str.simps [simp del]

text \<open>With \<^verbatim>\<open>std::setfill('0') << std::setw(w)\<close>.\<close>

definition hex_pad :: "nat \<Rightarrow> nat \<Rightarrow> string" where
  "hex_pad w n = replicate (w - length (hex_str n)) CHR ''0'' @ hex_str n"

lemma hex_char_inject: "m < 16 \<Longrightarrow> n < 16 \<Longrightarrow> hex_char m = hex_char n \<longleftrightarrow> m = n"
  unfolding hex_char_def by (rule nth_eq_iff_index_eq) (simp_all add: hex_digits_def)

lemma hex_str_inject [simp]: "hex_str m = hex_str n \<longleftrightarrow> m = n"
proof (induction m arbitrary: n rule: hex_str.induct)
  case (1 m)
  have ne: "hex_str k \<noteq> []" "[] \<noteq> hex_str k" for k by (subst hex_str.simps, simp)+
  show ?case
  proof (cases "m < 16"; cases "n < 16")
    assume "\<not> m < 16" "\<not> n < 16"
    moreover from this have "hex_str (m div 16) = hex_str (n div 16) \<longleftrightarrow> m div 16 = n div 16" by (intro 1)
    moreover have "m = n \<longleftrightarrow> m div 16 = n div 16 \<and> m mod 16 = n mod 16" by (metis div_mod_decomp)
    ultimately show ?thesis by (simp add: hex_str.simps [of m] hex_str.simps [of n] hex_char_inject)
  qed (auto simp: hex_str.simps [of m] hex_str.simps [of n] hex_char_inject ne)
qed

lemma length_hex_str_2: "n < 256 \<Longrightarrow> length (hex_str n) \<le> 2"
  by (subst hex_str.simps) (simp add: hex_str.simps [of "n div 16"])

lemma length_hex_pad: "length (hex_str n) \<le> w \<Longrightarrow> length (hex_pad w n) = w" "w \<le> length (hex_pad w n)"
  by (simp_all add: hex_pad_def)

section \<open>Facts about searching\<close>

lemma prefix_Nil_iff [simp]: "prefix p [] \<longleftrightarrow> p = []"
  by (auto simp: prefix_def)

lemma find_sub_Some_0: "find_sub p s = Some 0 \<longleftrightarrow> prefix p s"
  by (cases s) auto

lemma starts_with_prefix [simp]: "starts_with s p \<longleftrightarrow> prefix p s"
  by (simp add: starts_with_def find_sub_Some_0)

lemma find_sub_SomeD: "find_sub p s = Some i \<Longrightarrow> i + length p \<le> length s \<and> prefix p (drop i s)"
proof (induction s arbitrary: i)
  case Nil
  then show ?case by (auto split: if_splits)
next
  case (Cons c cs)
  show ?case
  proof (cases "prefix p (c # cs)")
    case True
    with Cons.prems show ?thesis by (auto dest: prefix_length_le)
  next
    case False
    with Cons.prems obtain j where "find_sub p cs = Some j" "i = Suc j" by auto
    with Cons.IH show ?thesis by simp
  qed
qed

lemma find_sub_NoneD: "find_sub p s = None \<Longrightarrow> \<not> sublist p s"
  by (induction s) (auto simp: sublist_Cons_right split: if_splits)

text \<open>
  Where a pattern is found after a stretch of text that cannot contain the pattern's start:
  the workhorse for reading back a text that the program itself wrote.
\<close>

lemma find_sub_skip:
  assumes "p \<noteq> []" and "hd p \<notin> set u"
  shows "find_sub p (u @ s) = map_option ((+) (length u)) (find_sub p s)"
  using assms
proof (induction u)
  case Nil
  then show ?case by (cases "find_sub p s") simp_all
next
  case (Cons c cs)
  then have "\<not> prefix p (c # cs @ s)"
    by (cases p) auto
  with Cons show ?case
    by (cases "find_sub p s") simp_all
qed

lemma find_sub_self [simp]: "find_sub p (p @ s) = Some 0"
  by (simp add: find_sub_Some_0)

lemma find_char_skip:
  "\<forall>c \<in> set u. \<not> P c \<Longrightarrow> find_char P (u @ s) = map_option ((+) (length u)) (find_char P s)"
proof (induction u)
  case Nil
  then show ?case by (cases "find_char P s") simp_all
next
  case (Cons c cs)
  then show ?case by (cases "find_char P s") simp_all
qed

lemma find_char_SomeD: "find_char P s = Some i \<Longrightarrow> i < length s \<and> P (s ! i) \<and> (\<forall>j < i. \<not> P (s ! j))"
proof (induction s arbitrary: i)
  case (Cons c cs)
  show ?case
  proof (cases "P c")
    case False
    with Cons.prems obtain k where k: "find_char P cs = Some k" "i = Suc k" by auto
    from Cons.IH [OF k(1)] k(2) False show ?thesis
      by (auto simp: less_Suc_eq_0_disj)
  qed (use Cons.prems in auto)
qed simp

lemma find_char_None_iff: "find_char P s = None \<longleftrightarrow> (\<forall>c \<in> set s. \<not> P c)"
  by (induction s) auto

lemma find_sub_single: "find_sub [c] s = find_char (\<lambda>x. x = c) s"
  by (induction s) auto

lemma find_from_append:
  "find_from (u @ s) p (length u) = map_option ((+) (length u)) (find_sub p s)"
  by (simp add: find_from_def)

lemma find_first_of_append:
  "find_first_of (u @ s) cs (length u) = map_option ((+) (length u)) (find_char (\<lambda>c. c \<in> set cs) s)"
  by (simp add: find_first_of_def)

section \<open>Facts about splitting\<close>

lemma getline_aux_segment:
  "d \<notin> set u \<Longrightarrow> getline_aux d acc (u @ d # s) = (rev acc @ u) # getline_aux d [] s"
  by (induction u arbitrary: acc) auto

lemma getline_aux_last:
  "d \<notin> set u \<Longrightarrow> getline_aux d acc u = (if acc = [] \<and> u = [] then [] else [rev acc @ u])"
  by (induction u arbitrary: acc) auto

lemma getlines_segment [simp]: "d \<notin> set u \<Longrightarrow> getlines d (u @ d # s) = u # getlines d s"
  by (simp add: getlines_def getline_aux_segment)

lemma getlines_last: "d \<notin> set u \<Longrightarrow> getlines d u = (if u = [] then [] else [u])"
  by (simp add: getlines_def getline_aux_last)

fun join :: "char \<Rightarrow> string list \<Rightarrow> string" where
  "join d [] = []"
| "join d [u] = u"
| "join d (u # v # us) = u @ d # join d (v # us)"

text \<open>Splitting a text that was joined gives its parts back, unless the last one is empty.\<close>

lemma getlines_join:
  "\<forall>u \<in> set us. d \<notin> set u \<Longrightarrow> us \<noteq> [] \<Longrightarrow> last us \<noteq> [] \<Longrightarrow> getlines d (join d us) = us"
  by (induction d us rule: join.induct) (auto simp: getlines_last)

section \<open>The ISO 8601 text of a UTC time\<close>

text \<open>
  \<^verbatim>\<open>std::put_time(std::gmtime(&t), "%Y-%m-%dT%H:%M:%SZ")\<close>.  The civil date of a day count is
  computed in the proleptic Gregorian calendar, as \<^verbatim>\<open>gmtime\<close> does, with the day count shifted
  so that a year starts in March.
\<close>

definition pad2 :: "int \<Rightarrow> string" where
  "pad2 n = (if n < 10 then CHR ''0'' # to_string n else to_string n)"

definition civil_from_days :: "int \<Rightarrow> int \<times> int \<times> int" where
  "civil_from_days z0 = (let z = z0 + 719468;
       era = z div 146097;
       doe = z - era * 146097;
       yoe = (doe - doe div 1460 + doe div 36524 - doe div 146096) div 365;
       doy = doe - (365 * yoe + yoe div 4 - yoe div 100);
       mp = (5 * doy + 2) div 153;
       d = doy - (153 * mp + 2) div 5 + 1;
       m = (if mp < 10 then mp + 3 else mp - 9);
       y = yoe + era * 400 + (if m \<le> 2 then 1 else 0)
     in (y, m, d))"

definition iso_utc :: "int \<Rightarrow> string" where
  "iso_utc t = (case civil_from_days (t div 86400) of (y, m, d) \<Rightarrow>
     (let s = t mod 86400 in
       to_string y @ ''-'' @ pad2 m @ ''-'' @ pad2 d @ ''T'' @
       pad2 (s div 3600) @ '':'' @ pad2 (s div 60 mod 60) @ '':'' @ pad2 (s mod 60) @ ''Z''))"

text \<open>A text up to its first delimiter, followed by the delimiter, is a prefix in one way only.\<close>

lemma delimiter_prefix:
  "q \<notin> set k \<Longrightarrow> q \<notin> set a \<Longrightarrow> prefix (k @ q # x) (a @ q # y) \<longleftrightarrow> k = a \<and> prefix x y"
proof (induction k arbitrary: a)
  case Nil
  then show ?case by (cases a) auto
next
  case (Cons c cs)
  then show ?case by (cases a) auto
qed

end
