(* ===== verification/Cpp_Containers.thy ===== *)
theory Cpp_Containers
  imports Cpp_Prelude
begin

text \<open>
  Vectors and unordered maps.  \<^verbatim>\<open>std::find_if\<close> followed by a read is \<^const>\<open>List.find\<close>;
  followed by \<^verbatim>\<open>erase(it)\<close> it is \<open>erase_first\<close>, and followed by an assignment through the
  iterator it is \<open>modify_first\<close>.  A \<^verbatim>\<open>std::unordered_map\<close> is an association list with
  distinct keys whose order is the order of iteration.  The standard leaves that order open, so
  the theorems about operations that iterate are stated over the set of entries, or for every
  arrangement of them.
\<close>

section \<open>First match in a vector\<close>

fun erase_first :: "('a \<Rightarrow> bool) \<Rightarrow> 'a list \<Rightarrow> 'a list" where
  "erase_first P [] = []"
| "erase_first P (x # xs) = (if P x then xs else x # erase_first P xs)"

fun modify_first :: "('a \<Rightarrow> bool) \<Rightarrow> ('a \<Rightarrow> 'a) \<Rightarrow> 'a list \<Rightarrow> 'a list" where
  "modify_first P f [] = []"
| "modify_first P f (x # xs) = (if P x then f x # xs else x # modify_first P f xs)"

lemma find_Some_split:
  "List.find P xs = Some x \<longleftrightarrow> (\<exists>us vs. xs = us @ x # vs \<and> P x \<and> (\<forall>u \<in> set us. \<not> P u))"
proof
  assume "List.find P xs = Some x"
  then show "\<exists>us vs. xs = us @ x # vs \<and> P x \<and> (\<forall>u \<in> set us. \<not> P u)"
  proof (induction xs)
    case (Cons y ys)
    show ?case
    proof (cases "P y")
      case True
      with Cons.prems have "y # ys = [] @ x # ys \<and> P x" by simp
      then show ?thesis by (metis empty_iff empty_set)
    next
      case False
      with Cons obtain us vs where "ys = us @ x # vs \<and> P x \<and> (\<forall>u \<in> set us. \<not> P u)" by auto
      with False have "y # ys = (y # us) @ x # vs \<and> P x \<and> (\<forall>u \<in> set (y # us). \<not> P u)" by simp
      then show ?thesis by blast
    qed
  qed simp
next
  assume "\<exists>us vs. xs = us @ x # vs \<and> P x \<and> (\<forall>u \<in> set us. \<not> P u)"
  then obtain us vs where *: "xs = us @ x # vs" "P x" "\<forall>u \<in> set us. \<not> P u" by blast
  from *(3) have "List.find P (us @ x # vs) = List.find P (x # vs)" by (induction us) auto
  with * show "List.find P xs = Some x" by simp
qed

lemma find_SomeD: "List.find P xs = Some x \<Longrightarrow> x \<in> set xs \<and> P x"
  by (auto simp: find_Some_split)

lemma find_None_iff: "List.find P xs = None \<longleftrightarrow> (\<forall>x \<in> set xs. \<not> P x)"
  by (induction xs) auto

lemma find_append: "List.find P (xs @ ys) = (case List.find P xs of None \<Rightarrow> List.find P ys | Some x \<Rightarrow> Some x)"
  by (induction xs) auto

lemma modify_first_id: "\<forall>x \<in> set xs. \<not> P x \<Longrightarrow> modify_first P f xs = xs"
  by (induction xs) auto

lemma erase_first_id: "\<forall>x \<in> set xs. \<not> P x \<Longrightarrow> erase_first P xs = xs"
  by (induction xs) auto

lemma length_modify_first [simp]: "length (modify_first P f xs) = length xs"
  by (induction xs) auto

lemma erase_first_split: "\<forall>u \<in> set us. \<not> P u \<Longrightarrow> P x \<Longrightarrow> erase_first P (us @ x # vs) = us @ vs"
  by (induction us) auto

lemma modify_first_split:
  "\<forall>u \<in> set us. \<not> P u \<Longrightarrow> P x \<Longrightarrow> modify_first P f (us @ x # vs) = us @ f x # vs"
  by (induction us) auto

lemma length_erase_first: "List.find P xs \<noteq> None \<Longrightarrow> Suc (length (erase_first P xs)) = length xs"
  by (induction xs) auto

lemma set_erase_first_subset: "set (erase_first P xs) \<subseteq> set xs"
  by (induction xs) auto

lemma set_modify_first_subset: "set (modify_first P f xs) \<subseteq> set xs \<union> f ` {x \<in> set xs. P x}"
  by (induction xs) auto

lemma map_modify_first: "(\<And>x. P x \<Longrightarrow> g (f x) = g x) \<Longrightarrow> map g (modify_first P f xs) = map g xs"
  by (induction xs) auto

lemma distinct_map_erase_first: "distinct (map g xs) \<Longrightarrow> distinct (map g (erase_first P xs))"
proof (induction xs)
  case (Cons x xs)
  with set_erase_first_subset [of P xs] show ?case by auto
qed simp

lemma find_modify_first:
  "(\<And>x. P x \<Longrightarrow> P (f x)) \<Longrightarrow> List.find P (modify_first P f xs) = map_option f (List.find P xs)"
  by (induction xs) auto

text \<open>A key read from elements of a vector: lookups by key are first matches.\<close>

definition by_key :: "('a \<Rightarrow> 'k) \<Rightarrow> 'k \<Rightarrow> 'a list \<Rightarrow> 'a option" where
  "by_key key k xs = List.find (\<lambda>x. key x = k) xs"

lemma by_key_SomeD: "by_key key k xs = Some x \<Longrightarrow> x \<in> set xs \<and> key x = k"
  by (auto simp: by_key_def dest: find_SomeD)

lemma by_key_None_iff: "by_key key k xs = None \<longleftrightarrow> k \<notin> key ` set xs"
  by (auto simp: by_key_def find_None_iff)

lemma by_key_append:
  "by_key key k (xs @ ys) = (case by_key key k xs of None \<Rightarrow> by_key key k ys | Some x \<Rightarrow> Some x)"
  by (simp add: by_key_def find_append split: option.splits)

lemma by_key_snoc: "by_key key (key x) xs = None \<Longrightarrow> by_key key k (xs @ [x]) = (if k = key x then Some x else by_key key k xs)"
  by (cases "by_key key k xs") (auto simp: by_key_append by_key_def find_append split: option.splits)

lemma by_key_distinct:
  "distinct (map key xs) \<Longrightarrow> x \<in> set xs \<Longrightarrow> by_key key (key x) xs = Some x"
  by (induction xs) (auto simp: by_key_def)

lemma by_key_erase_first:
  assumes "distinct (map key xs)"
  shows "by_key key k (erase_first (\<lambda>x. key x = k') xs) = (if k = k' then None else by_key key k xs)"
  using assms by (induction xs) (auto simp: by_key_def find_None_iff image_iff)

lemma by_key_modify_first:
  assumes "\<And>x. key x = k' \<Longrightarrow> key (f x) = k'"
  shows "by_key key k (modify_first (\<lambda>x. key x = k') f xs)
       = (if k = k' then map_option f (by_key key k xs) else by_key key k xs)"
  using assms by (induction xs) (auto simp: by_key_def)

section \<open>Unordered maps\<close>

type_synonym ('k, 'v) umap = "('k \<times> 'v) list"

definition umap_ok :: "('k, 'v) umap \<Rightarrow> bool" where
  "umap_ok m \<longleftrightarrow> distinct (map fst m)"

lemma umap_ok_simps [simp]:
  "umap_ok []"
  "umap_ok ((k, v) # m) \<longleftrightarrow> k \<notin> fst ` set m \<and> umap_ok m"
  by (simp_all add: umap_ok_def)

lemma umap_ok_update [simp]: "umap_ok m \<Longrightarrow> umap_ok (AList.update k v m)"
  by (simp add: umap_ok_def distinct_update)

lemma umap_ok_delete [simp]: "umap_ok m \<Longrightarrow> umap_ok (AList.delete k m)"
  by (simp add: umap_ok_def distinct_delete)

lemma map_of_update [simp]: "map_of (AList.update k v m) = (map_of m)(k \<mapsto> v)"
  by (simp add: update_conv')

lemma map_of_delete [simp]: "map_of (AList.delete k m) = (map_of m)(k := None)"
  by (simp add: delete_conv')

lemma umap_mem: "umap_ok m \<Longrightarrow> (k, v) \<in> set m \<longleftrightarrow> map_of m k = Some v"
  by (simp add: umap_ok_def)

lemma length_update: "umap_ok m \<Longrightarrow> length (AList.update k v m) = (if map_of m k = None then Suc (length m) else length m)"
  by (induction m) auto

lemma length_delete: "umap_ok m \<Longrightarrow> length (AList.delete k m) = (if map_of m k = None then length m else length m - 1)"
proof (induction m)
  case (Cons kv m)
  obtain k' v' where kv: "kv = (k', v')" by fastforce
  have "AList.delete k m = m" if "k = k'"
    using Cons.prems that kv by (simp add: AList.delete_idem)
  with Cons kv show ?case
    by (cases m) (auto simp: AList.delete_eq map_of_eq_None_iff)
qed simp

end
