(* ===== verification/Dev_Types.thy ===== *)
theory Dev_Types
  imports Complex_Main Cpp_Strings Cpp_Containers
begin

text \<open>
  The data model of the platform, from \<^verbatim>\<open>include/dev_sys/common/types.h\<close>,
  \<^verbatim>\<open>status_codes.h\<close> and \<^verbatim>\<open>constants.h\<close>.  A struct is a record whose fields carry a
  prefix (field names are global in HOL).  An enumeration whose values are made by
  \<^verbatim>\<open>static_cast\<close> from integers that come from messages or rows is kept at its width,
  \<^typ>\<open>8 word\<close>, because such a cast can produce values that no enumerator names; the other
  enumerations are datatypes.
\<close>

section \<open>Enumerations\<close>

named_theorems enum_values \<open>the numeric values of the enumerators\<close>

type_synonym device_type = "8 word"

definition COFFEE_MACHINE :: device_type where [enum_values]: "COFFEE_MACHINE = 1"
definition INSTANT_MACHINE :: device_type where [enum_values]: "INSTANT_MACHINE = 2"
definition WATER_DISPENSER :: device_type where [enum_values]: "WATER_DISPENSER = 3"
definition OTHER :: device_type where [enum_values]: "OTHER = 4"

type_synonym network_status = "8 word"

definition ONLINE :: network_status where [enum_values]: "ONLINE = 0"
definition OFFLINE :: network_status where [enum_values]: "OFFLINE = 1"

type_synonym work_status = "8 word"

definition WORK_IDLE :: work_status where [enum_values]: "WORK_IDLE = 0"
definition WORK_BREWING :: work_status where [enum_values]: "WORK_BREWING = 1"
definition WORK_FAULT :: work_status where [enum_values]: "WORK_FAULT = 2"
definition WORK_UPGRADING :: work_status where [enum_values]: "WORK_UPGRADING = 3"
definition WORK_MAINTENANCE :: work_status where [enum_values]: "WORK_MAINTENANCE = 4"

type_synonym fault_code = "8 word"

definition FAULT_NONE :: fault_code where [enum_values]: "FAULT_NONE = 0"
definition E001_HEATER_OVERTEMP :: fault_code where [enum_values]: "E001_HEATER_OVERTEMP = 1"
definition E002_HEATER_NOT_HEATING :: fault_code where [enum_values]: "E002_HEATER_NOT_HEATING = 2"
definition E003_PUMP_FAILURE :: fault_code where [enum_values]: "E003_PUMP_FAILURE = 3"
definition E004_MOTOR_STALL :: fault_code where [enum_values]: "E004_MOTOR_STALL = 4"
definition E005_WATER_LEAK :: fault_code where [enum_values]: "E005_WATER_LEAK = 5"
definition W001_SENSOR_OFFLINE :: fault_code where [enum_values]: "W001_SENSOR_OFFLINE = 6"
definition W002_COMM_FAIL :: fault_code where [enum_values]: "W002_COMM_FAIL = 7"
definition W003_MATERIAL_LOW :: fault_code where [enum_values]: "W003_MATERIAL_LOW = 8"

text \<open>No integer is ever cast to a fault level: the sources only name its two enumerators.\<close>

datatype fault_level = Level_WARNING | Level_ERROR

primrec fault_level_int :: "fault_level \<Rightarrow> int" where
  "fault_level_int Level_WARNING = 0"
| "fault_level_int Level_ERROR = 1"

type_synonym order_status = "8 word"

definition PENDING :: order_status where [enum_values]: "PENDING = 0"
definition PAID :: order_status where [enum_values]: "PAID = 1"
definition BREWING :: order_status where [enum_values]: "BREWING = 2"
definition COMPLETED :: order_status where [enum_values]: "COMPLETED = 3"
definition CANCELLED :: order_status where [enum_values]: "CANCELLED = 4"
definition FAILED :: order_status where [enum_values]: "FAILED = 5"

section \<open>Status codes\<close>

datatype status_code =
    OK | ERROR
  | DEV_NOT_ACTIVATED | DEV_ALREADY_ACTIVE | DEV_CERT_INVALID | DEV_AUTH_FAILED
  | COMM_TIMEOUT | COMM_DISCONNECTED | COMM_TLS_FAILED | COMM_MSG_TOO_LARGE
  | ORDER_NOT_FOUND | ORDER_EXPIRED | ORDER_QUEUE_FULL | ORDER_INVALID_STATE
  | RECIPE_NOT_FOUND | RECIPE_INACTIVE | RECIPE_INCOMPATIBLE
  | OTA_DOWNLOAD_FAILED | OTA_CHECKSUM_ERROR | OTA_SIGNATURE_ERROR | OTA_INSTALL_FAILED
  | OTA_ROLLBACK_OK
  | FAULT_DETECTED | FAULT_LOCKDOWN
  | STORAGE_FULL | STORAGE_READ_ERROR | STORAGE_WRITE_ERROR
  | ORG_NOT_FOUND | ORG_HAS_CHILDREN | ORG_HAS_DEVICES | ORG_HAS_ACCOUNTS | ORG_DUPLICATE_TENANT
  | ACCOUNT_NOT_FOUND | ACCOUNT_LOCKED | ACCOUNT_BAD_PASSWORD | ACCOUNT_DUPLICATE
  | AUTH_TOKEN_EXPIRED | AUTH_TOKEN_INVALID | AUTH_FORBIDDEN
  | HAL_SENSOR_ERROR | HAL_ACTUATOR_ERROR | HAL_TIMEOUT

primrec status_int :: "status_code \<Rightarrow> int" where
  "status_int OK = 0"
| "status_int ERROR = - 1"
| "status_int DEV_NOT_ACTIVATED = - 100"
| "status_int DEV_ALREADY_ACTIVE = - 101"
| "status_int DEV_CERT_INVALID = - 102"
| "status_int DEV_AUTH_FAILED = - 103"
| "status_int COMM_TIMEOUT = - 200"
| "status_int COMM_DISCONNECTED = - 201"
| "status_int COMM_TLS_FAILED = - 202"
| "status_int COMM_MSG_TOO_LARGE = - 203"
| "status_int ORDER_NOT_FOUND = - 300"
| "status_int ORDER_EXPIRED = - 301"
| "status_int ORDER_QUEUE_FULL = - 302"
| "status_int ORDER_INVALID_STATE = - 303"
| "status_int RECIPE_NOT_FOUND = - 400"
| "status_int RECIPE_INACTIVE = - 401"
| "status_int RECIPE_INCOMPATIBLE = - 402"
| "status_int OTA_DOWNLOAD_FAILED = - 500"
| "status_int OTA_CHECKSUM_ERROR = - 501"
| "status_int OTA_SIGNATURE_ERROR = - 502"
| "status_int OTA_INSTALL_FAILED = - 503"
| "status_int OTA_ROLLBACK_OK = - 504"
| "status_int FAULT_DETECTED = - 600"
| "status_int FAULT_LOCKDOWN = - 601"
| "status_int STORAGE_FULL = - 700"
| "status_int STORAGE_READ_ERROR = - 701"
| "status_int STORAGE_WRITE_ERROR = - 702"
| "status_int ORG_NOT_FOUND = - 900"
| "status_int ORG_HAS_CHILDREN = - 901"
| "status_int ORG_HAS_DEVICES = - 902"
| "status_int ORG_HAS_ACCOUNTS = - 903"
| "status_int ORG_DUPLICATE_TENANT = - 904"
| "status_int ACCOUNT_NOT_FOUND = - 910"
| "status_int ACCOUNT_LOCKED = - 911"
| "status_int ACCOUNT_BAD_PASSWORD = - 912"
| "status_int ACCOUNT_DUPLICATE = - 913"
| "status_int AUTH_TOKEN_EXPIRED = - 920"
| "status_int AUTH_TOKEN_INVALID = - 921"
| "status_int AUTH_FORBIDDEN = - 922"
| "status_int HAL_SENSOR_ERROR = - 800"
| "status_int HAL_ACTUATOR_ERROR = - 801"
| "status_int HAL_TIMEOUT = - 802"

text \<open>The text of each code; every code of the enumeration has a case of its own.\<close>

primrec status_message :: "status_code \<Rightarrow> string" where
  "status_message OK = ''OK''"
| "status_message ERROR = ''General error''"
| "status_message DEV_NOT_ACTIVATED = ''Device not activated''"
| "status_message DEV_ALREADY_ACTIVE = ''Device already active''"
| "status_message DEV_CERT_INVALID = ''Device certificate invalid''"
| "status_message DEV_AUTH_FAILED = ''Device authentication failed''"
| "status_message COMM_TIMEOUT = ''Communication timeout''"
| "status_message COMM_DISCONNECTED = ''Communication disconnected''"
| "status_message COMM_TLS_FAILED = ''TLS handshake failed''"
| "status_message COMM_MSG_TOO_LARGE = ''Message too large''"
| "status_message ORDER_NOT_FOUND = ''Order not found''"
| "status_message ORDER_EXPIRED = ''Order expired''"
| "status_message ORDER_QUEUE_FULL = ''Order queue full''"
| "status_message ORDER_INVALID_STATE = ''Invalid order state transition''"
| "status_message RECIPE_NOT_FOUND = ''Recipe not found''"
| "status_message RECIPE_INACTIVE = ''Recipe inactive''"
| "status_message RECIPE_INCOMPATIBLE = ''Recipe incompatible with device type''"
| "status_message OTA_DOWNLOAD_FAILED = ''OTA download failed''"
| "status_message OTA_CHECKSUM_ERROR = ''OTA checksum error''"
| "status_message OTA_SIGNATURE_ERROR = ''OTA signature verification failed''"
| "status_message OTA_INSTALL_FAILED = ''OTA install failed''"
| "status_message OTA_ROLLBACK_OK = ''OTA rolled back successfully''"
| "status_message FAULT_DETECTED = ''Fault detected''"
| "status_message FAULT_LOCKDOWN = ''Device in fault lockdown''"
| "status_message STORAGE_FULL = ''Storage full''"
| "status_message STORAGE_READ_ERROR = ''Storage read error''"
| "status_message STORAGE_WRITE_ERROR = ''Storage write error''"
| "status_message ORG_NOT_FOUND = ''Organization not found''"
| "status_message ORG_HAS_CHILDREN = ''Organization has child departments''"
| "status_message ORG_HAS_DEVICES = ''Organization has associated devices''"
| "status_message ORG_HAS_ACCOUNTS = ''Organization has associated accounts''"
| "status_message ORG_DUPLICATE_TENANT = ''Tenant ID already exists''"
| "status_message ACCOUNT_NOT_FOUND = ''Account not found''"
| "status_message ACCOUNT_LOCKED = ''Account locked (too many failed attempts)''"
| "status_message ACCOUNT_BAD_PASSWORD = ''Invalid password''"
| "status_message ACCOUNT_DUPLICATE = ''Username already exists''"
| "status_message AUTH_TOKEN_EXPIRED = ''Token expired''"
| "status_message AUTH_TOKEN_INVALID = ''Token invalid''"
| "status_message AUTH_FORBIDDEN = ''Insufficient permissions''"
| "status_message HAL_SENSOR_ERROR = ''Sensor error''"
| "status_message HAL_ACTUATOR_ERROR = ''Actuator error''"
| "status_message HAL_TIMEOUT = ''Hardware timeout''"

definition ORDER_MAX_QUEUE_DEPTH :: nat where "ORDER_MAX_QUEUE_DEPTH = 10"
definition ORDER_EXPIRE_MINUTES_DEFAULT :: int where "ORDER_EXPIRE_MINUTES_DEFAULT = 15"
definition HEARTBEAT_INTERVAL_SEC_DEFAULT :: int where "HEARTBEAT_INTERVAL_SEC_DEFAULT = 60"
definition HEARTBEAT_MISS_THRESHOLD :: int where "HEARTBEAT_MISS_THRESHOLD = 3"

section \<open>Structures\<close>

record device_type_info =
  dti_id :: int
  dti_type_code :: string
  dti_display_name :: string
  dti_description :: string
  dti_internal_type :: int
  dti_icon_url :: string
  dti_sort_order :: int
  dti_is_active :: bool
  dti_created_at :: string
  dti_updated_at :: string

record device_model_info =
  dmi_id :: int
  dmi_model_code :: string
  dmi_model_key :: string
  dmi_type_code :: string
  dmi_display_name :: string
  dmi_description :: string
  dmi_specs_json :: string
  dmi_firmware_base :: string
  dmi_is_active :: bool
  dmi_sort_order :: int
  dmi_created_at :: string
  dmi_updated_at :: string

record org_info =
  org_org_id :: int
  org_parent_id :: int
  org_tenant_id :: string
  org_org_name :: string
  org_org_type :: string
  org_contact_name :: string
  org_contact_phone :: string
  org_contact_email :: string
  org_address :: string
  org_is_active :: bool
  org_level :: int
  org_path :: string
  org_children_count :: int
  org_created_at :: string
  org_updated_at :: string

datatype org_tree_node = Org_Tree_Node (node_info: org_info) (node_children: "org_tree_node list")

record account_info =
  acc_account_id :: int
  acc_username :: string
  acc_password_hash :: string
  acc_display_name :: string
  acc_org_id :: int
  acc_org_name :: string
  acc_role_code :: string
  acc_email :: string
  acc_phone :: string
  acc_is_active :: bool
  acc_last_login_at :: string
  acc_created_at :: string
  acc_updated_at :: string

record login_response =
  lr_success :: bool
  lr_token :: string
  lr_expires_at :: string
  lr_account :: account_info
  lr_permissions :: "string list"
  lr_error_code :: int
  lr_error_message :: string

record token_payload =
  tp_account_id :: int
  tp_username :: string
  tp_org_id :: int
  tp_org_scope :: "int list"
  tp_role_code :: string
  tp_permissions :: "string list"
  tp_iat :: int
  tp_exp :: int

record device =
  dev_tenant_id :: string
  dev_device_id :: string
  dev_product_id :: string
  dev_type :: device_type
  dev_network_status :: network_status
  dev_work_status :: work_status
  dev_firmware_version :: string
  dev_mac_address :: string
  dev_model :: string
  dev_hardware_uid :: string
  dev_last_heartbeat_at :: int
  dev_activated_at :: int
  dev_activated :: bool

record activation_request =
  areq_uid :: string
  areq_model_key :: string

record activation_response =
  ares_success :: bool
  ares_device_id :: string
  ares_model_key :: string
  ares_model_code :: string
  ares_tenant_id :: string
  ares_product_id :: string
  ares_device_type :: string
  ares_firmware_version :: string
  ares_activation_token :: string
  ares_mqtt_broker_uri :: string
  ares_ttl_seconds :: int
  ares_error_message :: string
  ares_error_code :: int

record order_info =
  ord_order_id :: string
  ord_tenant_id :: string
  ord_device_id :: string
  ord_recipe_id :: string
  ord_recipe_name :: string
  ord_cup_size :: string
  ord_quantity :: int
  ord_total_amount :: int
  ord_payment_method :: string
  ord_status :: order_status
  ord_created_at :: string
  ord_expired_at :: string
  ord_failure_reason :: string

text \<open>A \<^verbatim>\<open>double\<close> parameter of a recipe step is stored, copied and printed, never computed with; it is a rational here.\<close>

record recipe_step =
  step_action :: string
  step_duration_ms :: int
  step_params :: "(string \<times> rat) list"

record cup_size_option =
  cup_size :: string
  cup_price :: int
  cup_volume_ml :: int

record recipe =
  rec_recipe_id :: string
  rec_recipe_name :: string
  rec_device_type :: device_type
  rec_category :: string
  rec_description :: string
  rec_steps :: "recipe_step list"
  rec_cup_sizes :: "cup_size_option list"
  rec_is_active :: bool
  rec_version :: int

record fault_info =
  flt_tenant_id :: string
  flt_device_id :: string
  flt_code :: fault_code
  flt_level :: fault_level
  flt_description :: string
  flt_timestamp :: string
  flt_sensor_snapshot :: string

record heartbeat_data =
  hb_tenant_id :: string
  hb_device_id :: string
  hb_timestamp :: string
  hb_network_status :: network_status
  hb_work_status :: work_status
  hb_firmware_version :: string
  hb_signal_strength :: int
  hb_alarm_count :: int

record ota_record =
  ota_tenant_id :: string
  ota_device_id :: string
  ota_current_version :: string
  ota_target_version :: string
  ota_download_url :: string
  ota_checksum :: string
  ota_progress :: int
  ota_stage :: string
  ota_force_upgrade :: bool

record firmware_version =
  fw_version :: string
  fw_product_id :: string
  fw_download_url :: string
  fw_file_name :: string
  fw_file_size :: int
  fw_checksum_sha256 :: string
  fw_changelog :: string
  fw_force_upgrade :: bool
  fw_created_at :: int

record device_config =
  cfg_heartbeat_interval :: int
  cfg_auto_clean_interval :: int
  cfg_idle_clean_delay :: int
  cfg_screen_brightness :: int
  cfg_volume_level :: int
  cfg_energy_save_mode :: bool
  cfg_order_expire_minutes :: int
  cfg_max_queue_depth :: int

section \<open>Default-initialised structures\<close>

text \<open>The values that the default member initialisers give, e.g. of \<^verbatim>\<open>Device d;\<close>.\<close>

definition new_device_type_info :: device_type_info where
  "new_device_type_info = \<lparr>dti_id = 0, dti_type_code = '''', dti_display_name = '''',
     dti_description = '''', dti_internal_type = 4, dti_icon_url = '''', dti_sort_order = 0,
     dti_is_active = True, dti_created_at = '''', dti_updated_at = ''''\<rparr>"

definition new_device_model_info :: device_model_info where
  "new_device_model_info = \<lparr>dmi_id = 0, dmi_model_code = '''', dmi_model_key = '''',
     dmi_type_code = '''', dmi_display_name = '''', dmi_description = '''', dmi_specs_json = '''',
     dmi_firmware_base = '''', dmi_is_active = True, dmi_sort_order = 0, dmi_created_at = '''',
     dmi_updated_at = ''''\<rparr>"

definition new_org_info :: org_info where
  "new_org_info = \<lparr>org_org_id = 0, org_parent_id = 0, org_tenant_id = '''', org_org_name = '''',
     org_org_type = '''', org_contact_name = '''', org_contact_phone = '''',
     org_contact_email = '''', org_address = '''', org_is_active = True, org_level = 0,
     org_path = '''', org_children_count = 0, org_created_at = '''', org_updated_at = ''''\<rparr>"

definition new_account_info :: account_info where
  "new_account_info = \<lparr>acc_account_id = 0, acc_username = '''', acc_password_hash = '''',
     acc_display_name = '''', acc_org_id = 0, acc_org_name = '''', acc_role_code = '''',
     acc_email = '''', acc_phone = '''', acc_is_active = True, acc_last_login_at = '''',
     acc_created_at = '''', acc_updated_at = ''''\<rparr>"

definition new_login_response :: login_response where
  "new_login_response = \<lparr>lr_success = False, lr_token = '''', lr_expires_at = '''',
     lr_account = new_account_info, lr_permissions = [], lr_error_code = 0,
     lr_error_message = ''''\<rparr>"

definition new_token_payload :: token_payload where
  "new_token_payload = \<lparr>tp_account_id = 0, tp_username = '''', tp_org_id = 0, tp_org_scope = [],
     tp_role_code = '''', tp_permissions = [], tp_iat = 0, tp_exp = 0\<rparr>"

definition new_device :: device where
  "new_device = \<lparr>dev_tenant_id = '''', dev_device_id = '''', dev_product_id = '''',
     dev_type = OTHER, dev_network_status = OFFLINE, dev_work_status = WORK_IDLE,
     dev_firmware_version = '''', dev_mac_address = '''', dev_model = '''',
     dev_hardware_uid = '''', dev_last_heartbeat_at = 0, dev_activated_at = 0,
     dev_activated = False\<rparr>"

definition new_activation_response :: activation_response where
  "new_activation_response = \<lparr>ares_success = False, ares_device_id = '''', ares_model_key = '''',
     ares_model_code = '''', ares_tenant_id = '''', ares_product_id = '''',
     ares_device_type = '''', ares_firmware_version = '''', ares_activation_token = '''',
     ares_mqtt_broker_uri = '''', ares_ttl_seconds = 0, ares_error_message = '''',
     ares_error_code = 0\<rparr>"

definition new_order_info :: order_info where
  "new_order_info = \<lparr>ord_order_id = '''', ord_tenant_id = '''', ord_device_id = '''',
     ord_recipe_id = '''', ord_recipe_name = '''', ord_cup_size = '''', ord_quantity = 1,
     ord_total_amount = 0, ord_payment_method = '''', ord_status = PENDING,
     ord_created_at = '''', ord_expired_at = '''', ord_failure_reason = ''''\<rparr>"

definition new_recipe :: recipe where
  "new_recipe = \<lparr>rec_recipe_id = '''', rec_recipe_name = '''', rec_device_type = OTHER,
     rec_category = '''', rec_description = '''', rec_steps = [], rec_cup_sizes = [],
     rec_is_active = True, rec_version = 1\<rparr>"

definition new_fault_info :: fault_info where
  "new_fault_info = \<lparr>flt_tenant_id = '''', flt_device_id = '''', flt_code = FAULT_NONE,
     flt_level = Level_WARNING, flt_description = '''', flt_timestamp = '''',
     flt_sensor_snapshot = ''''\<rparr>"

definition new_heartbeat_data :: heartbeat_data where
  "new_heartbeat_data = \<lparr>hb_tenant_id = '''', hb_device_id = '''', hb_timestamp = '''',
     hb_network_status = OFFLINE, hb_work_status = WORK_IDLE, hb_firmware_version = '''',
     hb_signal_strength = 0, hb_alarm_count = 0\<rparr>"

definition new_ota_record :: ota_record where
  "new_ota_record = \<lparr>ota_tenant_id = '''', ota_device_id = '''', ota_current_version = '''',
     ota_target_version = '''', ota_download_url = '''', ota_checksum = '''', ota_progress = 0,
     ota_stage = '''', ota_force_upgrade = False\<rparr>"

definition new_firmware_version :: firmware_version where
  "new_firmware_version = \<lparr>fw_version = '''', fw_product_id = '''', fw_download_url = '''',
     fw_file_name = '''', fw_file_size = 0, fw_checksum_sha256 = '''', fw_changelog = '''',
     fw_force_upgrade = False, fw_created_at = 0\<rparr>"

definition new_device_config :: device_config where
  "new_device_config = \<lparr>cfg_heartbeat_interval = 60, cfg_auto_clean_interval = 20,
     cfg_idle_clean_delay = 30, cfg_screen_brightness = 80, cfg_volume_level = 70,
     cfg_energy_save_mode = False, cfg_order_expire_minutes = 15, cfg_max_queue_depth = 10\<rparr>"

lemmas new_struct_defs = new_device_type_info_def new_device_model_info_def new_org_info_def
  new_account_info_def new_login_response_def new_token_payload_def new_device_def
  new_activation_response_def new_order_info_def new_recipe_def new_fault_info_def
  new_heartbeat_data_def new_ota_record_def new_firmware_version_def new_device_config_def

section \<open>Facts about the enumerations\<close>

text \<open>A cast of an 8-bit value to \<^verbatim>\<open>int\<close> and back, as a column of the database goes.\<close>

lemma cast_enum_int [simp]: "(of_int (uint w) :: 8 word) = w"
  by simp

lemma enum_int_bounds: "0 \<le> uint (w :: 8 word)" "uint (w :: 8 word) < 256"
  using uint_range_size [of w] by (simp_all add: word_size)

lemma stoi_enum: "stoi (to_string (uint (w :: 8 word))) = Inr (uint w)"
  using enum_int_bounds [of w]
  by (intro stoi_to_string0) (simp_all add: int32_min_def int32_max_def order.trans [of _ 0])

end
