(* ===== verification/Interfaces.thy ===== *)
theory Interfaces
  imports Cpp_Containers
begin

text \<open>
  The contracts that several components share, as locales.  Each is interpreted, in the theory
  of the component that provides it, on that component's own operations:
  \<open>text_codec\<close> (a text format that can be read back wherever it stands), \<open>machine\<close> and
  \<open>started_machine\<close> (operations that keep an invariant), \<open>entity_store\<close> (look up, store and
  remove by key), \<open>event_log\<close> (a machine whose log of events only grows).
\<close>

section \<open>Text formats\<close>

locale text_codec =
  fixes enc :: "'a \<Rightarrow> 'c list"
    and dec :: "'c list \<Rightarrow> ('a \<times> 'c list) option"
    and ok :: "'a \<Rightarrow> bool"
    and stop :: "'c list \<Rightarrow> bool"
  assumes dec_enc: "ok x \<Longrightarrow> stop rest \<Longrightarrow> dec (enc x @ rest) = Some (x, rest)"
begin

text \<open>What was written, and where it ends, is determined by the text.\<close>

lemma enc_append_inject:
  assumes "ok x" "ok y" "stop r" "stop s"
  shows "enc x @ r = enc y @ s \<longleftrightarrow> x = y \<and> r = s"
proof
  assume "enc x @ r = enc y @ s"
  then have "Some (x, r) = Some (y, s)"
    by (simp only: dec_enc [OF assms(1,3), symmetric] dec_enc [OF assms(2,4), symmetric])
  then show "x = y \<and> r = s" by simp
qed simp

lemma enc_inject:
  assumes "ok x" "ok y" "stop []"
  shows "enc x = enc y \<longleftrightarrow> x = y"
  using enc_append_inject [OF assms(1,2,3,3)] by simp

text \<open>A written text is not a proper prefix of another one.\<close>

lemma enc_prefix_free:
  assumes "ok x" "ok y" "stop []" "stop r" "enc x @ r = enc y"
  shows "r = [] \<and> x = y"
  using enc_append_inject [OF assms(1,2,4,3)] assms(5) by simp

end

section \<open>Invariants of operations\<close>

locale machine =
  fixes step :: "'op \<Rightarrow> 's \<Rightarrow> 's"
    and inv :: "'s \<Rightarrow> bool"
  assumes step_inv: "inv s \<Longrightarrow> inv (step op s)"
begin

lemma run_inv: "inv s \<Longrightarrow> inv (fold step ops s)"
  by (induction ops arbitrary: s) (auto intro: step_inv)

inductive reach :: "'s \<Rightarrow> 's \<Rightarrow> bool" where
  reach_refl: "reach s s"
| reach_step: "reach s t \<Longrightarrow> reach s (step op t)"

lemma reach_inv: "reach s t \<Longrightarrow> inv s \<Longrightarrow> inv t"
  by (induction rule: reach.induct) (auto intro: step_inv)

lemma reach_iff_run: "reach s t \<longleftrightarrow> (\<exists>ops. t = fold step ops s)"
proof
  assume "reach s t"
  then show "\<exists>ops. t = fold step ops s"
  proof (induction rule: reach.induct)
    case (reach_refl s)
    show ?case by (intro exI [of _ "[]"]) simp
  next
    case (reach_step s t op)
    then obtain ops where "t = fold step ops s" by blast
    then show ?case by (intro exI [of _ "ops @ [op]"]) simp
  qed
next
  assume "\<exists>ops. t = fold step ops s"
  then obtain ops where "t = fold step ops s" by blast
  moreover have "reach s (fold step ops s)" by (induction ops rule: rev_induct) (auto intro: reach.intros)
  ultimately show "reach s t" by simp
qed

end

locale started_machine = machine step inv
  for step :: "'op \<Rightarrow> 's \<Rightarrow> 's" and inv :: "'s \<Rightarrow> bool" +
  fixes start :: 's
  assumes start_inv: "inv start"
begin

lemma run_from_start: "inv (fold step ops start)"
  by (rule run_inv [OF start_inv])

end

text \<open>A machine whose operations only append to a log that it keeps.\<close>

locale event_log = machine step inv
  for step :: "'op \<Rightarrow> 's \<Rightarrow> 's" and inv :: "'s \<Rightarrow> bool" +
  fixes log :: "'s \<Rightarrow> 'e list"
  assumes step_log: "inv s \<Longrightarrow> prefix (log s) (log (step op s))"
begin

lemma run_log: "inv s \<Longrightarrow> prefix (log s) (log (fold step ops s))"
proof (induction ops arbitrary: s)
  case (Cons op ops)
  then have "prefix (log (step op s)) (log (fold step ops (step op s)))" by (auto intro: step_inv)
  with step_log [OF Cons.prems, of op] show ?case by (auto intro: prefix_order.trans)
qed simp

lemma log_keeps: "inv s \<Longrightarrow> e \<in> set (log s) \<Longrightarrow> e \<in> set (log (fold step ops s))"
  using run_log [of s ops] by (auto dest: set_mono_prefix)

end

section \<open>Stores\<close>

locale entity_store =
  fixes inv :: "'s \<Rightarrow> bool"
    and lookup :: "'k \<Rightarrow> 's \<Rightarrow> 'v option"
    and put :: "'v \<Rightarrow> 's \<Rightarrow> 's"
    and del :: "'k \<Rightarrow> 's \<Rightarrow> 's"
    and key :: "'v \<Rightarrow> 'k"
  assumes put_inv: "inv s \<Longrightarrow> inv (put v s)"
    and del_inv: "inv s \<Longrightarrow> inv (del k s)"
    and lookup_put: "inv s \<Longrightarrow> lookup k (put v s) = (if k = key v then Some v else lookup k s)"
    and lookup_del: "inv s \<Longrightarrow> lookup k (del k' s) = (if k = k' then None else lookup k s)"
begin

lemma lookup_puts:
  "inv s \<Longrightarrow> distinct (map key vs) \<Longrightarrow>
   lookup k (fold put vs s) = (case by_key key k vs of None \<Rightarrow> lookup k s | Some v \<Rightarrow> Some v)"
proof (induction vs arbitrary: s)
  case (Cons v vs)
  then have "by_key key (key v) vs = None" by (auto simp: by_key_None_iff)
  with Cons show ?case
    by (auto simp: put_inv lookup_put by_key_def split: option.splits)
qed (simp add: by_key_def)

lemma lookup_dels: "inv s \<Longrightarrow> lookup k (fold del ks s) = (if k \<in> set ks then None else lookup k s)"
  by (induction ks arbitrary: s) (auto simp: del_inv lookup_del)

lemma put_put_same: "inv s \<Longrightarrow> key v = key w \<Longrightarrow> lookup k (put w (put v s)) = lookup k (put w s)"
  by (simp add: lookup_put put_inv)

lemma put_put_other:
  "inv s \<Longrightarrow> key v \<noteq> key w \<Longrightarrow> lookup k (put w (put v s)) = lookup k (put v (put w s))"
  by (simp add: lookup_put put_inv)

lemma del_put: "inv s \<Longrightarrow> lookup (key v) s = None \<Longrightarrow> lookup k (del (key v) (put v s)) = lookup k s"
  by (simp add: lookup_put lookup_del put_inv)

end

end
