(* ===== verification/Sql_Text.thy ===== *)
theory Sql_Text
  imports Dev_Types Interfaces
begin

text \<open>
  The literals of \<^verbatim>\<open>src/middleware/storage/database.cpp\<close> (\<^verbatim>\<open>sql_escape\<close>, \<^verbatim>\<open>sql_str\<close>,
  \<^verbatim>\<open>sql_nullable_str\<close>, \<^verbatim>\<open>sql_bool\<close>), and how a PostgreSQL server reads them: a string literal
  runs to the first quote that is not doubled.  \<open>sql_lex\<close> splits a statement into the
  characters outside literals and the values of the literals, so that a theorem can say that
  no field value leaves its literal.
\<close>

section \<open>Writing literals\<close>

fun sql_escape :: "string \<Rightarrow> string" where
  "sql_escape [] = []"
| "sql_escape (c # s) = (if c = CHR 0x27 then [CHR 0x27, CHR 0x27] else [c]) @ sql_escape s"

definition sql_str :: "string \<Rightarrow> string" where
  "sql_str s = [CHR 0x27] @ sql_escape s @ [CHR 0x27]"

definition sql_nullable_str :: "string \<Rightarrow> string" where
  "sql_nullable_str s = (if s = '''' then ''NULL'' else sql_str s)"

definition sql_bool :: "bool \<Rightarrow> string" where
  "sql_bool v = (if v then ''TRUE'' else ''FALSE'')"

section \<open>Reading literals\<close>

text \<open>After the opening quote: a doubled quote is one quote, a single quote ends the literal.\<close>

fun read_literal :: "string \<Rightarrow> (string \<times> string) option" where
  "read_literal [] = None"
| "read_literal [c] = (if c = CHR 0x27 then Some ([], []) else None)"
| "read_literal (c # d # s) =
     (if c = CHR 0x27 then
        (if d = CHR 0x27 then map_option (\<lambda>(v, r). (CHR 0x27 # v, r)) (read_literal s) else Some ([], d # s))
      else map_option (\<lambda>(v, r). (c # v, r)) (read_literal (d # s)))"

fun read_sql_str :: "string \<Rightarrow> (string \<times> string) option" where
  "read_sql_str [] = None"
| "read_sql_str (c # s) = (if c = CHR 0x27 then read_literal s else None)"

definition no_quote_next :: "string \<Rightarrow> bool" where
  "no_quote_next rest \<longleftrightarrow> (case rest of [] \<Rightarrow> True | c # _ \<Rightarrow> c \<noteq> CHR 0x27)"

lemma no_quote_next_simps [simp]: "no_quote_next []" "no_quote_next (c # s) \<longleftrightarrow> c \<noteq> CHR 0x27"
  by (simp_all add: no_quote_next_def)

lemma read_literal_close [simp]: "no_quote_next rest \<Longrightarrow> read_literal (CHR 0x27 # rest) = Some ([], rest)"
  by (cases rest) auto

lemma read_literal_Cons [simp]:
  "c \<noteq> CHR 0x27 \<Longrightarrow> read_literal (c # s) = map_option (\<lambda>(v, r). (c # v, r)) (read_literal s)"
  by (cases s) auto

lemma read_literal_escape:
  "no_quote_next rest \<Longrightarrow> read_literal (sql_escape s @ CHR 0x27 # rest) = Some (s, rest)"
proof (induction s)
  case (Cons c s)
  then show ?case by (cases "c = CHR 0x27") simp_all
qed simp

interpretation sql_literal: text_codec sql_str read_sql_str "\<lambda>_. True" no_quote_next
  by unfold_locales (simp add: sql_str_def read_literal_escape)

section \<open>Statements\<close>

datatype sql_token = Plain char | Literal string

lemma read_literal_shorter: "read_literal s = Some (v, r) \<Longrightarrow> length r < length s"
  by (induction s arbitrary: v r rule: read_literal.induct) (auto split: if_splits)

function sql_lex :: "string \<Rightarrow> sql_token list option" where
  "sql_lex [] = Some []"
| "sql_lex (c # s) =
     (if c = CHR 0x27 then
        (case read_literal s of
           None \<Rightarrow> None
         | Some (v, r) \<Rightarrow> map_option ((#) (Literal v)) (sql_lex r))
      else map_option ((#) (Plain c)) (sql_lex s))"
  by pat_completeness auto

termination
  by (relation "measure length") (auto dest: read_literal_shorter)

fun lits :: "sql_token list \<Rightarrow> string list" where
  "lits [] = []"
| "lits (Plain c # ts) = lits ts"
| "lits (Literal v # ts) = v # lits ts"

text \<open>The statement with every literal blanked out, and the values of its literals.\<close>

fun skel :: "sql_token list \<Rightarrow> string" where
  "skel [] = []"
| "skel (Plain c # ts) = c # skel ts"
| "skel (Literal v # ts) = CHR 0x3F # skel ts"

definition sql_shape :: "string \<Rightarrow> (string \<times> string list) option" where
  "sql_shape stmt = map_option (\<lambda>ts. (skel ts, lits ts)) (sql_lex stmt)"

definition add_plain :: "string \<Rightarrow> (string \<times> string list) option \<Rightarrow> (string \<times> string list) option" where
  "add_plain u sh = map_option (\<lambda>(k, ls). (u @ k, ls)) sh"

definition add_literal :: "string \<Rightarrow> (string \<times> string list) option \<Rightarrow> (string \<times> string list) option" where
  "add_literal v sh = map_option (\<lambda>(k, ls). (CHR 0x3F # k, v # ls)) sh"

named_theorems sql_shapes \<open>the shape of a statement, piece by piece\<close>

lemma sql_lex_plain: "CHR 0x27 \<notin> set u \<Longrightarrow> sql_lex (u @ s) = map_option ((@) (map Plain u)) (sql_lex s)"
proof (induction u)
  case Nil
  then show ?case by (cases "sql_lex s") simp_all
next
  case (Cons c u)
  then show ?case by (cases "sql_lex s") auto
qed

lemma skel_plain [simp]: "skel (map Plain u @ ts) = u @ skel ts"
  by (induction u) simp_all

lemma lits_plain [simp]: "lits (map Plain u @ ts) = lits ts"
  by (induction u) simp_all

lemma sql_shape_plain [sql_shapes]: "CHR 0x27 \<notin> set u \<Longrightarrow> sql_shape (u @ s) = add_plain u (sql_shape s)"
  by (cases "sql_lex s") (simp_all add: sql_shape_def add_plain_def sql_lex_plain)

lemma sql_shape_literal [sql_shapes]:
  "no_quote_next rest \<Longrightarrow> sql_shape (sql_str v @ rest) = add_literal v (sql_shape rest)"
  by (cases "sql_lex rest") (simp_all add: sql_shape_def add_literal_def sql_str_def read_literal_escape)

lemma sql_shape_Nil [sql_shapes]: "sql_shape [] = Some ([], [])"
  by (simp add: sql_shape_def)

lemma sql_shape_plain0 [sql_shapes]: "CHR 0x27 \<notin> set u \<Longrightarrow> sql_shape u = Some (u, [])"
  using sql_shape_plain [of u "[]"] by (simp add: sql_shape_Nil add_plain_def)

lemma sql_shape_literal0 [sql_shapes]: "sql_shape (sql_str v) = Some (''?'', [v])"
  using sql_shape_literal [of "[]" v] by (simp add: sql_shape_Nil add_literal_def)

lemma add_plain_Some [sql_shapes]: "add_plain u (Some (k, ls)) = Some (u @ k, ls)"
  by (simp add: add_plain_def)

lemma add_literal_Some [sql_shapes]: "add_literal v (Some (k, ls)) = Some (''?'' @ k, v # ls)"
  by (simp add: add_literal_def)

lemma to_string_no_quote [sql_shapes]: "CHR 0x27 \<notin> set (to_string i)"
  using to_string_chars [of "CHR 0x27" i] by (auto simp: is_digit_def char_code_def)

lemma sql_bool_no_quote [sql_shapes]: "CHR 0x27 \<notin> set (sql_bool b)"
  by (simp add: sql_bool_def)

text \<open>C7. Injection safety of the literals: whatever characters a value has, the server reads
  from \<^verbatim>\<open>sql_str(s)\<close>, in front of any text that does not start with a quote, exactly \<open>s\<close> and
  then that text.\<close>

theorem sql_str_read_back:
  assumes "no_quote_next rest"
  shows "read_sql_str (sql_str s @ rest) = Some (s, rest)"
  by (rule sql_literal.dec_enc [OF TrueI assms])

lemma sql_str_read_back_witness:
  "read_sql_str (sql_str [CHR 0x27, CHR 0x3B, CHR 0x2D, CHR 0x2D] @ '')'')
     = Some ([CHR 0x27, CHR 0x3B, CHR 0x2D, CHR 0x2D], '')'')"
  by (rule sql_str_read_back) simp

end
