(* ===== verification/Sql_Schema.thy ===== *)
theory Sql_Schema
  imports Dev_Types
begin

text \<open>
  The schema of \<^verbatim>\<open>src/middleware/storage/database.cpp\<close>: the DDL text that each
  \<^verbatim>\<open>create_*_table\<close> sends, line by line, and the columns of each table, read off that text in
  the order in which \<^verbatim>\<open>SELECT *\<close> returns them.
\<close>

section \<open>The DDL texts\<close>

text \<open>A raw string literal that opens with a line break and closes after four blanks.\<close>

definition raw_text :: "string list \<Rightarrow> string" where
  "raw_text ls = concat (map (\<lambda>l. CHR 0x0A # l) ls) @ [CHR 0x0A] @ ''    ''"

definition create_tenants_table_ddl :: "string list" where
  "create_tenants_table_ddl = [
     ''        CREATE TABLE IF NOT EXISTS tenants ('',
     ''            id              SERIAL PRIMARY KEY,'',
     ''            tenant_id       TEXT NOT NULL UNIQUE,'',
     ''            name            TEXT NOT NULL,'',
     ''            active          BOOLEAN NOT NULL DEFAULT TRUE,'',
     ''            created_at      BIGINT NOT NULL DEFAULT (EXTRACT(EPOCH FROM NOW())::BIGINT),'',
     ''            updated_at      BIGINT NOT NULL DEFAULT (EXTRACT(EPOCH FROM NOW())::BIGINT)'',
     ''        );'',
     ''        INSERT INTO tenants (tenant_id, name)'',
     ''        VALUES ('' @ [CHR 0x27] @ ''default'' @ [CHR 0x27] @ '', '' @ [CHR 0x27] @ ''Default Tenant'' @ [CHR 0x27] @ '')'',
     ''        ON CONFLICT (tenant_id) DO NOTHING;'']"

definition create_devices_table_ddl :: "string list" where
  "create_devices_table_ddl = [
     ''        CREATE TABLE IF NOT EXISTS devices ('',
     ''            id                  SERIAL PRIMARY KEY,'',
     ''            device_id           TEXT NOT NULL UNIQUE,'',
     ''            tenant_id           TEXT NOT NULL DEFAULT '' @ [CHR 0x27] @ ''default'' @ [CHR 0x27] @ '','',
     ''            product_id          TEXT NOT NULL,'',
     ''            device_type         INTEGER NOT NULL DEFAULT 4,'',
     ''            status              INTEGER NOT NULL DEFAULT 5,'',
     ''            firmware_version    TEXT NOT NULL DEFAULT '' @ [CHR 0x27] @ ''0.0.0'' @ [CHR 0x27] @ '','',
     ''            mac_address         TEXT NOT NULL DEFAULT '' @ [CHR 0x27, CHR 0x27] @ '','',
     ''            model               TEXT NOT NULL DEFAULT '' @ [CHR 0x27, CHR 0x27] @ '','',
     ''            hardware_uid        TEXT NOT NULL UNIQUE,'',
     ''            last_heartbeat_at   BIGINT NOT NULL DEFAULT 0,'',
     ''            activated           BOOLEAN NOT NULL DEFAULT FALSE,'',
     ''            activated_at        BIGINT NOT NULL DEFAULT 0,'',
     ''            created_at          BIGINT NOT NULL DEFAULT (EXTRACT(EPOCH FROM NOW())::BIGINT),'',
     ''            updated_at          BIGINT NOT NULL DEFAULT (EXTRACT(EPOCH FROM NOW())::BIGINT),'',
     ''            FOREIGN KEY (tenant_id) REFERENCES tenants(tenant_id)'',
     ''        );'',
     ''        CREATE INDEX IF NOT EXISTS idx_devices_tenant ON devices(tenant_id);'',
     ''        CREATE INDEX IF NOT EXISTS idx_devices_hwuid ON devices(hardware_uid);'',
     ''        CREATE INDEX IF NOT EXISTS idx_devices_status ON devices(status);'']"

definition create_activation_tokens_table_ddl :: "string list" where
  "create_activation_tokens_table_ddl = [
     ''        CREATE TABLE IF NOT EXISTS activation_tokens ('',
     ''            id          SERIAL PRIMARY KEY,'',
     ''            device_id   TEXT NOT NULL UNIQUE,'',
     ''            token       TEXT NOT NULL,'',
     ''            issued_at   BIGINT NOT NULL,'',
     ''            expires_at  BIGINT NOT NULL,'',
     ''            revoked     BOOLEAN NOT NULL DEFAULT FALSE,'',
     ''            FOREIGN KEY (device_id) REFERENCES devices(device_id)'',
     ''        );'',
     ''        CREATE INDEX IF NOT EXISTS idx_act_tokens_device ON activation_tokens(device_id);'']"

definition create_audit_log_table_ddl :: "string list" where
  "create_audit_log_table_ddl = [
     ''        CREATE TABLE IF NOT EXISTS audit_log ('',
     ''            id          SERIAL PRIMARY KEY,'',
     ''            event_type  TEXT NOT NULL,'',
     ''            device_id   TEXT,'',
     ''            detail      TEXT,'',
     ''            remote_ip   TEXT,'',
     ''            success     BOOLEAN NOT NULL DEFAULT TRUE,'',
     ''            created_at  BIGINT NOT NULL DEFAULT (EXTRACT(EPOCH FROM NOW())::BIGINT)'',
     ''        );'',
     ''        CREATE INDEX IF NOT EXISTS idx_audit_device ON audit_log(device_id);'',
     ''        CREATE INDEX IF NOT EXISTS idx_audit_type ON audit_log(event_type);'']"

definition create_device_types_table_ddl :: "string list" where
  "create_device_types_table_ddl = [
     ''        CREATE TABLE IF NOT EXISTS device_types ('',
     ''            id              SERIAL PRIMARY KEY,'',
     ''            type_code       TEXT NOT NULL UNIQUE,'',
     ''            display_name    TEXT NOT NULL,'',
     ''            description     TEXT NOT NULL DEFAULT '' @ [CHR 0x27, CHR 0x27] @ '','',
     ''            internal_type   INTEGER NOT NULL DEFAULT 4,'',
     ''            icon_url        TEXT NOT NULL DEFAULT '' @ [CHR 0x27, CHR 0x27] @ '','',
     ''            sort_order      INTEGER NOT NULL DEFAULT 0,'',
     ''            is_active       BOOLEAN NOT NULL DEFAULT TRUE,'',
     ''            created_at      TEXT NOT NULL DEFAULT NOW()::TEXT,'',
     ''            updated_at      TEXT NOT NULL DEFAULT NOW()::TEXT'',
     ''        );'',
     ''        CREATE INDEX IF NOT EXISTS idx_dt_code ON device_types(type_code);'',
     '''',
     ''        INSERT INTO device_types (type_code, display_name, description, internal_type, sort_order)'',
     ''        VALUES'',
     ''            ('' @ [CHR 0x27] @ ''coffee_machine'' @ [CHR 0x27] @ '',  '' @ [CHR 0x27, CHR 0xE7, CHR 0x8E, CHR 0xB0, CHR 0xE7, CHR 0xA3, CHR 0xA8, CHR 0xE5, CHR 0x92, CHR 0x96, CHR 0xE5, CHR 0x95, CHR 0xA1, CHR 0xE6, CHR 0x9C, CHR 0xBA, CHR 0x27] @ '', '' @ [CHR 0x27, CHR 0xE6, CHR 0x94, CHR 0xAF, CHR 0xE6, CHR 0x8C, CHR 0x81, CHR 0xE8, CHR 0xB1, CHR 0x86, CHR 0xE4, CHR 0xBB, CHR 0x93, CHR 0xE7, CHR 0xA0, CHR 0x94, CHR 0xE7, CHR 0xA3, CHR 0xA8, CHR 0xE3, CHR 0x80, CHR 0x81, CHR 0xE5, CHR 0x86, CHR 0xB2, CHR 0xE6, CHR 0xB3, CHR 0xA1, CHR 0xE3, CHR 0x80, CHR 0x81, CHR 0xE5, CHR 0xA5, CHR 0xB6, CHR 0xE6, CHR 0xB3, CHR 0xA1, CHR 0x27] @ '', 1, 1),'',
     ''            ('' @ [CHR 0x27] @ ''instant_machine'' @ [CHR 0x27] @ '', '' @ [CHR 0x27, CHR 0xE9, CHR 0x80, CHR 0x9F, CHR 0xE6, CHR 0xBA, CHR 0xB6, CHR 0xE9, CHR 0xA5, CHR 0xAE, CHR 0xE6, CHR 0x96, CHR 0x99, CHR 0xE6, CHR 0x9C, CHR 0xBA, CHR 0x27] @ '', '' @ [CHR 0x27, CHR 0xE6, CHR 0x94, CHR 0xAF, CHR 0xE6, CHR 0x8C, CHR 0x81, CHR 0xE5, CHR 0xA4, CHR 0x9A, CHR 0xE7, CHR 0xA7, CHR 0x8D, CHR 0xE7, CHR 0xB2, CHR 0x89, CHR 0xE6, CHR 0x96, CHR 0x99, CHR 0xE6, CHR 0xB7, CHR 0xB7, CHR 0xE5, CHR 0x90, CHR 0x88, CHR 0xE5, CHR 0x86, CHR 0xB2, CHR 0xE6, CHR 0xB3, CHR 0xA1, CHR 0x27] @ '', 2, 2),'',
     ''            ('' @ [CHR 0x27] @ ''water_dispenser'' @ [CHR 0x27] @ '', '' @ [CHR 0x27, CHR 0xE9, CHR 0xA5, CHR 0xAE, CHR 0xE6, CHR 0xB0, CHR 0xB4, CHR 0xE6, CHR 0x9C, CHR 0xBA, CHR 0x27] @ '',     '' @ [CHR 0x27, CHR 0xE6, CHR 0x94, CHR 0xAF, CHR 0xE6, CHR 0x8C, CHR 0x81, CHR 0xE5, CHR 0xB8, CHR 0xB8, CHR 0xE6, CHR 0xB8, CHR 0xA9] @ ''/'' @ [CHR 0xE7, CHR 0x83, CHR 0xAD, CHR 0xE6, CHR 0xB0, CHR 0xB4] @ ''/'' @ [CHR 0xE5, CHR 0x86, CHR 0xB0, CHR 0xE6, CHR 0xB0, CHR 0xB4, CHR 0xE5, CHR 0x87, CHR 0xBA, CHR 0xE6, CHR 0xB0, CHR 0xB4, CHR 0x27] @ '', 3, 3),'',
     ''            ('' @ [CHR 0x27] @ ''other'' @ [CHR 0x27] @ '',           '' @ [CHR 0x27, CHR 0xE5, CHR 0x85, CHR 0xB6, CHR 0xE4, CHR 0xBB, CHR 0x96, CHR 0xE7, CHR 0xBB, CHR 0x88, CHR 0xE7, CHR 0xAB, CHR 0xAF, CHR 0x27] @ '',   '' @ [CHR 0x27, CHR 0xE5, CHR 0x85, CHR 0xB6, CHR 0xE4, CHR 0xBB, CHR 0x96, CHR 0xE8, CHR 0x87, CHR 0xAA, CHR 0xE5, CHR 0x8A, CHR 0xA8, CHR 0xE5, CHR 0x94, CHR 0xAE, CHR 0xE5, CHR 0x8D, CHR 0x96] @ ''/'' @ [CHR 0xE6, CHR 0x9C, CHR 0x8D, CHR 0xE5, CHR 0x8A, CHR 0xA1, CHR 0xE7, CHR 0xBB, CHR 0x88, CHR 0xE7, CHR 0xAB, CHR 0xAF, CHR 0x27] @ '', 4, 99)'',
     ''        ON CONFLICT (type_code) DO NOTHING;'']"

definition create_device_models_table_ddl :: "string list" where
  "create_device_models_table_ddl = [
     ''        CREATE TABLE IF NOT EXISTS device_models ('',
     ''            id              SERIAL PRIMARY KEY,'',
     ''            model_code      TEXT NOT NULL UNIQUE,'',
     ''            model_key       TEXT NOT NULL DEFAULT '' @ [CHR 0x27, CHR 0x27] @ '','',
     ''            type_code       TEXT NOT NULL,'',
     ''            display_name    TEXT NOT NULL,'',
     ''            description     TEXT NOT NULL DEFAULT '' @ [CHR 0x27, CHR 0x27] @ '','',
     ''            specs_json      TEXT NOT NULL DEFAULT '' @ [CHR 0x27] @ ''{}'' @ [CHR 0x27] @ '','',
     ''            firmware_base   TEXT NOT NULL DEFAULT '' @ [CHR 0x27] @ ''1.0.0'' @ [CHR 0x27] @ '','',
     ''            is_active       BOOLEAN NOT NULL DEFAULT TRUE,'',
     ''            sort_order      INTEGER NOT NULL DEFAULT 0,'',
     ''            created_at      TEXT NOT NULL DEFAULT NOW()::TEXT,'',
     ''            updated_at      TEXT NOT NULL DEFAULT NOW()::TEXT,'',
     ''            FOREIGN KEY (type_code) REFERENCES device_types(type_code)'',
     ''        );'',
     ''        CREATE INDEX IF NOT EXISTS idx_dm_code ON device_models(model_code);'',
     ''        CREATE INDEX IF NOT EXISTS idx_dm_type ON device_models(type_code);'']"

definition create_orders_table_ddl :: "string list" where
  "create_orders_table_ddl = [
     ''        CREATE TABLE IF NOT EXISTS orders ('',
     ''            id              SERIAL PRIMARY KEY,'',
     ''            order_id        TEXT NOT NULL UNIQUE,'',
     ''            tenant_id       TEXT NOT NULL DEFAULT '' @ [CHR 0x27] @ ''default'' @ [CHR 0x27] @ '','',
     ''            device_id       TEXT NOT NULL,'',
     ''            recipe_id       TEXT NOT NULL DEFAULT '' @ [CHR 0x27, CHR 0x27] @ '','',
     ''            recipe_name     TEXT NOT NULL DEFAULT '' @ [CHR 0x27, CHR 0x27] @ '','',
     ''            cup_size        TEXT NOT NULL DEFAULT '' @ [CHR 0x27, CHR 0x27] @ '','',
     ''            quantity        INTEGER NOT NULL DEFAULT 1,'',
     ''            total_amount    INTEGER NOT NULL DEFAULT 0,'',
     ''            payment_method  TEXT NOT NULL DEFAULT '' @ [CHR 0x27, CHR 0x27] @ '','',
     ''            status          INTEGER NOT NULL DEFAULT 0,'',
     ''            created_at      BIGINT NOT NULL DEFAULT 0,'',
     ''            failure_reason  TEXT NOT NULL DEFAULT '' @ [CHR 0x27, CHR 0x27] @ '','',
     ''            FOREIGN KEY (tenant_id) REFERENCES tenants(tenant_id)'',
     ''        );'',
     ''        CREATE INDEX IF NOT EXISTS idx_orders_tenant ON orders(tenant_id);'',
     ''        CREATE INDEX IF NOT EXISTS idx_orders_device ON orders(device_id);'']"

definition create_recipes_table_ddl :: "string list" where
  "create_recipes_table_ddl = [
     ''        CREATE TABLE IF NOT EXISTS recipes ('',
     ''            id              SERIAL PRIMARY KEY,'',
     ''            recipe_id       TEXT NOT NULL UNIQUE,'',
     ''            recipe_name     TEXT NOT NULL,'',
     ''            device_type     INTEGER NOT NULL DEFAULT 1,'',
     ''            category        TEXT NOT NULL DEFAULT '' @ [CHR 0x27, CHR 0x27] @ '','',
     ''            is_active       BOOLEAN NOT NULL DEFAULT TRUE,'',
     ''            version         INTEGER NOT NULL DEFAULT 1,'',
     ''            description     TEXT NOT NULL DEFAULT '' @ [CHR 0x27, CHR 0x27],
     ''        );'']"

definition create_faults_table_ddl :: "string list" where
  "create_faults_table_ddl = [
     ''        CREATE TABLE IF NOT EXISTS faults ('',
     ''            id              SERIAL PRIMARY KEY,'',
     ''            tenant_id       TEXT NOT NULL DEFAULT '' @ [CHR 0x27] @ ''default'' @ [CHR 0x27] @ '','',
     ''            device_id       TEXT NOT NULL,'',
     ''            code            INTEGER NOT NULL,'',
     ''            level           INTEGER NOT NULL DEFAULT 1,'',
     ''            description     TEXT NOT NULL DEFAULT '' @ [CHR 0x27, CHR 0x27] @ '','',
     ''            created_at      BIGINT NOT NULL DEFAULT 0,'',
     ''            resolved        BOOLEAN NOT NULL DEFAULT FALSE,'',
     ''            sensor_snapshot TEXT NOT NULL DEFAULT '' @ [CHR 0x27, CHR 0x27],
     ''        );'',
     ''        CREATE INDEX IF NOT EXISTS idx_faults_device ON faults(tenant_id, device_id);'']"

definition create_firmwares_table_ddl :: "string list" where
  "create_firmwares_table_ddl = [
     ''        CREATE TABLE IF NOT EXISTS firmwares ('',
     ''            id              SERIAL PRIMARY KEY,'',
     ''            version         TEXT NOT NULL UNIQUE,'',
     ''            product_id      TEXT NOT NULL DEFAULT '' @ [CHR 0x27, CHR 0x27] @ '','',
     ''            download_url    TEXT NOT NULL DEFAULT '' @ [CHR 0x27, CHR 0x27] @ '','',
     ''            checksum_sha256 TEXT NOT NULL DEFAULT '' @ [CHR 0x27, CHR 0x27] @ '','',
     ''            changelog       TEXT NOT NULL DEFAULT '' @ [CHR 0x27, CHR 0x27] @ '','',
     ''            force_upgrade   BOOLEAN NOT NULL DEFAULT FALSE,'',
     ''            created_at      BIGINT NOT NULL DEFAULT 0'',
     ''        );'']"

definition create_organizations_table_ddl :: "string list" where
  "create_organizations_table_ddl = [
     ''        CREATE TABLE IF NOT EXISTS organizations ('',
     ''            id              SERIAL PRIMARY KEY,'',
     ''            org_id          INTEGER NOT NULL UNIQUE,'',
     ''            parent_id       INTEGER NOT NULL DEFAULT 0,'',
     ''            tenant_id       TEXT NOT NULL UNIQUE,'',
     ''            org_name        TEXT NOT NULL,'',
     ''            org_type        TEXT NOT NULL DEFAULT '' @ [CHR 0x27] @ ''department'' @ [CHR 0x27] @ '','',
     ''            contact_name    TEXT NOT NULL DEFAULT '' @ [CHR 0x27, CHR 0x27] @ '','',
     ''            contact_phone   TEXT NOT NULL DEFAULT '' @ [CHR 0x27, CHR 0x27] @ '','',
     ''            contact_email   TEXT NOT NULL DEFAULT '' @ [CHR 0x27, CHR 0x27] @ '','',
     ''            address         TEXT NOT NULL DEFAULT '' @ [CHR 0x27, CHR 0x27] @ '','',
     ''            is_active       BOOLEAN NOT NULL DEFAULT TRUE,'',
     ''            level           INTEGER NOT NULL DEFAULT 0,'',
     ''            path            TEXT NOT NULL DEFAULT '' @ [CHR 0x27, CHR 0x27] @ '','',
     ''            children_count  INTEGER NOT NULL DEFAULT 0,'',
     ''            created_at      TEXT NOT NULL DEFAULT '' @ [CHR 0x27, CHR 0x27] @ '','',
     ''            updated_at      TEXT NOT NULL DEFAULT '' @ [CHR 0x27, CHR 0x27],
     ''        );'']"

definition create_accounts_table_ddl :: "string list" where
  "create_accounts_table_ddl = [
     ''        CREATE TABLE IF NOT EXISTS accounts ('',
     ''            id              SERIAL PRIMARY KEY,'',
     ''            account_id      INTEGER NOT NULL UNIQUE,'',
     ''            username        TEXT NOT NULL UNIQUE,'',
     ''            display_name    TEXT NOT NULL DEFAULT '' @ [CHR 0x27, CHR 0x27] @ '','',
     ''            password_hash   TEXT NOT NULL DEFAULT '' @ [CHR 0x27, CHR 0x27] @ '','',
     ''            role_code       TEXT NOT NULL DEFAULT '' @ [CHR 0x27] @ ''viewer'' @ [CHR 0x27] @ '','',
     ''            org_id          INTEGER NOT NULL DEFAULT 0,'',
     ''            org_name        TEXT NOT NULL DEFAULT '' @ [CHR 0x27, CHR 0x27] @ '','',
     ''            email           TEXT NOT NULL DEFAULT '' @ [CHR 0x27, CHR 0x27] @ '','',
     ''            phone           TEXT NOT NULL DEFAULT '' @ [CHR 0x27, CHR 0x27] @ '','',
     ''            is_active       BOOLEAN NOT NULL DEFAULT TRUE,'',
     ''            last_login_at   TEXT NOT NULL DEFAULT '' @ [CHR 0x27, CHR 0x27] @ '','',
     ''            created_at      TEXT NOT NULL DEFAULT '' @ [CHR 0x27, CHR 0x27] @ '','',
     ''            updated_at      TEXT NOT NULL DEFAULT '' @ [CHR 0x27, CHR 0x27],
     ''        );'']"

definition create_mqtt_tenant_config_table_ddl :: "string list" where
  "create_mqtt_tenant_config_table_ddl = [
     ''        CREATE TABLE IF NOT EXISTS mqtt_tenant_config ('',
     ''            id              SERIAL PRIMARY KEY,'',
     ''            tenant_key      TEXT NOT NULL DEFAULT '' @ [CHR 0x27, CHR 0x27] @ '','',
     ''            tenant_name     TEXT NOT NULL DEFAULT '' @ [CHR 0x27, CHR 0x27],
     ''        );'',
     ''        -- Ensure there'' @ [CHR 0x27] @ ''s always exactly one row'',
     ''        INSERT INTO mqtt_tenant_config (id, tenant_key, tenant_name)'',
     ''        SELECT 1, '' @ [CHR 0x27, CHR 0x27] @ '', '' @ [CHR 0x27, CHR 0x27] @ '' WHERE NOT EXISTS (SELECT 1 FROM mqtt_tenant_config WHERE id=1);'']"

section \<open>The columns of a table\<close>

text \<open>
  A column definition of the DDL stands on a line of its own, indented by twelve blanks, and
  its name is the first word; the table constraints start with \<^verbatim>\<open>FOREIGN\<close>.  The table's
  definition ends at the line that closes the parenthesis.
\<close>

definition first_word :: "string \<Rightarrow> string" where
  "first_word l = takeWhile (\<lambda>c. c \<noteq> CHR 0x20) (dropWhile (\<lambda>c. c = CHR 0x20) l)"

definition column_names :: "string list \<Rightarrow> string list" where
  "column_names ls = filter (\<lambda>w. w \<noteq> ''FOREIGN'') (map first_word (takeWhile (\<lambda>l. first_word l \<noteq> '');'') (tl ls)))"

lemma devices_columns:
  "column_names create_devices_table_ddl = [''id'', ''device_id'', ''tenant_id'', ''product_id'', ''device_type'', ''status'', ''firmware_version'', ''mac_address'', ''model'', ''hardware_uid'', ''last_heartbeat_at'', ''activated'', ''activated_at'', ''created_at'', ''updated_at'']"
  by (simp add: column_names_def first_word_def create_devices_table_ddl_def)

lemma device_types_columns:
  "column_names create_device_types_table_ddl = [''id'', ''type_code'', ''display_name'', ''description'', ''internal_type'', ''icon_url'', ''sort_order'', ''is_active'', ''created_at'', ''updated_at'']"
  by (simp add: column_names_def first_word_def create_device_types_table_ddl_def)

lemma device_models_columns:
  "column_names create_device_models_table_ddl = [''id'', ''model_code'', ''model_key'', ''type_code'', ''display_name'', ''description'', ''specs_json'', ''firmware_base'', ''is_active'', ''sort_order'', ''created_at'', ''updated_at'']"
  by (simp add: column_names_def first_word_def create_device_models_table_ddl_def)

lemma orders_columns:
  "column_names create_orders_table_ddl = [''id'', ''order_id'', ''tenant_id'', ''device_id'', ''recipe_id'', ''recipe_name'', ''cup_size'', ''quantity'', ''total_amount'', ''payment_method'', ''status'', ''created_at'', ''failure_reason'']"
  by (simp add: column_names_def first_word_def create_orders_table_ddl_def)

lemma recipes_columns:
  "column_names create_recipes_table_ddl = [''id'', ''recipe_id'', ''recipe_name'', ''device_type'', ''category'', ''is_active'', ''version'', ''description'']"
  by (simp add: column_names_def first_word_def create_recipes_table_ddl_def)

lemma faults_columns:
  "column_names create_faults_table_ddl = [''id'', ''tenant_id'', ''device_id'', ''code'', ''level'', ''description'', ''created_at'', ''resolved'', ''sensor_snapshot'']"
  by (simp add: column_names_def first_word_def create_faults_table_ddl_def)

lemma firmwares_columns:
  "column_names create_firmwares_table_ddl = [''id'', ''version'', ''product_id'', ''download_url'', ''checksum_sha256'', ''changelog'', ''force_upgrade'', ''created_at'']"
  by (simp add: column_names_def first_word_def create_firmwares_table_ddl_def)

lemma organizations_columns:
  "column_names create_organizations_table_ddl = [''id'', ''org_id'', ''parent_id'', ''tenant_id'', ''org_name'', ''org_type'', ''contact_name'', ''contact_phone'', ''contact_email'', ''address'', ''is_active'', ''level'', ''path'', ''children_count'', ''created_at'', ''updated_at'']"
  by (simp add: column_names_def first_word_def create_organizations_table_ddl_def)

lemma accounts_columns:
  "column_names create_accounts_table_ddl = [''id'', ''account_id'', ''username'', ''display_name'', ''password_hash'', ''role_code'', ''org_id'', ''org_name'', ''email'', ''phone'', ''is_active'', ''last_login_at'', ''created_at'', ''updated_at'']"
  by (simp add: column_names_def first_word_def create_accounts_table_ddl_def)

end
