(* ===== verification/Sql_Database.thy ===== *)
theory Sql_Database
  imports Sql_Text Sql_Schema
begin

text \<open>
  \<^verbatim>\<open>Database\<close> of \<^verbatim>\<open>src/middleware/storage/database.cpp\<close>, built with libpq.  The PostgreSQL
  server and libpq are not part of the program: \<open>pq\<close> stands for \<^verbatim>\<open>PQexec\<close> (what it answers to
  a statement and what becomes of the connection), and \<open>connect\<close> for \<^verbatim>\<open>PQconnectdb\<close>.  A
  statement is modelled as the text that the program sends; every read goes through the
  converters from rows, with their exceptions.  The mutex serialises the calls and is not
  modelled beyond that: each operation is atomic.
\<close>

section \<open>Connection\<close>

datatype pg_result = Pg_null | Pg_error | Pg_command_ok | Pg_tuples_ok "string option list list"

type_synonym 'pg pq_exec = "string \<Rightarrow> 'pg \<Rightarrow> pg_result \<times> 'pg"

record 'pg database =
  db_conn_string :: string
  db_opened :: bool
  db_conn :: "'pg option"

definition new_database :: "'pg database" where
  "new_database = \<lparr>db_conn_string = '''', db_opened = False, db_conn = None\<rparr>"

text \<open>The statement is passed as a C string: it ends at its first NUL.\<close>

definition c_str :: "string \<Rightarrow> string" where
  "c_str s = takeWhile (\<lambda>c. c \<noteq> CHR 0x00) s"

definition pq_run :: "'pg pq_exec \<Rightarrow> string \<Rightarrow> 'pg database \<Rightarrow> pg_result \<times> 'pg database" where
  "pq_run pq sql db = (case db_conn db of
       None \<Rightarrow> (Pg_null, db)
     | Some c \<Rightarrow> (case pq (c_str sql) c of (r, c') \<Rightarrow> (r, db\<lparr>db_conn := Some c'\<rparr>)))"

definition check_result :: "pg_result \<Rightarrow> bool" where
  "check_result res = (case res of Pg_null \<Rightarrow> False | Pg_error \<Rightarrow> False | Pg_command_ok \<Rightarrow> True | Pg_tuples_ok _ \<Rightarrow> True)"

definition exec_cmd :: "'pg pq_exec \<Rightarrow> string \<Rightarrow> 'pg database \<Rightarrow> bool \<times> 'pg database" where
  "exec_cmd pq sql db = (case pq_run pq sql db of (res, db') \<Rightarrow> (check_result res, db'))"

definition execute :: "'pg pq_exec \<Rightarrow> string \<Rightarrow> 'pg database \<Rightarrow> status_code \<times> 'pg database" where
  "execute pq sql db =
     (if \<not> db_opened db then (STORAGE_WRITE_ERROR, db)
      else (case exec_cmd pq sql db of (ok, db') \<Rightarrow> (if \<not> ok then STORAGE_WRITE_ERROR else OK, db')))"

type_synonym rows = "string list list"

definition query :: "'pg pq_exec \<Rightarrow> string \<Rightarrow> 'pg database \<Rightarrow> status_code \<times> rows \<times> 'pg database" where
  "query pq sql db =
     (if \<not> db_opened db then (STORAGE_READ_ERROR, [], db)
      else (case pq_run pq sql db of
          (Pg_tuples_ok tuples, db') \<Rightarrow>
             (OK, map (map (\<lambda>v. case v of None \<Rightarrow> '''' | Some s \<Rightarrow> s)) tuples, db')
        | (_, db') \<Rightarrow> (STORAGE_READ_ERROR, [], db')))"

definition close_database :: "'pg database \<Rightarrow> status_code \<times> 'pg database" where
  "close_database db =
     (let db1 = (if db_opened db \<and> db_conn db \<noteq> None then db\<lparr>db_conn := None\<rparr> else db)
      in (OK, db1\<lparr>db_opened := False\<rparr>))"

definition is_open :: "'pg database \<Rightarrow> bool" where
  "is_open db = db_opened db"

section \<open>Schema and migration\<close>

text \<open>Statements run in order, the first failure is returned and the rest is not run.\<close>

fun exec_all :: "'pg pq_exec \<Rightarrow> string list \<Rightarrow> 'pg database \<Rightarrow> status_code \<times> 'pg database" where
  "exec_all pq [] db = (OK, db)"
| "exec_all pq (sql # sqls) db =
     (case execute pq sql db of (sc, db') \<Rightarrow> if sc \<noteq> OK then (sc, db') else exec_all pq sqls db')"

definition schema_texts :: "string list" where
  "schema_texts = map raw_text
     [create_tenants_table_ddl, create_device_types_table_ddl, create_device_models_table_ddl,
      create_devices_table_ddl, create_activation_tokens_table_ddl, create_audit_log_table_ddl,
      create_orders_table_ddl, create_recipes_table_ddl, create_faults_table_ddl,
      create_firmwares_table_ddl, create_organizations_table_ddl, create_accounts_table_ddl,
      create_mqtt_tenant_config_table_ddl]"

definition init_schema :: "'pg pq_exec \<Rightarrow> 'pg database \<Rightarrow> status_code \<times> 'pg database" where
  "init_schema pq db = exec_all pq schema_texts db"

definition schema_version_sql :: string where
  "schema_version_sql = raw_text [
     ''        CREATE TABLE IF NOT EXISTS schema_version ('',
     ''            version INTEGER NOT NULL DEFAULT 0'',
     ''        );'']"

text \<open>The results of these statements are not looked at.\<close>

definition exec_ignore :: "'pg pq_exec \<Rightarrow> string list \<Rightarrow> 'pg database \<Rightarrow> 'pg database" where
  "exec_ignore pq sqls db = fold (\<lambda>sql d. snd (execute pq sql d)) sqls db"

definition migrate_if_needed :: "'pg pq_exec \<Rightarrow> 'pg database \<Rightarrow> status_code exn \<times> 'pg database" where
  "migrate_if_needed pq db =
     (case query pq ''SELECT MAX(version) FROM schema_version'' (exec_ignore pq [schema_version_sql] db) of
        (sc, rows, db1) \<Rightarrow>
          (case (if sc = OK \<and> rows \<noteq> [] \<and> rows ! 0 \<noteq> [] \<and> rows ! 0 ! 0 \<noteq> ''''
                 then stoi (rows ! 0 ! 0) else Inr 0) of
             Inl e \<Rightarrow> (Inl e, db1)
           | Inr v0 \<Rightarrow>
              (let db2 = (if v0 < 1 then exec_ignore pq [''INSERT INTO schema_version (version) VALUES (1)''] db1 else db1);
                   v1 = (if v0 < 1 then 1 else v0);
                   db3 = (if v1 < 2 then exec_ignore pq
                       [''ALTER TABLE device_models ADD COLUMN IF NOT EXISTS model_key TEXT NOT NULL DEFAULT '' @ [CHR 0x27, CHR 0x27],
                        ''CREATE INDEX IF NOT EXISTS idx_dm_key ON device_models(model_key)'',
                        ''INSERT INTO schema_version (version) VALUES (2)''] db2 else db2)
               in (Inr OK, db3))))"

definition open_database ::
  "(string \<Rightarrow> 'pg option) \<Rightarrow> 'pg pq_exec \<Rightarrow> string \<Rightarrow> 'pg database \<Rightarrow> status_code exn \<times> 'pg database" where
  "open_database connect pq connection_string db0 =
     (let db = db0\<lparr>db_conn_string := connection_string\<rparr> in
      case connect connection_string of
        None \<Rightarrow> (Inr STORAGE_READ_ERROR, db\<lparr>db_conn := None\<rparr>)
      | Some c \<Rightarrow>
          (case init_schema pq (db\<lparr>db_conn := Some c, db_opened := True\<rparr>) of (sc, db1) \<Rightarrow>
             if sc \<noteq> OK then (Inr sc, snd (close_database db1)) else migrate_if_needed pq db1))"

definition load_tenant_config :: "'pg pq_exec \<Rightarrow> string \<Rightarrow> 'pg database \<Rightarrow> string \<times> 'pg database" where
  "load_tenant_config pq field db =
     (case query pq (''SELECT '' @ field @ '' FROM mqtt_tenant_config WHERE id=1'') db of
        (sc, rows, db') \<Rightarrow>
          (if sc = OK \<and> rows \<noteq> [] \<and> rows ! 0 \<noteq> [] then rows ! 0 ! 0 else '''', db'))"

definition save_tenant_config_sql :: "string \<Rightarrow> string \<Rightarrow> string" where
  "save_tenant_config_sql key name =
     ''UPDATE mqtt_tenant_config SET tenant_key='' @ [CHR 0x27] @ key @
     [CHR 0x27] @ '', tenant_name='' @ [CHR 0x27] @ name @ [CHR 0x27] @ '' WHERE id=1''"

definition save_tenant_config :: "'pg pq_exec \<Rightarrow> string \<Rightarrow> string \<Rightarrow> 'pg database \<Rightarrow> status_code \<times> 'pg database" where
  "save_tenant_config pq key name db = execute pq (save_tenant_config_sql key name) db"

section \<open>Rows to structures\<close>

definition row_bool :: "string \<Rightarrow> bool" where
  "row_bool s \<longleftrightarrow> s = ''t'' \<or> s = ''true'' \<or> s = ''TRUE'' \<or> s = ''1''"

text \<open>\<^verbatim>\<open>row[i]\<close> on a vector: reading past its end is undefined behaviour.\<close>

definition row_at :: "string list \<Rightarrow> nat \<Rightarrow> string exn" where
  "row_at row i = (if i < length row then Inr (row ! i) else Inl Undefined_behaviour)"

definition device_from_row :: "string list \<Rightarrow> device exn" where
  "device_from_row row =
     (if length row < 11 then Inr new_device
      else exn_bind (stoi (row ! 4)) (\<lambda>type.
           exn_bind (stoi (row ! 5)) (\<lambda>net.
           exn_bind (if 10 < length row then stoll (row ! 10) else Inr 0) (\<lambda>hb.
           exn_bind (if 12 < length row then stoll (row ! 12) else Inr 0) (\<lambda>act.
             Inr \<lparr>dev_tenant_id = row ! 2, dev_device_id = row ! 1, dev_product_id = row ! 3,
                  dev_type = of_int type, dev_network_status = of_int net, dev_work_status = WORK_IDLE,
                  dev_firmware_version = row ! 6, dev_mac_address = row ! 7, dev_model = row ! 8,
                  dev_hardware_uid = row ! 9, dev_last_heartbeat_at = hb, dev_activated_at = act,
                  dev_activated = (if 11 < length row then row_bool (row ! 11) else False)\<rparr>)))))"

definition type_from_row :: "string list \<Rightarrow> device_type_info exn" where
  "type_from_row row =
     (if length row < 8 then Inr new_device_type_info
      else exn_bind (stoi (row ! 0)) (\<lambda>i.
           exn_bind (stoi (row ! 4)) (\<lambda>it.
           exn_bind (if 6 < length row then stoi (row ! 6) else Inr 0) (\<lambda>so.
             Inr \<lparr>dti_id = i, dti_type_code = row ! 1, dti_display_name = row ! 2,
                  dti_description = row ! 3, dti_internal_type = it,
                  dti_icon_url = (if 5 < length row then row ! 5 else ''''), dti_sort_order = so,
                  dti_is_active = (if 7 < length row then row_bool (row ! 7) else True),
                  dti_created_at = (if 8 < length row then row ! 8 else ''''),
                  dti_updated_at = (if 9 < length row then row ! 9 else '''')\<rparr>))))"

definition model_from_row :: "string list \<Rightarrow> device_model_info exn" where
  "model_from_row row =
     (if length row < 12 then Inr new_device_model_info
      else exn_bind (stoi (row ! 0)) (\<lambda>i.
           exn_bind (stoi (row ! 9)) (\<lambda>so.
             Inr \<lparr>dmi_id = i, dmi_model_code = row ! 1, dmi_model_key = row ! 2,
                  dmi_type_code = row ! 3, dmi_display_name = row ! 4, dmi_description = row ! 5,
                  dmi_specs_json = row ! 6, dmi_firmware_base = row ! 7,
                  dmi_is_active = row_bool (row ! 8), dmi_sort_order = so,
                  dmi_created_at = row ! 10, dmi_updated_at = row ! 11\<rparr>)))"

definition safe_stoi :: "string \<Rightarrow> int" where
  "safe_stoi s = (if s = '''' then 0 else (case stoi s of Inl _ \<Rightarrow> 0 | Inr i \<Rightarrow> i))"

definition order_from_row :: "string list \<Rightarrow> order_info" where
  "order_from_row row =
     (if length row < 6 then new_order_info
      else new_order_info\<lparr>ord_order_id := row ! 1, ord_tenant_id := row ! 2, ord_device_id := row ! 3,
             ord_recipe_id := row ! 4, ord_cup_size := row ! 5,
             ord_quantity := (if 6 < length row then safe_stoi (row ! 6) else 0),
             ord_total_amount := (if 7 < length row then safe_stoi (row ! 7) else 0),
             ord_payment_method := (if 8 < length row then row ! 8 else ''''),
             ord_status := of_int (if 9 < length row then safe_stoi (row ! 9) else 3),
             ord_failure_reason := (if 10 < length row then row ! 10 else ''''),
             ord_created_at := (if 11 < length row then row ! 11 else ''0''),
             ord_recipe_name := (if 12 < length row then row ! 12 else '''')\<rparr>)"

definition recipe_from_row :: "string list \<Rightarrow> recipe exn" where
  "recipe_from_row row =
     (if length row < 8 then Inr new_recipe
      else exn_bind (stoi (row ! 3)) (\<lambda>dt.
           exn_bind (stoi (row ! 6)) (\<lambda>ver.
             Inr (new_recipe\<lparr>rec_recipe_id := row ! 1, rec_recipe_name := row ! 2,
                    rec_device_type := of_int dt, rec_category := row ! 4,
                    rec_is_active := row_bool (row ! 5), rec_version := ver,
                    rec_description := row ! 7\<rparr>))))"

definition fault_from_row :: "int \<Rightarrow> string list \<Rightarrow> fault_info exn" where
  "fault_from_row now row =
     (if length row < 7 then Inr new_fault_info
      else exn_bind (stoi (row ! 3)) (\<lambda>code.
           exn_bind (stoi (row ! 4)) (\<lambda>ol.
             (let ts = (if 6 < length row then row ! 6 else ''0'');
                  ts' = (if ts = '''' \<or> ts = ''f'' \<or> \<not> list_all is_digit ts then to_string now else ts)
              in Inr \<lparr>flt_tenant_id = row ! 1, flt_device_id = row ! 2, flt_code = of_int code,
                      flt_level = (if 3 \<le> ol then Level_ERROR else Level_WARNING),
                      flt_description = row ! 5, flt_timestamp = ts',
                      flt_sensor_snapshot = (if 8 < length row then row ! 8 else '''')\<rparr>))))"

definition firmware_from_row :: "string list \<Rightarrow> firmware_version exn" where
  "firmware_from_row row =
     (if length row < 7 then Inr new_firmware_version
      else exn_bind (row_at row 7) (\<lambda>c. exn_bind (stoll c) (\<lambda>created.
             Inr (new_firmware_version\<lparr>fw_version := row ! 1, fw_product_id := row ! 2,
                    fw_download_url := row ! 3, fw_checksum_sha256 := row ! 4, fw_changelog := row ! 5,
                    fw_force_upgrade := row_bool (row ! 6), fw_created_at := created\<rparr>))))"

definition org_from_row :: "string list \<Rightarrow> org_info exn" where
  "org_from_row row =
     (if length row < 15 then Inr new_org_info
      else exn_bind (stoi (row ! 1)) (\<lambda>oid.
           exn_bind (stoi (row ! 2)) (\<lambda>pid.
           exn_bind (stoi (row ! 11)) (\<lambda>lvl.
           exn_bind (stoi (row ! 13)) (\<lambda>cc.
           exn_bind (row_at row 15) (\<lambda>upd.
             Inr \<lparr>org_org_id = oid, org_parent_id = pid, org_tenant_id = row ! 3, org_org_name = row ! 4,
                  org_org_type = row ! 5, org_contact_name = row ! 6, org_contact_phone = row ! 7,
                  org_contact_email = row ! 8, org_address = row ! 9, org_is_active = row_bool (row ! 10),
                  org_level = lvl, org_path = row ! 12, org_children_count = cc,
                  org_created_at = row ! 14, org_updated_at = upd\<rparr>))))))"

definition account_from_row :: "string list \<Rightarrow> account_info exn" where
  "account_from_row row =
     (if length row < 13 then Inr new_account_info
      else exn_bind (stoi (row ! 1)) (\<lambda>aid.
           exn_bind (stoi (row ! 6)) (\<lambda>oid.
           exn_bind (row_at row 13) (\<lambda>upd.
             Inr \<lparr>acc_account_id = aid, acc_username = row ! 2, acc_password_hash = row ! 4,
                  acc_display_name = row ! 3, acc_org_id = oid, acc_org_name = row ! 7,
                  acc_role_code = row ! 5, acc_email = row ! 8, acc_phone = row ! 9,
                  acc_is_active = row_bool (row ! 10), acc_last_login_at = row ! 11,
                  acc_created_at = row ! 12, acc_updated_at = upd\<rparr>))))"

text \<open>A converter applied to each row; the first exception leaves the loop.\<close>

fun exn_map :: "('a \<Rightarrow> 'b exn) \<Rightarrow> 'a list \<Rightarrow> 'b list exn" where
  "exn_map f [] = Inr []"
| "exn_map f (x # xs) = exn_bind (f x) (\<lambda>y. exn_bind (exn_map f xs) (\<lambda>ys. Inr (y # ys)))"

end
