(* ===== verification/Sql_Crud.thy ===== *)
theory Sql_Crud
  imports Sql_Database
begin

text \<open>
  The statements of \<^verbatim>\<open>src/middleware/storage/database.cpp\<close>: for each operation the text that
  it builds (\<open>..._sql\<close>) and the operation itself, with the status it returns or the structures
  it reads.  Their names carry the prefix \<open>db_\<close>, because the managers have operations of the
  same names.
\<close>

type_synonym ('pg, 'a) db_op = "'pg database \<Rightarrow> 'a \<times> 'pg database"

text \<open>\<^verbatim>\<open>if (db_) db_->op(...)\<close>: without a database nothing happens, and the result is dropped.\<close>

definition db_do :: "('pg, 'a) db_op \<Rightarrow> 'pg database option \<Rightarrow> 'pg database option" where
  "db_do f db = map_option (\<lambda>d. snd (f d)) db"

text \<open>The first row of a query, and every row, through a converter.\<close>

definition first_row :: "(string list \<Rightarrow> 'a exn) \<Rightarrow> status_code \<times> rows \<times> 'pg database \<Rightarrow> 'a option exn \<times> 'pg database" where
  "first_row conv res = (case res of (sc, rows, db) \<Rightarrow>
     (case rows of [] \<Rightarrow> Inr None | r # _ \<Rightarrow> exn_bind (conv r) (\<lambda>x. Inr (Some x)), db))"

definition all_rows :: "(string list \<Rightarrow> 'a exn) \<Rightarrow> status_code \<times> rows \<times> 'pg database \<Rightarrow> 'a list exn \<times> 'pg database" where
  "all_rows conv res = (case res of (sc, rows, db) \<Rightarrow> (exn_map conv rows, db))"

section \<open>Devices\<close>

definition db_insert_device_sql :: "device \<Rightarrow> string" where
  "db_insert_device_sql device =
     ''INSERT INTO devices (device_id, tenant_id, product_id, device_type, status, '' @
     ''firmware_version, mac_address, model, hardware_uid, last_heartbeat_at, activated, '' @
     ''activated_at) VALUES ('' @ sql_str (dev_device_id device) @ '','' @
     sql_str (dev_tenant_id device) @ '','' @ sql_str (dev_product_id device) @ '','' @
     to_string (uint (dev_type device)) @ '','' @ to_string (uint (dev_network_status device)) @
     '','' @ sql_str (dev_firmware_version device) @ '','' @ sql_str (dev_mac_address device) @
     '','' @ sql_str (dev_model device) @ '','' @ sql_str (dev_hardware_uid device) @ '','' @
     to_string (dev_last_heartbeat_at device) @ '','' @ sql_bool (dev_activated device) @ '','' @
     to_string (dev_activated_at device) @ '')''"

definition db_insert_device :: "'pg pq_exec \<Rightarrow> device \<Rightarrow> ('pg, status_code) db_op" where
  "db_insert_device pq device db = execute pq (db_insert_device_sql device) db"

definition db_update_device_sql :: "device \<Rightarrow> string" where
  "db_update_device_sql device =
     ''UPDATE devices SET tenant_id='' @ sql_str (dev_tenant_id device) @ '',network_status='' @
     to_string (uint (dev_network_status device)) @ '',work_status='' @
     to_string (uint (dev_work_status device)) @ '',firmware_version='' @
     sql_str (dev_firmware_version device) @ '',last_heartbeat_at='' @
     to_string (dev_last_heartbeat_at device) @ '',activated='' @
     sql_bool (dev_activated device) @ '',activated_at='' @ to_string (dev_activated_at device) @
     '',updated_at=EXTRACT(EPOCH FROM NOW())::BIGINT WHERE device_id='' @
     sql_str (dev_device_id device)"

definition db_update_device :: "'pg pq_exec \<Rightarrow> device \<Rightarrow> ('pg, status_code) db_op" where
  "db_update_device pq device db = execute pq (db_update_device_sql device) db"

definition db_upsert_device_sql :: "device \<Rightarrow> string" where
  "db_upsert_device_sql device =
     ''INSERT INTO devices (device_id, tenant_id, product_id, device_type, status, '' @
     ''firmware_version, mac_address, model, hardware_uid, last_heartbeat_at, activated, '' @
     ''activated_at) VALUES ('' @ sql_str (dev_device_id device) @ '','' @
     sql_str (dev_tenant_id device) @ '','' @ sql_str (dev_product_id device) @ '','' @
     to_string (uint (dev_type device)) @ '','' @ to_string (uint (dev_network_status device)) @
     '','' @ sql_str (dev_firmware_version device) @ '','' @ sql_str (dev_mac_address device) @
     '','' @ sql_str (dev_model device) @ '','' @ sql_str (dev_hardware_uid device) @ '','' @
     to_string (dev_last_heartbeat_at device) @ '','' @ sql_bool (dev_activated device) @ '','' @
     to_string (dev_activated_at device) @
     '') ON CONFLICT (device_id) DO UPDATE SET tenant_id=EXCLUDED.tenant_id,'' @
     ''status=EXCLUDED.status,firmware_version=EXCLUDED.firmware_version,'' @
     ''last_heartbeat_at=EXCLUDED.last_heartbeat_at,updated_at=EXTRACT(EPOCH FROM '' @
     ''NOW())::BIGINT''"

definition db_upsert_device :: "'pg pq_exec \<Rightarrow> device \<Rightarrow> ('pg, status_code) db_op" where
  "db_upsert_device pq device db = execute pq (db_upsert_device_sql device) db"

definition db_get_device :: "'pg pq_exec \<Rightarrow> string \<Rightarrow> ('pg, device option exn) db_op" where
  "db_get_device pq device_id db =
     first_row device_from_row (query pq (''SELECT * FROM devices WHERE device_id='' @ sql_str device_id) db)"

definition db_get_device_by_hwuid :: "'pg pq_exec \<Rightarrow> string \<Rightarrow> ('pg, device option exn) db_op" where
  "db_get_device_by_hwuid pq hardware_uid db =
     first_row device_from_row (query pq (''SELECT * FROM devices WHERE hardware_uid='' @ sql_str hardware_uid) db)"

definition db_list_devices_by_tenant :: "'pg pq_exec \<Rightarrow> string \<Rightarrow> ('pg, device list exn) db_op" where
  "db_list_devices_by_tenant pq tenant_id db =
     all_rows device_from_row (query pq (''SELECT * FROM devices WHERE tenant_id='' @ sql_str tenant_id) db)"

definition db_list_all_devices :: "'pg pq_exec \<Rightarrow> ('pg, device list exn) db_op" where
  "db_list_all_devices pq db = all_rows device_from_row (query pq ''SELECT * FROM devices'' db)"

definition db_device_exists :: "'pg pq_exec \<Rightarrow> string \<Rightarrow> ('pg, bool) db_op" where
  "db_device_exists pq hardware_uid db =
     (case query pq (''SELECT COUNT(*) FROM devices WHERE hardware_uid='' @ sql_str hardware_uid) db of
        (sc, rows, db') \<Rightarrow> (rows \<noteq> [] \<and> rows ! 0 \<noteq> [] \<and> rows ! 0 ! 0 \<noteq> ''0'', db'))"

section \<open>Activation tokens\<close>

definition db_store_activation_token_sql :: "string \<Rightarrow> string \<Rightarrow> int \<Rightarrow> int \<Rightarrow> string" where
  "db_store_activation_token_sql device_id token issued_at expires_at =
     ''INSERT INTO activation_tokens (device_id, token, issued_at, expires_at, revoked) '' @
     ''VALUES ('' @ sql_str device_id @ '','' @ sql_str token @ '','' @ to_string issued_at @
     '','' @ to_string expires_at @
     '',FALSE) ON CONFLICT (device_id) DO UPDATE SET token=EXCLUDED.token, '' @
     ''issued_at=EXCLUDED.issued_at, expires_at=EXCLUDED.expires_at, revoked=FALSE''"

definition db_store_activation_token :: "'pg pq_exec \<Rightarrow> string \<Rightarrow> string \<Rightarrow> int \<Rightarrow> int \<Rightarrow> ('pg, status_code) db_op" where
  "db_store_activation_token pq device_id token issued_at expires_at db = execute pq (db_store_activation_token_sql device_id token issued_at expires_at) db"

definition db_get_activation_token :: "'pg pq_exec \<Rightarrow> int \<Rightarrow> string \<Rightarrow> ('pg, string option exn) db_op" where
  "db_get_activation_token pq now device_id db =
     (case query pq (''SELECT token, expires_at, revoked FROM activation_tokens WHERE device_id='' @ sql_str device_id) db of
        (sc, rows, db') \<Rightarrow>
          (if sc \<noteq> OK \<or> rows = [] then Inr None
           else if 3 \<le> length (rows ! 0)
           then exn_bind (stoll (rows ! 0 ! 1)) (\<lambda>expires.
                  if row_bool (rows ! 0 ! 2) \<or> expires < now then Inr None else Inr (Some (rows ! 0 ! 0)))
           else exn_bind (row_at (rows ! 0) 0) (\<lambda>t. Inr (Some t)), db'))"

definition db_log_activation_sql :: "string \<Rightarrow> string \<Rightarrow> string \<Rightarrow> bool \<Rightarrow> string \<Rightarrow> string" where
  "db_log_activation_sql device_id hardware_uid remote_ip success message =
     ''INSERT INTO audit_log (event_type, device_id, detail, remote_ip, success) VALUES ('' @
     [CHR 0x27] @ ''device_activation'' @ [CHR 0x27] @ '','' @
     (if device_id = '''' then ''NULL'' else sql_str device_id) @ '','' @
     sql_str (''hardware_uid='' @ hardware_uid @ '' msg='' @ message) @ '','' @
     sql_str remote_ip @ '','' @ sql_bool success @ '')''"

definition db_log_activation :: "'pg pq_exec \<Rightarrow> string \<Rightarrow> string \<Rightarrow> string \<Rightarrow> bool \<Rightarrow> string \<Rightarrow> ('pg, status_code) db_op" where
  "db_log_activation pq device_id hardware_uid remote_ip success message db =
     execute pq (db_log_activation_sql device_id hardware_uid remote_ip success message) db"

section \<open>Device types and models\<close>

definition db_insert_device_type_sql :: "device_type_info \<Rightarrow> string" where
  "db_insert_device_type_sql info =
     ''INSERT INTO device_types (type_code, display_name, description, internal_type, '' @
     ''icon_url, sort_order) VALUES ('' @ sql_str (dti_type_code info) @ '','' @
     sql_str (dti_display_name info) @ '','' @ sql_str (dti_description info) @ '','' @
     to_string (dti_internal_type info) @ '','' @ sql_str (dti_icon_url info) @ '','' @
     to_string (dti_sort_order info) @ '')''"

definition db_insert_device_type :: "'pg pq_exec \<Rightarrow> device_type_info \<Rightarrow> ('pg, status_code) db_op" where
  "db_insert_device_type pq info db = execute pq (db_insert_device_type_sql info) db"

definition db_update_device_type_sql :: "device_type_info \<Rightarrow> string" where
  "db_update_device_type_sql info =
     ''UPDATE device_types SET display_name='' @ sql_str (dti_display_name info) @
     '',description='' @ sql_str (dti_description info) @ '',internal_type='' @
     to_string (dti_internal_type info) @ '',icon_url='' @ sql_str (dti_icon_url info) @
     '',sort_order='' @ to_string (dti_sort_order info) @ '',is_active='' @
     sql_bool (dti_is_active info) @ '',updated_at=NOW()::TEXT WHERE type_code='' @
     sql_str (dti_type_code info)"

definition db_update_device_type :: "'pg pq_exec \<Rightarrow> device_type_info \<Rightarrow> ('pg, status_code) db_op" where
  "db_update_device_type pq info db = execute pq (db_update_device_type_sql info) db"

definition db_insert_device_model_sql :: "device_model_info \<Rightarrow> string" where
  "db_insert_device_model_sql info =
     ''INSERT INTO device_models (model_code, model_key, type_code, display_name, '' @
     ''description, specs_json, firmware_base, sort_order) VALUES ('' @
     sql_str (dmi_model_code info) @ '','' @ sql_str (dmi_model_key info) @ '','' @
     sql_str (dmi_type_code info) @ '','' @ sql_str (dmi_display_name info) @ '','' @
     sql_str (dmi_description info) @ '','' @ sql_str (dmi_specs_json info) @ '','' @
     sql_str (dmi_firmware_base info) @ '','' @ to_string (dmi_sort_order info) @ '')''"

definition db_insert_device_model :: "'pg pq_exec \<Rightarrow> device_model_info \<Rightarrow> ('pg, status_code) db_op" where
  "db_insert_device_model pq info db = execute pq (db_insert_device_model_sql info) db"

definition db_update_device_model_sql :: "device_model_info \<Rightarrow> string" where
  "db_update_device_model_sql info =
     ''UPDATE device_models SET model_key='' @ sql_str (dmi_model_key info) @ '',type_code='' @
     sql_str (dmi_type_code info) @ '',display_name='' @ sql_str (dmi_display_name info) @
     '',description='' @ sql_str (dmi_description info) @ '',specs_json='' @
     sql_str (dmi_specs_json info) @ '',firmware_base='' @ sql_str (dmi_firmware_base info) @
     '',is_active='' @ sql_bool (dmi_is_active info) @ '',sort_order='' @
     to_string (dmi_sort_order info) @ '',updated_at=NOW()::TEXT WHERE model_code='' @
     sql_str (dmi_model_code info)"

definition db_update_device_model :: "'pg pq_exec \<Rightarrow> device_model_info \<Rightarrow> ('pg, status_code) db_op" where
  "db_update_device_model pq info db = execute pq (db_update_device_model_sql info) db"

definition db_delete_device_type :: "'pg pq_exec \<Rightarrow> string \<Rightarrow> ('pg, status_code) db_op" where
  "db_delete_device_type pq type_code db =
     execute pq (''UPDATE device_types SET is_active=FALSE, updated_at=NOW()::TEXT WHERE type_code='' @ sql_str type_code) db"

definition db_get_device_type :: "'pg pq_exec \<Rightarrow> string \<Rightarrow> ('pg, device_type_info option exn) db_op" where
  "db_get_device_type pq type_code db =
     first_row type_from_row (query pq (''SELECT * FROM device_types WHERE type_code='' @ sql_str type_code) db)"

definition db_list_device_types :: "'pg pq_exec \<Rightarrow> bool \<Rightarrow> ('pg, device_type_info list exn) db_op" where
  "db_list_device_types pq active_only db =
     all_rows type_from_row (query pq (''SELECT * FROM device_types'' @
       (if active_only then '' WHERE is_active=TRUE'' else '''') @ '' ORDER BY sort_order ASC'') db)"

definition db_delete_device_model :: "'pg pq_exec \<Rightarrow> string \<Rightarrow> ('pg, status_code) db_op" where
  "db_delete_device_model pq model_code db =
     execute pq (''UPDATE device_models SET is_active=FALSE, updated_at=NOW()::TEXT WHERE model_code='' @ sql_str model_code) db"

definition model_columns_sql :: string where
  "model_columns_sql = ''SELECT id,model_code,model_key,type_code,display_name,description,'' @
     ''specs_json,firmware_base,is_active,sort_order,created_at,updated_at FROM device_models WHERE ''"

definition db_get_device_model_by_key :: "'pg pq_exec \<Rightarrow> string \<Rightarrow> ('pg, device_model_info option exn) db_op" where
  "db_get_device_model_by_key pq model_key db =
     first_row model_from_row (query pq (model_columns_sql @ ''model_key='' @ sql_str model_key) db)"

definition db_get_device_model :: "'pg pq_exec \<Rightarrow> string \<Rightarrow> ('pg, device_model_info option exn) db_op" where
  "db_get_device_model pq model_code db =
     first_row model_from_row (query pq (model_columns_sql @ ''model_code='' @ sql_str model_code) db)"

definition db_list_device_models :: "'pg pq_exec \<Rightarrow> string \<Rightarrow> bool \<Rightarrow> ('pg, device_model_info list exn) db_op" where
  "db_list_device_models pq type_code active_only db =
     all_rows model_from_row (query pq (model_columns_sql @ ''1=1'' @
       (if type_code \<noteq> '''' then '' AND type_code='' @ sql_str type_code else '''') @
       (if active_only then '' AND is_active=TRUE'' else '''') @ '' ORDER BY type_code, sort_order ASC'') db)"

section \<open>Orders\<close>

definition db_insert_order_sql :: "order_info \<Rightarrow> string" where
  "db_insert_order_sql order =
     ''INSERT INTO orders (order_id,tenant_id,device_id,recipe_id,recipe_name,cup_size,'' @
     ''quantity,total_amount,payment_method,status,created_at,failure_reason) VALUES ('' @
     sql_str (ord_order_id order) @ '','' @ sql_str (ord_tenant_id order) @ '','' @
     sql_str (ord_device_id order) @ '','' @ sql_str (ord_recipe_id order) @ '','' @
     sql_str (ord_recipe_name order) @ '','' @ sql_str (ord_cup_size order) @ '','' @
     to_string (ord_quantity order) @ '','' @ to_string (ord_total_amount order) @ '','' @
     sql_str (ord_payment_method order) @ '','' @ to_string (uint (ord_status order)) @ '','' @
     ord_created_at order @ '','' @ sql_str (ord_failure_reason order) @
     '') ON CONFLICT (order_id) DO UPDATE SET tenant_id=EXCLUDED.tenant_id,'' @
     ''device_id=EXCLUDED.device_id,recipe_id=EXCLUDED.recipe_id,'' @
     ''recipe_name=EXCLUDED.recipe_name,cup_size=EXCLUDED.cup_size,'' @
     ''quantity=EXCLUDED.quantity,total_amount=EXCLUDED.total_amount,'' @
     ''payment_method=EXCLUDED.payment_method,status=EXCLUDED.status,'' @
     ''created_at=EXCLUDED.created_at,failure_reason=EXCLUDED.failure_reason''"

definition db_insert_order :: "'pg pq_exec \<Rightarrow> order_info \<Rightarrow> ('pg, status_code) db_op" where
  "db_insert_order pq order db = execute pq (db_insert_order_sql order) db"

definition db_update_order_status :: "'pg pq_exec \<Rightarrow> string \<Rightarrow> int \<Rightarrow> ('pg, status_code) db_op" where
  "db_update_order_status pq order_id status db =
     execute pq (''UPDATE orders SET status='' @ to_string status @ '' WHERE order_id='' @ sql_str order_id) db"

definition db_get_order :: "'pg pq_exec \<Rightarrow> string \<Rightarrow> ('pg, order_info option) db_op" where
  "db_get_order pq order_id db =
     (case query pq (''SELECT * FROM orders WHERE order_id='' @ sql_str order_id) db of
        (sc, rows, db') \<Rightarrow> (if rows \<noteq> [] then Some (order_from_row (rows ! 0)) else None, db'))"

definition db_list_all_orders :: "'pg pq_exec \<Rightarrow> ('pg, order_info list) db_op" where
  "db_list_all_orders pq db =
     (case query pq ''SELECT * FROM orders ORDER BY id DESC'' db of
        (sc, rows, db') \<Rightarrow> (map order_from_row rows, db'))"

section \<open>Recipes\<close>

definition db_insert_recipe_sql :: "recipe \<Rightarrow> string" where
  "db_insert_recipe_sql recipe =
     ''INSERT INTO recipes (recipe_id,recipe_name,device_type,category,is_active,version,'' @
     ''description) VALUES ('' @ sql_str (rec_recipe_id recipe) @ '','' @
     sql_str (rec_recipe_name recipe) @ '','' @ to_string (uint (rec_device_type recipe)) @
     '','' @ sql_str (rec_category recipe) @ '','' @ sql_bool (rec_is_active recipe) @ '','' @
     to_string (rec_version recipe) @ '','' @ sql_str (rec_description recipe) @
     '') ON CONFLICT (recipe_id) DO UPDATE SET recipe_name=EXCLUDED.recipe_name,'' @
     ''device_type=EXCLUDED.device_type,category=EXCLUDED.category,'' @
     ''is_active=EXCLUDED.is_active,version=EXCLUDED.version,'' @
     ''description=EXCLUDED.description''"

definition db_insert_recipe :: "'pg pq_exec \<Rightarrow> recipe \<Rightarrow> ('pg, status_code) db_op" where
  "db_insert_recipe pq recipe db = execute pq (db_insert_recipe_sql recipe) db"

definition db_update_recipe :: "'pg pq_exec \<Rightarrow> recipe \<Rightarrow> ('pg, status_code) db_op" where
  "db_update_recipe pq recipe db = db_insert_recipe pq recipe db"

definition db_delete_recipe :: "'pg pq_exec \<Rightarrow> string \<Rightarrow> ('pg, status_code) db_op" where
  "db_delete_recipe pq recipe_id db =
     execute pq (''UPDATE recipes SET is_active=FALSE WHERE recipe_id='' @ sql_str recipe_id) db"

definition db_get_recipe :: "'pg pq_exec \<Rightarrow> string \<Rightarrow> ('pg, recipe option exn) db_op" where
  "db_get_recipe pq recipe_id db =
     first_row recipe_from_row (query pq (''SELECT * FROM recipes WHERE recipe_id='' @ sql_str recipe_id) db)"

definition db_list_all_recipes :: "'pg pq_exec \<Rightarrow> ('pg, recipe list exn) db_op" where
  "db_list_all_recipes pq db =
     all_rows recipe_from_row (query pq ''SELECT * FROM recipes WHERE is_active=TRUE'' db)"

section \<open>Faults\<close>

definition db_insert_fault_sql :: "fault_info \<Rightarrow> string" where
  "db_insert_fault_sql fault =
     ''INSERT INTO faults (tenant_id,device_id,code,level,description,created_at,'' @
     ''sensor_snapshot) VALUES ('' @ sql_str (flt_tenant_id fault) @ '','' @
     sql_str (flt_device_id fault) @ '','' @ to_string (uint (flt_code fault)) @ '','' @
     to_string (fault_level_int (flt_level fault)) @ '','' @ sql_str (flt_description fault) @
     '','' @ flt_timestamp fault @ '','' @ sql_str (flt_sensor_snapshot fault) @ '')''"

definition db_insert_fault :: "'pg pq_exec \<Rightarrow> fault_info \<Rightarrow> ('pg, status_code) db_op" where
  "db_insert_fault pq fault db = execute pq (db_insert_fault_sql fault) db"

definition db_resolve_fault :: "'pg pq_exec \<Rightarrow> string \<Rightarrow> string \<Rightarrow> int \<Rightarrow> ('pg, status_code) db_op" where
  "db_resolve_fault pq tenant_id device_id code db =
     execute pq (''UPDATE faults SET resolved=TRUE WHERE tenant_id='' @ sql_str tenant_id @
       '' AND device_id='' @ sql_str device_id @ '' AND code='' @ to_string code) db"

definition db_list_all_faults :: "'pg pq_exec \<Rightarrow> int \<Rightarrow> ('pg, fault_info list exn) db_op" where
  "db_list_all_faults pq now db =
     all_rows (fault_from_row now) (query pq ''SELECT * FROM faults ORDER BY id DESC'' db)"

definition db_list_active_faults :: "'pg pq_exec \<Rightarrow> int \<Rightarrow> ('pg, fault_info list exn) db_op" where
  "db_list_active_faults pq now db =
     all_rows (fault_from_row now) (query pq ''SELECT * FROM faults WHERE resolved=FALSE ORDER BY id DESC'' db)"

definition db_list_faults_by_device :: "'pg pq_exec \<Rightarrow> int \<Rightarrow> string \<Rightarrow> string \<Rightarrow> ('pg, fault_info list exn) db_op" where
  "db_list_faults_by_device pq now tenant_id device_id db =
     all_rows (fault_from_row now) (query pq (''SELECT * FROM faults WHERE tenant_id='' @ sql_str tenant_id @
       '' AND device_id='' @ sql_str device_id @ '' ORDER BY id DESC'') db)"

section \<open>Firmwares\<close>

definition db_insert_firmware_sql :: "firmware_version \<Rightarrow> string" where
  "db_insert_firmware_sql fw =
     ''INSERT INTO firmwares (version,product_id,download_url,checksum_sha256,changelog,'' @
     ''force_upgrade,created_at) VALUES ('' @ sql_str (fw_version fw) @ '','' @
     sql_str (fw_product_id fw) @ '','' @ sql_str (fw_download_url fw) @ '','' @
     sql_str (fw_checksum_sha256 fw) @ '','' @ sql_str (fw_changelog fw) @ '','' @
     sql_bool (fw_force_upgrade fw) @ '','' @ to_string (fw_created_at fw) @
     '') ON CONFLICT (version) DO UPDATE SET product_id=EXCLUDED.product_id,'' @
     ''download_url=EXCLUDED.download_url,checksum_sha256=EXCLUDED.checksum_sha256,'' @
     ''changelog=EXCLUDED.changelog,force_upgrade=EXCLUDED.force_upgrade,'' @
     ''created_at=EXCLUDED.created_at''"

definition db_insert_firmware :: "'pg pq_exec \<Rightarrow> firmware_version \<Rightarrow> ('pg, status_code) db_op" where
  "db_insert_firmware pq fw db = execute pq (db_insert_firmware_sql fw) db"

definition db_delete_firmware :: "'pg pq_exec \<Rightarrow> string \<Rightarrow> ('pg, status_code) db_op" where
  "db_delete_firmware pq version db = execute pq (''DELETE FROM firmwares WHERE version='' @ sql_str version) db"

definition db_get_firmware :: "'pg pq_exec \<Rightarrow> string \<Rightarrow> ('pg, firmware_version option exn) db_op" where
  "db_get_firmware pq version db =
     first_row firmware_from_row (query pq (''SELECT * FROM firmwares WHERE version='' @ sql_str version) db)"

definition db_list_all_firmwares :: "'pg pq_exec \<Rightarrow> ('pg, firmware_version list exn) db_op" where
  "db_list_all_firmwares pq db =
     all_rows firmware_from_row (query pq ''SELECT * FROM firmwares ORDER BY id DESC'' db)"

section \<open>Organizations\<close>

definition db_insert_org_sql :: "org_info \<Rightarrow> string" where
  "db_insert_org_sql info =
     ''INSERT INTO organizations (org_id,parent_id,tenant_id,org_name,org_type,'' @
     ''contact_name,contact_phone,contact_email,address,is_active,level,path,'' @
     ''children_count,created_at,updated_at) VALUES ('' @ to_string (org_org_id info) @ '','' @
     to_string (org_parent_id info) @ '','' @ sql_str (org_tenant_id info) @ '','' @
     sql_str (org_org_name info) @ '','' @ sql_str (org_org_type info) @ '','' @
     sql_str (org_contact_name info) @ '','' @ sql_str (org_contact_phone info) @ '','' @
     sql_str (org_contact_email info) @ '','' @ sql_str (org_address info) @ '','' @
     sql_bool (org_is_active info) @ '','' @ to_string (org_level info) @ '','' @
     sql_str (org_path info) @ '','' @ to_string (org_children_count info) @ '','' @
     sql_str (org_created_at info) @ '','' @ sql_str (org_updated_at info) @ '')''"

definition db_insert_org_tenant_sql :: "org_info \<Rightarrow> string" where
  "db_insert_org_tenant_sql info =
     ''INSERT INTO tenants (tenant_id, name) VALUES ('' @ sql_str (org_tenant_id info) @ '','' @
     sql_str (org_org_name info) @ '') ON CONFLICT (tenant_id) DO UPDATE SET name='' @
     sql_str (org_org_name info) @ '', updated_at=(EXTRACT(EPOCH FROM NOW())::BIGINT)''"

definition db_insert_org :: "'pg pq_exec \<Rightarrow> org_info \<Rightarrow> ('pg, status_code) db_op" where
  "db_insert_org pq info db =
     execute pq (db_insert_org_sql info) (snd (execute pq (db_insert_org_tenant_sql info) db))"

definition db_update_org_db_sql :: "org_info \<Rightarrow> string" where
  "db_update_org_db_sql info =
     ''UPDATE organizations SET parent_id='' @ to_string (org_parent_id info) @ '',tenant_id='' @
     sql_str (org_tenant_id info) @ '',org_name='' @ sql_str (org_org_name info) @
     '',org_type='' @ sql_str (org_org_type info) @ '',contact_name='' @
     sql_str (org_contact_name info) @ '',contact_phone='' @ sql_str (org_contact_phone info) @
     '',contact_email='' @ sql_str (org_contact_email info) @ '',address='' @
     sql_str (org_address info) @ '',is_active='' @ sql_bool (org_is_active info) @ '',level='' @
     to_string (org_level info) @ '',path='' @ sql_str (org_path info) @ '',children_count='' @
     to_string (org_children_count info) @ '',updated_at='' @ sql_str (org_updated_at info) @
     '' WHERE org_id='' @ to_string (org_org_id info)"

definition db_update_org_db :: "'pg pq_exec \<Rightarrow> org_info \<Rightarrow> ('pg, status_code) db_op" where
  "db_update_org_db pq info db = execute pq (db_update_org_db_sql info) db"

definition db_delete_org_db :: "'pg pq_exec \<Rightarrow> int \<Rightarrow> ('pg, status_code) db_op" where
  "db_delete_org_db pq org_id db = execute pq (''DELETE FROM organizations WHERE org_id='' @ to_string org_id) db"

definition db_list_orgs_db :: "'pg pq_exec \<Rightarrow> ('pg, org_info list exn) db_op" where
  "db_list_orgs_db pq db = all_rows org_from_row (query pq ''SELECT * FROM organizations ORDER BY org_id ASC'' db)"

section \<open>Accounts\<close>

definition db_insert_account_sql :: "account_info \<Rightarrow> string" where
  "db_insert_account_sql info =
     ''INSERT INTO accounts (account_id,username,display_name,password_hash,role_code,'' @
     ''org_id,org_name,email,phone,is_active,last_login_at,created_at,updated_at) VALUES ('' @
     to_string (acc_account_id info) @ '','' @ sql_str (acc_username info) @ '','' @
     sql_str (acc_display_name info) @ '','' @ sql_str (acc_password_hash info) @ '','' @
     sql_str (acc_role_code info) @ '','' @ to_string (acc_org_id info) @ '','' @
     sql_str (acc_org_name info) @ '','' @ sql_str (acc_email info) @ '','' @
     sql_str (acc_phone info) @ '','' @ sql_bool (acc_is_active info) @ '','' @
     sql_str (acc_last_login_at info) @ '','' @ sql_str (acc_created_at info) @ '','' @
     sql_str (acc_updated_at info) @ '')''"

definition db_insert_account :: "'pg pq_exec \<Rightarrow> account_info \<Rightarrow> ('pg, status_code) db_op" where
  "db_insert_account pq info db = execute pq (db_insert_account_sql info) db"

definition db_update_account_db_sql :: "account_info \<Rightarrow> string" where
  "db_update_account_db_sql info =
     ''UPDATE accounts SET display_name='' @ sql_str (acc_display_name info) @ '',role_code='' @
     sql_str (acc_role_code info) @ '',org_id='' @ to_string (acc_org_id info) @ '',org_name='' @
     sql_str (acc_org_name info) @ '',email='' @ sql_str (acc_email info) @ '',phone='' @
     sql_str (acc_phone info) @ '',is_active='' @ sql_bool (acc_is_active info) @
     '',updated_at='' @ sql_str (acc_updated_at info) @ '' WHERE account_id='' @
     to_string (acc_account_id info)"

definition db_update_account_db :: "'pg pq_exec \<Rightarrow> account_info \<Rightarrow> ('pg, status_code) db_op" where
  "db_update_account_db pq info db = execute pq (db_update_account_db_sql info) db"

definition db_delete_account_db :: "'pg pq_exec \<Rightarrow> int \<Rightarrow> ('pg, status_code) db_op" where
  "db_delete_account_db pq account_id db =
     execute pq (''DELETE FROM accounts WHERE account_id='' @ to_string account_id) db"

definition db_list_accounts_db :: "'pg pq_exec \<Rightarrow> ('pg, account_info list exn) db_op" where
  "db_list_accounts_db pq db =
     all_rows account_from_row (query pq ''SELECT * FROM accounts ORDER BY account_id ASC'' db)"

section \<open>Maintenance\<close>

definition db_vacuum :: "'pg pq_exec \<Rightarrow> ('pg, status_code) db_op" where
  "db_vacuum pq db = execute pq ''VACUUM'' db"

text \<open>The product of the retention time is an \<^verbatim>\<open>int\<close>: outside its range the behaviour is undefined.\<close>

definition db_clean_expired_data :: "'pg pq_exec \<Rightarrow> int \<Rightarrow> ('pg, status_code exn) db_op" where
  "db_clean_expired_data pq retention_days db =
     (let secs = retention_days * 86400 in
      if secs < int32_min \<or> int32_max < secs then (Inl Undefined_behaviour, db)
      else (Inr OK, exec_ignore pq
        [''DELETE FROM audit_log WHERE created_at < EXTRACT(EPOCH FROM NOW())::BIGINT - '' @ to_string secs,
         ''UPDATE activation_tokens SET revoked=TRUE WHERE expires_at < EXTRACT(EPOCH FROM NOW())::BIGINT''] db))"

text \<open>The backup runs \<^verbatim>\<open>pg_dump\<close> in a shell: what a command line exits with is a parameter.  Neither the connection
  string nor the path is quoted.\<close>

definition backup_command :: "string \<Rightarrow> 'pg database \<Rightarrow> string" where
  "backup_command path db = ''pg_dump '' @ db_conn_string db @ '' > '' @ path"

definition backup_database :: "(string \<Rightarrow> int) \<Rightarrow> string \<Rightarrow> 'pg database \<Rightarrow> status_code" where
  "backup_database system path db = (if system (c_str (backup_command path db)) \<noteq> 0 then STORAGE_WRITE_ERROR else OK)"

end
