(* ===== verification/Persistence.thy ===== *)
theory Persistence
  imports Sql_Crud
begin

text \<open>
  What survives a restart: the structures that the \<^verbatim>\<open>INSERT\<close> statements write, read back by
  the row converters.  The part of PostgreSQL this needs is written out as functions on the
  text of a statement: an \<^verbatim>\<open>INSERT\<close> assigns its values to the columns it names, a literal is
  the text between its quotes, a boolean reads back as \<^verbatim>\<open>t\<close> or \<^verbatim>\<open>f\<close>, every other column has
  its default (\<open>dflt\<close>, a parameter), and \<^verbatim>\<open>SELECT *\<close> returns the columns in the order of the
  table's definition.
\<close>

section \<open>What a statement inserts\<close>

definition after_paren :: "string \<Rightarrow> string" where
  "after_paren s = tl (dropWhile (\<lambda>c. c \<noteq> CHR ''('') s)"

definition insert_columns :: "string \<Rightarrow> string list" where
  "insert_columns stmt = map (dropWhile (\<lambda>c. c = CHR '' ''))
     (getlines CHR '','' (takeWhile (\<lambda>c. c \<noteq> CHR '')'') (after_paren stmt)))"

definition is_sep :: "char \<Rightarrow> bool" where
  "is_sep c \<longleftrightarrow> c = CHR '','' \<or> c = CHR '')''"

text \<open>The text that the server returns for a value that is not a string literal.\<close>

definition plain_text :: "string \<Rightarrow> string" where
  "plain_text v = (if v = ''TRUE'' then ''t'' else if v = ''FALSE'' then ''f'' else v)"

definition read_value :: "string \<Rightarrow> string \<times> string" where
  "read_value s = (case read_sql_str s of
       Some vr \<Rightarrow> vr
     | None \<Rightarrow> (plain_text (takeWhile (\<lambda>c. \<not> is_sep c) s), dropWhile (\<lambda>c. \<not> is_sep c) s))"

fun read_values :: "nat \<Rightarrow> string \<Rightarrow> string list" where
  "read_values 0 s = []"
| "read_values (Suc n) s = (case read_value s of (v, r) \<Rightarrow>
     v # (case r of c # r' \<Rightarrow> if c = CHR '','' then read_values n r' else [] | [] \<Rightarrow> []))"

definition inserted :: "string \<Rightarrow> (string \<times> string) list" where
  "inserted stmt = (let cols = insert_columns stmt in
     zip cols (read_values (length cols) (after_paren (after_paren stmt))))"

definition stored_row :: "(string \<Rightarrow> string) \<Rightarrow> string list \<Rightarrow> string \<Rightarrow> string list" where
  "stored_row dflt ddl stmt = map (\<lambda>c. case map_of (inserted stmt) c of Some v \<Rightarrow> v | None \<Rightarrow> dflt c) (column_names ddl)"

section \<open>Reading the values one by one\<close>

named_theorems row_text \<open>the values of a statement, piece by piece\<close>

lemma read_values_literal [row_text]:
  "read_values (Suc n) (sql_str v @ CHR '','' # r) = v # read_values n r"
  "read_values (Suc n) (sql_str v @ CHR '')'' # r) = [v]"
  using sql_literal.dec_enc [of "CHR '','' # r" v] sql_literal.dec_enc [of "CHR '')'' # r" v]
  by (simp_all add: read_value_def)

declare read_values.simps(2) [simp del]

lemma read_values_plain:
  assumes "\<forall>c \<in> set u. \<not> is_sep c \<and> c \<noteq> CHR 0x27"
  shows "read_values (Suc n) (u @ CHR '','' # r) = plain_text u # read_values n r"
    and "read_values (Suc n) (u @ CHR '')'' # r) = [plain_text u]"
proof -
  have tw: "takeWhile (\<lambda>c. \<not> is_sep c) (u @ d # r) = u" "dropWhile (\<lambda>c. \<not> is_sep c) (u @ d # r) = d # r"
    if "is_sep d" for d using assms that by (simp_all add: takeWhile_append2 dropWhile_append2)
  have none: "read_sql_str (u @ d # r) = None" if "d \<noteq> CHR 0x27" for d
    using assms that by (cases u) auto
  show "read_values (Suc n) (u @ CHR '','' # r) = plain_text u # read_values n r"
    using tw [of "CHR '',''"] none [of "CHR '',''"] by (simp add: read_values.simps(2) read_value_def is_sep_def)
  show "read_values (Suc n) (u @ CHR '')'' # r) = [plain_text u]"
    using tw [of "CHR '')''"] none [of "CHR '')''"] by (simp add: read_values.simps(2) read_value_def is_sep_def)
qed

lemma number_plain: "\<forall>c \<in> set (to_string i). \<not> is_sep c \<and> c \<noteq> CHR 0x27" "plain_text (to_string i) = to_string i"
proof -
  show "\<forall>c \<in> set (to_string i). \<not> is_sep c \<and> c \<noteq> CHR 0x27"
    by (auto simp: is_sep_def is_digit_def char_code_def dest: to_string_chars)
  have "hd (to_string i) \<in> set (to_string i)" by simp
  then have "hd (to_string i) \<noteq> CHR ''T''" "hd (to_string i) \<noteq> CHR ''F''"
    using to_string_chars [of "hd (to_string i)" i] by (auto simp: is_digit_def char_code_def)
  then show "plain_text (to_string i) = to_string i"
    by (auto simp: plain_text_def)
qed

lemma read_values_number [row_text]:
  "read_values (Suc n) (to_string i @ CHR '','' # r) = to_string i # read_values n r"
  "read_values (Suc n) (to_string i @ CHR '')'' # r) = [to_string i]"
  by (simp_all add: read_values_plain number_plain)

lemma read_values_bool [row_text]:
  "read_values (Suc n) (sql_bool b @ CHR '','' # r) = (if b then ''t'' else ''f'') # read_values n r"
  "read_values (Suc n) (sql_bool b @ CHR '')'' # r) = [if b then ''t'' else ''f'']"
  using read_values_plain [of "sql_bool b" n r] by (simp_all add: sql_bool_def is_sep_def plain_text_def)

lemma row_bool_text [simp]: "row_bool (if b then ''t'' else ''f'') = b"
  by (simp add: row_bool_def)

lemma getlines_cons [row_text]:
  "getlines d [] = []"
  "getline_aux d acc [] = (if acc = [] then [] else [rev acc])"
  "getline_aux d acc (c # cs) = (if c = d then rev acc # getline_aux d [] cs else getline_aux d (c # acc) cs)"
  by (simp_all add: getlines_def)

lemmas insert_eval = inserted_def insert_columns_def after_paren_def getlines_def

lemma device_inserted:
  "inserted (db_insert_device_sql d) =
     [(''device_id'', dev_device_id d), (''tenant_id'', dev_tenant_id d), (''product_id'', dev_product_id d),
      (''device_type'', to_string (uint (dev_type d))), (''status'', to_string (uint (dev_network_status d))),
      (''firmware_version'', dev_firmware_version d), (''mac_address'', dev_mac_address d),
      (''model'', dev_model d), (''hardware_uid'', dev_hardware_uid d),
      (''last_heartbeat_at'', to_string (dev_last_heartbeat_at d)),
      (''activated'', if dev_activated d then ''t'' else ''f''),
      (''activated_at'', to_string (dev_activated_at d))]"
  by (simp add: insert_eval db_insert_device_sql_def row_text)

lemma recipe_inserted:
  "inserted (db_insert_recipe_sql r) =
     [(''recipe_id'', rec_recipe_id r), (''recipe_name'', rec_recipe_name r),
      (''device_type'', to_string (uint (rec_device_type r))), (''category'', rec_category r),
      (''is_active'', if rec_is_active r then ''t'' else ''f''), (''version'', to_string (rec_version r)),
      (''description'', rec_description r)]"
  by (simp add: insert_eval db_insert_recipe_sql_def row_text)

lemma firmware_inserted:
  "inserted (db_insert_firmware_sql f) =
     [(''version'', fw_version f), (''product_id'', fw_product_id f), (''download_url'', fw_download_url f),
      (''checksum_sha256'', fw_checksum_sha256 f), (''changelog'', fw_changelog f),
      (''force_upgrade'', if fw_force_upgrade f then ''t'' else ''f''),
      (''created_at'', to_string (fw_created_at f))]"
  by (simp add: insert_eval db_insert_firmware_sql_def row_text)

lemma org_inserted:
  "inserted (db_insert_org_sql g) =
     [(''org_id'', to_string (org_org_id g)), (''parent_id'', to_string (org_parent_id g)),
      (''tenant_id'', org_tenant_id g), (''org_name'', org_org_name g), (''org_type'', org_org_type g),
      (''contact_name'', org_contact_name g), (''contact_phone'', org_contact_phone g),
      (''contact_email'', org_contact_email g), (''address'', org_address g),
      (''is_active'', if org_is_active g then ''t'' else ''f''), (''level'', to_string (org_level g)),
      (''path'', org_path g), (''children_count'', to_string (org_children_count g)),
      (''created_at'', org_created_at g), (''updated_at'', org_updated_at g)]"
  by (simp add: insert_eval db_insert_org_sql_def row_text)

lemma account_inserted:
  "inserted (db_insert_account_sql a) =
     [(''account_id'', to_string (acc_account_id a)), (''username'', acc_username a),
      (''display_name'', acc_display_name a), (''password_hash'', acc_password_hash a),
      (''role_code'', acc_role_code a), (''org_id'', to_string (acc_org_id a)),
      (''org_name'', acc_org_name a), (''email'', acc_email a), (''phone'', acc_phone a),
      (''is_active'', if acc_is_active a then ''t'' else ''f''), (''last_login_at'', acc_last_login_at a),
      (''created_at'', acc_created_at a), (''updated_at'', acc_updated_at a)]"
  by (simp add: insert_eval db_insert_account_sql_def row_text)

text \<open>The time of an order or a fault is a number in a string, written without quotes.\<close>

definition number_text :: "string \<Rightarrow> bool" where
  "number_text t \<longleftrightarrow> t \<noteq> '''' \<and> list_all is_digit t"

lemma number_text_plain:
  assumes "number_text t"
  shows "\<forall>c \<in> set t. \<not> is_sep c \<and> c \<noteq> CHR 0x27" "plain_text t = t"
proof -
  show "\<forall>c \<in> set t. \<not> is_sep c \<and> c \<noteq> CHR 0x27"
    using assms by (auto simp: number_text_def list_all_iff is_sep_def is_digit_def char_code_def)
  show "plain_text t = t"
    using assms by (auto simp: number_text_def plain_text_def is_digit_def char_code_def)
qed

lemma read_values_number_text:
  "number_text t \<Longrightarrow> read_values (Suc n) (t @ CHR '','' # r) = t # read_values n r"
  by (simp add: read_values_plain number_text_plain)

lemma order_inserted:
  assumes "number_text (ord_created_at o')"
  shows "inserted (db_insert_order_sql o') =
     [(''order_id'', ord_order_id o'), (''tenant_id'', ord_tenant_id o'), (''device_id'', ord_device_id o'),
      (''recipe_id'', ord_recipe_id o'), (''recipe_name'', ord_recipe_name o'),
      (''cup_size'', ord_cup_size o'), (''quantity'', to_string (ord_quantity o')),
      (''total_amount'', to_string (ord_total_amount o')), (''payment_method'', ord_payment_method o'),
      (''status'', to_string (uint (ord_status o'))), (''created_at'', ord_created_at o'),
      (''failure_reason'', ord_failure_reason o')]"
  using assms by (simp add: insert_eval db_insert_order_sql_def row_text read_values_number_text)

lemma fault_inserted:
  assumes "number_text (flt_timestamp f)"
  shows "inserted (db_insert_fault_sql f) =
     [(''tenant_id'', flt_tenant_id f), (''device_id'', flt_device_id f),
      (''code'', to_string (uint (flt_code f))), (''level'', to_string (fault_level_int (flt_level f))),
      (''description'', flt_description f), (''created_at'', flt_timestamp f),
      (''sensor_snapshot'', flt_sensor_snapshot f)]"
  using assms by (simp add: insert_eval db_insert_fault_sql_def row_text read_values_number_text)

section \<open>What is read back\<close>

definition is_int32 :: "int \<Rightarrow> bool" where
  "is_int32 i \<longleftrightarrow> int32_min \<le> i \<and> i \<le> int32_max"

definition is_int64 :: "int \<Rightarrow> bool" where
  "is_int64 i \<longleftrightarrow> int64_min \<le> i \<and> i \<le> int64_max"

lemma int_texts [simp]:
  "is_int32 i \<Longrightarrow> stoi (to_string i) = Inr i"
  "is_int64 i \<Longrightarrow> stoll (to_string i) = Inr i"
  by (simp_all add: is_int32_def is_int64_def stoi_to_string0 stoll_to_string0)



text \<open>An organisation comes back exactly as it was inserted.\<close>

theorem org_row_roundtrip:
  assumes "is_int32 (org_org_id g)" "is_int32 (org_parent_id g)" "is_int32 (org_level g)"
    "is_int32 (org_children_count g)"
  shows "org_from_row (stored_row dflt create_organizations_table_ddl (db_insert_org_sql g)) = Inr g"
  using assms
  by (simp add: stored_row_def org_inserted organizations_columns org_from_row_def row_at_def)

lemma org_row_roundtrip_witness:
  "org_from_row (stored_row (\<lambda>_. ''0'') create_organizations_table_ddl
     (db_insert_org_sql (new_org_info\<lparr>org_org_id := 7, org_tenant_id := ''acme''\<rparr>)))
   = Inr (new_org_info\<lparr>org_org_id := 7, org_tenant_id := ''acme''\<rparr>)"
  by (rule org_row_roundtrip) (simp_all add: new_org_info_def is_int32_def int32_min_def int32_max_def)

text \<open>An account comes back exactly as it was inserted, its password hash included.\<close>

theorem account_row_roundtrip:
  assumes "is_int32 (acc_account_id a)" "is_int32 (acc_org_id a)"
  shows "account_from_row (stored_row dflt create_accounts_table_ddl (db_insert_account_sql a)) = Inr a"
  using assms
  by (simp add: stored_row_def account_inserted accounts_columns account_from_row_def row_at_def)

lemma account_row_roundtrip_witness:
  "account_from_row (stored_row (\<lambda>_. ''0'') create_accounts_table_ddl
     (db_insert_account_sql (new_account_info\<lparr>acc_username := ''root''\<rparr>))) = Inr (new_account_info\<lparr>acc_username := ''root''\<rparr>)"
  by (rule account_row_roundtrip) (simp_all add: new_account_info_def is_int32_def int32_min_def int32_max_def)

text \<open>A recipe comes back without its steps and its cup sizes, which no statement writes.\<close>

theorem recipe_row_loses_steps:
  assumes "is_int32 (rec_version r)"
  shows "recipe_from_row (stored_row dflt create_recipes_table_ddl (db_insert_recipe_sql r))
       = Inr (r\<lparr>rec_steps := [], rec_cup_sizes := []\<rparr>)"
  using assms
  by (simp add: stored_row_def recipe_inserted recipes_columns recipe_from_row_def stoi_enum new_recipe_def)

lemma recipe_row_loses_steps_witness:
  "recipe_from_row (stored_row (\<lambda>_. ''0'') create_recipes_table_ddl (db_insert_recipe_sql new_recipe)) = Inr new_recipe"
  by (subst recipe_row_loses_steps) (simp_all add: new_recipe_def is_int32_def int32_min_def int32_max_def)

text \<open>A firmware comes back without its file name and size.\<close>

theorem firmware_row_roundtrip:
  assumes "is_int64 (fw_created_at f)"
  shows "firmware_from_row (stored_row dflt create_firmwares_table_ddl (db_insert_firmware_sql f))
       = Inr (f\<lparr>fw_file_name := '''', fw_file_size := 0\<rparr>)"
  using assms
  by (simp add: stored_row_def firmware_inserted firmwares_columns firmware_from_row_def row_at_def new_firmware_version_def)

lemma firmware_row_roundtrip_witness:
  "firmware_from_row (stored_row (\<lambda>_. ''0'') create_firmwares_table_ddl
     (db_insert_firmware_sql (new_firmware_version\<lparr>fw_version := ''1.0''\<rparr>))) = Inr (new_firmware_version\<lparr>fw_version := ''1.0''\<rparr>)"
  by (subst firmware_row_roundtrip) (simp_all add: new_firmware_version_def is_int64_def int64_min_def int64_max_def)

text \<open>An order does not come back: the converter takes its columns one place too early.
  The recipe's name is read as the cup size, the cup size as the quantity, the quantity as the
  amount, the amount as the payment method, the status as the failure reason, and the status
  is whatever number the payment method starts with (none: a pending order).\<close>

theorem order_row_shifted:
  assumes "number_text (ord_created_at o')"
  shows "order_from_row (stored_row dflt create_orders_table_ddl (db_insert_order_sql o'))
       = o'\<lparr>ord_cup_size := ord_recipe_name o', ord_quantity := safe_stoi (ord_cup_size o'),
            ord_total_amount := safe_stoi (to_string (ord_quantity o')),
            ord_payment_method := to_string (ord_total_amount o'),
            ord_status := of_int (safe_stoi (ord_payment_method o')),
            ord_failure_reason := to_string (uint (ord_status o')),
            ord_recipe_name := ord_failure_reason o', ord_expired_at := ''''\<rparr>"
  using assms
  by (simp add: stored_row_def order_inserted orders_columns order_from_row_def new_order_info_def)

lemma order_row_shifted_witness:
  "ord_cup_size (order_from_row (stored_row (\<lambda>_. ''0'') create_orders_table_ddl
     (db_insert_order_sql (new_order_info\<lparr>ord_recipe_name := ''Latte'', ord_created_at := ''1''\<rparr>)))) = ''Latte''"
  by (subst order_row_shifted) (simp_all add: number_text_def is_digit_def char_code_def)

text \<open>A fault that is inserted as an error is read back as a warning: levels are written as
  0 and 1 and read as errors from 3 up.  Everything else of the fault survives.\<close>

theorem fault_row_loses_level:
  assumes "number_text (flt_timestamp f)"
  shows "fault_from_row now (stored_row dflt create_faults_table_ddl (db_insert_fault_sql f))
       = Inr (f\<lparr>flt_level := Level_WARNING\<rparr>)"
proof -
  have "stoi (to_string (fault_level_int l)) = Inr (fault_level_int l)" for l
    by (cases l) (simp_all add: stoi_to_string0 int32_min_def int32_max_def)
  moreover have "\<not> 3 \<le> fault_level_int l" for l by (cases l) simp_all
  moreover have "flt_timestamp f \<noteq> ''f''" using assms by (auto simp: number_text_def is_digit_def char_code_def)
  ultimately show ?thesis using assms
    by (simp add: stored_row_def fault_inserted faults_columns fault_from_row_def stoi_enum number_text_def)
qed

lemma fault_row_loses_level_witness:
  "fault_from_row 0 (stored_row (\<lambda>_. ''f'') create_faults_table_ddl
     (db_insert_fault_sql (new_fault_info\<lparr>flt_level := Level_ERROR, flt_timestamp := ''1700000000''\<rparr>)))
   = Inr (new_fault_info\<lparr>flt_timestamp := ''1700000000''\<rparr>)"
  by (subst fault_row_loses_level) (simp_all add: new_fault_info_def number_text_def is_digit_def char_code_def)

end
