(* ===== verification/Parsed_Topic.thy ===== *)
theory Parsed_Topic
  imports Dev_Types
begin

text \<open>
  \<^verbatim>\<open>ParsedTopic\<close> and \<^verbatim>\<open>MqttMessage\<close> of \<^verbatim>\<open>include/dev_sys/common/types.h\<close>: the topic of a
  received message is split at its slashes, with the broker's prefix \<^verbatim>\<open>$T/{tenant}\<close> taken off
  when it is there, and \<^verbatim>\<open>build_downlink\<close> writes the topic of a message to a device.
\<close>

record parsed_topic =
  pt_raw_topic :: string
  pt_tenant_id :: string
  pt_product_id :: string
  pt_device_id :: string
  pt_message_type :: string
  pt_command :: string
  pt_valid :: bool

definition new_parsed_topic :: parsed_topic where
  "new_parsed_topic = \<lparr>pt_raw_topic = '''', pt_tenant_id = '''', pt_product_id = '''',
     pt_device_id = '''', pt_message_type = '''', pt_command = '''', pt_valid = False\<rparr>"

definition nth_or_empty :: "string list \<Rightarrow> nat \<Rightarrow> string" where
  "nth_or_empty parts i = (if i < length parts then parts ! i else '''')"

definition parse_topic :: "string \<Rightarrow> parsed_topic" where
  "parse_topic topic = (let pt0 = new_parsed_topic\<lparr>pt_raw_topic := topic\<rparr>;
       parts = getlines CHR ''/'' topic
     in if length parts < 3 then pt0
        else (let broker_prefix = (parts ! 0 = ''$T'' \<and> 5 \<le> length parts);
                  pt1 = (if broker_prefix then pt0\<lparr>pt_tenant_id := parts ! 1\<rparr> else pt0);
                  offset = (if broker_prefix then 2 else 0);
                  pt2 = pt1\<lparr>pt_device_id := parts ! offset,
                            pt_message_type := nth_or_empty parts (offset + 2)\<rparr>;
                  pt3 = (if offset + 3 < length parts then pt2\<lparr>pt_command := parts ! (offset + 3)\<rparr> else pt2);
                  ver = nth_or_empty parts (offset + 1)
              in pt3\<lparr>pt_valid := ver = ''v1'' \<and> pt_device_id pt3 \<noteq> '''' \<and> pt_message_type pt3 \<noteq> ''''\<rparr>))"

definition build_downlink :: "string \<Rightarrow> string \<Rightarrow> string \<Rightarrow> string \<Rightarrow> string \<Rightarrow> string" where
  "build_downlink tenant_id product_id device_id type sub =
     (let t = (if tenant_id = '''' then ''default'' else tenant_id);
          topic = ''$T/'' @ t @ ''/'' @ device_id @ ''/v1/'' @ type
      in if sub \<noteq> '''' then topic @ ''/'' @ sub else topic)"

record mqtt_message =
  msg_topic :: string
  msg_payload :: string
  msg_parsed :: parsed_topic

section \<open>Segments\<close>

lemma getlines_slash [simp]: "getlines CHR ''/'' (CHR ''/'' # s) = [] # getlines CHR ''/'' s"
  using getlines_segment [of "CHR ''/''" "[]" s] by simp

lemma getlines_const_segment:
  "CHR ''/'' \<notin> set u \<Longrightarrow> getlines CHR ''/'' (u @ CHR ''/'' # s) = u # getlines CHR ''/'' s"
  by simp

lemma getlines_downlink:
  assumes "CHR ''/'' \<notin> set t" "CHR ''/'' \<notin> set d" "CHR ''/'' \<notin> set ty"
  shows "getlines CHR ''/'' (''$T/'' @ t @ ''/'' @ d @ ''/v1/'' @ ty @ CHR ''/'' # s)
       = [''$T'', t, d, ''v1'', ty] @ getlines CHR ''/'' s"
    and "ty \<noteq> [] \<Longrightarrow> getlines CHR ''/'' (''$T/'' @ t @ ''/'' @ d @ ''/v1/'' @ ty)
       = [''$T'', t, d, ''v1'', ty]"
  using getlines_const_segment [of "''$T''"] getlines_const_segment [of "''v1''"] assms
  by (simp_all add: getlines_last)



text \<open>A topic is accepted only in the two documented shapes: its version segment is
  \<^verbatim>\<open>v1\<close>, and its device and type segments are not empty; a topic of fewer than three segments
  is never valid.\<close>

theorem parse_topic_valid_iff:
  "pt_valid (parse_topic topic) \<longleftrightarrow>
     (let parts = getlines CHR ''/'' topic in
       3 \<le> length parts \<and>
       (if parts ! 0 = ''$T'' \<and> 5 \<le> length parts
        then parts ! 2 \<noteq> '''' \<and> parts ! 3 = ''v1'' \<and> parts ! 4 \<noteq> ''''
        else parts ! 0 \<noteq> '''' \<and> parts ! 1 = ''v1'' \<and> parts ! 2 \<noteq> ''''))"
  by (auto simp: parse_topic_def new_parsed_topic_def nth_or_empty_def Let_def eval_nat_numeral)

lemma parse_topic_uplink:
  assumes "CHR ''/'' \<notin> set d" "CHR ''/'' \<notin> set ty" "d \<noteq> ''''" "ty \<noteq> ''''"
  shows "parse_topic (d @ ''/v1/'' @ ty) = new_parsed_topic\<lparr>pt_raw_topic := d @ ''/v1/'' @ ty,
     pt_device_id := d, pt_message_type := ty, pt_valid := True\<rparr>"
proof -
  have "getlines CHR ''/'' (d @ ''/v1/'' @ ty) = [d, ''v1'', ty]"
    using getlines_const_segment [of "''v1''"] assms by (simp add: getlines_last)
  with assms show ?thesis
    by (simp add: parse_topic_def new_parsed_topic_def nth_or_empty_def Let_def)
qed

end
