(* ===== verification/Ulid.thy ===== *)
theory Ulid
  imports Dev_Types "HOL-Library.List_Lexorder" "HOL-Library.Char_ord"
begin

text \<open>
  \<^verbatim>\<open>UlidGenerator\<close> of \<^verbatim>\<open>include/dev_sys/common/types.h\<close>, at the width of its words: 48 bits of
  time and 80 random bits written in Crockford's base 32.  The clock and the random bytes are
  arguments.
\<close>

unbundle bit_operations_syntax

definition crockford :: string where
  "crockford = ''0123456789ABCDEFGHJKMNPQRSTVWXYZ''"

definition encode_time :: "string \<Rightarrow> 64 word \<Rightarrow> string" where
  "encode_time s ms = (let v = ms AND 0xFFFFFFFFFFFF in
     s @ map (\<lambda>i. let shift = 45 - i * 5 in crockford ! unat (drop_bit shift v AND 0x1F)) [0..<10])"

definition random_group :: "8 word list \<Rightarrow> nat \<Rightarrow> 16 word" where
  "random_group r i = (let bit_off = i * 5; byte_off = bit_off div 8; bit_pos = bit_off mod 8;
       w = push_bit 8 (ucast (r ! byte_off)) OR (if byte_off + 1 < 10 then ucast (r ! (byte_off + 1)) else 0)
     in drop_bit (11 - bit_pos) w AND 0x1F)"

definition encode_random :: "string \<Rightarrow> 8 word list \<Rightarrow> string" where
  "encode_random s r = s @ map (\<lambda>i. crockford ! unat (random_group r i)) [0..<16]"

definition ulid_generate :: "64 word \<Rightarrow> 8 word list \<Rightarrow> string" where
  "ulid_generate ms rand_bytes = encode_random (encode_time [] ms) rand_bytes"

section \<open>The alphabet\<close>

lemma length_crockford [simp]: "length crockford = 32"
  by (simp add: crockford_def)

lemma distinct_crockford: "distinct crockford"
  by (simp add: crockford_def)

lemma sorted_crockford: "sorted_wrt (<) crockford"
  by (simp add: crockford_def less_char_def)

lemma crockford_nth_eq: "i < 32 \<Longrightarrow> j < 32 \<Longrightarrow> crockford ! i = crockford ! j \<longleftrightarrow> i = j"
  using distinct_crockford by (simp add: nth_eq_iff_index_eq)

lemma crockford_nth_less: "i < j \<Longrightarrow> j < 32 \<Longrightarrow> crockford ! i < crockford ! j"
  using sorted_crockford by (simp add: sorted_wrt_iff_nth_less)

lemma and_1F: "unat (w AND 0x1F :: 'a :: len word) < 32" if "5 \<le> LENGTH('a)"
proof -
  have "(w AND 0x1F) = take_bit 5 w" by (simp add: take_bit_eq_mask mask_eq_exp_minus_1)
  then have "unat (w AND 0x1F) = take_bit 5 (unat w)" by (simp add: unsigned_take_bit_eq)
  then show ?thesis by (simp add: take_bit_eq_mod)
qed

lemma random_group_less: "unat (random_group r i) < 32"
  unfolding random_group_def Let_def by (rule and_1F) simp

section \<open>The time part\<close>

text \<open>The digits of a number in base 32, the most significant one first.\<close>

fun digits32 :: "nat \<Rightarrow> nat \<Rightarrow> nat list" where
  "digits32 0 n = []"
| "digits32 (Suc k) n = (n div 32 ^ k) # digits32 k (n mod 32 ^ k)"

lemma digits32_strict_mono:
  "m < n \<Longrightarrow> n < 32 ^ k \<Longrightarrow> map ((!) crockford) (digits32 k m) < map ((!) crockford) (digits32 k n)"
proof (induction k arbitrary: m n)
  case (Suc k)
  let ?b = "32 ^ k :: nat"
  from Suc.prems have le: "m div ?b \<le> n div ?b" by (simp add: div_le_mono)
  show ?case
  proof (cases "m div ?b = n div ?b")
    case True
    with Suc.prems(1) have "m mod ?b < n mod ?b"
      by (metis div_mult_mod_eq nat_add_left_cancel_less)
    moreover have "n mod ?b < ?b" by simp
    ultimately show ?thesis using Suc.IH True by simp
  next
    case False
    moreover have "n div ?b < 32" using Suc.prems(2) by (simp add: less_mult_imp_div_less)
    ultimately show ?thesis using le crockford_nth_less [of "m div ?b" "n div ?b"] by simp
  qed
qed simp

lemma unat_group: "unat (drop_bit s v AND 0x1F :: 64 word) = unat v div 2 ^ s mod 32"
proof -
  have "(drop_bit s v AND 0x1F) = take_bit 5 (drop_bit s v)"
    by (simp add: take_bit_eq_mask mask_eq_exp_minus_1)
  then have "unat (drop_bit s v AND 0x1F) = take_bit 5 (drop_bit s (unat v))"
    by (simp only: unsigned_take_bit_eq unat_drop_bit_eq)
  then show ?thesis by (simp only: take_bit_eq_mod drop_bit_eq_div) simp
qed

lemma unat_mask48: "unat (ms AND 0xFFFFFFFFFFFF :: 64 word) = unat ms mod 2 ^ 48"
proof -
  have "(ms AND 0xFFFFFFFFFFFF) = take_bit 48 ms"
    by (simp add: take_bit_eq_mask mask_eq_exp_minus_1)
  then have "unat (ms AND 0xFFFFFFFFFFFF) = take_bit 48 (unat ms)"
    by (simp only: unsigned_take_bit_eq)
  then show ?thesis by (simp only: take_bit_eq_mod)
qed

lemma length_digits32 [simp]: "length (digits32 k n) = k"
  by (induction k arbitrary: n) simp_all

lemma mod_mult_div: "(n mod (a * b)) div a = n div a mod (b :: nat)"
proof (cases "a = 0")
  case False
  then show ?thesis by (simp add: mod_mult2_eq)
qed simp

lemma nth_digits32: "n < 32 ^ k \<Longrightarrow> i < k \<Longrightarrow> digits32 k n ! i = n div 32 ^ (k - 1 - i) mod 32"
proof (induction k arbitrary: n i)
  case (Suc k)
  show ?case
  proof (cases i)
    case 0
    with Suc.prems show ?thesis by (simp add: less_mult_imp_div_less)
  next
    case (Suc j)
    define a b where "a = (32 :: nat) ^ (k - 1 - j)" and "b = (32 :: nat) ^ Suc j"
    have ab: "32 ^ k = a * b"
      using Suc Suc.prems(2) by (simp only: a_def b_def power_add [symmetric]) simp
    have "n mod (a * b) < 32 ^ k" by (simp add: ab [symmetric])
    then have "digits32 (Suc k) n ! i = n mod (a * b) div a mod 32"
      using Suc Suc.prems(2) Suc.IH [of "n mod (a * b)" j] by (simp add: ab a_def)
    also have "\<dots> = n div a mod b mod 32" by (simp only: mod_mult_div)
    also have "\<dots> = n div a mod 32" by (rule mod_mod_cancel) (simp add: b_def)
    finally show ?thesis using Suc by (simp add: a_def)
  qed
qed simp

lemma encode_time_digits:
  "encode_time [] ms = map ((!) crockford) (digits32 10 (unat ms mod 2 ^ 48))"
proof -
  have "n div 2 ^ (45 - i * 5) mod 32 = digits32 10 n ! i" if "i < 10" "n < 2 ^ 48" for i n :: nat
  proof -
    have "(2 :: nat) ^ (45 - i * 5) = (2 ^ 5) ^ (9 - i)"
      by (simp only: power_mult [symmetric]) (simp add: algebra_simps)
    moreover have "n < 32 ^ 10" using that(2) by simp
    ultimately show ?thesis using that(1) nth_digits32 [of n 10 i] by simp
  qed
  then show ?thesis
    by (intro nth_equalityI) (simp_all add: encode_time_def Let_def unat_group unat_mask48)
qed

section \<open>The random part\<close>

text \<open>
  Bit \<open>t\<close> of byte \<open>b\<close> is bit \<open>8 * b + (7 - t)\<close> of the 80, counted from the left, and that
  one is bit \<open>4 - j mod 5\<close> of group \<open>j div 5\<close>.
\<close>

lemma bit_random_group:
  assumes "s < 5"
  shows "bit (random_group r i) s = (let n = s + 11 - i * 5 mod 8; b = i * 5 div 8 in
     if n < 8 then b + 1 < 10 \<and> bit (r ! (b + 1)) n else n < 16 \<and> bit (r ! b) (n - 8))"
proof -
  have m: "(0x1F :: 16 word) = mask 5" by (simp add: mask_eq_exp_minus_1)
  have "i * 5 mod 8 < 8" by simp
  then have le: "i * 5 mod 8 \<le> 11" by linarith
  then have "11 - i * 5 mod 8 + s = s + 11 - i * 5 mod 8" by simp
  moreover have "\<not> bit w n" if "8 \<le> n" for w :: "8 word" and n
    using that bit_imp_le_length [of w n] by auto
  ultimately show ?thesis using assms
    by (auto simp: random_group_def Let_def m bit_simps intro: less_imp_diff_less)
qed

lemma random_group_bits:
  assumes "b < 10" and "t < 8"
  defines "j \<equiv> 8 * b + (7 - t)"
  shows "bit (random_group r (j div 5)) (4 - j mod 5) = bit (r ! b) t"
proof -
  define m p q where "m = j mod 5" and "p = j div 5 * 5 mod 8" and "q = j div 5 * 5 div 8"
  have j: "j = 8 * q + p + m" by (simp add: m_def p_def q_def)
  have m: "m < 5" and p: "p < 8" by (simp_all add: m_def p_def)
  have e: "8 * b + 7 = 8 * q + p + m + t" using j assms(2) by (simp add: j_def)
  have g: "bit (random_group r (j div 5)) (4 - m) = (let n = 15 - m - p in
     if n < 8 then q + 1 < 10 \<and> bit (r ! (q + 1)) n else n < 16 \<and> bit (r ! q) (n - 8))"
    using bit_random_group [of "4 - m" r "j div 5"] m by (simp add: p_def q_def Let_def)
  show ?thesis
  proof (cases "p + m < 8")
    case True
    with e assms(2) have b: "b = q" by linarith
    with e True have "15 - m - p - 8 = t" "\<not> 15 - m - p < 8" "15 - m - p < 16" by linarith+
    with b g show ?thesis by (simp add: m_def)
  next
    case False
    with e m p assms(2) have b: "b = q + 1" by linarith
    with e have "15 - m - p = t" by linarith
    with b g assms show ?thesis by (simp add: m_def)
  qed
qed

lemma encode_random_inject:
  assumes "length r = 10" "length r' = 10" and eq: "encode_random s r = encode_random s r'"
  shows "r = r'"
proof (rule nth_equalityI)
  have g: "random_group r i = random_group r' i" if "i < 16" for i
  proof -
    have "crockford ! unat (random_group r i) = crockford ! unat (random_group r' i)"
      using eq that by (auto simp: encode_random_def)
    then show ?thesis by (simp add: crockford_nth_eq random_group_less word_unat_eq_iff)
  qed
  fix b assume "b < length r"
  then have b: "b < 10" using assms(1) by simp
  show "r ! b = r' ! b"
  proof (rule bit_word_eqI)
    fix t assume "t < LENGTH(8)"
    then have t: "t < 8" by simp
    have "(8 * b + (7 - t)) div 5 < 16" using b t by simp
    from g [OF this] show "bit (r ! b) t = bit (r' ! b) t"
      using random_group_bits [OF b t, of r] random_group_bits [OF b t, of r'] by metis
  qed
qed (use assms in simp)

section \<open>Identifiers\<close>

lemma length_encode_time [simp]: "length (encode_time s ms) = length s + 10"
  by (simp add: encode_time_def Let_def)

text \<open>C29. A generated identifier has 26 characters, all of Crockford's alphabet (so it is fit
  to stand in a topic segment or an SQL literal).\<close>

theorem ulid_shape:
  "length (ulid_generate ms r) = 26 \<and> set (ulid_generate ms r) \<subseteq> set crockford"
proof
  show "length (ulid_generate ms r) = 26"
    by (simp add: ulid_generate_def encode_random_def)
  have "set (encode_time [] ms) \<subseteq> set crockford"
    by (auto simp: encode_time_def Let_def and_1F)
  then show "set (ulid_generate ms r) \<subseteq> set crockford"
    by (auto simp: ulid_generate_def encode_random_def random_group_less)
qed

text \<open>Two identifiers are equal only when they were made from the same millisecond (modulo
  the 48 bits kept) and the same ten random bytes: no two inputs collide.\<close>

theorem ulid_inject:
  assumes "length r = 10" "length r' = 10" "ulid_generate ms r = ulid_generate ms' r'"
  shows "unat ms mod 2 ^ 48 = unat ms' mod 2 ^ 48 \<and> r = r'"
proof -
  from assms(3) have t: "encode_time [] ms = encode_time [] ms'" and "encode_random [] r = encode_random [] r'"
    by (simp_all add: ulid_generate_def encode_random_def append_eq_append_conv)
  with assms(1,2) have "r = r'" by (blast intro: encode_random_inject)
  moreover have "unat ms mod 2 ^ 48 = unat ms' mod 2 ^ 48"
  proof (rule ccontr)
    let ?m = "unat ms mod 2 ^ 48" and ?n = "unat ms' mod 2 ^ 48"
    assume "?m \<noteq> ?n"
    moreover have "?m < 32 ^ 10" "?n < 32 ^ 10"
      by (rule order.strict_trans [of _ "2 ^ 48"]; simp)+
    ultimately show False
      using t digits32_strict_mono [of ?m ?n 10] digits32_strict_mono [of ?n ?m 10]
      by (auto simp: encode_time_digits neq_iff)
  qed
  ultimately show ?thesis by simp
qed

lemma ulid_inject_witness:
  "ulid_generate 1700000000000 (replicate 10 0) \<noteq> ulid_generate 1700000000000 (replicate 10 1)"
  using ulid_inject [of "replicate 10 0" "replicate 10 1" 1700000000000 1700000000000] by auto

text \<open>Identifiers sort by the time they were made: an identifier of an earlier millisecond
  is lexicographically smaller, whatever the random bytes, until the 48-bit clock wraps.\<close>

theorem ulid_sortable:
  assumes "unat ms < unat ms'" and "unat ms' < 2 ^ 48"
  shows "ulid_generate ms r < ulid_generate ms' r'"
proof -
  have "unat ms' < 32 ^ 10" using assms(2) by simp
  then have "encode_time [] ms < encode_time [] ms'"
    using digits32_strict_mono [OF assms(1), of 10] assms by (simp add: encode_time_digits)
  moreover have "length (encode_time [] ms) = length (encode_time [] ms')" by simp
  ultimately show ?thesis
    unfolding ulid_generate_def encode_random_def
    by (simp add: list_less_def lexord_sufI)
qed

lemma ulid_sortable_witness:
  "ulid_generate 1700000000000 (replicate 10 255) < ulid_generate 1700000000001 (replicate 10 0)"
  by (rule ulid_sortable) simp_all

end
