(* ===== verification/Order_Manager.thy ===== *)
theory Order_Manager
  imports Sql_Crud "HOL-Library.Multiset"
begin

text \<open>
  \<^verbatim>\<open>OrderManager\<close> of \<^verbatim>\<open>src/app/order/order_manager.cpp\<close>: a bounded queue of orders, the one
  order being brewed, and the history.  The database pointer is an optional database that the
  operations thread; \<^verbatim>\<open>sync_status_to_cloud\<close> and \<^verbatim>\<open>sync_orders_batch\<close> are stubs that return
  \<^verbatim>\<open>OK\<close> in the source and leave no trace here.
\<close>

section \<open>State and operations\<close>

record order_manager =
  om_order_queue :: "order_info list"
  om_current_order :: "order_info option"
  om_history_orders :: "order_info list"

definition new_order_manager :: order_manager where
  "new_order_manager = \<lparr>om_order_queue = [], om_current_order = None, om_history_orders = []\<rparr>"

definition order_has_id :: "string \<Rightarrow> order_info \<Rightarrow> bool" where
  "order_has_id order_id o' \<longleftrightarrow> ord_order_id o' = order_id"

definition is_current :: "string \<Rightarrow> order_manager \<Rightarrow> bool" where
  "is_current order_id s = (case om_current_order s of None \<Rightarrow> False | Some o' \<Rightarrow> ord_order_id o' = order_id)"

definition om_create_order ::
  "'pg pq_exec \<Rightarrow> order_info \<Rightarrow> order_manager \<times> 'pg database option \<Rightarrow> status_code \<times> order_manager \<times> 'pg database option" where
  "om_create_order pq ord st = (case st of (s, db) \<Rightarrow>
     if ORDER_MAX_QUEUE_DEPTH \<le> length (om_order_queue s) then (ORDER_QUEUE_FULL, s, db)
     else (OK, s\<lparr>om_order_queue := om_order_queue s @ [ord]\<rparr>, db_do (db_insert_order pq ord) db))"

definition om_cancel_order :: "string \<Rightarrow> order_manager \<Rightarrow> status_code \<times> order_manager" where
  "om_cancel_order order_id s =
     (if is_current order_id s then (ORDER_INVALID_STATE, s)
      else (case List.find (order_has_id order_id) (om_order_queue s) of
          None \<Rightarrow> (ORDER_NOT_FOUND, s)
        | Some o' \<Rightarrow> (OK, s\<lparr>om_order_queue := erase_first (order_has_id order_id) (om_order_queue s),
                            om_history_orders := om_history_orders s @ [o'\<lparr>ord_status := CANCELLED\<rparr>]\<rparr>)))"

definition om_confirm_payment :: "string \<Rightarrow> order_manager \<Rightarrow> status_code \<times> order_manager" where
  "om_confirm_payment order_id s =
     (case List.find (order_has_id order_id) (om_order_queue s) of
        None \<Rightarrow> (ORDER_NOT_FOUND, s)
      | Some _ \<Rightarrow> (OK, s\<lparr>om_order_queue :=
            modify_first (order_has_id order_id) (\<lambda>o'. o'\<lparr>ord_status := PAID\<rparr>) (om_order_queue s)\<rparr>))"

text \<open>The check is a stub that accepts every order; its failure branch is kept.\<close>

definition run_pre_brew_check :: "order_info \<Rightarrow> status_code" where
  "run_pre_brew_check ord = OK"

definition om_start_brewing :: "string \<Rightarrow> order_manager \<Rightarrow> status_code \<times> order_manager" where
  "om_start_brewing order_id s =
     (if om_current_order s \<noteq> None then (ORDER_INVALID_STATE, s)
      else (case List.find (order_has_id order_id) (om_order_queue s) of
          None \<Rightarrow> (ORDER_NOT_FOUND, s)
        | Some o' \<Rightarrow> (let check = run_pre_brew_check o';
                           q = erase_first (order_has_id order_id) (om_order_queue s) in
             if check \<noteq> OK then (check, s\<lparr>om_order_queue := q\<rparr>)
             else (OK, s\<lparr>om_current_order := Some (o'\<lparr>ord_status := BREWING\<rparr>), om_order_queue := q\<rparr>))))"

definition om_complete_brewing :: "string \<Rightarrow> order_manager \<Rightarrow> status_code \<times> order_manager" where
  "om_complete_brewing order_id s =
     (case om_current_order s of
        None \<Rightarrow> (ORDER_NOT_FOUND, s)
      | Some o' \<Rightarrow> if ord_order_id o' \<noteq> order_id then (ORDER_NOT_FOUND, s)
          else (OK, s\<lparr>om_history_orders := om_history_orders s @ [o'\<lparr>ord_status := COMPLETED\<rparr>],
                      om_current_order := None\<rparr>))"

definition om_fail_brewing :: "string \<Rightarrow> string \<Rightarrow> order_manager \<Rightarrow> status_code \<times> order_manager" where
  "om_fail_brewing order_id reason s =
     (case om_current_order s of
        None \<Rightarrow> (ORDER_NOT_FOUND, s)
      | Some o' \<Rightarrow> if ord_order_id o' \<noteq> order_id then (ORDER_NOT_FOUND, s)
          else (OK, s\<lparr>om_history_orders := om_history_orders s @
                        [o'\<lparr>ord_status := FAILED, ord_failure_reason := reason\<rparr>],
                      om_current_order := None\<rparr>))"

definition om_emergency_stop :: "order_manager \<Rightarrow> status_code \<times> order_manager" where
  "om_emergency_stop s = (OK, if om_current_order s \<noteq> None then s\<lparr>om_current_order := None\<rparr> else s)"

definition sync_status_to_cloud :: "string \<Rightarrow> status_code" where
  "sync_status_to_cloud order_id = OK"

definition sync_orders_batch :: "order_manager \<Rightarrow> status_code" where
  "sync_orders_batch s = OK"

definition om_get_order :: "string \<Rightarrow> order_manager \<Rightarrow> order_info option" where
  "om_get_order order_id s =
     (if is_current order_id s then om_current_order s
      else List.find (order_has_id order_id) (om_order_queue s))"

definition om_pending_orders :: "order_manager \<Rightarrow> order_info list" where
  "om_pending_orders s = om_order_queue s"

definition om_queue_depth :: "order_manager \<Rightarrow> int" where
  "om_queue_depth s = int (length (om_order_queue s))"

definition om_list_all_orders :: "order_manager \<Rightarrow> order_info list" where
  "om_list_all_orders s = (case om_current_order s of None \<Rightarrow> [] | Some o' \<Rightarrow> [o']) @
     om_order_queue s @ om_history_orders s"

definition om_total_count :: "order_manager \<Rightarrow> int" where
  "om_total_count s = int (length (om_order_queue s)) + int (length (om_history_orders s)) +
     (if om_current_order s \<noteq> None then 1 else 0)"

definition om_load_from_database ::
  "'pg pq_exec \<Rightarrow> order_manager \<times> 'pg database option \<Rightarrow> status_code \<times> order_manager \<times> 'pg database option" where
  "om_load_from_database pq st = (case st of
       (s, None) \<Rightarrow> (STORAGE_READ_ERROR, s, None)
     | (s, Some db) \<Rightarrow> (case db_list_all_orders pq db of (orders, db') \<Rightarrow>
          (OK, s\<lparr>om_history_orders := om_history_orders s @ orders\<rparr>, Some db')))"

section \<open>Seed data\<close>

definition seed_order_1 :: order_info where
  "seed_order_1 = new_order_info\<lparr>ord_order_id := ''ORD-20260626-001'', ord_tenant_id := ''tenant_demo'',
       ord_device_id := ''dev-coffee-001'', ord_recipe_id := ''REC-AMERICANO-001'',
       ord_cup_size := bytes [0xE4, 0xB8, 0xAD], ord_quantity := 1, ord_total_amount := 1500,
       ord_payment_method := ''wechat'', ord_status := PENDING,
       ord_created_at := ''2026-06-26T09:15:00Z''\<rparr>"

definition seed_order_2 :: order_info where
  "seed_order_2 = new_order_info\<lparr>ord_order_id := ''ORD-20260626-002'', ord_tenant_id := ''tenant_demo'',
       ord_device_id := ''dev-coffee-001'', ord_recipe_id := ''REC-LATTE-001'',
       ord_cup_size := bytes [0xE5, 0xA4, 0xA7], ord_quantity := 2, ord_total_amount := 4400,
       ord_payment_method := ''alipay'', ord_status := PAID,
       ord_created_at := ''2026-06-26T09:20:00Z''\<rparr>"

definition seed_order_3 :: order_info where
  "seed_order_3 = new_order_info\<lparr>ord_order_id := ''ORD-20260626-003'', ord_tenant_id := ''tenant_demo'',
       ord_device_id := ''dev-water-001'', ord_recipe_id := ''REC-HOTWATER-001'',
       ord_cup_size := bytes [0xE5, 0xB0, 0x8F], ord_quantity := 1, ord_total_amount := 500,
       ord_payment_method := ''member'', ord_status := PENDING,
       ord_created_at := ''2026-06-26T09:25:00Z''\<rparr>"

definition seed_history_1 :: order_info where
  "seed_history_1 = new_order_info\<lparr>ord_order_id := ''ORD-20260625-101'', ord_tenant_id := ''tenant_demo'',
       ord_device_id := ''dev-coffee-001'', ord_recipe_id := ''REC-AMERICANO-001'',
       ord_cup_size := bytes [0xE4, 0xB8, 0xAD], ord_quantity := 1, ord_total_amount := 1500,
       ord_payment_method := ''wechat'', ord_status := COMPLETED,
       ord_created_at := ''2026-06-25T14:30:00Z''\<rparr>"

definition seed_history_2 :: order_info where
  "seed_history_2 = new_order_info\<lparr>ord_order_id := ''ORD-20260625-102'', ord_tenant_id := ''tenant_demo'',
       ord_device_id := ''dev-coffee-002'', ord_recipe_id := ''REC-MOCHA-001'',
       ord_cup_size := bytes [0xE5, 0xA4, 0xA7], ord_quantity := 1, ord_total_amount := 2800,
       ord_payment_method := ''alipay'', ord_status := FAILED,
       ord_failure_reason := bytes [0xE6, 0xB0, 0xB4, 0xE6, 0xB3, 0xB5, 0xE6, 0xB5, 0x81, 0xE9, 0x87, 0x8F, 0xE5, 0xBC, 0x82, 0xE5, 0xB8, 0xB8],
       ord_created_at := ''2026-06-25T15:10:00Z''\<rparr>"

definition seed_history_3 :: order_info where
  "seed_history_3 = new_order_info\<lparr>ord_order_id := ''ORD-20260625-103'', ord_tenant_id := ''tenant_demo'',
       ord_device_id := ''dev-coffee-001'', ord_recipe_id := ''REC-CAPPUCCINO-001'',
       ord_cup_size := bytes [0xE4, 0xB8, 0xAD], ord_quantity := 1, ord_total_amount := 2200,
       ord_payment_method := ''wechat'', ord_status := CANCELLED,
       ord_created_at := ''2026-06-25T16:45:00Z''\<rparr>"

definition om_seed_mock_data :: "order_manager \<Rightarrow> order_manager" where
  "om_seed_mock_data s =
     s\<lparr>om_order_queue := om_order_queue s @ [seed_order_1, seed_order_2, seed_order_3],
       om_history_orders := om_history_orders s @ [seed_history_1, seed_history_2, seed_history_3]\<rparr>"

section \<open>Runs\<close>

datatype order_op = Create_order order_info | Cancel_order string | Confirm_payment string
  | Start_brewing string | Complete_brewing string | Fail_brewing string string | Emergency_stop
  | Load_orders

fun om_step :: "'pg pq_exec \<Rightarrow> order_op \<Rightarrow> order_manager \<times> 'pg database option \<Rightarrow> order_manager \<times> 'pg database option" where
  "om_step pq (Create_order ord) st = snd (om_create_order pq ord st)"
| "om_step pq (Cancel_order i) (s, db) = (snd (om_cancel_order i s), db)"
| "om_step pq (Confirm_payment i) (s, db) = (snd (om_confirm_payment i s), db)"
| "om_step pq (Start_brewing i) (s, db) = (snd (om_start_brewing i s), db)"
| "om_step pq (Complete_brewing i) (s, db) = (snd (om_complete_brewing i s), db)"
| "om_step pq (Fail_brewing i r) (s, db) = (snd (om_fail_brewing i r s), db)"
| "om_step pq Emergency_stop (s, db) = (snd (om_emergency_stop s), db)"
| "om_step pq Load_orders st = snd (om_load_from_database pq st)"

text \<open>The queue is bounded, the current order is brewing, no queued order is brewing twice.\<close>

definition om_inv :: "order_manager \<Rightarrow> bool" where
  "om_inv s \<longleftrightarrow> length (om_order_queue s) \<le> ORDER_MAX_QUEUE_DEPTH
     \<and> (case om_current_order s of None \<Rightarrow> True | Some o' \<Rightarrow> ord_status o' = BREWING)"

lemmas om_defs = om_create_order_def om_cancel_order_def om_confirm_payment_def om_start_brewing_def
  om_complete_brewing_def om_fail_brewing_def om_emergency_stop_def om_load_from_database_def
  run_pre_brew_check_def

lemma length_erase_le: "length (erase_first P xs) \<le> length xs"
  by (induction xs) auto

lemma erase_bound: "length q \<le> n \<Longrightarrow> length (erase_first P q) \<le> n"
  using length_erase_le [of P q] by simp

lemma om_op_inv:
  assumes "om_inv s"
  shows "om_inv (fst (snd (om_create_order pq ord (s, db))))"
    and "om_inv (snd (om_cancel_order i s))"
    and "om_inv (snd (om_confirm_payment i s))"
    and "om_inv (snd (om_start_brewing i s))"
    and "om_inv (snd (om_complete_brewing i s))"
    and "om_inv (snd (om_fail_brewing i r s))"
    and "om_inv (snd (om_emergency_stop s))"
    and "om_inv (fst (snd (om_load_from_database pq (s, db))))"
  using assms
  by (simp_all add: om_inv_def om_defs erase_bound Let_def split: option.splits prod.splits)

lemma om_step_inv: "om_inv (fst st) \<Longrightarrow> om_inv (fst (om_step pq op st))"
  by (cases st; cases op) (simp_all add: om_op_inv)

interpretation om: started_machine "om_step pq" "\<lambda>st. om_inv (fst st)" "(new_order_manager, db)"
  for pq :: "'pg pq_exec" and db
  by unfold_locales (simp add: om_step_inv, simp add: om_inv_def new_order_manager_def)

section \<open>The history only grows\<close>

lemma om_step_history:
  "prefix (om_history_orders (fst st)) (om_history_orders (fst (om_step pq op st)))"
  by (cases st; cases op)
     (simp_all add: om_defs Let_def split: option.splits prod.splits)

interpretation om_log: event_log "om_step pq" "\<lambda>st. om_inv (fst st)" "\<lambda>st. om_history_orders (fst st)"
  for pq :: "'pg pq_exec"
  by unfold_locales (rule om_step_history)

section \<open>Which orders there are\<close>

definition om_ids :: "order_manager \<Rightarrow> string multiset" where
  "om_ids s = mset (map ord_order_id (om_list_all_orders s))"

lemma om_ids_simps:
  "om_ids \<lparr>om_order_queue = q, om_current_order = c, om_history_orders = h\<rparr> =
     (case c of None \<Rightarrow> {#} | Some o' \<Rightarrow> {#ord_order_id o'#}) + mset (map ord_order_id q) + mset (map ord_order_id h)"
  by (simp add: om_ids_def om_list_all_orders_def split: option.splits)

lemma mset_erase_found:
  "List.find P q = Some x \<Longrightarrow> image_mset f (mset q) = add_mset (f x) (image_mset f (mset (erase_first P q)))"
  by (auto simp: find_Some_split erase_first_split)

lemma mset_modify_same:
  "(\<And>x. f (g x) = f x) \<Longrightarrow> image_mset f (mset (modify_first P g q)) = image_mset f (mset q)"
  by (induction q) auto


text \<open>C13. From the empty manager, whatever operations run and whatever the database answers, the
  queue never holds more than \<^verbatim>\<open>ORDER_MAX_QUEUE_DEPTH\<close> orders and the current order, if any, is
  in the state \<^verbatim>\<open>BREWING\<close>.\<close>

theorem om_run_invariant:
  "length (om_order_queue (fst (fold (om_step pq) ops (new_order_manager, db)))) \<le> ORDER_MAX_QUEUE_DEPTH
   \<and> (case om_current_order (fst (fold (om_step pq) ops (new_order_manager, db))) of
        None \<Rightarrow> True | Some cur \<Rightarrow> ord_status cur = BREWING)"
  using om.run_from_start [of pq ops db] by (simp add: om_inv_def)

text \<open>An order that has reached the history stays there, with everything recorded about it,
  whatever operations follow.\<close>

theorem om_history_kept:
  assumes "om_inv s" and "o' \<in> set (om_history_orders s)"
  shows "o' \<in> set (om_history_orders (fst (fold (om_step pq) ops (s, db))))"
  using om_log.log_keeps [of "(s, db)" o' pq ops] assms by simp

lemma om_history_kept_witness:
  "seed_history_1 \<in> set (om_history_orders (fst (fold (om_step (\<lambda>_ c. (Pg_error, c :: unit)))
     [Emergency_stop, Cancel_order ''x''] (om_seed_mock_data new_order_manager, None))))"
  by (rule om_history_kept)
     (simp_all add: om_inv_def om_seed_mock_data_def new_order_manager_def ORDER_MAX_QUEUE_DEPTH_def)

text \<open>The life of an order: accepted, paid, brewed and completed in this order, each step
  answers \<^verbatim>\<open>OK\<close>, and at the end the manager differs only by the completed order in its
  history.\<close>

theorem om_lifecycle:
  assumes "length (om_order_queue s) < ORDER_MAX_QUEUE_DEPTH" and "om_current_order s = None"
    and "ord_order_id ord \<notin> ord_order_id ` set (om_order_queue s)"
  shows "(let i = ord_order_id ord;
           s1 = fst (snd (om_create_order pq ord (s, db)));
           s2 = snd (om_confirm_payment i s1); s3 = snd (om_start_brewing i s2)
       in fst (om_create_order pq ord (s, db)) = OK
          \<and> fst (om_confirm_payment i s1) = OK \<and> fst (om_start_brewing i s2) = OK
          \<and> om_get_order i s3 = Some (ord\<lparr>ord_status := BREWING\<rparr>)
          \<and> om_complete_brewing i s3 =
              (OK, s\<lparr>om_history_orders := om_history_orders s @ [ord\<lparr>ord_status := COMPLETED\<rparr>]\<rparr>))"
proof (cases s)
  case (fields q c h)
  let ?i = "ord_order_id ord" and ?paid = "ord\<lparr>ord_status := PAID\<rparr>" and ?brew = "ord\<lparr>ord_status := BREWING\<rparr>"
  let ?s1 = "\<lparr>om_order_queue = q @ [ord], om_current_order = None, om_history_orders = h\<rparr>"
  let ?s2 = "\<lparr>om_order_queue = q @ [?paid], om_current_order = None, om_history_orders = h\<rparr>"
  let ?s3 = "\<lparr>om_order_queue = q, om_current_order = Some ?brew, om_history_orders = h\<rparr>"
  have none: "\<forall>x \<in> set q. \<not> order_has_id ?i x" using assms(3) by (auto simp: fields order_has_id_def) (metis imageI)
  then have q: "List.find (order_has_id ?i) q = None" by (simp add: find_None_iff)
  have i: "order_has_id ?i ord" "order_has_id ?i ?paid" by (simp_all add: order_has_id_def)
  have "om_create_order pq ord (s, db) = (OK, ?s1, db_do (db_insert_order pq ord) db)"
    using assms by (simp add: fields om_create_order_def)
  moreover have "om_confirm_payment ?i ?s1 = (OK, ?s2)"
    using modify_first_split [OF none i(1), of _ "[]"] by (simp add: om_confirm_payment_def find_append q i)
  moreover have "om_start_brewing ?i ?s2 = (OK, ?s3)"
    using erase_first_split [OF none i(2), of "[]"]
    by (simp add: om_start_brewing_def find_append q i run_pre_brew_check_def)
  ultimately show ?thesis using assms
    by (simp add: fields Let_def om_complete_brewing_def om_get_order_def is_current_def)
qed

lemma om_lifecycle_witness:
  "fst (om_create_order (\<lambda>_ c. (Pg_error, c :: unit)) seed_order_1 (new_order_manager, None)) = OK"
  using om_lifecycle [of new_order_manager seed_order_1 "\<lambda>_ c. (Pg_error, c :: unit)" None]
  by (simp add: new_order_manager_def ORDER_MAX_QUEUE_DEPTH_def Let_def)

text \<open>Refusals: each error code is returned under exactly one condition, and a refused
  operation changes nothing.\<close>

theorem om_refusals:
  "(fst (om_create_order pq ord (s, db)) = ORDER_QUEUE_FULL \<longleftrightarrow> ORDER_MAX_QUEUE_DEPTH \<le> length (om_order_queue s))
   \<and> (fst (om_cancel_order i s) = ORDER_INVALID_STATE \<longleftrightarrow> is_current i s)
   \<and> (fst (om_start_brewing i s) = ORDER_INVALID_STATE \<longleftrightarrow> om_current_order s \<noteq> None)
   \<and> (fst (om_complete_brewing i s) = OK \<longleftrightarrow> is_current i s)
   \<and> (fst (om_fail_brewing i r s) = OK \<longleftrightarrow> is_current i s)
   \<and> (fst (om_create_order pq ord (s, db)) = OK \<or> snd (om_create_order pq ord (s, db)) = (s, db))
   \<and> (fst (om_cancel_order i s) = OK \<or> snd (om_cancel_order i s) = s)
   \<and> (fst (om_confirm_payment i s) = OK \<or> snd (om_confirm_payment i s) = s)
   \<and> (fst (om_start_brewing i s) = OK \<or> snd (om_start_brewing i s) = s)
   \<and> (fst (om_complete_brewing i s) = OK \<or> snd (om_complete_brewing i s) = s)
   \<and> (fst (om_fail_brewing i r s) = OK \<or> snd (om_fail_brewing i r s) = s)"
  by (simp add: om_defs is_current_def Let_def split: option.splits)

end
