(* ===== verification/Recipe_Manager.thy ===== *)
theory Recipe_Manager
  imports Sql_Crud Interfaces
begin

text \<open>
  \<^verbatim>\<open>RecipeManager\<close> of \<^verbatim>\<open>src/app/recipe/recipe_manager.cpp\<close> and \<^verbatim>\<open>ConfigManager\<close> of
  \<^verbatim>\<open>src/app/config/config_manager.cpp\<close>.  The recipes are shown to be a store by identifier
  (an \<open>entity_store\<close>) as long as the identifiers are distinct, which every operation keeps.
\<close>

section \<open>State and operations\<close>

record recipe_manager =
  rm_recipes :: "recipe list"
  rm_device_type :: device_type

definition new_recipe_manager :: recipe_manager where
  "new_recipe_manager = \<lparr>rm_recipes = [], rm_device_type = OTHER\<rparr>"

definition load_recipes :: "device_type \<Rightarrow> recipe_manager \<Rightarrow> status_code \<times> recipe_manager" where
  "load_recipes device_type s = (OK, s\<lparr>rm_device_type := device_type\<rparr>)"

definition sync_from_cloud :: "recipe_manager \<Rightarrow> status_code \<times> recipe_manager" where
  "sync_from_cloud s = (OK, s)"

definition all_recipes :: "recipe_manager \<Rightarrow> recipe list" where
  "all_recipes s = rm_recipes s"

definition find_by_id :: "string \<Rightarrow> recipe_manager \<Rightarrow> recipe option" where
  "find_by_id recipe_id s = List.find (\<lambda>r. rec_recipe_id r = recipe_id) (rm_recipes s)"

definition recipe_count :: "recipe_manager \<Rightarrow> int" where
  "recipe_count s = int (length (rm_recipes s))"

definition create_recipe :: "recipe \<Rightarrow> recipe_manager \<Rightarrow> status_code \<times> recipe_manager" where
  "create_recipe recipe s =
     (case List.find (\<lambda>r. rec_recipe_id r = rec_recipe_id recipe) (rm_recipes s) of
        Some _ \<Rightarrow> (ORDER_INVALID_STATE, s)
      | None \<Rightarrow> (OK, s\<lparr>rm_recipes := rm_recipes s @ [recipe]\<rparr>))"

definition update_recipe :: "recipe \<Rightarrow> recipe_manager \<Rightarrow> status_code \<times> recipe_manager" where
  "update_recipe recipe s =
     (case List.find (\<lambda>r. rec_recipe_id r = rec_recipe_id recipe) (rm_recipes s) of
        Some _ \<Rightarrow> (OK, s\<lparr>rm_recipes := modify_first (\<lambda>r. rec_recipe_id r = rec_recipe_id recipe)
                                        (\<lambda>_. recipe) (rm_recipes s)\<rparr>)
      | None \<Rightarrow> (OK, s\<lparr>rm_recipes := rm_recipes s @ [recipe]\<rparr>))"

definition remove_recipe :: "string \<Rightarrow> recipe_manager \<Rightarrow> status_code \<times> recipe_manager" where
  "remove_recipe recipe_id s =
     (OK, s\<lparr>rm_recipes := filter (\<lambda>r. rec_recipe_id r \<noteq> recipe_id) (rm_recipes s)\<rparr>)"

definition rm_load_from_database ::
  "'pg pq_exec \<Rightarrow> recipe_manager \<times> 'pg database option \<Rightarrow> status_code exn \<times> recipe_manager \<times> 'pg database option" where
  "rm_load_from_database pq st = (case st of
       (s, None) \<Rightarrow> (Inr STORAGE_READ_ERROR, s, None)
     | (s, Some db) \<Rightarrow> (case db_list_all_recipes pq db of
          (Inl e, db') \<Rightarrow> (Inl e, s, Some db')
        | (Inr recipes, db') \<Rightarrow> (Inr OK, s\<lparr>rm_recipes := recipes\<rparr>, Some db')))"

section \<open>Seed data\<close>

definition seed_recipe_1 :: recipe where
  "seed_recipe_1 = new_recipe\<lparr>rec_recipe_id := ''REC-AMERICANO-001'',
       rec_recipe_name := bytes [0xE7, 0xBB, 0x8F, 0xE5, 0x85, 0xB8, 0xE7, 0xBE, 0x8E, 0xE5, 0xBC, 0x8F],
       rec_device_type := COFFEE_MACHINE,
       rec_category := bytes [0xE5, 0x92, 0x96, 0xE5, 0x95, 0xA1], rec_is_active := True,
       rec_version := 3,
       rec_steps := [
         \<lparr>step_action = ''grind'', step_duration_ms = 5000, step_params = [(''bean_weight_g'', 15)]\<rparr>,
         \<lparr>step_action = ''brew'', step_duration_ms = 25000, step_params = [(''pressure_bar'', 9), (''temperature_c'', 92), (''volume_ml'', 200)]\<rparr>,
         \<lparr>step_action = ''dispense'', step_duration_ms = 3000, step_params = []\<rparr>],
       rec_cup_sizes := [
         \<lparr>cup_size = bytes [0xE5, 0xB0, 0x8F], cup_price = 1200, cup_volume_ml = 200\<rparr>,
         \<lparr>cup_size = bytes [0xE4, 0xB8, 0xAD], cup_price = 1500, cup_volume_ml = 300\<rparr>,
         \<lparr>cup_size = bytes [0xE5, 0xA4, 0xA7], cup_price = 1800, cup_volume_ml = 400\<rparr>]\<rparr>"

definition seed_recipe_2 :: recipe where
  "seed_recipe_2 = new_recipe\<lparr>rec_recipe_id := ''REC-LATTE-001'',
       rec_recipe_name := bytes [0xE6, 0x8B, 0xBF, 0xE9, 0x93, 0x81, 0xE5, 0x92, 0x96, 0xE5, 0x95, 0xA1],
       rec_device_type := COFFEE_MACHINE,
       rec_category := bytes [0xE5, 0x92, 0x96, 0xE5, 0x95, 0xA1], rec_is_active := True,
       rec_version := 5,
       rec_steps := [
         \<lparr>step_action = ''grind'', step_duration_ms = 5000, step_params = [(''bean_weight_g'', 15)]\<rparr>,
         \<lparr>step_action = ''brew'', step_duration_ms = 25000, step_params = [(''pressure_bar'', 9), (''temperature_c'', 92), (''volume_ml'', 40)]\<rparr>,
         \<lparr>step_action = ''heat'', step_duration_ms = 10000, step_params = [(''temperature_c'', 65), (''volume_ml'', 200)]\<rparr>,
         \<lparr>step_action = ''mix'', step_duration_ms = 3000, step_params = []\<rparr>,
         \<lparr>step_action = ''dispense'', step_duration_ms = 3000, step_params = []\<rparr>],
       rec_cup_sizes := [
         \<lparr>cup_size = bytes [0xE5, 0xB0, 0x8F], cup_price = 1800, cup_volume_ml = 240\<rparr>,
         \<lparr>cup_size = bytes [0xE4, 0xB8, 0xAD], cup_price = 2200, cup_volume_ml = 300\<rparr>,
         \<lparr>cup_size = bytes [0xE5, 0xA4, 0xA7], cup_price = 2600, cup_volume_ml = 400\<rparr>]\<rparr>"

definition seed_recipe_3 :: recipe where
  "seed_recipe_3 = new_recipe\<lparr>rec_recipe_id := ''REC-CAPPUCCINO-001'',
       rec_recipe_name := bytes [0xE5, 0x8D, 0xA1, 0xE5, 0xB8, 0x83, 0xE5, 0xA5, 0x87, 0xE8, 0xAF, 0xBA],
       rec_device_type := COFFEE_MACHINE,
       rec_category := bytes [0xE5, 0x92, 0x96, 0xE5, 0x95, 0xA1], rec_is_active := True,
       rec_version := 4,
       rec_steps := [
         \<lparr>step_action = ''grind'', step_duration_ms = 5000, step_params = [(''bean_weight_g'', 15)]\<rparr>,
         \<lparr>step_action = ''brew'', step_duration_ms = 25000, step_params = [(''temperature_c'', 92), (''volume_ml'', 40)]\<rparr>,
         \<lparr>step_action = ''heat'', step_duration_ms = 8000, step_params = [(''temperature_c'', 65), (''volume_ml'', 120)]\<rparr>,
         \<lparr>step_action = ''mix'', step_duration_ms = 5000, step_params = []\<rparr>,
         \<lparr>step_action = ''dispense'', step_duration_ms = 3000, step_params = []\<rparr>],
       rec_cup_sizes := [
         \<lparr>cup_size = bytes [0xE5, 0xB0, 0x8F], cup_price = 2000, cup_volume_ml = 240\<rparr>,
         \<lparr>cup_size = bytes [0xE4, 0xB8, 0xAD], cup_price = 2400, cup_volume_ml = 300\<rparr>,
         \<lparr>cup_size = bytes [0xE5, 0xA4, 0xA7], cup_price = 2800, cup_volume_ml = 400\<rparr>]\<rparr>"

definition seed_recipe_4 :: recipe where
  "seed_recipe_4 = new_recipe\<lparr>rec_recipe_id := ''REC-MOCHA-001'',
       rec_recipe_name := bytes [0xE6, 0x91, 0xA9, 0xE5, 0x8D, 0xA1, 0xE5, 0x92, 0x96, 0xE5, 0x95, 0xA1],
       rec_device_type := COFFEE_MACHINE,
       rec_category := bytes [0xE5, 0x92, 0x96, 0xE5, 0x95, 0xA1], rec_is_active := True,
       rec_version := 2,
       rec_steps := [
         \<lparr>step_action = ''grind'', step_duration_ms = 5000, step_params = [(''bean_weight_g'', 15)]\<rparr>,
         \<lparr>step_action = ''brew'', step_duration_ms = 25000, step_params = [(''temperature_c'', 92), (''volume_ml'', 40)]\<rparr>,
         \<lparr>step_action = ''mix'', step_duration_ms = 5000, step_params = [(''chocolate_syrup_ml'', 20)]\<rparr>,
         \<lparr>step_action = ''heat'', step_duration_ms = 8000, step_params = [(''temperature_c'', 65), (''volume_ml'', 180)]\<rparr>,
         \<lparr>step_action = ''dispense'', step_duration_ms = 3000, step_params = []\<rparr>],
       rec_cup_sizes := [
         \<lparr>cup_size = bytes [0xE5, 0xB0, 0x8F], cup_price = 2400, cup_volume_ml = 240\<rparr>,
         \<lparr>cup_size = bytes [0xE4, 0xB8, 0xAD], cup_price = 2800, cup_volume_ml = 300\<rparr>,
         \<lparr>cup_size = bytes [0xE5, 0xA4, 0xA7], cup_price = 3200, cup_volume_ml = 400\<rparr>]\<rparr>"

definition seed_recipe_5 :: recipe where
  "seed_recipe_5 = new_recipe\<lparr>rec_recipe_id := ''REC-HOTWATER-001'',
       rec_recipe_name := bytes [0xE7, 0x83, 0xAD, 0xE6, 0xB0, 0xB4],
       rec_device_type := WATER_DISPENSER,
       rec_category := bytes [0xE7, 0x83, 0xAD, 0xE6, 0xB0, 0xB4], rec_is_active := True,
       rec_version := 1,
       rec_steps := [
         \<lparr>step_action = ''heat'', step_duration_ms = 15000, step_params = [(''temperature_c'', 95), (''volume_ml'', 300)]\<rparr>,
         \<lparr>step_action = ''dispense'', step_duration_ms = 3000, step_params = []\<rparr>],
       rec_cup_sizes := [
         \<lparr>cup_size = bytes [0xE5, 0xB0, 0x8F], cup_price = 300, cup_volume_ml = 200\<rparr>,
         \<lparr>cup_size = bytes [0xE4, 0xB8, 0xAD], cup_price = 500, cup_volume_ml = 300\<rparr>,
         \<lparr>cup_size = bytes [0xE5, 0xA4, 0xA7], cup_price = 800, cup_volume_ml = 500\<rparr>]\<rparr>"

definition seed_recipe_6 :: recipe where
  "seed_recipe_6 = new_recipe\<lparr>rec_recipe_id := ''REC-MILKTEA-001'',
       rec_recipe_name := bytes [0xE5, 0x8E, 0x9F, 0xE5, 0x91, 0xB3, 0xE5, 0xA5, 0xB6, 0xE8, 0x8C, 0xB6],
       rec_device_type := INSTANT_MACHINE,
       rec_category := bytes [0xE8, 0x8C, 0xB6, 0xE9, 0xA5, 0xAE], rec_is_active := True,
       rec_version := 2,
       rec_steps := [
         \<lparr>step_action = ''mix'', step_duration_ms = 8000, step_params = [(''powder_g'', 25), (''temperature_c'', 85), (''water_volume_ml'', 250)]\<rparr>,
         \<lparr>step_action = ''dispense'', step_duration_ms = 3000, step_params = []\<rparr>],
       rec_cup_sizes := [
         \<lparr>cup_size = bytes [0xE4, 0xB8, 0xAD], cup_price = 1200, cup_volume_ml = 300\<rparr>,
         \<lparr>cup_size = bytes [0xE5, 0xA4, 0xA7], cup_price = 1500, cup_volume_ml = 400\<rparr>]\<rparr>"

definition seed_recipes :: "recipe list" where
  "seed_recipes = [seed_recipe_1, seed_recipe_2, seed_recipe_3, seed_recipe_4, seed_recipe_5, seed_recipe_6]"

definition rm_seed_mock_data :: "recipe_manager \<Rightarrow> recipe_manager" where
  "rm_seed_mock_data s = s\<lparr>rm_recipes := rm_recipes s @ seed_recipes\<rparr>"

section \<open>The recipes are a store\<close>

definition rm_inv :: "recipe_manager \<Rightarrow> bool" where
  "rm_inv s \<longleftrightarrow> distinct (map rec_recipe_id (rm_recipes s))"

lemma find_by_id_by_key: "find_by_id i s = by_key rec_recipe_id i (rm_recipes s)"
  by (simp add: find_by_id_def by_key_def)

lemma by_key_filter: "by_key f k (filter (\<lambda>x. f x \<noteq> k') xs) = (if k = k' then None else by_key f k xs)"
  by (induction xs) (auto simp: by_key_def)

lemma update_recipe_inv: "rm_inv s \<Longrightarrow> rm_inv (snd (update_recipe r s))"
  by (auto simp: rm_inv_def update_recipe_def find_None_iff map_modify_first split: option.splits)

lemma remove_recipe_inv: "rm_inv s \<Longrightarrow> rm_inv (snd (remove_recipe i s))"
  by (auto simp: rm_inv_def remove_recipe_def distinct_map_filter)

lemma create_recipe_inv: "rm_inv s \<Longrightarrow> rm_inv (snd (create_recipe r s))"
  by (auto simp: rm_inv_def create_recipe_def find_None_iff split: option.splits)

lemma find_update_recipe:
  "find_by_id i (snd (update_recipe r s)) = (if i = rec_recipe_id r then Some r else find_by_id i s)"
proof (cases "by_key rec_recipe_id (rec_recipe_id r) (rm_recipes s)")
  case None
  then show ?thesis
    by (simp add: find_by_id_by_key update_recipe_def by_key_def [symmetric] by_key_snoc)
next
  case (Some r')
  then show ?thesis
    by (simp add: find_by_id_by_key update_recipe_def by_key_def [symmetric] by_key_modify_first)
qed

interpretation recipes: entity_store rm_inv find_by_id "\<lambda>r s. snd (update_recipe r s)"
  "\<lambda>i s. snd (remove_recipe i s)" rec_recipe_id
proof
  fix s i i'
  show "find_by_id i (snd (remove_recipe i' s)) = (if i = i' then None else find_by_id i s)"
    by (simp add: find_by_id_by_key remove_recipe_def by_key_filter)
qed (simp_all add: update_recipe_inv remove_recipe_inv find_update_recipe)

datatype recipe_op = Create_recipe recipe | Update_recipe recipe | Remove_recipe string | Load_recipes device_type

fun rm_step :: "recipe_op \<Rightarrow> recipe_manager \<Rightarrow> recipe_manager" where
  "rm_step (Create_recipe r) s = snd (create_recipe r s)"
| "rm_step (Update_recipe r) s = snd (update_recipe r s)"
| "rm_step (Remove_recipe i) s = snd (remove_recipe i s)"
| "rm_step (Load_recipes t) s = snd (load_recipes t s)"

interpretation rm: started_machine rm_step rm_inv new_recipe_manager
proof
  fix s op
  assume "rm_inv s"
  then show "rm_inv (rm_step op s)"
    by (cases op) (simp_all add: create_recipe_inv update_recipe_inv remove_recipe_inv,
                   simp add: rm_inv_def load_recipes_def)
qed (simp add: rm_inv_def new_recipe_manager_def)

text \<open>Whatever is created, updated and removed, no two recipes of the manager share an
  identifier, and looking one up after an update returns exactly what was stored.\<close>

theorem recipe_store:
  "distinct (map rec_recipe_id (rm_recipes (fold rm_step ops new_recipe_manager)))
   \<and> find_by_id i (snd (update_recipe r (fold rm_step ops new_recipe_manager)))
     = (if i = rec_recipe_id r then Some r else find_by_id i (fold rm_step ops new_recipe_manager))
   \<and> find_by_id i (snd (remove_recipe i (fold rm_step ops new_recipe_manager))) = None"
proof -
  have inv: "rm_inv (fold rm_step ops new_recipe_manager)" by (rule rm.run_from_start)
  then show ?thesis
    using recipes.lookup_put [OF inv, of i r] recipes.lookup_del [OF inv, of i i] by (simp add: rm_inv_def)
qed

text \<open>Creating refuses exactly the identifiers that exist, and a refusal changes nothing;
  an accepted recipe is found afterwards.\<close>

theorem create_recipe_ok:
  "create_recipe r s = (if find_by_id (rec_recipe_id r) s \<noteq> None then (ORDER_INVALID_STATE, s)
     else (OK, s\<lparr>rm_recipes := rm_recipes s @ [r]\<rparr>))
   \<and> find_by_id (rec_recipe_id r) (snd (create_recipe r s)) \<noteq> None"
  by (auto simp: create_recipe_def find_by_id_def find_append split: option.splits)

section \<open>Device configuration\<close>

definition config_load :: "device_config \<Rightarrow> status_code \<times> device_config" where
  "config_load c = (OK, new_device_config)"

definition save_to_storage :: "device_config \<Rightarrow> status_code" where
  "save_to_storage config = OK"

definition apply_cloud_config :: "device_config \<Rightarrow> device_config \<Rightarrow> status_code \<times> device_config" where
  "apply_cloud_config config c = (save_to_storage config, config)"

definition report_to_cloud :: "device_config \<Rightarrow> status_code" where
  "report_to_cloud c = OK"

definition current_config :: "device_config \<Rightarrow> device_config" where
  "current_config c = c"

definition get_heartbeat_interval :: "device_config \<Rightarrow> int" where
  "get_heartbeat_interval c = cfg_heartbeat_interval c"

definition get_order_expire_minutes :: "device_config \<Rightarrow> int" where
  "get_order_expire_minutes c = cfg_order_expire_minutes c"

definition get_max_queue_depth :: "device_config \<Rightarrow> int" where
  "get_max_queue_depth c = cfg_max_queue_depth c"

text \<open>The defaults of the configuration agree with the constants the managers use.\<close>

lemma config_defaults:
  "get_max_queue_depth (snd (config_load c)) = int ORDER_MAX_QUEUE_DEPTH"
  "get_order_expire_minutes (snd (config_load c)) = ORDER_EXPIRE_MINUTES_DEFAULT"
  "get_heartbeat_interval (snd (config_load c)) = HEARTBEAT_INTERVAL_SEC_DEFAULT"
  by (simp_all add: config_load_def new_device_config_def get_max_queue_depth_def get_order_expire_minutes_def
      get_heartbeat_interval_def ORDER_MAX_QUEUE_DEPTH_def ORDER_EXPIRE_MINUTES_DEFAULT_def
      HEARTBEAT_INTERVAL_SEC_DEFAULT_def)

end
