(* ===== verification/Json_Helper.thy ===== *)
theory Json_Helper
  imports Dev_Types
begin

text \<open>
  \<^verbatim>\<open>JsonHelper\<close> of \<^verbatim>\<open>include/dev_sys/common/types.h\<close>: fields are read from a message by
  searching for the text of the key, with no parser.  The reader is shown correct on the flat
  objects that the platform and its devices exchange (\<open>flat_json\<close>), and the exception that
  \<^verbatim>\<open>get_int\<close> lets escape on a field that is not a number is shown as such.
\<close>

section \<open>The readers\<close>

definition get_string :: "string \<Rightarrow> string \<Rightarrow> string" where
  \<open>get_string json key = (let search = ''"'' @ key @ ''":"'' in
     case find_sub search json of
       None \<Rightarrow> ''''
     | Some pos \<Rightarrow> (let start = pos + length search in
         case find_from json ''"'' start of
           None \<Rightarrow> ''''
         | Some end \<Rightarrow> take (end - start) (drop start json)))\<close>

definition get_int :: "string \<Rightarrow> string \<Rightarrow> int \<Rightarrow> int exn" where
  \<open>get_int json key default_val = (let search = ''"'' @ key @ ''":'' in
     case find_sub search json of
       None \<Rightarrow> Inr default_val
     | Some pos \<Rightarrow> (let start = pos + length search;
          num = (case find_first_of json ('',}'' @ [CHR 0x0A, CHR 0x0D] @ '' ]'') start of
                   None \<Rightarrow> drop start json
                 | Some end \<Rightarrow> take (end - start) (drop start json))
         in if num \<noteq> '''' then stoi num else Inr default_val))\<close>

text \<open>Positions compare with \<^verbatim>\<open>npos\<close> as the largest one.\<close>

definition before :: "nat option \<Rightarrow> nat option \<Rightarrow> bool" where
  "before a b \<longleftrightarrow> (case a of None \<Rightarrow> False | Some i \<Rightarrow> (case b of None \<Rightarrow> True | Some j \<Rightarrow> i < j))"

definition get_bool :: "string \<Rightarrow> string \<Rightarrow> bool \<Rightarrow> bool" where
  \<open>get_bool json key default_val = (let search = ''"'' @ key @ ''":'' in
     case find_sub search json of
       None \<Rightarrow> default_val
     | Some pos \<Rightarrow> (let stop = find_first_of json ('',}'' @ [CHR 0x0A, CHR 0x0D]) pos in
         if before (find_from json ''true'' pos) stop then True
         else if before (find_from json ''false'' pos) stop then False
         else default_val))\<close>

section \<open>Flat objects\<close>

datatype json_val = Json_Str string | Json_Int int | Json_Bool bool

fun val_text :: "json_val \<Rightarrow> string" where
  "val_text (Json_Str v) = CHR 0x22 # v @ [CHR 0x22]"
| "val_text (Json_Int i) = to_string i"
| "val_text (Json_Bool b) = (if b then ''true'' else ''false'')"

definition field_text :: "string \<times> json_val \<Rightarrow> string" where
  "field_text f = CHR 0x22 # fst f @ [CHR 0x22, CHR 0x3A] @ val_text (snd f)"

fun fields_text :: "(string \<times> json_val) list \<Rightarrow> string" where
  "fields_text [] = ''}''"
| "fields_text [f] = field_text f @ ''}''"
| "fields_text (f # g # fs) = field_text f @ '','' @ fields_text (g # fs)"

definition flat_json :: "(string \<times> json_val) list \<Rightarrow> string" where
  "flat_json fs = CHR 0x7B # fields_text fs"

text \<open>
  What the reader relies on: a key is not empty, has no quote and does not start with a
  character that can follow a quote in the text of an object; a value has no quote.
\<close>

definition key_ok :: "string \<Rightarrow> bool" where
  "key_ok k \<longleftrightarrow> k \<noteq> [] \<and> CHR 0x22 \<notin> set k \<and> hd k \<notin> {CHR 0x3A, CHR 0x2C, CHR 0x7D}"

fun value_ok :: "json_val \<Rightarrow> bool" where
  "value_ok (Json_Str v) \<longleftrightarrow> CHR 0x22 \<notin> set v"
| "value_ok _ \<longleftrightarrow> True"

definition fields_ok :: "(string \<times> json_val) list \<Rightarrow> bool" where
  "fields_ok fs \<longleftrightarrow> (\<forall>f \<in> set fs. key_ok (fst f) \<and> value_ok (snd f)) \<and> distinct (map fst fs)"

section \<open>Finding a key\<close>

lemma find_sub_pass:
  assumes "\<not> prefix p (c # u @ s)" and "p \<noteq> []" and "hd p \<notin> set u"
  shows "find_sub p (c # u @ s) = map_option ((+) (Suc (length u))) (find_sub p s)"
  using assms(1) find_sub_skip [OF assms(2,3), of s] by (cases "find_sub p s") simp_all

text \<open>The search text of a key: \<open>q\<close> is empty for numbers, the opening quote for strings.\<close>

definition search_text :: "string \<Rightarrow> string \<Rightarrow> string" where
  "search_text k q = CHR 0x22 # k @ CHR 0x22 # CHR 0x3A # q"

lemma search_text_simps [simp]: "search_text k q \<noteq> []" "hd (search_text k q) = CHR 0x22"
  by (simp_all add: search_text_def)

lemma search_text_prefix_key:
  "CHR 0x22 \<notin> set k \<Longrightarrow> CHR 0x22 \<notin> set a \<Longrightarrow>
   prefix (search_text k q) (CHR 0x22 # a @ CHR 0x22 # y) \<longleftrightarrow> k = a \<and> prefix (CHR 0x3A # q) y"
  by (simp add: search_text_def delimiter_prefix)

lemma search_text_not_after:
  "key_ok k \<Longrightarrow> c \<in> {CHR 0x3A, CHR 0x2C, CHR 0x7D} \<Longrightarrow> \<not> prefix (search_text k q) (CHR 0x22 # c # y)"
  by (cases k) (auto simp: search_text_def key_ok_def)

lemma quote_free_val: "CHR 0x22 \<notin> set (to_string i)" "CHR 0x22 \<notin> set (if b then ''true'' else ''false'')"
  using to_string_chars [of "CHR 0x22" i] by (auto simp: is_digit_def char_code_def)

lemma find_sub_pass_plain:
  "CHR 0x22 \<notin> set (u @ [c]) \<Longrightarrow> find_sub (search_text k q) (u @ c # s)
     = map_option ((+) (Suc (length u))) (find_sub (search_text k q) s)"
  using find_sub_skip [of "search_text k q" "u @ [c]" s] by simp

lemma find_sub_pass_value:
  assumes "key_ok k" and "value_ok v" and "c \<in> {CHR 0x2C, CHR 0x7D}"
  shows "find_sub (search_text k q) (val_text v @ c # s)
       = map_option ((+) (Suc (length (val_text v)))) (find_sub (search_text k q) s)"
proof (cases v)
  case (Json_Str w)
  let ?p = "search_text k q"
  from assms have k: "CHR 0x22 \<notin> set k" and w: "CHR 0x22 \<notin> set w"
    by (auto simp: key_ok_def Json_Str)
  have "find_sub ?p (CHR 0x22 # w @ CHR 0x22 # c # s)
      = map_option ((+) (Suc (length w))) (find_sub ?p (CHR 0x22 # [c] @ s))"
    using find_sub_pass [of ?p "CHR 0x22" w "CHR 0x22 # c # s"] assms(3) w search_text_prefix_key [OF k w]
    by auto
  also have "find_sub ?p (CHR 0x22 # [c] @ s) = map_option ((+) (Suc (Suc 0))) (find_sub ?p s)"
    using find_sub_pass [of ?p "CHR 0x22" "[c]" s] assms search_text_not_after [of k c] by auto
  finally show ?thesis by (cases "find_sub ?p s") (simp_all add: Json_Str)
next
  case (Json_Int i)
  with quote_free_val(1) [of i] assms(3) have "CHR 0x22 \<notin> set (val_text v @ [c])" by auto
  from find_sub_pass_plain [OF this] show ?thesis by simp
next
  case (Json_Bool b)
  with quote_free_val(2) [of b] assms(3) have "CHR 0x22 \<notin> set (val_text v @ [c])" by auto
  from find_sub_pass_plain [OF this] show ?thesis by simp
qed

lemma find_sub_pass_field:
  assumes "key_ok k" and "key_ok (fst f)" and "value_ok (snd f)" and "fst f \<noteq> k"
    and "c \<in> {CHR 0x2C, CHR 0x7D}"
  shows "find_sub (search_text k q) (field_text f @ c # s)
       = map_option ((+) (Suc (length (field_text f)))) (find_sub (search_text k q) s)"
proof -
  let ?p = "search_text k q" and ?a = "fst f" and ?v = "val_text (snd f) @ c # s"
  from assms have k: "CHR 0x22 \<notin> set k" and a: "CHR 0x22 \<notin> set ?a" by (auto simp: key_ok_def)
  have "find_sub ?p (CHR 0x22 # ?a @ CHR 0x22 # CHR 0x3A # ?v)
      = map_option ((+) (Suc (length ?a))) (find_sub ?p (CHR 0x22 # [CHR 0x3A] @ ?v))"
    using find_sub_pass [of ?p "CHR 0x22" ?a "CHR 0x22 # CHR 0x3A # ?v"] assms(4) a
      search_text_prefix_key [OF k a] by auto
  also have "find_sub ?p (CHR 0x22 # [CHR 0x3A] @ ?v) = map_option ((+) (Suc (Suc 0))) (find_sub ?p ?v)"
    using find_sub_pass [of ?p "CHR 0x22" "[CHR 0x3A]" ?v] search_text_not_after [OF assms(1)] by auto
  finally show ?thesis
    using find_sub_pass_value [OF assms(1,3,5), of q s]
    by (cases "find_sub ?p s") (simp_all add: field_text_def)
qed

text \<open>The value of a key is the first thing the search finds, and it ends at \<open>,\<close> or \<open>}\<close>.\<close>

lemma find_in_fields:
  assumes "fields_ok fs" and "key_ok k" and "map_of fs k = Some v"
    and q: "prefix q (val_text v @ '','')" "prefix q (val_text v @ ''}'')"
  shows "\<exists>u c w. fields_text fs = u @ CHR 0x22 # k @ CHR 0x22 # CHR 0x3A # val_text v @ c # w
      \<and> c \<in> {CHR 0x2C, CHR 0x7D} \<and> find_sub (search_text k q) (fields_text fs) = Some (length u)"
  using assms(1,3)
proof (induction fs rule: fields_text.induct)
  case (2 f)
  then have f: "f = (k, v)" by (cases f) (auto split: if_splits)
  have "prefix (search_text k q) (field_text f @ ''}'')"
    using q(2) by (simp add: f field_text_def search_text_def same_prefix_prefix)
  with f show ?case
    by (intro exI [of _ "[]"] exI [of _ "CHR 0x7D"] exI [of _ "[]"])
       (simp add: field_text_def find_sub_Some_0)
next
  case (3 f g fs)
  show ?case
  proof (cases "fst f = k")
    case True
    with 3 have f: "f = (k, v)" by (cases f) auto
    have "prefix q ((val_text v @ '','') @ fields_text (g # fs))"
      using q(1) by (rule prefix_prefix)
    then have "prefix (search_text k q) (field_text f @ '','' @ fields_text (g # fs))"
      by (simp add: f field_text_def search_text_def)
    with f show ?thesis
      by (intro exI [of _ "[]"] exI [of _ "CHR 0x2C"] exI [of _ "fields_text (g # fs)"])
         (simp add: field_text_def find_sub_Some_0)
  next
    case False
    with 3 have "fields_ok (g # fs)" "map_of (g # fs) k = Some v"
      by (auto simp: fields_ok_def)
    with 3 obtain u c w where u: "fields_text (g # fs) = u @ CHR 0x22 # k @ CHR 0x22 # CHR 0x3A # val_text v @ c # w"
      "c \<in> {CHR 0x2C, CHR 0x7D}" "find_sub (search_text k q) (fields_text (g # fs)) = Some (length u)"
      by blast
    have "find_sub (search_text k q) (fields_text (f # g # fs)) = Some (length (field_text f @ '','' @ u))"
      using find_sub_pass_field [OF assms(2), of f "CHR 0x2C" q "fields_text (g # fs)"] 3(2) False u(3)
      by (simp add: fields_ok_def)
    with u(1,2) show ?thesis
      by (intro exI [of _ "field_text f @ '','' @ u"] exI [of _ c] exI [of _ w]) simp
  qed
qed simp

lemma find_in_flat:
  assumes "fields_ok fs" and "key_ok k" and "map_of fs k = Some v"
    and q: "prefix q (val_text v @ '','')" "prefix q (val_text v @ ''}'')"
  shows "\<exists>u c w. flat_json fs = u @ CHR 0x22 # k @ CHR 0x22 # CHR 0x3A # val_text v @ c # w
      \<and> c \<in> {CHR 0x2C, CHR 0x7D} \<and> find_sub (search_text k q) (flat_json fs) = Some (length u)"
proof -
  from find_in_fields [OF assms] obtain u c w where u:
    "fields_text fs = u @ CHR 0x22 # k @ CHR 0x22 # CHR 0x3A # val_text v @ c # w"
    "c \<in> {CHR 0x2C, CHR 0x7D}" "find_sub (search_text k q) (fields_text fs) = Some (length u)" by blast
  then show ?thesis
    by (intro exI [of _ "CHR 0x7B # u"] exI [of _ c] exI [of _ w])
       (simp add: flat_json_def search_text_def)
qed

section \<open>Reading a flat object\<close>

text \<open>The readers in terms of the search text, for a match at the end of \<open>u\<close>.\<close>

lemma get_string_at:
  assumes "find_sub (search_text k [CHR 0x22]) json = Some (length u)"
    and "json = u @ search_text k [CHR 0x22] @ v @ CHR 0x22 # w" and "CHR 0x22 \<notin> set v"
  shows "get_string json k = v"
proof -
  let ?n = "length u + length (search_text k [CHR 0x22])"
  have d: "drop ?n json = v @ CHR 0x22 # w" and n: "?n \<le> length json"
    by (simp_all add: assms(2))
  have "find_from json [CHR 0x22] ?n = Some (?n + length v)"
    using find_sub_skip [of "[CHR 0x22]" v "CHR 0x22 # w"] assms(3) n by (simp add: find_from_def d)
  moreover have "CHR 0x22 # k @ [CHR 0x22, CHR 0x3A, CHR 0x22] = search_text k [CHR 0x22]"
    by (simp add: search_text_def)
  ultimately show ?thesis
    by (simp only: get_string_def Let_def append_Cons append_Nil assms(1) option.case d) simp
qed

lemma get_int_at:
  assumes "find_sub (search_text k []) json = Some (length u)"
    and "json = u @ search_text k [] @ num @ c # w" and "c \<in> {CHR 0x2C, CHR 0x7D}"
    and "\<forall>x \<in> set num. x \<notin> set ('',}'' @ [CHR 0x0A, CHR 0x0D] @ '' ]'')" and "num \<noteq> []"
  shows "get_int json k d = stoi num"
proof -
  let ?n = "length u + length (search_text k [])" and ?cs = "'',}'' @ [CHR 0x0A, CHR 0x0D] @ '' ]''"
  have d: "drop ?n json = num @ c # w" and n: "?n \<le> length json"
    by (simp_all add: assms(2))
  have "find_char (\<lambda>x. x \<in> set ?cs) (c # w) = Some 0" using assms(3) by auto
  with find_char_skip [OF assms(4), of "c # w"]
  have "find_first_of json ?cs ?n = Some (?n + length num)"
    using n by (simp add: find_first_of_def d)
  moreover have "CHR 0x22 # k @ [CHR 0x22, CHR 0x3A] = search_text k []"
    by (simp add: search_text_def)
  ultimately show ?thesis
    by (simp only: get_int_def Let_def append_Cons append_Nil assms(1) option.case d) (simp add: assms(5))
qed

lemma get_string_flat:
  assumes "fields_ok fs" and "map_of fs k = Some (Json_Str v)"
  shows "get_string (flat_json fs) k = v"
proof -
  from assms have k: "key_ok k" and v: "CHR 0x22 \<notin> set v"
    by (auto simp: fields_ok_def dest!: map_of_SomeD)
  obtain u c w where u: "flat_json fs = u @ CHR 0x22 # k @ CHR 0x22 # CHR 0x3A # CHR 0x22 # v @ CHR 0x22 # c # w"
    "find_sub (search_text k [CHR 0x22]) (flat_json fs) = Some (length u)"
    using find_in_flat [OF assms(1) k assms(2), of "[CHR 0x22]"] by auto
  from u v show ?thesis by (intro get_string_at [of k _ u v "c # w"]) (simp_all add: search_text_def)
qed

text \<open>A string field of a flat object is read back exactly, whatever other fields stand
  before or after it, provided keys and values have no quote in them.\<close>

theorem get_string_flat_json:
  assumes "fields_ok fs" and "map_of fs k = Some (Json_Str v)"
  shows "get_string (flat_json fs) k = v"
  by (rule get_string_flat [OF assms])

lemma get_string_flat_json_witness:
  "get_string (flat_json [(''version'', Json_Str ''2.1.0''), (''force'', Json_Bool True)]) ''version'' = ''2.1.0''"
  by (rule get_string_flat_json) (simp_all add: fields_ok_def key_ok_def)

lemma to_string_not_stop:
  "x \<in> set (to_string i) \<Longrightarrow> x \<notin> set ('',}'' @ [CHR 0x0A, CHR 0x0D] @ '' ]'')"
  using to_string_chars [of x i] by (auto simp: is_digit_def char_code_def)

lemma get_int_flat:
  assumes "fields_ok fs" and "map_of fs k = Some (Json_Int i)"
    and "int32_min \<le> i" and "i \<le> int32_max"
  shows "get_int (flat_json fs) k d = Inr i"
proof -
  from assms have k: "key_ok k" by (auto simp: fields_ok_def dest!: map_of_SomeD)
  obtain u c w where u: "flat_json fs = u @ CHR 0x22 # k @ CHR 0x22 # CHR 0x3A # to_string i @ c # w"
    "c \<in> {CHR 0x2C, CHR 0x7D}" "find_sub (search_text k []) (flat_json fs) = Some (length u)"
    using find_in_flat [OF assms(1) k assms(2), of "[]"] by auto
  have "get_int (flat_json fs) k d = stoi (to_string i)"
    using u to_string_not_stop [of _ i]
    by (intro get_int_at [of k _ u "to_string i" c w]) (auto simp: search_text_def)
  with assms(3,4) show ?thesis by (simp add: stoi_to_string0)
qed

lemma read_int_no_digit:
  assumes "s = [] \<or> \<not> is_space (hd s) \<and> \<not> is_digit (hd s) \<and> hd s \<notin> {CHR 0x2D, CHR 0x2B}"
  shows "read_int s = None"
  using assms by (cases s) (auto simp: read_int_def read_digits_def)

text \<open>When the field holds a string instead of a number, \<^verbatim>\<open>get_int\<close> does not fall back to
  the default value: \<^verbatim>\<open>std::stoi\<close> sees the opening quote and its exception leaves the reader.\<close>

lemma get_int_flat_string:
  assumes "fields_ok fs" and "map_of fs k = Some (Json_Str v)"
  shows "get_int (flat_json fs) k d = Inl Invalid_argument"
proof -
  from assms have k: "key_ok k" by (auto simp: fields_ok_def dest!: map_of_SomeD)
  obtain u c w where u: "flat_json fs = u @ CHR 0x22 # k @ CHR 0x22 # CHR 0x3A # CHR 0x22 # v @ CHR 0x22 # c # w"
    "c \<in> {CHR 0x2C, CHR 0x7D}" "find_sub (search_text k []) (flat_json fs) = Some (length u)"
    using find_in_flat [OF assms(1) k assms(2), of "[]"] by auto
  let ?n = "length u + length (search_text k [])"
    and ?cs = "'',}'' @ [CHR 0x0A, CHR 0x0D] @ '' ]''" and ?r = "CHR 0x22 # v @ CHR 0x22 # c # w"
  have "flat_json fs = u @ search_text k [] @ ?r" using u(1) by (simp add: search_text_def)
  then have d: "drop ?n (flat_json fs) = ?r" and n: "?n \<le> length (flat_json fs)" by simp_all
  have bad: "stoi (take (Suc m) ?r) = Inl Invalid_argument" for m
    by (simp add: stoi_def sto_def read_int_no_digit is_space_def is_digit_def char_code_def)
  have "find_char (\<lambda>x. x \<in> set ?cs) (v @ CHR 0x22 # c # w) \<noteq> None"
    using u(2) by (auto simp: find_char_None_iff)
  then obtain m where "find_char (\<lambda>x. x \<in> set ?cs) ?r = Some (Suc m)" by fastforce
  then have "find_first_of (flat_json fs) ?cs ?n = Some (?n + Suc m)"
    using n by (simp add: find_first_of_def d)
  moreover have "CHR 0x22 # k @ [CHR 0x22, CHR 0x3A] = search_text k []"
    by (simp add: search_text_def)
  ultimately show ?thesis using bad [of m]
    by (simp only: get_int_def Let_def append_Cons append_Nil u(3) option.case d) simp
qed

end
