(* ===== verification/Fault_Manager.thy ===== *)
theory Fault_Manager
  imports Sql_Crud Json_Helper "HOL-Library.Multiset"
begin

text \<open>
  \<^verbatim>\<open>FaultManager\<close> of \<^verbatim>\<open>src/app/fault/fault_detector.cpp\<close>: the active faults of all devices.  The
  alert callback is modelled by the list of faults it is called with; \<open>alert\<close> says whether one
  is set.
\<close>

section \<open>Operations\<close>

definition add_fault ::
  "'pg pq_exec \<Rightarrow> bool \<Rightarrow> fault_info \<Rightarrow> fault_info list \<times> 'pg database option \<Rightarrow> fault_info list \<times> fault_info list \<times> 'pg database option" where
  "add_fault pq alert fault st = (case st of (active, db) \<Rightarrow>
     (if flt_level fault = Level_ERROR \<and> alert then [fault] else [],
      active @ [fault], db_do (db_insert_fault pq fault) db))"

definition on_fault_event ::
  "'pg pq_exec \<Rightarrow> bool \<Rightarrow> string \<Rightarrow> string \<Rightarrow> string \<Rightarrow> fault_info list \<times> 'pg database option \<Rightarrow>
   fault_info list exn \<times> fault_info list \<times> 'pg database option" where
  "on_fault_event pq alert tenant_id device_id payload_json st =
     (case get_int payload_json ''fault_code'' 0 of
        Inl e \<Rightarrow> (Inl e, st)
      | Inr code \<Rightarrow> (case get_int payload_json ''ts'' 0 of
          Inl e \<Rightarrow> (Inl e, st)
        | Inr ts \<Rightarrow>
           (let level = get_string payload_json ''level'';
                fault = new_fault_info\<lparr>flt_tenant_id := tenant_id, flt_device_id := device_id,
                  flt_code := of_int code,
                  flt_level := (if level = ''error'' then Level_ERROR else Level_WARNING),
                  flt_description := get_string payload_json ''description'',
                  flt_timestamp := to_string ts\<rparr>
            in case add_fault pq alert fault st of (alerts, st') \<Rightarrow> (Inr alerts, st'))))"

definition active_faults :: "fault_info list \<Rightarrow> fault_info list" where
  "active_faults active = active"

definition faults_by_device :: "string \<Rightarrow> string \<Rightarrow> fault_info list \<Rightarrow> fault_info list" where
  "faults_by_device tenant_id device_id active =
     filter (\<lambda>f. flt_tenant_id f = tenant_id \<and> flt_device_id f = device_id) active"

definition all_faults :: "fault_info list \<Rightarrow> fault_info list" where
  "all_faults active = active"

definition fault_matches :: "string \<Rightarrow> string \<Rightarrow> fault_code \<Rightarrow> fault_info \<Rightarrow> bool" where
  "fault_matches tenant_id device_id code f \<longleftrightarrow>
     flt_tenant_id f = tenant_id \<and> flt_device_id f = device_id \<and> flt_code f = code"

definition resolve_fault :: "string \<Rightarrow> string \<Rightarrow> fault_code \<Rightarrow> fault_info list \<Rightarrow> status_code \<times> fault_info list" where
  "resolve_fault tenant_id device_id code active =
     (case List.find (fault_matches tenant_id device_id code) active of
        None \<Rightarrow> (ORDER_NOT_FOUND, active)
      | Some _ \<Rightarrow> (OK, erase_first (fault_matches tenant_id device_id code) active))"

definition fm_load_from_database ::
  "'pg pq_exec \<Rightarrow> int \<Rightarrow> fault_info list \<times> 'pg database option \<Rightarrow> status_code exn \<times> fault_info list \<times> 'pg database option" where
  "fm_load_from_database pq now st = (case st of
       (active, None) \<Rightarrow> (Inr STORAGE_READ_ERROR, active, None)
     | (active, Some db) \<Rightarrow> (case db_list_all_faults pq now db of
          (Inl e, db1) \<Rightarrow> (Inl e, active, Some db1)
        | (Inr _, db1) \<Rightarrow> (case db_list_active_faults pq now db1 of
             (Inl e, db2) \<Rightarrow> (Inl e, active, Some db2)
           | (Inr fs, db2) \<Rightarrow> (Inr OK, fs, Some db2))))"

definition reassign_unknown_devices :: "string set \<Rightarrow> string \<Rightarrow> fault_info list \<Rightarrow> fault_info list" where
  "reassign_unknown_devices valid_ids target_device active =
     map (\<lambda>f. if flt_device_id f \<notin> valid_ids then f\<lparr>flt_device_id := target_device\<rparr> else f) active"

section \<open>Seed data\<close>

definition seed_fault_1 :: fault_info where
  "seed_fault_1 = new_fault_info\<lparr>flt_tenant_id := ''tenant_demo'', flt_device_id := ''dev-coffee-002'',
       flt_code := E003_PUMP_FAILURE, flt_level := Level_ERROR,
       flt_description := bytes [0xE6, 0xB0, 0xB4, 0xE6, 0xB3, 0xB5, 0xE6, 0xB5, 0x81, 0xE9, 0x87, 0x8F, 0xE5, 0xBC, 0x82, 0xE5, 0xB8, 0xB8, 0xEF, 0xBC, 0x9A, 0xE6, 0x9C, 0x9F, 0xE6, 0x9C, 0x9B, 0xE6, 0xB5, 0x81, 0xE9, 0x87, 0x8F] @ '' 8ml/s'' @ bytes [0xEF, 0xBC, 0x8C, 0xE5, 0xAE, 0x9E, 0xE9, 0x99, 0x85] @ '' 3ml/s'',
       flt_timestamp := ''1782660900'',
       flt_sensor_snapshot := ''{'' @ [CHR 0x22] @ ''flow_rate_ml_s'' @ [CHR 0x22] @ '':3.0,'' @ [CHR 0x22] @ ''target_flow'' @ [CHR 0x22] @ '':8.0,'' @ [CHR 0x22] @ ''pump_current_a'' @ [CHR 0x22] @ '':0.3}''\<rparr>"

definition seed_fault_2 :: fault_info where
  "seed_fault_2 = new_fault_info\<lparr>flt_tenant_id := ''tenant_demo'', flt_device_id := ''dev-coffee-001'',
       flt_code := W003_MATERIAL_LOW, flt_level := Level_WARNING,
       flt_description := bytes [0xE5, 0x92, 0x96, 0xE5, 0x95, 0xA1, 0xE8, 0xB1, 0x86, 0xE4, 0xBD, 0x99, 0xE9, 0x87, 0x8F, 0xE4, 0xB8, 0x8D, 0xE8, 0xB6, 0xB3, 0xEF, 0xBC, 0x9A, 0xE5, 0xBD, 0x93, 0xE5, 0x89, 0x8D] @ '' 120g'' @ bytes [0xEF, 0xBC, 0x8C, 0xE9, 0x98, 0x88, 0xE5, 0x80, 0xBC] @ '' 150g'',
       flt_timestamp := ''1782663600'',
       flt_sensor_snapshot := ''{'' @ [CHR 0x22] @ ''bean_remaining_g'' @ [CHR 0x22] @ '':120,'' @ [CHR 0x22] @ ''threshold_g'' @ [CHR 0x22] @ '':150}''\<rparr>"

definition seed_fault_3 :: fault_info where
  "seed_fault_3 = new_fault_info\<lparr>flt_tenant_id := ''tenant_demo'', flt_device_id := ''dev-water-001'',
       flt_code := W002_COMM_FAIL, flt_level := Level_WARNING,
       flt_description := bytes [0xE9, 0x80, 0x9A, 0xE4, 0xBF, 0xA1, 0xE6, 0xA8, 0xA1, 0xE5, 0x9D, 0x97, 0xE8, 0xBF, 0x9E, 0xE7, 0xBB, 0xAD] @ ''3'' @ bytes [0xE6, 0xAC, 0xA1, 0xE5, 0xBF, 0x83, 0xE8, 0xB7, 0xB3, 0xE8, 0xB6, 0x85, 0xE6, 0x97, 0xB6, 0xEF, 0xBC, 0x8C, 0xE8, 0xAE, 0xBE, 0xE5, 0xA4, 0x87, 0xE5, 0x8F, 0xAF, 0xE8, 0x83, 0xBD, 0xE7, 0xA6, 0xBB, 0xE7, 0xBA, 0xBF],
       flt_timestamp := ''1782665400'',
       flt_sensor_snapshot := ''{'' @ [CHR 0x22] @ ''missed_heartbeats'' @ [CHR 0x22] @ '':3,'' @ [CHR 0x22] @ ''last_seen'' @ [CHR 0x22] @ '':'' @ [CHR 0x22] @ ''2026-06-26T09:27:00Z'' @ [CHR 0x22] @ ''}''\<rparr>"

definition seed_fault_4 :: fault_info where
  "seed_fault_4 = new_fault_info\<lparr>flt_tenant_id := ''tenant_demo'', flt_device_id := ''dev-coffee-003'',
       flt_code := E005_WATER_LEAK, flt_level := Level_ERROR,
       flt_description := bytes [0xE6, 0x9C, 0xBA, 0xE7, 0xAE, 0xB1, 0xE5, 0xBA, 0x95, 0xE9, 0x83, 0xA8, 0xE6, 0xBC, 0x8F, 0xE6, 0xB0, 0xB4, 0xE4, 0xBC, 0xA0, 0xE6, 0x84, 0x9F, 0xE5, 0x99, 0xA8, 0xE8, 0xA7, 0xA6, 0xE5, 0x8F, 0x91, 0xEF, 0xBC, 0x8C, 0xE5, 0xB7, 0xB2, 0xE8, 0x87, 0xAA, 0xE5, 0x8A, 0xA8, 0xE9, 0x94, 0x81, 0xE5, 0xAE, 0x9A],
       flt_timestamp := ''1782662700'',
       flt_sensor_snapshot := ''{'' @ [CHR 0x22] @ ''leak_sensor'' @ [CHR 0x22] @ '':true,'' @ [CHR 0x22] @ ''zone'' @ [CHR 0x22] @ '':'' @ [CHR 0x22] @ ''bottom_tray'' @ [CHR 0x22] @ '','' @ [CHR 0x22] @ ''auto_lockdown'' @ [CHR 0x22] @ '':true}''\<rparr>"

definition fm_seed_mock_data :: "fault_info list \<Rightarrow> fault_info list" where
  "fm_seed_mock_data active = active @ [seed_fault_1, seed_fault_2, seed_fault_3, seed_fault_4]"

section \<open>Raising and resolving\<close>

lemma erase_first_append:
  "erase_first P (xs @ ys) = (if List.find P xs = None then xs @ erase_first P ys else erase_first P xs @ ys)"
  by (induction xs) auto

text \<open>Resolving undoes raising: when the device had no active fault of that code, resolving
  the one just raised gives back the list as it was; otherwise the oldest fault of that code is
  the one removed and the new one stays.  The count of faults goes back by exactly one.\<close>

theorem resolve_add_fault:
  "resolve_fault (flt_tenant_id f) (flt_device_id f) (flt_code f)
       (fst (snd (add_fault pq alert f (active, db))))
   = (let P = fault_matches (flt_tenant_id f) (flt_device_id f) (flt_code f) in
      (OK, case List.find P active of None \<Rightarrow> active | Some _ \<Rightarrow> erase_first P active @ [f]))
   \<and> length (snd (resolve_fault (flt_tenant_id f) (flt_device_id f) (flt_code f)
       (fst (snd (add_fault pq alert f (active, db)))))) = length active"
proof -
  let ?P = "fault_matches (flt_tenant_id f) (flt_device_id f) (flt_code f)"
  have f: "?P f" by (simp add: fault_matches_def)
  then have "List.find ?P (active @ [f]) \<noteq> None" by (auto simp: find_append split: option.splits)
  then show ?thesis using f length_erase_first [of ?P active]
    by (auto simp: resolve_fault_def add_fault_def erase_first_append Let_def split: option.splits)
qed

text \<open>A fault event in the documented form raises exactly the fault it describes: the code,
  the level, the description and the time of the message, for the device of the topic; an
  error raises the alert once, a warning does not.\<close>

theorem fault_event_recorded:
  assumes "fields_ok fs" and "map_of fs ''fault_code'' = Some (Json_Int code)" and "0 \<le> code" "code < 256"
    and "map_of fs ''level'' = Some (Json_Str level)" and "map_of fs ''description'' = Some (Json_Str desc)"
    and "map_of fs ''ts'' = Some (Json_Int ts)" and "0 \<le> ts" "ts \<le> int32_max"
  shows "on_fault_event pq True t d (flat_json fs) (active, None) =
     (let f = \<lparr>flt_tenant_id = t, flt_device_id = d, flt_code = of_int code,
               flt_level = (if level = ''error'' then Level_ERROR else Level_WARNING),
               flt_description = desc, flt_timestamp = to_string ts, flt_sensor_snapshot = ''''\<rparr>
      in (Inr (if level = ''error'' then [f] else []), active @ [f], None))"
proof -
  have "get_int (flat_json fs) ''fault_code'' 0 = Inr code"
    by (rule get_int_flat [OF assms(1,2)]) (use assms in \<open>simp_all add: int32_min_def int32_max_def\<close>)
  moreover have "get_int (flat_json fs) ''ts'' 0 = Inr ts"
    by (rule get_int_flat [OF assms(1,7)]) (use assms in \<open>simp_all add: int32_min_def int32_max_def\<close>)
  ultimately show ?thesis
    using get_string_flat [OF assms(1,5)] get_string_flat [OF assms(1,6)]
    by (simp add: on_fault_event_def add_fault_def db_do_def new_fault_info_def Let_def)
qed

lemma fault_event_recorded_witness:
  "fst (snd (on_fault_event (\<lambda>_ c. (Pg_error, c :: unit)) True ''t'' ''d''
     (flat_json [(''fault_code'', Json_Int 3), (''level'', Json_Str ''error''),
        (''description'', Json_Str ''pump''), (''ts'', Json_Int 17)]) ([], None)))
   = [\<lparr>flt_tenant_id = ''t'', flt_device_id = ''d'', flt_code = 3, flt_level = Level_ERROR,
       flt_description = ''pump'', flt_timestamp = to_string 17, flt_sensor_snapshot = ''''\<rparr>]"
  by (subst fault_event_recorded [where code = 3 and level = "''error''" and desc = "''pump''" and ts = 17])
     (simp_all add: fields_ok_def key_ok_def int32_max_def Let_def)

text \<open>After reassigning, every active fault belongs to a valid device or to the target, no
  fault is lost or reordered, and the faults of valid devices are untouched.\<close>

theorem reassign_unknown_devices_ok:
  "flt_device_id ` set (reassign_unknown_devices ids target active) \<subseteq> ids \<union> {target}
   \<and> map (flt_device_id_update (\<lambda>_. '''')) (reassign_unknown_devices ids target active)
     = map (flt_device_id_update (\<lambda>_. '''')) active
   \<and> filter (\<lambda>f. flt_device_id f \<in> ids - {target}) (reassign_unknown_devices ids target active)
     = filter (\<lambda>f. flt_device_id f \<in> ids - {target}) active"
  by (auto simp: reassign_unknown_devices_def filter_map o_def) (induction active; auto)+

end
