(* ===== verification/Device_Manager.thy ===== *)
theory Device_Manager
  imports Sql_Crud Interfaces "HOL-Library.Multiset"
begin

text \<open>
  \<^verbatim>\<open>DeviceManager\<close> of \<^verbatim>\<open>src/app/device/device_manager.cpp\<close>: the devices of all tenants, a map from
  tenants to maps from device identifiers to devices.  The clock is the argument \<open>now\<close> (epoch
  seconds), and the offline callback is modelled by the list of its calls.
\<close>

section \<open>State and operations\<close>

type_synonym devices = "(string, device) umap"
type_synonym tenants = "(string, devices) umap"

definition tenant_devices :: "string \<Rightarrow> tenants \<Rightarrow> devices" where
  "tenant_devices t m = (case map_of m t of None \<Rightarrow> [] | Some td \<Rightarrow> td)"

text \<open>\<^verbatim>\<open>tenants_[t].map[d] = dev\<close>: both maps create a missing entry.\<close>

definition put_device :: "string \<Rightarrow> string \<Rightarrow> device \<Rightarrow> tenants \<Rightarrow> tenants" where
  "put_device t d dev m = AList.update t (AList.update d dev (tenant_devices t m)) m"

definition process_heartbeat :: "int \<Rightarrow> string \<Rightarrow> string \<Rightarrow> string \<Rightarrow> string \<Rightarrow> tenants \<Rightarrow> tenants" where
  "process_heartbeat now tenant_id device_id product_id payload_json m =
     (case map_of (tenant_devices tenant_id m) device_id of
        None \<Rightarrow> put_device tenant_id device_id
          (new_device\<lparr>dev_tenant_id := tenant_id, dev_device_id := device_id, dev_product_id := product_id,
             dev_network_status := ONLINE, dev_work_status := WORK_IDLE,
             dev_last_heartbeat_at := now, dev_activated := True\<rparr>) m
      | Some dev \<Rightarrow> put_device tenant_id device_id
          (dev\<lparr>dev_last_heartbeat_at := now, dev_network_status := ONLINE\<rparr>) m)"

definition process_property :: "string \<Rightarrow> string \<Rightarrow> string \<Rightarrow> string \<Rightarrow> tenants \<Rightarrow> tenants" where
  "process_property tenant_id device_id product_id payload_json m = m"

definition register_device ::
  "'pg pq_exec \<Rightarrow> device \<Rightarrow> tenants \<times> 'pg database option \<Rightarrow> status_code \<times> tenants \<times> 'pg database option" where
  "register_device pq device st = (case st of (m, db) \<Rightarrow>
     (let m' = put_device (dev_tenant_id device) (dev_device_id device) device m in
      case db of
        None \<Rightarrow> (OK, m', None)
      | Some d \<Rightarrow> (case db_upsert_device pq device d of (sc, d') \<Rightarrow>
          (if sc \<noteq> OK then sc else OK, m', Some d'))))"

definition remove_device :: "string \<Rightarrow> string \<Rightarrow> tenants \<Rightarrow> status_code \<times> tenants" where
  "remove_device tenant_id device_id m =
     (case map_of m tenant_id of
        None \<Rightarrow> (DEV_NOT_ACTIVATED, m)
      | Some td \<Rightarrow>
          if map_of td device_id = None then (DEV_NOT_ACTIVATED, m)
          else (let td' = AList.delete device_id td in
            (OK, if td' = [] then AList.delete tenant_id m else AList.update tenant_id td' m)))"

definition update_device_status ::
  "string \<Rightarrow> string \<Rightarrow> network_status \<Rightarrow> work_status \<Rightarrow> tenants \<Rightarrow> status_code \<times> tenants" where
  "update_device_status tenant_id device_id net_st work_st m =
     (case map_of m tenant_id of
        None \<Rightarrow> (DEV_NOT_ACTIVATED, m)
      | Some td \<Rightarrow> (case map_of td device_id of
          None \<Rightarrow> (DEV_NOT_ACTIVATED, m)
        | Some dev \<Rightarrow> (OK, put_device tenant_id device_id
             (dev\<lparr>dev_network_status := net_st, dev_work_status := work_st\<rparr>) m)))"

text \<open>The first tenant, in the order of iteration, that has the device.\<close>

definition owner_entry :: "string \<Rightarrow> tenants \<Rightarrow> (string \<times> devices) option" where
  "owner_entry device_id m = List.find (\<lambda>(tid, td). map_of td device_id \<noteq> None) m"

definition migrate_device :: "string \<Rightarrow> string \<Rightarrow> tenants \<Rightarrow> status_code \<times> tenants" where
  "migrate_device device_id new_tenant m =
     (case owner_entry device_id m of
        None \<Rightarrow> (DEV_NOT_ACTIVATED, m)
      | Some (tid, td) \<Rightarrow>
          (let dev = the (map_of td device_id);
               m1 = AList.update tid (AList.delete device_id td) m
           in (OK, put_device new_tenant device_id (dev\<lparr>dev_tenant_id := new_tenant\<rparr>) m1)))"

definition find_device_by_id :: "string \<Rightarrow> tenants \<Rightarrow> device option" where
  "find_device_by_id device_id m =
     (case owner_entry device_id m of None \<Rightarrow> None | Some (tid, td) \<Rightarrow> map_of td device_id)"

definition get_device :: "string \<Rightarrow> string \<Rightarrow> tenants \<Rightarrow> device option" where
  "get_device tenant_id device_id m =
     (case map_of m tenant_id of None \<Rightarrow> None | Some td \<Rightarrow> map_of td device_id)"

definition list_devices :: "string \<Rightarrow> tenants \<Rightarrow> device list" where
  "list_devices tenant_id m = (case map_of m tenant_id of None \<Rightarrow> [] | Some td \<Rightarrow> map snd td)"

definition list_all_devices :: "tenants \<Rightarrow> device list" where
  "list_all_devices m = concat (map (\<lambda>(tid, td). map snd td) m)"

definition list_offline_devices :: "int \<Rightarrow> int \<Rightarrow> tenants \<Rightarrow> device list" where
  "list_offline_devices now timeout_sec m =
     concat (map (\<lambda>(tid, td). filter (\<lambda>dev. timeout_sec < now - dev_last_heartbeat_at dev) (map snd td)) m)"

fun mark_offline :: "bool \<Rightarrow> device list \<Rightarrow> tenants \<Rightarrow> (string \<times> string) list \<times> tenants" where
  "mark_offline cb [] m = ([], m)"
| "mark_offline cb (dev # devs) m =
     (let m1 = snd (update_device_status (dev_tenant_id dev) (dev_device_id dev) OFFLINE (dev_work_status dev) m)
      in case mark_offline cb devs m1 of (calls, m2) \<Rightarrow>
           ((if cb then [(dev_tenant_id dev, dev_device_id dev)] else []) @ calls, m2))"

definition check_offline_devices :: "bool \<Rightarrow> int \<Rightarrow> tenants \<Rightarrow> (string \<times> string) list \<times> tenants" where
  "check_offline_devices cb now m = mark_offline cb (list_offline_devices now 180 m) m"

record tenant =
  tnt_tenant_id :: string
  tnt_name :: string
  tnt_active :: bool

definition list_tenants :: "tenants \<Rightarrow> tenant list" where
  "list_tenants m = map (\<lambda>(tid, td). \<lparr>tnt_tenant_id = tid, tnt_name = tid, tnt_active = True\<rparr>) m"

definition device_count :: "string \<Rightarrow> tenants \<Rightarrow> int" where
  "device_count tenant_id m = (case map_of m tenant_id of None \<Rightarrow> 0 | Some td \<Rightarrow> int (length td))"

definition total_device_count :: "tenants \<Rightarrow> int" where
  "total_device_count m = sum_list (map (\<lambda>(tid, td). int (length td)) m)"

definition dm_load_from_database ::
  "'pg pq_exec \<Rightarrow> tenants \<times> 'pg database option \<Rightarrow> status_code exn \<times> tenants \<times> 'pg database option" where
  "dm_load_from_database pq st = (case st of
       (m, None) \<Rightarrow> (Inr STORAGE_READ_ERROR, m, None)
     | (m, Some db) \<Rightarrow> (case db_list_all_devices pq db of
          (Inl e, db') \<Rightarrow> (Inl e, m, Some db')
        | (Inr devs, db') \<Rightarrow> (Inr OK,
             fold (\<lambda>dev m. if dev_activated dev then put_device (dev_tenant_id dev) (dev_device_id dev) dev m else m) devs m,
             Some db')))"

definition sync_to_database :: "'pg pq_exec \<Rightarrow> device \<Rightarrow> 'pg database option \<Rightarrow> status_code \<times> 'pg database option" where
  "sync_to_database pq device db = (case db of
       None \<Rightarrow> (STORAGE_READ_ERROR, None)
     | Some d \<Rightarrow> (case db_upsert_device pq device d of (sc, d') \<Rightarrow> (sc, Some d')))"

section \<open>The invariant\<close>

text \<open>Both levels have distinct keys, and a device is filed under its own tenant and identifier.\<close>

definition dm_inv :: "tenants \<Rightarrow> bool" where
  "dm_inv m \<longleftrightarrow> umap_ok m \<and> list_all (\<lambda>(t, td). umap_ok td
     \<and> list_all (\<lambda>(d, dev). dev_device_id dev = d \<and> dev_tenant_id dev = t) td) m"

definition filed :: "string \<Rightarrow> devices \<Rightarrow> bool" where
  "filed t td \<longleftrightarrow> umap_ok td \<and> list_all (\<lambda>(d, dev). dev_device_id dev = d \<and> dev_tenant_id dev = t) td"

lemma dm_inv_filed: "dm_inv m \<longleftrightarrow> umap_ok m \<and> (\<forall>t td. map_of m t = Some td \<longrightarrow> filed t td)"
proof -
  have "umap_ok m \<Longrightarrow> list_all (\<lambda>(t, td). filed t td) m \<longleftrightarrow> (\<forall>t td. map_of m t = Some td \<longrightarrow> filed t td)"
    by (auto simp: list_all_iff umap_mem [symmetric])
  then show ?thesis by (auto simp: dm_inv_def filed_def)
qed

lemma filed_lookup: "filed t td \<longleftrightarrow> umap_ok td \<and> (\<forall>d dev. map_of td d = Some dev \<longrightarrow> dev_device_id dev = d \<and> dev_tenant_id dev = t)"
  by (auto simp: filed_def list_all_iff umap_mem [symmetric])

lemma filed_Nil [simp]: "filed t []"
  by (simp add: filed_def)

lemma filed_update: "filed t td \<Longrightarrow> dev_device_id dev = d \<Longrightarrow> dev_tenant_id dev = t \<Longrightarrow> filed t (AList.update d dev td)"
  by (auto simp: filed_lookup)

lemma filed_delete: "filed t td \<Longrightarrow> filed t (AList.delete d td)"
  by (auto simp: filed_lookup)

lemma filed_tenant_devices: "dm_inv m \<Longrightarrow> filed t (tenant_devices t m)"
  by (auto simp: tenant_devices_def dm_inv_filed split: option.splits)

lemma put_device_inv:
  "dm_inv m \<Longrightarrow> dev_device_id dev = d \<Longrightarrow> dev_tenant_id dev = t \<Longrightarrow> dm_inv (put_device t d dev m)"
  using filed_tenant_devices [of m t]
  by (auto simp: put_device_def dm_inv_filed filed_update)

lemma update_tenant_inv: "dm_inv m \<Longrightarrow> filed t td \<Longrightarrow> dm_inv (AList.update t td m)"
  by (auto simp: dm_inv_filed)

lemma delete_tenant_inv: "dm_inv m \<Longrightarrow> dm_inv (AList.delete t m)"
  by (auto simp: dm_inv_filed)

lemma get_device_filed: "dm_inv m \<Longrightarrow> get_device t d m = Some dev \<Longrightarrow> dev_device_id dev = d \<and> dev_tenant_id dev = t"
  by (auto simp: get_device_def dm_inv_filed filed_lookup split: option.splits)

lemma get_put_device:
  "get_device t d (put_device t' d' dev m) = (if t = t' \<and> d = d' then Some dev else get_device t d m)"
  by (auto simp: get_device_def put_device_def tenant_devices_def split: option.splits)

lemma process_heartbeat_inv: "dm_inv m \<Longrightarrow> dm_inv (process_heartbeat now t d p j m)"
proof -
  assume m: "dm_inv m"
  then have "map_of (tenant_devices t m) d = Some dev \<Longrightarrow> dev_device_id dev = d \<and> dev_tenant_id dev = t" for dev
    using filed_tenant_devices [of m t] by (auto simp: filed_lookup)
  with m show ?thesis
    by (auto simp: process_heartbeat_def intro!: put_device_inv split: option.splits)
qed

lemma remove_device_inv: "dm_inv m \<Longrightarrow> dm_inv (snd (remove_device t d m))"
  by (auto simp: remove_device_def Let_def intro!: delete_tenant_inv update_tenant_inv filed_delete split: option.splits)
     (auto simp: dm_inv_filed)

lemma update_device_status_inv: "dm_inv m \<Longrightarrow> dm_inv (snd (update_device_status t d ns ws m))"
  using get_device_filed [of m t d]
  by (auto simp: update_device_status_def get_device_def intro!: put_device_inv split: option.splits)

lemma owner_entry_SomeD:
  assumes "umap_ok m" "owner_entry d m = Some (t, td)"
  shows "map_of m t = Some td \<and> (\<exists>dev. map_of td d = Some dev)"
  using find_SomeD [OF assms(2) [unfolded owner_entry_def]] umap_mem [OF assms(1)] by auto

lemma owner_entry_None_iff: "umap_ok m \<Longrightarrow> owner_entry d m = None \<longleftrightarrow> (\<forall>t. get_device t d m = None)"
  by (force simp: owner_entry_def find_None_iff get_device_def umap_mem [symmetric] split: option.splits)

lemma migrate_device_inv: "dm_inv m \<Longrightarrow> dm_inv (snd (migrate_device d t' m))"
proof (cases "owner_entry d m")
  case (Some e)
  assume m: "dm_inv m"
  then have ok: "umap_ok m" by (simp add: dm_inv_filed)
  obtain t td where e: "e = (t, td)" by fastforce
  then obtain dev where td: "map_of m t = Some td" and dev: "map_of td d = Some dev"
    using owner_entry_SomeD [OF ok, of d t td] Some by auto
  from td m have f: "filed t td" by (simp add: dm_inv_filed)
  with dev have "dev_device_id dev = d" by (auto simp: filed_lookup)
  with m f dev Some e show ?thesis
    by (auto simp: migrate_device_def Let_def intro!: put_device_inv update_tenant_inv filed_delete)
qed (simp add: migrate_device_def)

section \<open>The devices as a store and as a machine\<close>

lemma get_remove_device:
  "get_device t d (snd (remove_device t' d' m)) = (if t = t' \<and> d = d' then None else get_device t d m)"
proof (cases "map_of m t'")
  case (Some td)
  have "AList.delete d' td = [] \<Longrightarrow> map_of td d'' = None" if "d'' \<noteq> d'" for d''
    using map_of_delete [of d' td] that by (metis fun_upd_other map_of.simps(1))
  with Some show ?thesis
    by (auto simp: remove_device_def get_device_def Let_def split: option.splits)
qed (auto simp: remove_device_def get_device_def)

definition device_key :: "device \<Rightarrow> string \<times> string" where
  "device_key dev = (dev_tenant_id dev, dev_device_id dev)"

interpretation device_store: entity_store dm_inv "\<lambda>k m. get_device (fst k) (snd k) m"
  "\<lambda>dev m. put_device (dev_tenant_id dev) (dev_device_id dev) dev m"
  "\<lambda>k m. snd (remove_device (fst k) (snd k) m)" device_key
  by unfold_locales
     (auto simp: put_device_inv remove_device_inv get_put_device get_remove_device device_key_def prod_eq_iff)

datatype device_op = Heartbeat int string string string string | Register device | Remove string string
  | Set_status string string network_status work_status | Migrate string string | Check_offline bool int

fun dm_step :: "device_op \<Rightarrow> tenants \<Rightarrow> tenants" where
  "dm_step (Heartbeat now t d p j) m = process_heartbeat now t d p j m"
| "dm_step (Register dev) m = put_device (dev_tenant_id dev) (dev_device_id dev) dev m"
| "dm_step (Remove t d) m = snd (remove_device t d m)"
| "dm_step (Set_status t d ns ws) m = snd (update_device_status t d ns ws m)"
| "dm_step (Migrate d t) m = snd (migrate_device d t m)"
| "dm_step (Check_offline cb now) m = snd (check_offline_devices cb now m)"

text \<open>\<open>Register\<close> is what \<^verbatim>\<open>register_device\<close> does to the map, with or without a database.\<close>

lemma register_device_map:
  "fst (snd (register_device pq dev (m, db))) = put_device (dev_tenant_id dev) (dev_device_id dev) dev m"
  by (auto simp: register_device_def Let_def split: option.splits prod.splits)

lemma mark_offline_inv: "dm_inv m \<Longrightarrow> dm_inv (snd (mark_offline cb devs m))"
  by (induction devs arbitrary: m) (auto simp: Let_def update_device_status_inv case_prod_beta)

interpretation dm: started_machine dm_step dm_inv "[]"
proof
  fix m op
  assume "dm_inv m"
  then show "dm_inv (dm_step op m)"
    by (cases op) (simp_all add: process_heartbeat_inv put_device_inv remove_device_inv
        update_device_status_inv migrate_device_inv check_offline_devices_def mark_offline_inv)
qed (simp add: dm_inv_def)

section \<open>Listings\<close>

lemma list_all_devices_keys: "dm_inv m \<Longrightarrow> distinct (map device_key (list_all_devices m))"
proof (induction m)
  case (Cons e m)
  obtain t td where e: "e = (t, td)" by fastforce
  with Cons.prems have f: "filed t td" and m: "dm_inv m" and t: "t \<notin> fst ` set m"
    by (auto simp: dm_inv_def filed_def)
  have eq: "map device_key (map snd td) = map (\<lambda>(d, dev). (t, d)) td"
    using f by (auto simp: filed_def list_all_iff device_key_def)
  have dis: "distinct (map (\<lambda>(d, dev). (t, d)) td)"
  proof -
    have "map (\<lambda>(d, dev). (t, d)) td = map (Pair t) (map fst td)" by (simp add: case_prod_beta')
    then show ?thesis using f by (simp add: filed_def umap_ok_def distinct_map inj_on_def)
  qed
  have rest: "fst ` device_key ` set (list_all_devices m) \<subseteq> fst ` set m"
    using m by (force simp: list_all_devices_def dm_inv_def list_all_iff device_key_def)
  have td: "distinct (map device_key (map snd td))" "fst ` set (map device_key (map snd td)) \<subseteq> {t}"
    using dis by (simp_all only: eq) auto
  have "k \<notin> set (map device_key (list_all_devices m))" if "k \<in> set (map device_key (map snd td))" for k
  proof
    assume "k \<in> set (map device_key (list_all_devices m))"
    then have "fst k \<in> fst ` device_key ` set (list_all_devices m)" by (simp only: set_map imageI)
    moreover have "fst k = t" using td(2) that by blast
    ultimately show False using rest t by blast
  qed
  then have "set (map device_key (map snd td)) \<inter> set (map device_key (list_all_devices m)) = {}" by blast
  moreover have "map device_key (list_all_devices (e # m)) = map device_key (map snd td) @ map device_key (list_all_devices m)"
    by (simp add: e list_all_devices_def)
  ultimately show ?case using Cons.IH [OF m] td(1) by (simp only: distinct_append)
qed (simp add: list_all_devices_def)

lemma list_all_devices_iff:
  assumes "dm_inv m"
  shows "dev \<in> set (list_all_devices m) \<longleftrightarrow> get_device (dev_tenant_id dev) (dev_device_id dev) m = Some dev"
proof -
  have ok: "umap_ok m" using assms by (simp add: dm_inv_filed)
  have "dev \<in> set (list_all_devices m) \<longleftrightarrow> (\<exists>t td d. map_of m t = Some td \<and> (d, dev) \<in> set td)"
    by (force simp: list_all_devices_def umap_mem [OF ok, symmetric])
  also have "\<dots> \<longleftrightarrow> (\<exists>t td d. map_of m t = Some td \<and> map_of td d = Some dev)"
    using assms by (metis dm_inv_filed filed_def umap_mem)
  also have "\<dots> \<longleftrightarrow> get_device (dev_tenant_id dev) (dev_device_id dev) m = Some dev"
    using assms by (auto simp: get_device_def dm_inv_filed filed_lookup split: option.splits)
  finally show ?thesis .
qed

lemma list_offline_filter:
  "list_offline_devices now timeout m = filter (\<lambda>dev. timeout < now - dev_last_heartbeat_at dev) (list_all_devices m)"
  by (induction m) (auto simp: list_offline_devices_def list_all_devices_def)

section \<open>Offline detection\<close>

lemma update_device_status_get:
  "update_device_status t d ns ws m = (case get_device t d m of
       None \<Rightarrow> (DEV_NOT_ACTIVATED, m)
     | Some dev \<Rightarrow> (OK, put_device t d (dev\<lparr>dev_network_status := ns, dev_work_status := ws\<rparr>) m))"
  by (simp add: update_device_status_def get_device_def split: option.splits)

lemma get_update_device_status:
  "get_device t d (snd (update_device_status t' d' ns ws m)) =
     (if t = t' \<and> d = d' then map_option (\<lambda>dev. dev\<lparr>dev_network_status := ns, dev_work_status := ws\<rparr>) (get_device t d m)
      else get_device t d m)"
  by (auto simp: update_device_status_get get_put_device split: option.splits)

lemma get_mark_offline:
  assumes "\<forall>dev \<in> set devs. get_device (dev_tenant_id dev) (dev_device_id dev) m = Some dev"
    and "distinct (map device_key devs)"
  shows "get_device t d (snd (mark_offline cb devs m)) =
     (if (t, d) \<in> device_key ` set devs then map_option (\<lambda>dev. dev\<lparr>dev_network_status := OFFLINE\<rparr>) (get_device t d m)
      else get_device t d m)"
  using assms
proof (induction devs arbitrary: m)
  case (Cons dev devs)
  let ?m = "snd (update_device_status (dev_tenant_id dev) (dev_device_id dev) OFFLINE (dev_work_status dev) m)"
  have get: "get_device t d ?m = (if (t, d) = device_key dev then Some (dev\<lparr>dev_network_status := OFFLINE\<rparr>) else get_device t d m)" for t d
    using Cons.prems(1) by (auto simp: get_update_device_status device_key_def)
  have "\<forall>x \<in> set devs. device_key x \<noteq> device_key dev" using Cons.prems(2) by (auto simp: image_iff)
  then have "\<forall>x \<in> set devs. get_device (dev_tenant_id x) (dev_device_id x) ?m = Some x"
    using Cons.prems(1) by (auto simp: get device_key_def)
  from Cons.IH [OF this] Cons.prems
  have IH: "get_device t d (snd (mark_offline cb devs ?m)) =
     (if (t, d) \<in> device_key ` set devs then map_option (\<lambda>dev. dev\<lparr>dev_network_status := OFFLINE\<rparr>) (get_device t d ?m)
      else get_device t d ?m)" by simp
  have "get_device t d m = Some dev" if "(t, d) = device_key dev"
    using that Cons.prems(1) by (simp add: device_key_def)
  moreover have "device_key dev \<notin> device_key ` set devs" using Cons.prems(2) by simp
  ultimately show ?case using IH
    by (auto simp: get Let_def case_prod_beta)
qed simp

lemma mark_offline_calls: "fst (mark_offline cb devs m) = (if cb then map device_key devs else [])"
  by (induction devs arbitrary: m) (auto simp: Let_def device_key_def case_prod_beta)

section \<open>Properties\<close>

definition only_tenant_of :: "string \<Rightarrow> tenants \<Rightarrow> bool" where
  "only_tenant_of d m \<longleftrightarrow> (\<forall>t t'. get_device t d m \<noteq> None \<longrightarrow> get_device t' d m \<noteq> None \<longrightarrow> t = t')"

lemma owner_entry_iff:
  assumes "umap_ok m" "only_tenant_of d m"
  shows "owner_entry d m = Some (t, td) \<longleftrightarrow> map_of m t = Some td \<and> map_of td d \<noteq> None"
proof
  assume "map_of m t = Some td \<and> map_of td d \<noteq> None"
  then have g: "get_device t d m \<noteq> None" by (simp add: get_device_def)
  then obtain t' td' where o: "owner_entry d m = Some (t', td')"
    using owner_entry_None_iff [OF assms(1), of d] by (cases "owner_entry d m") auto
  with owner_entry_SomeD [OF assms(1) o] have "get_device t' d m \<noteq> None" by (auto simp: get_device_def)
  with g assms(2) have "t' = t" by (simp add: only_tenant_of_def)
  with o owner_entry_SomeD [OF assms(1) o] \<open>map_of m t = Some td \<and> map_of td d \<noteq> None\<close>
  show "owner_entry d m = Some (t, td)" by simp
qed (use owner_entry_SomeD [OF assms(1)] in auto)

lemma find_device_by_id_iff:
  assumes "umap_ok m" "only_tenant_of d m"
  shows "find_device_by_id d m = Some dev \<longleftrightarrow> (\<exists>t. get_device t d m = Some dev)"
proof -
  have "find_device_by_id d m = Some dev \<longleftrightarrow> (\<exists>t td. owner_entry d m = Some (t, td) \<and> map_of td d = Some dev)"
    by (auto simp: find_device_by_id_def split: option.splits)
  also have "\<dots> \<longleftrightarrow> (\<exists>t. get_device t d m = Some dev)"
    by (auto simp: owner_entry_iff [OF assms] get_device_def split: option.splits)
  finally show ?thesis .
qed

text \<open>C18. Consistency of the device registry: after any sequence of heartbeats, registrations,
  removals, status changes, migrations and offline checks, every listed device is the one
  found under its own tenant and identifier, and no device is listed twice.\<close>

theorem dm_run_consistent:
  "list_all (\<lambda>dev. get_device (dev_tenant_id dev) (dev_device_id dev) (fold dm_step ops []) = Some dev)
     (list_all_devices (fold dm_step ops []))
   \<and> distinct (map (\<lambda>dev. (dev_tenant_id dev, dev_device_id dev)) (list_all_devices (fold dm_step ops [])))"
proof -
  have inv: "dm_inv (fold dm_step ops [])" by (rule dm.run_from_start)
  have "(\<lambda>dev. (dev_tenant_id dev, dev_device_id dev)) = device_key" by (simp add: device_key_def fun_eq_iff)
  with list_all_devices_keys [OF inv] list_all_devices_iff [OF inv] show ?thesis
    by (simp add: list_all_iff)
qed

text \<open>A heartbeat brings exactly its device online with the current time, registering it when
  it was unknown, and touches no other device.\<close>

theorem heartbeat_effect:
  "get_device t' d' (process_heartbeat now t d p payload m) =
     (if t' = t \<and> d' = d
      then Some (case get_device t d m of
             None \<Rightarrow> new_device\<lparr>dev_tenant_id := t, dev_device_id := d, dev_product_id := p,
                       dev_network_status := ONLINE, dev_last_heartbeat_at := now, dev_activated := True\<rparr>
           | Some dev \<Rightarrow> dev\<lparr>dev_network_status := ONLINE, dev_last_heartbeat_at := now\<rparr>)
      else get_device t' d' m)"
proof -
  have "map_of (tenant_devices t m) d = get_device t d m"
    by (simp add: tenant_devices_def get_device_def split: option.splits)
  then show ?thesis
    by (auto simp: process_heartbeat_def get_put_device new_device_def split: option.splits)
qed

lemma check_offline_facts:
  assumes "dm_inv m"
  shows "get_device t d (snd (check_offline_devices cb now m)) =
       map_option (\<lambda>dev. if 180 < now - dev_last_heartbeat_at dev then dev\<lparr>dev_network_status := OFFLINE\<rparr> else dev)
         (get_device t d m)
     \<and> distinct (fst (check_offline_devices True now m))
     \<and> ((t, d) \<in> set (fst (check_offline_devices True now m)) \<longleftrightarrow>
          (\<exists>dev. get_device t d m = Some dev \<and> 180 < now - dev_last_heartbeat_at dev))"
proof -
  let ?L = "list_offline_devices now 180 m"
  have L: "dev \<in> set ?L \<longleftrightarrow> 180 < now - dev_last_heartbeat_at dev
      \<and> get_device (dev_tenant_id dev) (dev_device_id dev) m = Some dev" for dev
    using list_all_devices_iff [OF assms] by (auto simp: list_offline_filter)
  have key: "(t, d) \<in> device_key ` set ?L \<longleftrightarrow> (\<exists>dev. get_device t d m = Some dev \<and> 180 < now - dev_last_heartbeat_at dev)" for t d
  proof
    assume "\<exists>dev. get_device t d m = Some dev \<and> 180 < now - dev_last_heartbeat_at dev"
    then obtain dev where dev: "get_device t d m = Some dev" "180 < now - dev_last_heartbeat_at dev" by blast
    with get_device_filed [OF assms dev(1)] have "dev \<in> set ?L" "device_key dev = (t, d)"
      by (simp_all add: L device_key_def)
    then show "(t, d) \<in> device_key ` set ?L" by (metis imageI)
  qed (auto simp: L device_key_def)
  have dis: "distinct (map device_key ?L)"
    using list_all_devices_keys [OF assms] by (simp add: list_offline_filter distinct_map_filter)
  have "get_device t d (snd (mark_offline cb ?L m)) = (if (t, d) \<in> device_key ` set ?L
      then map_option (\<lambda>dev. dev\<lparr>dev_network_status := OFFLINE\<rparr>) (get_device t d m) else get_device t d m)"
    by (rule get_mark_offline) (simp_all add: L dis)
  with key [of t d] dis show ?thesis
    by (cases "get_device t d m") (auto simp: check_offline_devices_def mark_offline_calls)
qed

text \<open>The offline check marks exactly the devices whose last heartbeat is more than 180
  seconds old, changes nothing else about them, and calls the callback once for each of them.\<close>

theorem check_offline_exact:
  assumes "dm_inv m"
  shows "get_device t d (snd (check_offline_devices cb now m)) =
       map_option (\<lambda>dev. if 180 < now - dev_last_heartbeat_at dev then dev\<lparr>dev_network_status := OFFLINE\<rparr> else dev)
         (get_device t d m)
     \<and> distinct (fst (check_offline_devices True now m))
     \<and> ((t, d) \<in> set (fst (check_offline_devices True now m)) \<longleftrightarrow>
          (\<exists>dev. get_device t d m = Some dev \<and> 180 < now - dev_last_heartbeat_at dev))"
  by (rule check_offline_facts [OF assms])

lemma check_offline_exact_witness:
  "get_device ''t'' ''d'' (snd (check_offline_devices True 1000
      [(''t'', [(''d'', new_device\<lparr>dev_tenant_id := ''t'', dev_device_id := ''d'', dev_network_status := ONLINE\<rparr>)])]))
   = Some (new_device\<lparr>dev_tenant_id := ''t'', dev_device_id := ''d'', dev_network_status := OFFLINE\<rparr>)"
  by (subst check_offline_exact [THEN conjunct1]) (simp_all add: dm_inv_def get_device_def new_device_def)

text \<open>C14. Migrating a device that one tenant owns moves it: it is found under the new tenant with
  its tenant field rewritten, no longer under the old one, and every other device stays.\<close>

theorem migrate_device_exact:
  assumes "dm_inv m" "only_tenant_of d m" "get_device t d m = Some dev"
  shows "fst (migrate_device d t' m) = OK
    \<and> get_device t'' d'' (snd (migrate_device d t' m)) =
       (if d'' \<noteq> d then get_device t'' d'' m
        else if t'' = t' then Some (dev\<lparr>dev_tenant_id := t'\<rparr>) else None)"
proof -
  have ok: "umap_ok m" using assms(1) by (simp add: dm_inv_filed)
  from assms(3) obtain td where td: "map_of m t = Some td" "map_of td d = Some dev"
    by (auto simp: get_device_def split: option.splits)
  then have o: "owner_entry d m = Some (t, td)" by (simp add: owner_entry_iff [OF ok assms(2)])
  have other: "get_device t'' d m = None" if "t'' \<noteq> t" for t''
    using assms(2,3) that by (auto simp: only_tenant_of_def)
  have del: "get_device u e (AList.update t (AList.delete d td) m) = (if e = d then None else get_device u e m)" for u e
    using td other [of u] by (auto simp: get_device_def split: option.splits)
  show ?thesis
    by (auto simp: migrate_device_def o td Let_def get_put_device del)
qed

lemma migrate_device_exact_witness:
  "get_device ''b'' ''d'' (snd (migrate_device ''d'' ''b''
      [(''a'', [(''d'', new_device\<lparr>dev_tenant_id := ''a'', dev_device_id := ''d''\<rparr>)])]))
   = Some (new_device\<lparr>dev_tenant_id := ''b'', dev_device_id := ''d''\<rparr>)"
  using migrate_device_exact [of "[(''a'', [(''d'', new_device\<lparr>dev_tenant_id := ''a'', dev_device_id := ''d''\<rparr>)])]"
      "''d''" "''a''" "new_device\<lparr>dev_tenant_id := ''a'', dev_device_id := ''d''\<rparr>" "''b''" "''b''" "''d''"]
  by (simp add: dm_inv_def get_device_def only_tenant_of_def split: if_splits)

text \<open>Looking a device up by its identifier alone does not depend on the order in which the
  hash map iterates over the tenants, as long as only one tenant has the device.\<close>

theorem find_device_order_independent:
  assumes "dm_inv m" "mset m = mset m'" "only_tenant_of d m"
  shows "find_device_by_id d m = find_device_by_id d m'"
proof -
  have ok: "umap_ok m" using assms(1) by (simp add: dm_inv_filed)
  have ok': "umap_ok m'"
    using ok assms(2) by (metis umap_ok_def mset_map mset_eq_imp_distinct_iff)
  have same: "get_device t d m' = get_device t d m" for t
    using ok ok' assms(2) by (metis get_device_def umap_ok_def map_of_eqI map_of_inject_set mset_eq_setD)
  then have "only_tenant_of d m'" using assms(3) by (simp add: only_tenant_of_def)
  with find_device_by_id_iff [OF ok assms(3)] find_device_by_id_iff [OF ok'] same
  show ?thesis by (metis (no_types, lifting) not_Some_eq)
qed

lemma find_device_order_independent_witness:
  "find_device_by_id ''d'' [(''a'', [(''d'', new_device\<lparr>dev_tenant_id := ''a'', dev_device_id := ''d''\<rparr>)]), (''b'', [])]
   = find_device_by_id ''d'' [(''b'', []), (''a'', [(''d'', new_device\<lparr>dev_tenant_id := ''a'', dev_device_id := ''d''\<rparr>)])]"
  by (rule find_device_order_independent)
     (auto simp: dm_inv_def get_device_def only_tenant_of_def split: if_splits)

section \<open>The interface for the clients of the registry\<close>

text \<open>What the roll-out and the router rely on: listing and looking up agree, and a device is
  filed under its own name.\<close>

locale device_directory =
  fixes inv :: "'s \<Rightarrow> bool"
    and all_devs :: "'s \<Rightarrow> device list"
    and lookup :: "string \<Rightarrow> string \<Rightarrow> 's \<Rightarrow> device option"
  assumes all_devs_iff: "inv s \<Longrightarrow> dev \<in> set (all_devs s) \<longleftrightarrow> lookup (dev_tenant_id dev) (dev_device_id dev) s = Some dev"
    and all_devs_keys: "inv s \<Longrightarrow> distinct (map device_key (all_devs s))"
    and lookup_filed: "inv s \<Longrightarrow> lookup t d s = Some dev \<Longrightarrow> dev_tenant_id dev = t \<and> dev_device_id dev = d"
begin

definition one_owner :: "'s \<Rightarrow> bool" where
  "one_owner s \<longleftrightarrow> (\<forall>d t t'. lookup t d s \<noteq> None \<longrightarrow> lookup t' d s \<noteq> None \<longrightarrow> t = t')"

lemma filter_iff: "inv s \<Longrightarrow> dev \<in> set (filter P (all_devs s)) \<longleftrightarrow> P dev \<and> lookup (dev_tenant_id dev) (dev_device_id dev) s = Some dev"
  by (auto simp: all_devs_iff)

lemma one_owner_ids:
  assumes "inv s" "one_owner s"
  shows "distinct (map dev_device_id (all_devs s))"
proof -
  have "inj_on dev_device_id (set (all_devs s))"
  proof (rule inj_onI)
    fix x y assume "x \<in> set (all_devs s)" "y \<in> set (all_devs s)" "dev_device_id x = dev_device_id y"
    then have "lookup (dev_tenant_id x) (dev_device_id x) s = Some x" "lookup (dev_tenant_id y) (dev_device_id x) s = Some y"
      using all_devs_iff [OF assms(1)] by auto
    with assms(2) show "x = y" by (metis one_owner_def option.distinct(1) option.inject)
  qed
  with all_devs_keys [OF assms(1)] show ?thesis by (simp add: distinct_map)
qed

end

interpretation directory: device_directory dm_inv list_all_devices get_device
  by unfold_locales (auto simp: list_all_devices_iff list_all_devices_keys dest: get_device_filed)

end
