(* ===== verification/Ota_Manager.thy ===== *)
theory Ota_Manager
  imports Device_Manager Json_Helper
begin

text \<open>
  \<^verbatim>\<open>OtaManager\<close> of \<^verbatim>\<open>src/app/ota/ota_manager.cpp\<close>: the firmware registry, the record of each device's
  upgrade, and the staged roll-out that selects devices by a hash of their identifier.
  \<^verbatim>\<open>std::hash\<close> is a parameter.  The roll-out asks the device manager for its devices; what it
  relies on is the locale \<open>device_directory\<close>.
\<close>

section \<open>State and operations\<close>

record ota_manager =
  ot_firmware_versions :: "firmware_version list"
  ot_ota_records :: "(string, ota_record) umap"

definition new_ota_manager :: ota_manager where
  "new_ota_manager = \<lparr>ot_firmware_versions = [], ot_ota_records = []\<rparr>"

text \<open>After a new record is inserted the iterator is still the end iterator, and the log line
  dereferences it.\<close>

definition process_ota_progress :: "string \<Rightarrow> string \<Rightarrow> string \<Rightarrow> ota_manager \<Rightarrow> unit exn \<times> ota_manager" where
  "process_ota_progress tenant_id device_id payload_json s =
     (case map_of (ot_ota_records s) device_id of
        None \<Rightarrow> (Inl Undefined_behaviour, s\<lparr>ot_ota_records := AList.update device_id
           (new_ota_record\<lparr>ota_tenant_id := tenant_id, ota_device_id := device_id\<rparr>) (ot_ota_records s)\<rparr>)
      | Some rec \<Rightarrow> (Inr (), s))"

definition register_firmware :: "firmware_version \<Rightarrow> ota_manager \<Rightarrow> status_code \<times> ota_manager" where
  "register_firmware fw s = (OK, s\<lparr>ot_firmware_versions := ot_firmware_versions s @ [fw]\<rparr>)"

definition find_firmware :: "string \<Rightarrow> ota_manager \<Rightarrow> firmware_version option" where
  "find_firmware version s = List.find (\<lambda>fw. fw_version fw = version) (ot_firmware_versions s)"

definition build_ota_notify_payload :: "string \<Rightarrow> string \<Rightarrow> string \<Rightarrow> bool \<Rightarrow> string" where
  \<open>build_ota_notify_payload target_version download_url checksum force =
     ''{'' @ ''"version":"'' @ target_version @ ''",'' @
     ''"download_url":"'' @ download_url @ ''",'' @
     ''"checksum":"'' @ checksum @ ''",'' @
     ''"force_upgrade":'' @ (if force then ''true'' else ''false'') @ ''}''\<close>

definition pending_record :: "firmware_version \<Rightarrow> string \<Rightarrow> string \<Rightarrow> string \<Rightarrow> ota_record" where
  "pending_record fw tenant_id device_id target_version =
     \<lparr>ota_tenant_id = tenant_id, ota_device_id = device_id, ota_current_version = '''',
      ota_target_version = target_version, ota_download_url = fw_download_url fw,
      ota_checksum = fw_checksum_sha256 fw, ota_progress = 0, ota_stage = ''pending'',
      ota_force_upgrade = fw_force_upgrade fw\<rparr>"

definition push_to_device :: "string \<Rightarrow> string \<Rightarrow> string \<Rightarrow> string \<Rightarrow> ota_manager \<Rightarrow> status_code \<times> ota_manager" where
  "push_to_device tenant_id product_id device_id target_version s =
     (case find_firmware target_version s of
        None \<Rightarrow> (ERROR, s)
      | Some fw \<Rightarrow> (OK, s\<lparr>ot_ota_records := AList.update device_id
          (pending_record fw tenant_id device_id target_version) (ot_ota_records s)\<rparr>))"

definition eligible :: "string \<Rightarrow> string \<Rightarrow> device \<Rightarrow> bool" where
  "eligible product_id target_version dev \<longleftrightarrow>
     dev_product_id dev = product_id \<and> dev_activated dev \<and> dev_network_status dev \<noteq> OFFLINE
     \<and> dev_work_status dev \<noteq> WORK_FAULT \<and> dev_firmware_version dev \<noteq> target_version"

text \<open>The candidates: from the device manager when there is one, else from the finished records.\<close>

definition candidates :: "device list option \<Rightarrow> string \<Rightarrow> string \<Rightarrow> ota_manager \<Rightarrow> device list" where
  "candidates device_mgr product_id target_version s = (case device_mgr of
       Some all_devices \<Rightarrow> filter (eligible product_id target_version) all_devices
     | None \<Rightarrow> map (\<lambda>(device_id, rec). new_device\<lparr>dev_device_id := device_id, dev_product_id := product_id,
                        dev_tenant_id := ota_tenant_id rec\<rparr>)
          (filter (\<lambda>(device_id, rec). ota_target_version rec \<noteq> target_version \<and> ota_stage rec = ''done'')
             (ot_ota_records s)))"

definition in_bucket :: "(string \<Rightarrow> nat) \<Rightarrow> int \<Rightarrow> device \<Rightarrow> bool" where
  "in_bucket hash percent dev \<longleftrightarrow> int (hash (dev_device_id dev) mod 100) < percent"

definition push_grayscale ::
  "(string \<Rightarrow> nat) \<Rightarrow> device list option \<Rightarrow> string \<Rightarrow> string \<Rightarrow> int \<Rightarrow> ota_manager \<Rightarrow> status_code \<times> ota_manager" where
  "push_grayscale hash device_mgr product_id target_version percent s =
     (if percent < 1 \<or> 100 < percent then (ERROR, s)
      else if find_firmware target_version s = None then (ERROR, s)
      else (OK, fold (\<lambda>dev s. if in_bucket hash percent dev
                 then snd (push_to_device (dev_tenant_id dev) product_id (dev_device_id dev) target_version s) else s)
              (candidates device_mgr product_id target_version s) s))"

definition push_all ::
  "(string \<Rightarrow> nat) \<Rightarrow> device list option \<Rightarrow> string \<Rightarrow> string \<Rightarrow> ota_manager \<Rightarrow> status_code \<times> ota_manager" where
  "push_all hash device_mgr product_id target_version s =
     push_grayscale hash device_mgr product_id target_version 100 s"

definition active_upgrades :: "ota_manager \<Rightarrow> ota_record list" where
  "active_upgrades s = filter (\<lambda>rec. ota_stage rec \<noteq> ''done'' \<and> ota_stage rec \<noteq> ''failed'') (map snd (ot_ota_records s))"

definition get_device_ota_status :: "string \<Rightarrow> ota_manager \<Rightarrow> ota_record" where
  "get_device_ota_status device_id s =
     (case map_of (ot_ota_records s) device_id of Some rec \<Rightarrow> rec | None \<Rightarrow> new_ota_record)"

record rollout_stats =
  rs_total_targeted :: nat
  rs_downloading :: nat
  rs_installing :: nat
  rs_completed :: nat
  rs_failed :: nat
  rs_rolled_back :: nat

definition count_record :: "string \<Rightarrow> ota_record \<Rightarrow> rollout_stats \<Rightarrow> rollout_stats" where
  "count_record version rec st =
     (if ota_target_version rec \<noteq> version then st
      else (let st1 = st\<lparr>rs_total_targeted := rs_total_targeted st + 1\<rparr> in
        if ota_stage rec = ''downloading'' then st1\<lparr>rs_downloading := rs_downloading st1 + 1\<rparr>
        else if ota_stage rec = ''installing'' then st1\<lparr>rs_installing := rs_installing st1 + 1\<rparr>
        else if ota_stage rec = ''done'' then st1\<lparr>rs_completed := rs_completed st1 + 1\<rparr>
        else if ota_stage rec = ''failed'' then st1\<lparr>rs_failed := rs_failed st1 + 1\<rparr>
        else if ota_stage rec = ''rolled_back'' then st1\<lparr>rs_rolled_back := rs_rolled_back st1 + 1\<rparr>
        else st1))"

definition get_rollout_stats :: "string \<Rightarrow> ota_manager \<Rightarrow> rollout_stats" where
  "get_rollout_stats version s = fold (count_record version) (map snd (ot_ota_records s))
     \<lparr>rs_total_targeted = 0, rs_downloading = 0, rs_installing = 0, rs_completed = 0, rs_failed = 0, rs_rolled_back = 0\<rparr>"

definition list_firmwares :: "ota_manager \<Rightarrow> firmware_version list" where
  "list_firmwares s = ot_firmware_versions s"

definition get_firmware :: "string \<Rightarrow> ota_manager \<Rightarrow> firmware_version option" where
  "get_firmware version s = find_firmware version s"

definition upgrade_running :: "string \<Rightarrow> ota_record \<Rightarrow> bool" where
  "upgrade_running version rec \<longleftrightarrow> ota_target_version rec = version
     \<and> (ota_stage rec = ''downloading'' \<or> ota_stage rec = ''installing'')"

definition delete_firmware :: "string \<Rightarrow> ota_manager \<Rightarrow> status_code \<times> ota_manager" where
  "delete_firmware version s =
     (if find_firmware version s = None then (ERROR, s)
      else if list_ex (\<lambda>(device_id, rec). upgrade_running version rec) (ot_ota_records s)
      then (ORDER_INVALID_STATE, s)
      else (OK, s\<lparr>ot_firmware_versions := erase_first (\<lambda>fw. fw_version fw = version) (ot_firmware_versions s)\<rparr>))"

definition ota_load_from_database ::
  "'pg pq_exec \<Rightarrow> ota_manager \<times> 'pg database option \<Rightarrow> status_code exn \<times> ota_manager \<times> 'pg database option" where
  "ota_load_from_database pq st = (case st of
       (s, None) \<Rightarrow> (Inr STORAGE_READ_ERROR, s, None)
     | (s, Some db) \<Rightarrow> (case db_list_all_firmwares pq db of
          (Inl e, db') \<Rightarrow> (Inl e, s, Some db')
        | (Inr fws, db') \<Rightarrow> (Inr OK, s\<lparr>ot_firmware_versions := fws\<rparr>, Some db')))"

section \<open>Seed data\<close>

definition seed_firmware_1 :: firmware_version where
  "seed_firmware_1 = new_firmware_version\<lparr>fw_version := ''v2.1.0'', fw_product_id := ''coffee_machine'',
       fw_download_url := ''https://cdn.example.com/firmware/coffee-v2.1.0.bin'',
       fw_checksum_sha256 := ''a1b2c3d4e5f6a7b8c9d0e1f2a3b4c5d6e7f8a9b0c1d2e3f4a5b6c7d8e9f0a1b2'',
       fw_changelog := bytes [0xE4, 0xBF, 0xAE, 0xE5, 0xA4, 0x8D, 0xE5, 0x8A, 0xA0, 0xE7, 0x83, 0xAD, 0xE5, 0x99, 0xA8] @ ''PID'' @ bytes [0xE5, 0x8F, 0x82, 0xE6, 0x95, 0xB0, 0xE5, 0xBC, 0x82, 0xE5, 0xB8, 0xB8, 0xEF, 0xBC, 0x9B, 0xE4, 0xBC, 0x98, 0xE5, 0x8C, 0x96, 0xE5, 0xBE, 0x85, 0xE6, 0x9C, 0xBA, 0xE5, 0x8A, 0x9F, 0xE8, 0x80, 0x97, 0xEF, 0xBC, 0x9B, 0xE6, 0x96, 0xB0, 0xE5, 0xA2, 0x9E] @ ''MQTT v5'' @ bytes [0xE6, 0x94, 0xAF, 0xE6, 0x8C, 0x81],
       fw_force_upgrade := False, fw_created_at := 1719792000\<rparr>"

definition seed_firmware_2 :: firmware_version where
  "seed_firmware_2 = new_firmware_version\<lparr>fw_version := ''v2.2.0'', fw_product_id := ''coffee_machine'',
       fw_download_url := ''https://cdn.example.com/firmware/coffee-v2.2.0.bin'',
       fw_checksum_sha256 := ''b2c3d4e5f6a7b8c9d0e1f2a3b4c5d6e7f8a9b0c1d2e3f4a5b6c7d8e9f0a1b2c3'',
       fw_changelog := bytes [0xE6, 0x96, 0xB0, 0xE5, 0xA2, 0x9E, 0xE5, 0x86, 0xB0, 0xE5, 0x92, 0x96, 0xE5, 0x95, 0xA1, 0xE9, 0x85, 0x8D, 0xE6, 0x96, 0xB9, 0xE6, 0x94, 0xAF, 0xE6, 0x8C, 0x81, 0xEF, 0xBC, 0x9B, 0xE4, 0xBC, 0x98, 0xE5, 0x8C, 0x96, 0xE7, 0xA0, 0x94, 0xE7, 0xA3, 0xA8, 0xE7, 0x94, 0xB5, 0xE6, 0x9C, 0xBA, 0xE6, 0x8E, 0xA7, 0xE5, 0x88, 0xB6, 0xE7, 0xB2, 0xBE, 0xE5, 0xBA, 0xA6, 0xEF, 0xBC, 0x9B, 0xE4, 0xBF, 0xAE, 0xE5, 0xA4, 0x8D, 0xE8, 0x93, 0x9D, 0xE7, 0x89, 0x99, 0xE9, 0x85, 0x8D, 0xE7, 0xBD, 0x91, 0xE5, 0xBC, 0x82, 0xE5, 0xB8, 0xB8],
       fw_force_upgrade := False, fw_created_at := 1722470400\<rparr>"

definition seed_firmware_3 :: firmware_version where
  "seed_firmware_3 = new_firmware_version\<lparr>fw_version := ''v2.2.1'', fw_product_id := ''coffee_machine'',
       fw_download_url := ''https://cdn.example.com/firmware/coffee-v2.2.1-hotfix.bin'',
       fw_checksum_sha256 := ''c3d4e5f6a7b8c9d0e1f2a3b4c5d6e7f8a9b0c1d2e3f4a5b6c7d8e9f0a1b2c3d4'',
       fw_changelog := bytes [0xE7, 0xB4, 0xA7, 0xE6, 0x80, 0xA5, 0xE4, 0xBF, 0xAE, 0xE5, 0xA4, 0x8D, 0xEF, 0xBC, 0x9A] @ ''TLS'' @ bytes [0xE8, 0xAF, 0x81, 0xE4, 0xB9, 0xA6, 0xE8, 0xBF, 0x87, 0xE6, 0x9C, 0x9F, 0xE5, 0xAF, 0xBC, 0xE8, 0x87, 0xB4, 0xE7, 0x9A, 0x84] @ ''MQTT'' @ bytes [0xE6, 0x96, 0xAD, 0xE8, 0xBF, 0x9E, 0xE9, 0x97, 0xAE, 0xE9, 0xA2, 0x98, 0xEF, 0xBC, 0x88, 0xE5, 0xAE, 0x89, 0xE5, 0x85, 0xA8, 0xE6, 0xBC, 0x8F, 0xE6, 0xB4, 0x9E] @ '' CVE-2026-1234'' @ bytes [0xEF, 0xBC, 0x89],
       fw_force_upgrade := True, fw_created_at := 1723075200\<rparr>"

definition seed_firmware_4 :: firmware_version where
  "seed_firmware_4 = new_firmware_version\<lparr>fw_version := ''v1.5.0'', fw_product_id := ''water_dispenser'',
       fw_download_url := ''https://cdn.example.com/firmware/water-v1.5.0.bin'',
       fw_checksum_sha256 := ''d4e5f6a7b8c9d0e1f2a3b4c5d6e7f8a9b0c1d2e3f4a5b6c7d8e9f0a1b2c3d4e5'',
       fw_changelog := bytes [0xE9, 0xA5, 0xAE, 0xE6, 0xB0, 0xB4, 0xE6, 0x9C, 0xBA, 0xE5, 0x88, 0x9D, 0xE5, 0xA7, 0x8B, 0xE7, 0x89, 0x88, 0xE6, 0x9C, 0xAC, 0xEF, 0xBC, 0x9A, 0xE6, 0x94, 0xAF, 0xE6, 0x8C, 0x81, 0xE7, 0x83, 0xAD, 0xE6, 0xB0, 0xB4] @ ''/'' @ bytes [0xE5, 0x86, 0xB0, 0xE6, 0xB0, 0xB4] @ ''/'' @ bytes [0xE5, 0xB8, 0xB8, 0xE6, 0xB8, 0xA9, 0xE6, 0xB0, 0xB4, 0xE4, 0xB8, 0x89, 0xE6, 0xB8, 0xA9, 0xE6, 0x8E, 0xA7, 0xE5, 0x88, 0xB6],
       fw_force_upgrade := False, fw_created_at := 1714521600\<rparr>"

definition seed_ota_1 :: ota_record where
  "seed_ota_1 = new_ota_record\<lparr>ota_tenant_id := ''tenant_demo'', ota_device_id := ''dev-coffee-001'',
       ota_current_version := ''v2.0.5'', ota_target_version := ''v2.1.0'',
       ota_download_url := fw_download_url seed_firmware_1,
       ota_checksum := fw_checksum_sha256 seed_firmware_1, ota_progress := 45,
       ota_stage := ''done'', ota_force_upgrade := False\<rparr>"

definition seed_ota_2 :: ota_record where
  "seed_ota_2 = new_ota_record\<lparr>ota_tenant_id := ''tenant_demo'', ota_device_id := ''dev-coffee-002'',
       ota_current_version := ''v2.1.0'', ota_target_version := ''v2.1.0'',
       ota_download_url := fw_download_url seed_firmware_1,
       ota_checksum := fw_checksum_sha256 seed_firmware_1, ota_progress := 100,
       ota_stage := ''done'', ota_force_upgrade := False\<rparr>"

definition seed_ota_3 :: ota_record where
  "seed_ota_3 = new_ota_record\<lparr>ota_tenant_id := ''tenant_demo'', ota_device_id := ''dev-coffee-003'',
       ota_current_version := ''v2.1.0'', ota_target_version := ''v2.2.0'',
       ota_download_url := fw_download_url seed_firmware_2,
       ota_checksum := fw_checksum_sha256 seed_firmware_2, ota_progress := 0,
       ota_stage := ''failed'', ota_force_upgrade := False\<rparr>"

definition seed_ota_4 :: ota_record where
  "seed_ota_4 = new_ota_record\<lparr>ota_tenant_id := ''tenant_demo'', ota_device_id := ''dev-water-001'',
       ota_current_version := ''v1.4.0'', ota_target_version := ''v1.5.0'',
       ota_download_url := fw_download_url seed_firmware_4,
       ota_checksum := fw_checksum_sha256 seed_firmware_4, ota_progress := 100,
       ota_stage := ''done'', ota_force_upgrade := False\<rparr>"

definition ota_seed_mock_data :: "ota_manager \<Rightarrow> ota_manager" where
  "ota_seed_mock_data s =
     (if ot_firmware_versions s \<noteq> [] then s
      else s\<lparr>ot_firmware_versions := [seed_firmware_1, seed_firmware_2, seed_firmware_3, seed_firmware_4],
             ot_ota_records := AList.update ''dev-water-001'' seed_ota_4 (AList.update ''dev-coffee-003'' seed_ota_3
               (AList.update ''dev-coffee-002'' seed_ota_2 (AList.update ''dev-coffee-001'' seed_ota_1 (ot_ota_records s))))\<rparr>)"

section \<open>The staged roll-out\<close>

lemma find_firmware_push: "find_firmware w (snd (push_to_device t p d v s)) = find_firmware w s"
  by (simp add: push_to_device_def find_firmware_def split: option.splits)

lemma fold_push_records:
  assumes "find_firmware v s = Some fw" "distinct (map dev_device_id devs)"
  shows "map_of (ot_ota_records (fold (\<lambda>dev s. if in_bucket hash p dev
       then snd (push_to_device (dev_tenant_id dev) prd (dev_device_id dev) v s) else s) devs s)) d =
     (case by_key dev_device_id d devs of
        Some dev \<Rightarrow> if in_bucket hash p dev then Some (pending_record fw (dev_tenant_id dev) d v) else map_of (ot_ota_records s) d
      | None \<Rightarrow> map_of (ot_ota_records s) d)"
  using assms
proof (induction devs arbitrary: s)
  case (Cons dev devs)
  let ?s = "if in_bucket hash p dev then snd (push_to_device (dev_tenant_id dev) prd (dev_device_id dev) v s) else s"
  have fw: "find_firmware v ?s = Some fw" using Cons.prems(1) by (simp add: find_firmware_push)
  have none: "by_key dev_device_id (dev_device_id dev) devs = None"
    using Cons.prems(2) by (auto simp: by_key_None_iff)
  have rec: "map_of (ot_ota_records ?s) d = (if d = dev_device_id dev \<and> in_bucket hash p dev
      then Some (pending_record fw (dev_tenant_id dev) d v) else map_of (ot_ota_records s) d)"
    using Cons.prems(1) by (auto simp: push_to_device_def)
  from Cons.IH [OF fw] Cons.prems(2) none rec show ?case
    by (cases "d = dev_device_id dev") (auto simp: by_key_def split: option.splits)
qed (simp add: by_key_def)

context device_directory
begin

lemma rollout:
  assumes "inv m" "one_owner m" "find_firmware v s = Some fw" "1 \<le> p" "p \<le> 100"
  shows "fst (push_grayscale hash (Some (all_devs m)) prd v p s) = OK"
    and "lookup t d m = Some dev \<Longrightarrow> eligible prd v dev \<Longrightarrow> in_bucket hash p dev \<Longrightarrow>
      map_of (ot_ota_records (snd (push_grayscale hash (Some (all_devs m)) prd v p s))) d = Some (pending_record fw t d v)"
    and "\<forall>t dev. lookup t d m = Some dev \<longrightarrow> \<not> (eligible prd v dev \<and> in_bucket hash p dev) \<Longrightarrow>
      map_of (ot_ota_records (snd (push_grayscale hash (Some (all_devs m)) prd v p s))) d = map_of (ot_ota_records s) d"
proof -
  let ?c = "filter (eligible prd v) (all_devs m)"
  have ids: "distinct (map dev_device_id ?c)"
    using one_owner_ids [OF assms(1,2)] by (simp add: distinct_map_filter)
  note rec = fold_push_records [OF assms(3) ids, of hash p prd d]
  show "fst (push_grayscale hash (Some (all_devs m)) prd v p s) = OK"
    using assms(3-5) by (simp add: push_grayscale_def)
  show "map_of (ot_ota_records (snd (push_grayscale hash (Some (all_devs m)) prd v p s))) d = Some (pending_record fw t d v)"
    if "lookup t d m = Some dev" "eligible prd v dev" "in_bucket hash p dev"
  proof -
    from lookup_filed [OF assms(1) that(1)] have dev: "dev_tenant_id dev = t" "dev_device_id dev = d" by auto
    with that have "dev \<in> set ?c" by (simp add: all_devs_iff [OF assms(1)])
    with by_key_distinct [OF ids this] dev have "by_key dev_device_id d ?c = Some dev" by simp
    with rec assms that dev show ?thesis by (simp add: push_grayscale_def candidates_def)
  qed
  show "map_of (ot_ota_records (snd (push_grayscale hash (Some (all_devs m)) prd v p s))) d = map_of (ot_ota_records s) d"
    if no: "\<forall>t dev. lookup t d m = Some dev \<longrightarrow> \<not> (eligible prd v dev \<and> in_bucket hash p dev)"
  proof -
    have "\<not> in_bucket hash p dev" if "by_key dev_device_id d ?c = Some dev" for dev
      using by_key_SomeD [OF that] no by (auto simp: all_devs_iff [OF assms(1)])
    with rec assms show ?thesis by (auto simp: push_grayscale_def candidates_def split: option.splits)
  qed
qed

end

text \<open>C3. The staged roll-out is exact: with a known firmware and a percentage from 1 to 100, the
  devices that get a pending record are the activated, reachable, fault-free devices of the
  product that run another version and whose hash falls below the percentage; the record of
  every other device is left as it was.\<close>

theorem rollout_exact:
  assumes "dm_inv m" "directory.one_owner m" "find_firmware v s = Some fw" "1 \<le> p" "p \<le> 100"
  shows "fst (push_grayscale hash (Some (list_all_devices m)) prd v p s) = OK
    \<and> (get_device t d m = Some dev \<longrightarrow>
        map_of (ot_ota_records (snd (push_grayscale hash (Some (list_all_devices m)) prd v p s))) d =
          (if eligible prd v dev \<and> int (hash (dev_device_id dev) mod 100) < p then Some (pending_record fw t d v)
           else map_of (ot_ota_records s) d))
    \<and> ((\<forall>t. get_device t d m = None) \<longrightarrow>
        map_of (ot_ota_records (snd (push_grayscale hash (Some (list_all_devices m)) prd v p s))) d =
          map_of (ot_ota_records s) d)"
proof (intro conjI impI)
  assume dev: "get_device t d m = Some dev"
  have "t' = t \<and> dev' = dev" if "get_device t' d m = Some dev'" for t' dev'
    using that dev assms(2) by (metis directory.one_owner_def option.distinct(1) option.inject)
  with dev directory.rollout [OF assms, where hash = hash and prd = prd]
  show "map_of (ot_ota_records (snd (push_grayscale hash (Some (list_all_devices m)) prd v p s))) d =
          (if eligible prd v dev \<and> int (hash (dev_device_id dev) mod 100) < p then Some (pending_record fw t d v)
           else map_of (ot_ota_records s) d)"
    unfolding in_bucket_def by metis
next
  assume "\<forall>t. get_device t d m = None"
  then show "map_of (ot_ota_records (snd (push_grayscale hash (Some (list_all_devices m)) prd v p s))) d =
          map_of (ot_ota_records s) d"
    by (intro directory.rollout(3) [OF assms]) simp
qed (rule directory.rollout(1) [OF assms])

definition demo_device :: device where
  "demo_device = new_device\<lparr>dev_tenant_id := ''t'', dev_device_id := ''d'', dev_product_id := ''coffee'',
     dev_network_status := ONLINE, dev_activated := True, dev_firmware_version := ''v1''\<rparr>"

definition demo_registry :: tenants where
  "demo_registry = [(''t'', [(''d'', demo_device)])]"

definition demo_ota :: ota_manager where
  "demo_ota = \<lparr>ot_firmware_versions = [new_firmware_version\<lparr>fw_version := ''v2''\<rparr>], ot_ota_records = []\<rparr>"

lemma demo_ok:
  "dm_inv demo_registry" "directory.one_owner demo_registry"
  "get_device ''t'' ''d'' demo_registry = Some demo_device"
  "find_firmware ''v2'' demo_ota = Some (new_firmware_version\<lparr>fw_version := ''v2''\<rparr>)"
  "eligible ''coffee'' ''v2'' demo_device"
  by (auto simp: dm_inv_def demo_registry_def demo_device_def directory.one_owner_def get_device_def
      find_firmware_def demo_ota_def eligible_def enum_values new_device_def split: if_splits)

lemma rollout_exact_witness:
  "map_of (ot_ota_records (snd (push_grayscale (\<lambda>_. 42) (Some (list_all_devices demo_registry)) ''coffee'' ''v2'' 50 demo_ota))) ''d''
   = Some (pending_record (new_firmware_version\<lparr>fw_version := ''v2''\<rparr>) ''t'' ''d'' ''v2'')"
  using rollout_exact [OF demo_ok(1,2,4), where p = 50 and hash = "\<lambda>_. 42" and prd = "''coffee''" and t = "''t''"
      and d = "''d''" and dev = demo_device] demo_ok(3,5)
  by simp

text \<open>Raising the percentage only adds devices: a device that a roll-out at \<open>p\<close> percent
  upgrades is upgraded in the same way by one at \<open>q \<ge> p\<close> percent, and \<^verbatim>\<open>push_all\<close> upgrades
  every eligible device.\<close>

theorem rollout_monotone:
  assumes "dm_inv m" "directory.one_owner m" "find_firmware v s = Some fw" "1 \<le> p" "p \<le> q" "q \<le> 100"
    and "get_device t d m = Some dev" "eligible prd v dev"
  shows "(in_bucket hash p dev \<longrightarrow>
       map_of (ot_ota_records (snd (push_grayscale hash (Some (list_all_devices m)) prd v q s))) d = Some (pending_record fw t d v))
     \<and> map_of (ot_ota_records (snd (push_all hash (Some (list_all_devices m)) prd v s))) d = Some (pending_record fw t d v)"
proof
  have "in_bucket hash q dev" if "in_bucket hash p dev"
    using that assms(5) by (simp add: in_bucket_def)
  with assms directory.rollout(2) [OF assms(1-3) _ assms(6,7,8), where hash = hash]
  show "in_bucket hash p dev \<longrightarrow>
       map_of (ot_ota_records (snd (push_grayscale hash (Some (list_all_devices m)) prd v q s))) d = Some (pending_record fw t d v)"
    by simp
  have "in_bucket hash 100 dev" by (simp add: in_bucket_def)
  with directory.rollout(2) [OF assms(1-3) _ _ assms(7,8), where p = 100 and hash = hash]
  show "map_of (ot_ota_records (snd (push_all hash (Some (list_all_devices m)) prd v s))) d = Some (pending_record fw t d v)"
    by (simp add: push_all_def)
qed

lemma rollout_monotone_witness:
  "map_of (ot_ota_records (snd (push_all (\<lambda>_. 99) (Some (list_all_devices demo_registry)) ''coffee'' ''v2'' demo_ota))) ''d''
   = Some (pending_record (new_firmware_version\<lparr>fw_version := ''v2''\<rparr>) ''t'' ''d'' ''v2'')"
  using rollout_monotone [OF demo_ok(1,2,4), where p = 50 and q = 60 and hash = "\<lambda>_. 99", OF _ _ _ demo_ok(3,5)] by simp

section \<open>Progress, statistics and deletion\<close>

text \<open>A progress report of a device that has no record is undefined behaviour: the record is
  inserted, but the log line reads through an iterator that does not point to it.  Only a
  device that was pushed to before can report.\<close>

theorem ota_progress_undefined:
  "(fst (process_ota_progress t d payload s) = Inl Undefined_behaviour \<longleftrightarrow> map_of (ot_ota_records s) d = None)
   \<and> (fst (process_ota_progress t d payload s) = Inr () \<longleftrightarrow> d \<in> dom (map_of (ot_ota_records s)))
   \<and> map_of (ot_ota_records (snd (process_ota_progress t d payload s))) d \<noteq> None"
  by (auto simp: process_ota_progress_def split: option.splits)

definition stage_count :: "string \<Rightarrow> (string \<Rightarrow> bool) \<Rightarrow> ota_record list \<Rightarrow> nat" where
  "stage_count v P rs = length (filter (\<lambda>r. ota_target_version r = v \<and> P (ota_stage r)) rs)"

lemma fold_count_record:
  "fold (count_record v) rs st =
     \<lparr>rs_total_targeted = rs_total_targeted st + stage_count v (\<lambda>_. True) rs,
      rs_downloading = rs_downloading st + stage_count v (\<lambda>g. g = ''downloading'') rs,
      rs_installing = rs_installing st + stage_count v (\<lambda>g. g = ''installing'') rs,
      rs_completed = rs_completed st + stage_count v (\<lambda>g. g = ''done'') rs,
      rs_failed = rs_failed st + stage_count v (\<lambda>g. g = ''failed'') rs,
      rs_rolled_back = rs_rolled_back st + stage_count v (\<lambda>g. g = ''rolled_back'') rs\<rparr>"
  by (induction rs arbitrary: st) (auto simp: stage_count_def count_record_def Let_def)

text \<open>The roll-out statistics count each record of the version once: the five stages counted
  and the records in any other stage (pending ones) add up to the devices targeted, whatever
  order the map iterates in.\<close>

theorem rollout_stats_partition:
  "get_rollout_stats v s =
     \<lparr>rs_total_targeted = stage_count v (\<lambda>_. True) (map snd (ot_ota_records s)),
      rs_downloading = stage_count v (\<lambda>g. g = ''downloading'') (map snd (ot_ota_records s)),
      rs_installing = stage_count v (\<lambda>g. g = ''installing'') (map snd (ot_ota_records s)),
      rs_completed = stage_count v (\<lambda>g. g = ''done'') (map snd (ot_ota_records s)),
      rs_failed = stage_count v (\<lambda>g. g = ''failed'') (map snd (ot_ota_records s)),
      rs_rolled_back = stage_count v (\<lambda>g. g = ''rolled_back'') (map snd (ot_ota_records s))\<rparr>
   \<and> rs_total_targeted (get_rollout_stats v s) =
      rs_downloading (get_rollout_stats v s) + rs_installing (get_rollout_stats v s) + rs_completed (get_rollout_stats v s)
      + rs_failed (get_rollout_stats v s) + rs_rolled_back (get_rollout_stats v s)
      + stage_count v (\<lambda>g. g \<notin> {''downloading'', ''installing'', ''done'', ''failed'', ''rolled_back''}) (map snd (ot_ota_records s))"
proof -
  have "stage_count v (\<lambda>_. True) rs = stage_count v (\<lambda>g. g = ''downloading'') rs + stage_count v (\<lambda>g. g = ''installing'') rs
      + stage_count v (\<lambda>g. g = ''done'') rs + stage_count v (\<lambda>g. g = ''failed'') rs + stage_count v (\<lambda>g. g = ''rolled_back'') rs
      + stage_count v (\<lambda>g. g \<notin> {''downloading'', ''installing'', ''done'', ''failed'', ''rolled_back''}) rs" for rs
    by (induction rs) (auto simp: stage_count_def)
  then show ?thesis by (simp add: get_rollout_stats_def fold_count_record)
qed

lemma snd_update_subset: "snd ` set (AList.update k v m) \<subseteq> insert v (snd ` set m)"
  by (induction m) auto

text \<open>A firmware can be deleted while devices have been told to fetch it: only records in the
  stages \<^verbatim>\<open>downloading\<close> and \<^verbatim>\<open>installing\<close> block the deletion, a pending one, which the comment
  of the source lists too, does not.\<close>

theorem delete_firmware_ignores_pending:
  assumes "find_firmware v s = Some fw" and "\<forall>r \<in> snd ` set (ot_ota_records s). \<not> upgrade_running v r"
  shows "fst (delete_firmware v (snd (push_to_device t prd d v s))) = OK"
proof -
  have new: "\<not> upgrade_running v (pending_record fw t d v)" by (simp add: pending_record_def upgrade_running_def)
  have "\<not> upgrade_running v (snd x)" if "x \<in> set (AList.update d (pending_record fw t d v) (ot_ota_records s))" for x
  proof -
    from that have "snd x \<in> insert (pending_record fw t d v) (snd ` set (ot_ota_records s))"
      by (intro subsetD [OF snd_update_subset imageI])
    with new bspec [OF assms(2), of "snd x"] show ?thesis by (elim insertE) simp_all
  qed
  then have "\<not> list_ex (\<lambda>(device_id, rec). upgrade_running v rec) (AList.update d (pending_record fw t d v) (ot_ota_records s))"
    by (auto simp: list_ex_iff)
  with assms(1) show ?thesis
    by (simp add: delete_firmware_def push_to_device_def find_firmware_def)
qed

lemma delete_firmware_ignores_pending_witness:
  "fst (delete_firmware ''v2'' (snd (push_to_device ''t'' ''coffee'' ''d'' ''v2'' demo_ota))) = OK"
  by (rule delete_firmware_ignores_pending [OF demo_ok(4)]) (simp add: demo_ota_def)

section \<open>The notification\<close>

lemma payload_flat:
  "build_ota_notify_payload v url chk force = flat_json [(''version'', Json_Str v), (''download_url'', Json_Str url),
     (''checksum'', Json_Str chk), (''force_upgrade'', Json_Bool force)]"
  by (simp add: build_ota_notify_payload_def flat_json_def field_text_def)

text \<open>The notification that is sent to a device can be read back field by field, provided the
  version, the URL and the checksum have no quote in them.\<close>

theorem ota_payload_roundtrip:
  assumes "CHR 0x22 \<notin> set v" "CHR 0x22 \<notin> set url" "CHR 0x22 \<notin> set chk"
  shows "get_string (build_ota_notify_payload v url chk force) ''version'' = v
    \<and> get_string (build_ota_notify_payload v url chk force) ''download_url'' = url
    \<and> get_string (build_ota_notify_payload v url chk force) ''checksum'' = chk"
  using assms unfolding payload_flat
  by (intro conjI; intro get_string_flat; simp add: fields_ok_def key_ok_def)

lemma ota_payload_roundtrip_witness:
  "get_string (build_ota_notify_payload ''v2.1.0'' ''https://cdn/f.bin'' ''ab'' True) ''version'' = ''v2.1.0''"
  using ota_payload_roundtrip [of "''v2.1.0''" "''https://cdn/f.bin''" "''ab''" True] by simp

end
