(* ===== verification/Message_Router.thy ===== *)
theory Message_Router
  imports Order_Manager Recipe_Manager Fault_Manager Ota_Manager Parsed_Topic
begin

text \<open>
  \<^verbatim>\<open>src/app/message_router.cpp\<close>: from an MQTT message to the managers.  The state is what the
  router's pointers refer to (\<open>None\<close> for a null pointer); the managers share one database.
  An operation returns the faults for which the alert callback was called, or the exception,
  with the state at that moment.
\<close>

section \<open>State\<close>

record 'pg router =
  rt_device_mgr :: "tenants option"
  rt_order_mgr :: "order_manager option"
  rt_ota_mgr :: "ota_manager option"
  rt_fault_mgr :: "fault_info list option"
  rt_recipe_mgr :: "recipe_manager option"
  rt_db :: "'pg database option"

definition new_router :: "'pg database option \<Rightarrow> 'pg router" where
  "new_router db = \<lparr>rt_device_mgr = None, rt_order_mgr = None, rt_ota_mgr = None, rt_fault_mgr = None,
     rt_recipe_mgr = None, rt_db = db\<rparr>"

definition set_device_manager :: "tenants option \<Rightarrow> 'pg router \<Rightarrow> 'pg router" where
  "set_device_manager mgr r = r\<lparr>rt_device_mgr := mgr\<rparr>"

definition set_order_manager :: "order_manager option \<Rightarrow> 'pg router \<Rightarrow> 'pg router" where
  "set_order_manager mgr r = r\<lparr>rt_order_mgr := mgr\<rparr>"

definition set_ota_manager :: "ota_manager option \<Rightarrow> 'pg router \<Rightarrow> 'pg router" where
  "set_ota_manager mgr r = r\<lparr>rt_ota_mgr := mgr\<rparr>"

definition set_fault_manager :: "fault_info list option \<Rightarrow> 'pg router \<Rightarrow> 'pg router" where
  "set_fault_manager mgr r = r\<lparr>rt_fault_mgr := mgr\<rparr>"

definition set_recipe_manager :: "recipe_manager option \<Rightarrow> 'pg router \<Rightarrow> 'pg router" where
  "set_recipe_manager mgr r = r\<lparr>rt_recipe_mgr := mgr\<rparr>"

section \<open>Dispatch\<close>

definition subscription_topics :: "string list" where
  "subscription_topics = [''+/v1/heartbeat'', ''+/v1/event/post'', ''+/v1/event/post_reply'',
     ''+/v1/property/post'', ''+/v1/property/set_reply'', ''+/v1/ota/progress'', ''+/v1/status'']"

definition resolve_tenant :: "tenants option \<Rightarrow> string \<Rightarrow> string" where
  "resolve_tenant mgr did = (case mgr of
       None \<Rightarrow> ''default''
     | Some m \<Rightarrow> (case find_device_by_id did m of Some d \<Rightarrow> dev_tenant_id d | None \<Rightarrow> ''default''))"

definition resolve_product :: "tenants option \<Rightarrow> string \<Rightarrow> string" where
  "resolve_product mgr did = (case mgr of
       None \<Rightarrow> ''''
     | Some m \<Rightarrow> (case find_device_by_id did m of Some d \<Rightarrow> dev_product_id d | None \<Rightarrow> ''''))"

definition handle_heartbeat :: "int \<Rightarrow> parsed_topic \<Rightarrow> string \<Rightarrow> 'pg router \<Rightarrow> 'pg router" where
  "handle_heartbeat now pt payload r = (case rt_device_mgr r of
       None \<Rightarrow> r
     | Some m \<Rightarrow> r\<lparr>rt_device_mgr := Some (process_heartbeat now (resolve_tenant (Some m) (pt_device_id pt))
          (pt_device_id pt) (resolve_product (Some m) (pt_device_id pt)) payload m)\<rparr>)"

definition handle_property :: "parsed_topic \<Rightarrow> string \<Rightarrow> 'pg router \<Rightarrow> 'pg router" where
  "handle_property pt payload r = (case rt_device_mgr r of
       None \<Rightarrow> r
     | Some m \<Rightarrow> r\<lparr>rt_device_mgr := Some (process_property (resolve_tenant (Some m) (pt_device_id pt))
          (pt_device_id pt) (resolve_product (Some m) (pt_device_id pt)) payload m)\<rparr>)"

text \<open>The order of a completion report; its time may not be a number.\<close>

definition completed_order :: "tenants option \<Rightarrow> parsed_topic \<Rightarrow> string \<Rightarrow> order_info exn" where
  "completed_order mgr pt payload = exn_bind (get_int payload ''ts'' 0) (\<lambda>ts.
     Inr (new_order_info\<lparr>ord_order_id := get_string payload ''order_id'', ord_device_id := pt_device_id pt,
       ord_tenant_id := resolve_tenant mgr (pt_device_id pt), ord_recipe_id := get_string payload ''recipe_id'',
       ord_recipe_name := get_string payload ''recipe_name'', ord_cup_size := get_string payload ''cup_size'',
       ord_status := COMPLETED, ord_created_at := to_string ts\<rparr>))"

text \<open>The fault of an alert: its code is cast to the eight bits of the enum.\<close>

definition alerted_fault :: "tenants option \<Rightarrow> parsed_topic \<Rightarrow> string \<Rightarrow> fault_info exn" where
  "alerted_fault mgr pt payload =
     exn_bind (get_int payload ''fault_code'' 0) (\<lambda>code. exn_bind (get_int payload ''ts'' 0) (\<lambda>ts.
     Inr (new_fault_info\<lparr>flt_tenant_id := resolve_tenant mgr (pt_device_id pt), flt_device_id := pt_device_id pt,
       flt_code := of_int code,
       flt_level := (if get_string payload ''level'' = ''error'' then Level_ERROR else Level_WARNING),
       flt_description := get_string payload ''description'', flt_timestamp := to_string ts\<rparr>)))"

definition handle_event :: "'pg pq_exec \<Rightarrow> bool \<Rightarrow> parsed_topic \<Rightarrow> string \<Rightarrow> 'pg router \<Rightarrow> fault_info list exn \<times> 'pg router" where
  "handle_event pq alert pt payload r = (let event_type = get_string payload ''event_type'' in
     if event_type = ''order_completed'' then
       (case rt_order_mgr r of
          None \<Rightarrow> (Inr [], r)
        | Some om \<Rightarrow> (case completed_order (rt_device_mgr r) pt payload of
            Inl e \<Rightarrow> (Inl e, r)
          | Inr ord \<Rightarrow> (case om_create_order pq ord (om, rt_db r) of
              (_, om', db') \<Rightarrow> (Inr [], r\<lparr>rt_order_mgr := Some om', rt_db := db'\<rparr>))))
     else if event_type = ''fault_alert'' then
       (case rt_fault_mgr r of
          None \<Rightarrow> (Inr [], r)
        | Some active \<Rightarrow> (case alerted_fault (rt_device_mgr r) pt payload of
            Inl e \<Rightarrow> (Inl e, r)
          | Inr fault \<Rightarrow> (case add_fault pq alert fault (active, rt_db r) of
              (alerts, active', db') \<Rightarrow> (Inr alerts, r\<lparr>rt_fault_mgr := Some active', rt_db := db'\<rparr>))))
     else if event_type = ''fault_resolved'' then
       (case rt_fault_mgr r of
          None \<Rightarrow> (Inr [], r)
        | Some active \<Rightarrow> (case get_int payload ''fault_code'' 0 of
            Inl e \<Rightarrow> (Inl e, r)
          | Inr code \<Rightarrow> (Inr [], r\<lparr>rt_fault_mgr := Some (snd (resolve_fault
                (resolve_tenant (rt_device_mgr r) (pt_device_id pt)) (pt_device_id pt) (of_int code) active))\<rparr>)))
     else if event_type = ''device_status'' then (Inr [], handle_property pt payload r)
     else (Inr [], r))"

definition handle_status :: "parsed_topic \<Rightarrow> string \<Rightarrow> 'pg router \<Rightarrow> 'pg router" where
  "handle_status pt payload r = (case rt_device_mgr r of
       None \<Rightarrow> r
     | Some m \<Rightarrow>
        (let tid = resolve_tenant (Some m) (pt_device_id pt);
             st0 = get_string payload ''network_status'';
             st = (if st0 = '''' then get_string payload ''status'' else st0);
             net = (if st = ''offline'' \<or> st = ''1'' then OFFLINE else ONLINE)
         in r\<lparr>rt_device_mgr := Some (snd (update_device_status tid (pt_device_id pt) net WORK_IDLE m))\<rparr>))"

definition handle_ota_progress :: "parsed_topic \<Rightarrow> string \<Rightarrow> 'pg router \<Rightarrow> unit exn \<times> 'pg router" where
  "handle_ota_progress pt payload r = (case rt_ota_mgr r of
       None \<Rightarrow> (Inr (), r)
     | Some s \<Rightarrow> (case process_ota_progress (resolve_tenant (rt_device_mgr r) (pt_device_id pt)) (pt_device_id pt) payload s of
          (res, s') \<Rightarrow> (res, r\<lparr>rt_ota_mgr := Some s'\<rparr>)))"

definition on_message :: "'pg pq_exec \<Rightarrow> bool \<Rightarrow> int \<Rightarrow> string \<Rightarrow> string \<Rightarrow> 'pg router \<Rightarrow> fault_info list exn \<times> 'pg router" where
  "on_message pq alert now topic payload r = (let pt = parse_topic topic in
     if \<not> pt_valid pt then (Inr [], r)
     else if pt_message_type pt = ''heartbeat'' then (Inr [], handle_heartbeat now pt payload r)
     else if pt_message_type pt = ''event'' then handle_event pq alert pt payload r
     else if pt_message_type pt = ''property'' then (Inr [], handle_property pt payload r)
     else if pt_message_type pt = ''ota'' then
       (case handle_ota_progress pt payload r of (res, r') \<Rightarrow> (exn_bind res (\<lambda>_. Inr []), r'))
     else if pt_message_type pt = ''status'' then (Inr [], handle_status pt payload r)
     else (Inr [], r))"

section \<open>Downlink\<close>

text \<open>The payload is published by the caller; the operations return the topic.\<close>

definition send_command :: "string \<Rightarrow> string \<Rightarrow> string \<Rightarrow> string \<Rightarrow> string" where
  "send_command tenant_id product_id device_id command = build_downlink tenant_id product_id device_id ''command'' command"

definition send_ota_notify :: "string \<Rightarrow> string \<Rightarrow> string \<Rightarrow> string" where
  "send_ota_notify tenant_id product_id device_id = build_downlink tenant_id product_id device_id ''ota'' ''notify''"

definition send_property_set :: "string \<Rightarrow> string \<Rightarrow> string \<Rightarrow> string" where
  "send_property_set tenant_id product_id device_id = build_downlink tenant_id product_id device_id ''property'' ''set''"

section \<open>One owner for every device\<close>

text \<open>The registry with one tenant per device: what the router relies on and keeps.\<close>

definition owned :: "tenants \<Rightarrow> bool" where
  "owned m \<longleftrightarrow> dm_inv m \<and> (\<forall>d. only_tenant_of d m)"

lemma resolve_owner:
  assumes "owned m" "get_device t d m \<noteq> None"
  shows "resolve_tenant (Some m) d = t"
proof -
  obtain dev where dev: "get_device t d m = Some dev" using assms(2) by blast
  have "umap_ok m" using assms(1) by (simp add: owned_def dm_inv_filed)
  with dev assms(1) have "find_device_by_id d m = Some dev" by (auto simp: owned_def find_device_by_id_iff)
  moreover have "dev_tenant_id dev = t" using get_device_filed [OF _ dev] assms(1) by (simp add: owned_def)
  ultimately show ?thesis by (simp add: resolve_tenant_def)
qed

lemma resolve_unknown: "owned m \<Longrightarrow> (\<And>t. get_device t d m = None) \<Longrightarrow> resolve_tenant (Some m) d = ''default''"
  by (auto simp: owned_def dm_inv_filed find_device_by_id_iff resolve_tenant_def split: option.splits)

lemma put_owned:
  assumes "owned m" "t = resolve_tenant (Some m) d" "dev_device_id dev = d" "dev_tenant_id dev = t"
  shows "owned (put_device t d dev m)"
proof -
  have "get_device t' d m \<noteq> None \<Longrightarrow> t' = t" for t' using resolve_owner [OF assms(1)] assms(2) by metis
  then have "only_tenant_of d' (put_device t d dev m)" for d'
    using assms(1) by (auto simp: only_tenant_of_def get_put_device owned_def split: if_splits)
  moreover have "dm_inv (put_device t d dev m)" using assms by (intro put_device_inv) (simp_all add: owned_def)
  ultimately show ?thesis by (simp add: owned_def)
qed

lemma heartbeat_owned: "owned m \<Longrightarrow> owned (process_heartbeat now (resolve_tenant (Some m) d) d p j m)"
proof -
  assume m: "owned m"
  let ?t = "resolve_tenant (Some m) d"
  have "filed ?t (tenant_devices ?t m)" using m by (simp add: owned_def filed_tenant_devices)
  then show ?thesis using m
    by (auto simp: process_heartbeat_def filed_lookup intro!: put_owned split: option.splits)
qed

lemma status_owned: "owned m \<Longrightarrow> owned (snd (update_device_status (resolve_tenant (Some m) d) d ns ws m))"
  using get_device_filed [of m "resolve_tenant (Some m) d" d]
  by (auto simp: update_device_status_get owned_def [of m] intro!: put_owned split: option.splits)


section \<open>Sequences of messages\<close>

fun rt_step :: "'pg pq_exec \<Rightarrow> bool \<Rightarrow> int \<times> string \<times> string \<Rightarrow> 'pg router \<Rightarrow> 'pg router" where
  "rt_step pq alert (now, topic, payload) r = snd (on_message pq alert now topic payload r)"

definition rt_inv :: "'pg router \<Rightarrow> bool" where
  "rt_inv r \<longleftrightarrow> (case rt_device_mgr r of None \<Rightarrow> True | Some m \<Rightarrow> owned m)
     \<and> (case rt_order_mgr r of None \<Rightarrow> True | Some s \<Rightarrow> om_inv s)
     \<and> (case rt_ota_mgr r of None \<Rightarrow> True | Some s \<Rightarrow> umap_ok (ot_ota_records s))"

text \<open>What one message can do to each manager.\<close>

lemma handle_heartbeat_frame [simp]:
  "rt_order_mgr (handle_heartbeat now pt j r) = rt_order_mgr r" "rt_ota_mgr (handle_heartbeat now pt j r) = rt_ota_mgr r"
  "rt_fault_mgr (handle_heartbeat now pt j r) = rt_fault_mgr r"
  by (simp_all add: handle_heartbeat_def split: option.splits)

lemma handle_property_id [simp]: "handle_property pt j r = r"
  by (cases r) (simp add: handle_property_def process_property_def split: option.splits)

lemma handle_status_frame [simp]:
  "rt_order_mgr (handle_status pt j r) = rt_order_mgr r" "rt_ota_mgr (handle_status pt j r) = rt_ota_mgr r"
  "rt_fault_mgr (handle_status pt j r) = rt_fault_mgr r"
  by (simp_all add: handle_status_def Let_def split: option.splits)

lemma handle_ota_progress_frame [simp]:
  "rt_device_mgr (snd (handle_ota_progress pt j r)) = rt_device_mgr r"
  "rt_order_mgr (snd (handle_ota_progress pt j r)) = rt_order_mgr r"
  "rt_fault_mgr (snd (handle_ota_progress pt j r)) = rt_fault_mgr r"
  by (simp_all add: handle_ota_progress_def split: option.splits prod.splits)

lemma handle_event_frame [simp]:
  "rt_device_mgr (snd (handle_event pq alert pt j r)) = rt_device_mgr r"
  "rt_ota_mgr (snd (handle_event pq alert pt j r)) = rt_ota_mgr r"
  by (simp_all add: handle_event_def Let_def split: option.splits sum.splits prod.splits)

lemma handle_event_orders:
  "rt_order_mgr (snd (handle_event pq alert pt j r)) = rt_order_mgr r \<or>
     (\<exists>s ord. rt_order_mgr r = Some s
        \<and> rt_order_mgr (snd (handle_event pq alert pt j r)) = Some (fst (snd (om_create_order pq ord (s, rt_db r)))))"
proof (cases "get_string j ''event_type'' = ''order_completed''")
  case True
  then show ?thesis
    by (auto simp: handle_event_def case_prod_beta split: option.splits sum.splits)
next
  case False
  then have "rt_order_mgr (snd (handle_event pq alert pt j r)) = rt_order_mgr r"
    by (simp add: handle_event_def Let_def split: option.splits sum.splits prod.splits)
  then show ?thesis ..
qed

lemma rt_step_cases:
  obtains (same) "rt_step pq alert (now, topic, j) r = r"
  | (heartbeat) "rt_step pq alert (now, topic, j) r = handle_heartbeat now (parse_topic topic) j r"
  | (event) "rt_step pq alert (now, topic, j) r = snd (handle_event pq alert (parse_topic topic) j r)"
  | (ota) "rt_step pq alert (now, topic, j) r = snd (handle_ota_progress (parse_topic topic) j r)"
  | (status) "rt_step pq alert (now, topic, j) r = handle_status (parse_topic topic) j r"
proof -
  have "rt_step pq alert (now, topic, j) r \<in> {r, handle_heartbeat now (parse_topic topic) j r,
     snd (handle_event pq alert (parse_topic topic) j r), snd (handle_ota_progress (parse_topic topic) j r),
     handle_status (parse_topic topic) j r}"
    by (simp add: on_message_def Let_def case_prod_beta)
  then show thesis using that by blast
qed

lemma rt_step_orders:
  "rt_order_mgr (rt_step pq alert msg r) = rt_order_mgr r \<or>
     (\<exists>s ord. rt_order_mgr r = Some s
        \<and> rt_order_mgr (rt_step pq alert msg r) = Some (fst (snd (om_create_order pq ord (s, rt_db r)))))"
proof (cases msg)
  case (fields now topic j)
  from handle_event_orders [of pq alert "parse_topic topic" j r] show ?thesis
    unfolding fields by (cases rule: rt_step_cases [of pq alert now topic j r]) (simp_all only: handle_heartbeat_frame
        handle_status_frame handle_ota_progress_frame simp_thms)
qed

lemma rt_step_ota:
  "rt_ota_mgr (rt_step pq alert msg r) = rt_ota_mgr r \<or>
     (\<exists>s t d j. rt_ota_mgr r = Some s \<and> rt_ota_mgr (rt_step pq alert msg r) = Some (snd (process_ota_progress t d j s)))"
proof (cases msg)
  case (fields now topic j)
  have "rt_ota_mgr (snd (handle_ota_progress pt j r)) = rt_ota_mgr r \<or>
     (\<exists>s t d. rt_ota_mgr r = Some s \<and> rt_ota_mgr (snd (handle_ota_progress pt j r)) = Some (snd (process_ota_progress t d j s)))" for pt
    by (auto simp: handle_ota_progress_def case_prod_beta split: option.splits)
  then show ?thesis
    unfolding fields by (cases rule: rt_step_cases [of pq alert now topic j r]) (simp_all only: handle_heartbeat_frame
        handle_status_frame handle_event_frame simp_thms, metis)
qed

lemma handle_status_owned:
  assumes "rt_device_mgr r = Some m" "owned m"
  shows "\<exists>m'. rt_device_mgr (handle_status pt j r) = Some m' \<and> owned m'
     \<and> (\<forall>t d. get_device t d m \<noteq> None \<longrightarrow> get_device t d m' \<noteq> None)"
  using assms status_owned [OF assms(2)] by (simp add: handle_status_def Let_def get_update_device_status)

lemma handle_heartbeat_owned:
  assumes "rt_device_mgr r = Some m" "owned m"
  shows "\<exists>m'. rt_device_mgr (handle_heartbeat now pt j r) = Some m' \<and> owned m'
     \<and> (\<forall>t d. get_device t d m \<noteq> None \<longrightarrow> get_device t d m' \<noteq> None)"
  using assms heartbeat_owned [OF assms(2)]
  by (simp add: handle_heartbeat_def) (simp add: process_heartbeat_def get_put_device split: option.splits)

lemma rt_step_owned:
  assumes "rt_device_mgr r = Some m" "owned m"
  shows "\<exists>m'. rt_device_mgr (rt_step pq alert msg r) = Some m' \<and> owned m'
     \<and> (\<forall>t d. get_device t d m \<noteq> None \<longrightarrow> get_device t d m' \<noteq> None)"
proof (cases msg)
  case (fields now topic j)
  show ?thesis unfolding fields
    using handle_status_owned [OF assms, of "parse_topic topic" j] handle_heartbeat_owned [OF assms, of now "parse_topic topic" j] assms
    by (cases rule: rt_step_cases [of pq alert now topic j r]) (auto simp del: rt_step.simps)
qed

lemma rt_step_no_devices: "rt_device_mgr r = None \<Longrightarrow> rt_device_mgr (rt_step pq alert msg r) = None"
  by (cases msg; cases rule: rt_step_cases [of pq alert "fst msg" "fst (snd msg)" "snd (snd msg)" r])
     (auto simp: handle_heartbeat_def handle_status_def)

interpretation rt: machine "rt_step pq alert" rt_inv
  for pq :: "'pg pq_exec" and alert
proof
  fix r :: "'pg router" and msg
  assume r: "rt_inv r"
  have "case rt_device_mgr (rt_step pq alert msg r) of None \<Rightarrow> True | Some m \<Rightarrow> owned m"
    using rt_step_owned [of r _ pq alert msg] r
    by (cases "rt_device_mgr r") (auto simp: rt_inv_def rt_step_no_devices simp del: rt_step.simps)
  moreover have "case rt_order_mgr (rt_step pq alert msg r) of None \<Rightarrow> True | Some s \<Rightarrow> om_inv s"
    using rt_step_orders [of pq alert msg r] r
    by (auto simp: rt_inv_def om_op_inv simp del: rt_step.simps split: option.splits)
  moreover have "case rt_ota_mgr (rt_step pq alert msg r) of None \<Rightarrow> True | Some s \<Rightarrow> umap_ok (ot_ota_records s)"
    using rt_step_ota [of pq alert msg r] r
    by (auto simp: rt_inv_def process_ota_progress_def simp del: rt_step.simps split: option.splits)
  ultimately show "rt_inv (rt_step pq alert msg r)" by (simp only: rt_inv_def)
qed

text \<open>Nothing that arrives over MQTT takes an order out of the queue again.\<close>

definition rt_queue :: "'pg router \<Rightarrow> order_info list" where
  "rt_queue r = (case rt_order_mgr r of None \<Rightarrow> [] | Some s \<Rightarrow> om_order_queue s)"

interpretation rt_log: event_log "rt_step pq alert" rt_inv rt_queue
  for pq :: "'pg pq_exec" and alert
proof
  fix r :: "'pg router" and msg
  show "prefix (rt_queue r) (rt_queue (rt_step pq alert msg r))"
    using rt_step_orders [of pq alert msg r]
    by (auto simp: rt_queue_def om_create_order_def simp del: rt_step.simps split: option.splits)
qed

lemma run_owned:
  assumes "rt_device_mgr r = Some m" "owned m"
  shows "\<exists>m'. rt_device_mgr (fold (rt_step pq alert) msgs r) = Some m' \<and> owned m'
     \<and> (\<forall>t d. get_device t d m \<noteq> None \<longrightarrow> get_device t d m' \<noteq> None)"
  using assms
proof (induction msgs arbitrary: r m)
  case (Cons msg msgs)
  from rt_step_owned [OF Cons.prems, of pq alert msg] obtain m1 where m1: "rt_device_mgr (rt_step pq alert msg r) = Some m1"
    "owned m1" "\<forall>t d. get_device t d m \<noteq> None \<longrightarrow> get_device t d m1 \<noteq> None" by blast
  from Cons.IH [OF m1(1,2)] m1(3) show ?case by fastforce
qed simp

lemma run_full_queue:
  assumes "rt_order_mgr r = Some s" "ORDER_MAX_QUEUE_DEPTH \<le> length (om_order_queue s)"
  shows "rt_order_mgr (fold (rt_step pq alert) msgs r) = Some s"
  using assms(1)
proof (induction msgs arbitrary: r)
  case (Cons msg msgs)
  have "rt_order_mgr (rt_step pq alert msg r) = Some s"
    using rt_step_orders [of pq alert msg r] Cons.prems assms(2)
    by (auto simp: om_create_order_def simp del: rt_step.simps)
  with Cons.IH show ?case by simp
qed simp


section \<open>Properties\<close>

text \<open>The topics of a device.\<close>

definition topic_id :: "string \<Rightarrow> bool" where
  "topic_id d \<longleftrightarrow> d \<noteq> '''' \<and> CHR ''/'' \<notin> set d"

lemma parse_event_topic:
  assumes "topic_id d"
  shows "parse_topic (d @ ''/v1/event/post'') = new_parsed_topic\<lparr>pt_raw_topic := d @ ''/v1/event/post'',
     pt_device_id := d, pt_message_type := ''event'', pt_command := ''post'', pt_valid := True\<rparr>"
proof -
  have "getlines CHR ''/'' ''v1/event/post'' = [''v1'', ''event'', ''post'']" by (simp add: getlines_def)
  then have "getlines CHR ''/'' (d @ ''/v1/event/post'') = [d, ''v1'', ''event'', ''post'']"
    using assms by (simp add: topic_id_def)
  with assms show ?thesis
    by (simp add: parse_topic_def new_parsed_topic_def nth_or_empty_def topic_id_def Let_def)
qed

text \<open>A concrete system for the witnesses: one tenant with one device.\<close>

definition demo_dev :: device where
  "demo_dev = new_device\<lparr>dev_tenant_id := ''t'', dev_device_id := ''d''\<rparr>"

definition demo_router :: "unit router" where
  "demo_router = \<lparr>rt_device_mgr = Some [(''t'', [(''d'', demo_dev)])], rt_order_mgr = Some new_order_manager,
     rt_ota_mgr = Some new_ota_manager, rt_fault_mgr = Some [], rt_recipe_mgr = None, rt_db = None\<rparr>"

lemma demo_owned: "owned [(''t'', [(''d'', demo_dev)])]"
  by (auto simp: owned_def dm_inv_def demo_dev_def only_tenant_of_def get_device_def split: if_splits)

lemma demo_router_mgrs:
  "rt_device_mgr demo_router = Some [(''t'', [(''d'', demo_dev)])]" "rt_order_mgr demo_router = Some new_order_manager"
  "rt_db demo_router = None"
  by (simp_all add: demo_router_def)

lemma demo_topic: "topic_id ''d''"
  by (simp add: topic_id_def)

definition demo_completed :: "(string \<times> json_val) list" where
  "demo_completed = [(''event_type'', Json_Str ''order_completed''), (''order_id'', Json_Str ''o1''),
     (''recipe_id'', Json_Str ''r1''), (''recipe_name'', Json_Str ''latte''), (''cup_size'', Json_Str ''L''), (''ts'', Json_Int 17)]"

text \<open>C2. No message, whatever its topic and payload, moves or removes a device or gives it a second
  owner: a registry with one tenant per device stays one, and every device stays with its tenant.\<close>

theorem router_keeps_owners:
  assumes "rt_device_mgr r = Some m" "owned m"
  shows "\<exists>m'. rt_device_mgr (fold (rt_step pq alert) msgs r) = Some m' \<and> owned m'
     \<and> (\<forall>t d. get_device t d m \<noteq> None \<longrightarrow> get_device t d m' \<noteq> None)"
  using assms by (rule run_owned)

theorem router_keeps_owners_witness:
  "\<exists>m'. rt_device_mgr (fold (rt_step (\<lambda>_ c. (Pg_error, c)) True) [(7, ''e/v1/heartbeat'', ''''), (9, ''d/v1/status'', '''')] demo_router) = Some m'
     \<and> owned m' \<and> (\<forall>t d. get_device t d [(''t'', [(''d'', demo_dev)])] \<noteq> None \<longrightarrow> get_device t d m' \<noteq> None)"
  by (rule router_keeps_owners [OF demo_router_mgrs(1) demo_owned])

text \<open>A heartbeat, whose topic does not name a tenant, reaches the device of the tenant that owns it
  and changes nothing else in the system; a device that nobody owns is registered under the
  tenant \<^verbatim>\<open>default\<close>.\<close>

theorem heartbeat_routed:
  assumes "topic_id d" "rt_device_mgr r = Some m" "owned m"
    and "get_device t d m \<noteq> None \<or> (\<forall>t'. get_device t' d m = None) \<and> t = ''default''"
  shows "\<exists>m'. on_message pq alert now (d @ ''/v1/heartbeat'') payload r = (Inr [], r\<lparr>rt_device_mgr := Some m'\<rparr>)
     \<and> (\<forall>t' d'. t' \<noteq> t \<or> d' \<noteq> d \<longrightarrow> get_device t' d' m' = get_device t' d' m)
     \<and> (\<exists>dev. get_device t d m' = Some dev \<and> dev_network_status dev = ONLINE \<and> dev_last_heartbeat_at dev = now)"
proof -
  have t: "resolve_tenant (Some m) d = t"
    using assms(4) resolve_owner [OF assms(3)] resolve_unknown [OF assms(3), of d] by blast
  have "parse_topic (d @ ''/v1/heartbeat'') = new_parsed_topic\<lparr>pt_raw_topic := d @ ''/v1/heartbeat'',
      pt_device_id := d, pt_message_type := ''heartbeat'', pt_valid := True\<rparr>"
    using parse_topic_uplink [of d "''heartbeat''"] assms(1) by (simp add: topic_id_def)
  then have "on_message pq alert now (d @ ''/v1/heartbeat'') payload r = (Inr [], r\<lparr>rt_device_mgr :=
      Some (process_heartbeat now t d (resolve_product (Some m) d) payload m)\<rparr>)"
    using assms(2) t by (simp add: on_message_def handle_heartbeat_def)
  moreover have "get_device t' d' (process_heartbeat now t d p j m) = get_device t' d' m" if "t' \<noteq> t \<or> d' \<noteq> d" for t' d' p j
    using that by (auto simp: process_heartbeat_def get_put_device split: option.splits)
  moreover have "\<exists>dev. get_device t d (process_heartbeat now t d p j m) = Some dev
      \<and> dev_network_status dev = ONLINE \<and> dev_last_heartbeat_at dev = now" for p j
    by (simp add: process_heartbeat_def get_put_device split: option.splits)
  ultimately show ?thesis by blast
qed

theorem heartbeat_routed_witness:
  "\<exists>m'. on_message (\<lambda>_ c. (Pg_error, c)) True 7 (''d'' @ ''/v1/heartbeat'') '''' demo_router = (Inr [], demo_router\<lparr>rt_device_mgr := Some m'\<rparr>)
     \<and> (\<forall>t' d'. t' \<noteq> ''t'' \<or> d' \<noteq> ''d'' \<longrightarrow> get_device t' d' m' = get_device t' d' [(''t'', [(''d'', demo_dev)])])
     \<and> (\<exists>dev. get_device ''t'' ''d'' m' = Some dev \<and> dev_network_status dev = ONLINE \<and> dev_last_heartbeat_at dev = 7)"
  by (rule heartbeat_routed [OF demo_topic demo_router_mgrs(1) demo_owned]) (simp add: get_device_def)

text \<open>A completion report in the documented form puts the completed order, with the tenant that
  owns the device, at the end of the order queue while there is room, and is dropped otherwise.\<close>

theorem completed_order_routed:
  assumes "topic_id d" "rt_order_mgr r = Some s" "rt_db r = None"
    and "fields_ok fs" "map_of fs ''event_type'' = Some (Json_Str ''order_completed'')"
    and "map_of fs ''order_id'' = Some (Json_Str oid)" "map_of fs ''recipe_id'' = Some (Json_Str rid)"
    and "map_of fs ''recipe_name'' = Some (Json_Str rname)" "map_of fs ''cup_size'' = Some (Json_Str cup)"
    and "map_of fs ''ts'' = Some (Json_Int ts)" "0 \<le> ts" "ts \<le> int32_max"
  shows "on_message pq alert now (d @ ''/v1/event/post'') (flat_json fs) r =
     (Inr [], if length (om_order_queue s) < ORDER_MAX_QUEUE_DEPTH
        then r\<lparr>rt_order_mgr := Some (s\<lparr>om_order_queue := om_order_queue s @ [new_order_info\<lparr>
               ord_order_id := oid, ord_device_id := d, ord_tenant_id := resolve_tenant (rt_device_mgr r) d,
               ord_recipe_id := rid, ord_recipe_name := rname, ord_cup_size := cup,
               ord_status := COMPLETED, ord_created_at := to_string ts\<rparr>]\<rparr>)\<rparr>
        else r)"
proof -
  note str = get_string_flat [OF assms(4)]
  have "get_int (flat_json fs) ''ts'' 0 = Inr ts"
    by (rule get_int_flat [OF assms(4,10)]) (use assms(11,12) in \<open>simp_all add: int32_min_def\<close>)
  then have ord: "completed_order (rt_device_mgr r) (parse_topic (d @ ''/v1/event/post'')) (flat_json fs) = Inr (new_order_info\<lparr>
               ord_order_id := oid, ord_device_id := d, ord_tenant_id := resolve_tenant (rt_device_mgr r) d,
               ord_recipe_id := rid, ord_recipe_name := rname, ord_cup_size := cup,
               ord_status := COMPLETED, ord_created_at := to_string ts\<rparr>)"
    by (simp add: completed_order_def str [OF assms(6)] str [OF assms(7)] str [OF assms(8)] str [OF assms(9)]
        parse_event_topic [OF assms(1)])
  have "on_message pq alert now (d @ ''/v1/event/post'') (flat_json fs) r
      = handle_event pq alert (parse_topic (d @ ''/v1/event/post'')) (flat_json fs) r"
    by (simp add: on_message_def parse_event_topic [OF assms(1)])
  moreover have "r\<lparr>rt_order_mgr := Some s, rt_db := None\<rparr> = r" and "r\<lparr>rt_order_mgr := x, rt_db := None\<rparr> = r\<lparr>rt_order_mgr := x\<rparr>" for x
    using assms(2,3) by (cases r, simp)+
  ultimately show ?thesis
    using assms(2,3) by (simp add: handle_event_def str [OF assms(5)] ord om_create_order_def db_do_def)
qed

theorem completed_order_routed_witness:
  "on_message (\<lambda>_ c. (Pg_error, c)) True 7 (''d'' @ ''/v1/event/post'') (flat_json demo_completed) demo_router =
     (Inr [], if length (om_order_queue new_order_manager) < ORDER_MAX_QUEUE_DEPTH
        then demo_router\<lparr>rt_order_mgr := Some (new_order_manager\<lparr>om_order_queue := om_order_queue new_order_manager @ [new_order_info\<lparr>
               ord_order_id := ''o1'', ord_device_id := ''d'', ord_tenant_id := resolve_tenant (rt_device_mgr demo_router) ''d'',
               ord_recipe_id := ''r1'', ord_recipe_name := ''latte'', ord_cup_size := ''L'',
               ord_status := COMPLETED, ord_created_at := to_string 17\<rparr>]\<rparr>)\<rparr>
        else demo_router)"
  by (rule completed_order_routed [OF demo_topic demo_router_mgrs(2,3)])
     (simp_all add: demo_completed_def fields_ok_def key_ok_def int32_max_def)

text \<open>The queue that completion reports go to is drained by no message: once it is full, nothing
  that arrives changes the order manager again, so every later report is lost.\<close>

theorem full_queue_is_final:
  assumes "rt_order_mgr r = Some s" "ORDER_MAX_QUEUE_DEPTH \<le> length (om_order_queue s)"
  shows "rt_order_mgr (fold (rt_step pq alert) msgs r) = Some s"
  using assms by (rule run_full_queue)

theorem full_queue_is_final_witness:
  "rt_order_mgr (fold (rt_step (\<lambda>_ c. (Pg_error, c :: unit)) True) [(7, ''d/v1/event/post'', flat_json demo_completed)]
     (demo_router\<lparr>rt_order_mgr := Some (new_order_manager\<lparr>om_order_queue := replicate 10 new_order_info\<rparr>)\<rparr>))
   = Some (new_order_manager\<lparr>om_order_queue := replicate 10 new_order_info\<rparr>)"
  by (rule full_queue_is_final) (simp_all add: ORDER_MAX_QUEUE_DEPTH_def)

text \<open>An event of the documented form whose time is a text makes the router throw before it has
  changed anything: the completion report is lost.\<close>

theorem event_text_time_throws:
  assumes "topic_id d" "rt_order_mgr r = Some s" "fields_ok fs"
    and "map_of fs ''event_type'' = Some (Json_Str ''order_completed'')" "map_of fs ''ts'' = Some (Json_Str ts)"
  shows "on_message pq alert now (d @ ''/v1/event/post'') (flat_json fs) r = (Inl Invalid_argument, r)"
  using assms(2) by (simp add: on_message_def handle_event_def parse_event_topic [OF assms(1)]
      get_string_flat [OF assms(3,4)] completed_order_def get_int_flat_string [OF assms(3,5)])

theorem event_text_time_throws_witness:
  "on_message (\<lambda>_ c. (Pg_error, c)) True 7 (''d'' @ ''/v1/event/post'')
     (flat_json [(''event_type'', Json_Str ''order_completed''), (''ts'', Json_Str ''noon'')]) demo_router
   = (Inl Invalid_argument, demo_router)"
  by (rule event_text_time_throws [OF demo_topic demo_router_mgrs(2), where ts = "''noon''"])
     (simp_all add: fields_ok_def key_ok_def)

end
