(* ===== verification/Mqtt_Client.thy ===== *)
theory Mqtt_Client
  imports Interfaces Cpp_Strings Dev_Types
begin

text \<open>
  \<^verbatim>\<open>src/middleware/communication/mqtt_client.cpp\<close>, the embedded MQTT 3.1.1 client that is built
  without the Paho library.  A byte is a character.  The network is a parameter: how opening
  the connection ends and, when it succeeds, all the bytes that arrive on it; \<^verbatim>\<open>send\<close> is
  the list of the packets that were sent.  The receive thread is the loop over the bytes
  that arrive, with the list of the calls it makes to the message callback.
\<close>

unbundle bit_operations_syntax

section \<open>Encoding\<close>

text \<open>\<^verbatim>\<open>el\<close>: the remaining length, seven bits a byte, the eighth says that more follow.\<close>

fun el :: "nat \<Rightarrow> string" where
  "el l = (if l div 128 = 0 then [char_of (l mod 128)] else char_of (l mod 128 + 128) # el (l div 128))"

declare el.simps [simp del]

definition size32 :: "string \<Rightarrow> nat" where
  "size32 v = length v mod 2 ^ 32"

text \<open>Two bytes in network order, as \<^verbatim>\<open>htons\<close> lays them out.\<close>

definition be16 :: "nat \<Rightarrow> string" where
  "be16 n = [char_of (n mod 65536 div 256), char_of (n mod 256)]"

text \<open>\<^verbatim>\<open>es\<close>: the length in two bytes and then the whole text, even when it is longer than that.\<close>

definition es :: "string \<Rightarrow> string" where
  "es s = be16 (length s) @ s"

definition packet :: "nat \<Rightarrow> string \<Rightarrow> string" where
  "packet h v = char_of h # el (size32 v) @ v"

section \<open>Decoding\<close>

text \<open>\<^verbatim>\<open>re\<close>: exactly \<open>n\<close> bytes, or failure when the connection ends before.\<close>

definition re :: "nat \<Rightarrow> string \<Rightarrow> (string \<times> string) option" where
  "re n s = (if length s < n then None else Some (take n s, drop n s))"

text \<open>The loop over the length bytes.  The shifted value is an \<^verbatim>\<open>int\<close>: a shift that leaves the
  32 bits, or by 32 and more, is undefined.\<close>

fun read_length :: "nat \<Rightarrow> nat \<Rightarrow> string \<Rightarrow> (nat \<times> string) option exn" where
  "read_length l sh [] = Inr None"
| "read_length l sh (c # cs) = (let b = char_code c; x = (b mod 128) * 2 ^ sh in
     if 32 \<le> sh \<or> 2 ^ 32 \<le> x then Inl Undefined_behaviour
     else if b < 128 then Inr (Some (l OR x, cs))
     else read_length (l OR x) (sh + 7) cs)"

text \<open>\<^verbatim>\<open>rp\<close>: the packet type (the upper half of the first byte) and the payload.\<close>

definition rp :: "string \<Rightarrow> ((nat \<times> string) \<times> string) option exn" where
  "rp s = (case s of
       [] \<Rightarrow> Inr None
     | h # rest \<Rightarrow> exn_bind (read_length 0 0 rest) (\<lambda>r. Inr (case r of
          None \<Rightarrow> None
        | Some (l, rest') \<Rightarrow> (case re l rest' of
             None \<Rightarrow> None
           | Some (pl, rest'') \<Rightarrow> Some ((char_code h div 16, pl), rest'')))))"

text \<open>Topic and payload of a PUBLISH packet.  The code tests a bit of the packet type, which is 3, where
  the quality of service is in the flags: the two bytes of a packet identifier are always
  skipped.  Indexing at the end of the text gives NUL, beyond it is undefined.\<close>

definition publish_parts :: "string \<Rightarrow> (string \<times> string) exn" where
  "publish_parts pl =
     (if length pl = 0 then Inl Undefined_behaviour
      else (let tl = char_code (pl ! 0) * 256 + (if length pl = 1 then 0 else char_code (pl ! 1)) in
        exn_bind (substr pl 2 tl) (\<lambda>topic.
        exn_bind (substr_from pl (2 + tl + 2)) (\<lambda>msg. Inr (topic, msg)))))"

lemma re_shorter: "re n s = Some (x, r) \<Longrightarrow> length r \<le> length s"
  by (auto simp: re_def split: if_splits)

lemma read_length_shorter: "read_length l sh s = Inr (Some (n, r)) \<Longrightarrow> length r < length s"
  by (induction l sh s rule: read_length.induct) (fastforce simp: Let_def split: if_splits)+

lemma rp_Cons_SomeD:
  assumes "rp (h # t) = Inr (Some ((tp, pl), r))"
  shows "\<exists>l t'. read_length 0 0 t = Inr (Some (l, t')) \<and> re l t' = Some (pl, r) \<and> tp = char_code h div 16"
proof -
  from assms obtain x where x: "read_length 0 0 t = Inr x"
    by (cases "read_length 0 0 t") (simp_all add: rp_def exn_bind_def)
  with assms obtain l t' where lt: "x = Some (l, t')"
    by (cases x) (auto simp: rp_def exn_bind_def)
  with assms x obtain q r' where "re l t' = Some (q, r')"
    by (cases "re l t'") (auto simp: rp_def exn_bind_def)
  with assms x lt show ?thesis by (auto simp: rp_def exn_bind_def)
qed

lemma rp_shorter: "rp s = Inr (Some (p, r)) \<Longrightarrow> length r < length s"
proof (cases s)
  case (Cons h t)
  assume "rp s = Inr (Some (p, r))"
  then obtain l t' where "read_length 0 0 t = Inr (Some (l, t'))" "re l t' = Some (snd p, r)"
    using rp_Cons_SomeD [of h t "fst p" "snd p" r] by (auto simp: Cons)
  then show ?thesis using re_shorter [of l t' "snd p" r] read_length_shorter [of 0 0 t l t'] by (simp add: Cons)
qed (simp add: rp_def)

text \<open>The receive thread: packets until the connection ends; \<open>cb\<close> says whether a callback is set.\<close>

function recv_loop :: "bool \<Rightarrow> string \<Rightarrow> unit exn \<times> (string \<times> string) list" where
  "recv_loop cb s = (case rp s of
       Inl e \<Rightarrow> (Inl e, [])
     | Inr None \<Rightarrow> (Inr (), [])
     | Inr (Some ((tp, pl), rest)) \<Rightarrow>
         if tp = 3 \<and> cb then
           (case publish_parts pl of
              Inl e \<Rightarrow> (Inl e, [])
            | Inr call \<Rightarrow> (case recv_loop cb rest of (r, calls) \<Rightarrow> (r, call # calls)))
         else recv_loop cb rest)"
  by pat_completeness auto

termination
  by (relation "measure (\<lambda>(cb, s). length s)") (auto dest: rp_shorter)

declare recv_loop.simps [simp del]

section \<open>The client\<close>

record mqtt_client =
  mc_broker_uri :: string
  mc_client_id :: string
  mc_broker_host :: string
  mc_username :: string
  mc_password :: string
  mc_broker_port :: int
  mc_open :: bool
  mc_connected :: bool
  mc_running :: bool
  mc_thread :: bool
  mc_callback :: bool
  mc_will_topic :: string
  mc_will_payload :: string
  mc_will_qos :: int
  mc_pid_counter :: "16 word"

definition new_mqtt_client :: mqtt_client where
  "new_mqtt_client = \<lparr>mc_broker_uri = '''', mc_client_id = '''', mc_broker_host = '''', mc_username = '''',
     mc_password = '''', mc_broker_port = 1883, mc_open = False, mc_connected = False, mc_running = False,
     mc_thread = False,     mc_callback = False, mc_will_topic = '''', mc_will_payload = '''', mc_will_qos = 1, mc_pid_counter = 1\<rparr>"

definition parse_uri :: "string \<Rightarrow> (string \<times> int) exn" where
  "parse_uri uri =
     (let s = (if starts_with uri ''tcp://'' then drop 6 uri
               else if starts_with uri ''mqtt://'' then drop 7 uri else uri)
      in case find_char (\<lambda>c. c = CHR '':'') s of
           Some p \<Rightarrow> exn_bind (stoi (drop (p + 1) s)) (\<lambda>port. Inr (take p s, port))
         | None \<Rightarrow> Inr (if s \<noteq> '''' then s else ''127.0.0.1'', 1883))"

text \<open>How opening the connection ends: no socket, no address, refused, or open with these bytes to come.\<close>

datatype net_result = No_socket | No_address | Refused | Opened string

definition connect_packet :: "mqtt_client \<Rightarrow> string" where
  "connect_packet c =
     (let has_will = mc_will_topic c \<noteq> ''''; usr = mc_username c; pwd = mc_password c;
          flg = 0x02 OR (if usr \<noteq> '''' then 0x80 OR (if pwd \<noteq> '''' then 0x40 else 0) else 0) OR (if has_will then 0x04 OR 0x08 else 0);
          v = [CHR 0x00, CHR 0x04] @ ''MQTT'' @ [CHR 0x04, char_of (flg :: nat), CHR 0x00, CHR 0x3C] @ es (mc_client_id c) @
            (if has_will then es (mc_will_topic c) @ es (mc_will_payload c) else '''') @
            (if usr \<noteq> '''' then es usr @ (if pwd \<noteq> '''' then es pwd else '''') else '''')
      in packet 16 v)"

text \<open>Connecting: the status, the packets sent, the bytes that the receive thread will see, the client.
  Starting the receive thread is an assignment to the thread object, which ends the program when a thread
  was started before and never joined: only \<^verbatim>\<open>disconnect\<close> joins it.\<close>

definition mqtt_connect ::
  "net_result \<Rightarrow> string \<Rightarrow> string \<Rightarrow> string \<Rightarrow> string \<Rightarrow> mqtt_client \<Rightarrow> status_code exn \<times> string list \<times> string option \<times> mqtt_client" where
  "mqtt_connect net u c usr pwd m =
     (let m1 = m\<lparr>mc_broker_uri := u, mc_client_id := c, mc_username := usr, mc_password := pwd\<rparr> in
      case parse_uri u of
        Inl e \<Rightarrow> (Inl e, [], None, m1)
      | Inr (host, port) \<Rightarrow>
         (let m2 = m1\<lparr>mc_broker_host := host, mc_broker_port := port\<rparr> in
          case net of
            Opened incoming \<Rightarrow>
              (case rp incoming of
                 Inl e \<Rightarrow> (Inl e, [connect_packet m2], None, m2)
               | Inr None \<Rightarrow> (Inr COMM_DISCONNECTED, [connect_packet m2], None, m2)
               | Inr (Some ((tp, pl), rest)) \<Rightarrow>
                   if tp \<noteq> 2 \<or> length pl < 2 \<or> pl ! 1 \<noteq> CHR 0x00
                   then (Inr COMM_DISCONNECTED, [connect_packet m2], None, m2)
                   else if mc_thread m2
                   then (Inl Terminated, [connect_packet m2], None, m2\<lparr>mc_open := True, mc_connected := True, mc_running := True\<rparr>)
                   else (Inr OK, [connect_packet m2], Some rest,
                         m2\<lparr>mc_open := True, mc_connected := True, mc_running := True, mc_thread := True\<rparr>))
          | _ \<Rightarrow> (Inr COMM_DISCONNECTED, [], None, m2)))"

definition mqtt_disconnect :: "mqtt_client \<Rightarrow> status_code \<times> string list \<times> mqtt_client" where
  "mqtt_disconnect m = (OK, if mc_open m then [[CHR 0xE0, CHR 0x00]] else [],
     m\<lparr>mc_running := False, mc_open := False, mc_connected := False, mc_thread := False\<rparr>)"

definition mqtt_is_connected :: "mqtt_client \<Rightarrow> bool" where
  "mqtt_is_connected m = mc_connected m"

text \<open>Publishing: the packet identifier is only there for a quality of service above 0.\<close>

definition publish_packet :: "16 word \<Rightarrow> string \<Rightarrow> string \<Rightarrow> nat \<Rightarrow> string" where
  "publish_packet pid t p q = packet ((0x30 OR 2 * q) mod 256) (es t @ (if 0 < q then be16 (unat pid) else []) @ p)"

definition mqtt_publish :: "string \<Rightarrow> string \<Rightarrow> nat \<Rightarrow> mqtt_client \<Rightarrow> status_code \<times> string list \<times> mqtt_client" where
  "mqtt_publish t p q m =
     (if \<not> mc_connected m \<or> \<not> mc_open m then (COMM_DISCONNECTED, [], m)
      else (OK, [publish_packet (mc_pid_counter m) t p q],
            if 0 < q then m\<lparr>mc_pid_counter := mc_pid_counter m + 1\<rparr> else m))"

definition subscribe_packet :: "16 word \<Rightarrow> string \<Rightarrow> nat \<Rightarrow> string" where
  "subscribe_packet pid t q = packet 130 (be16 (unat pid) @ es t @ [char_of q])"

definition mqtt_subscribe :: "string \<Rightarrow> nat \<Rightarrow> mqtt_client \<Rightarrow> status_code \<times> string list \<times> mqtt_client" where
  "mqtt_subscribe t q m =
     (if \<not> mc_connected m \<or> \<not> mc_open m then (COMM_DISCONNECTED, [], m)
      else (OK, [subscribe_packet (mc_pid_counter m) t q], m\<lparr>mc_pid_counter := mc_pid_counter m + 1\<rparr>))"

definition mqtt_unsubscribe :: "string \<Rightarrow> mqtt_client \<Rightarrow> status_code" where
  "mqtt_unsubscribe t m = OK"

definition set_will_message :: "string \<Rightarrow> string \<Rightarrow> int \<Rightarrow> mqtt_client \<Rightarrow> status_code \<times> mqtt_client" where
  "set_will_message t p q m = (OK, m\<lparr>mc_will_topic := t, mc_will_payload := p, mc_will_qos := q\<rparr>)"

definition set_message_callback :: "bool \<Rightarrow> mqtt_client \<Rightarrow> mqtt_client" where
  "set_message_callback cb m = m\<lparr>mc_callback := cb\<rparr>"

text \<open>The receive thread of a connected client: when it ends, the client is no longer connected, and the
  socket stays open.  Reading gives up after five seconds without a byte (\<^verbatim>\<open>SO_RCVTIMEO\<close>), so that the
  bytes that arrive are those before the first such pause.\<close>

definition receive :: "string \<Rightarrow> mqtt_client \<Rightarrow> unit exn \<times> (string \<times> string) list \<times> mqtt_client" where
  "receive incoming m = (case recv_loop (mc_callback m) incoming of
       (Inl e, calls) \<Rightarrow> (Inl e, calls, m)
     | (Inr _, calls) \<Rightarrow> (Inr (), calls, m\<lparr>mc_connected := False\<rparr>))"

definition set_reconnect_enabled :: "bool \<Rightarrow> mqtt_client \<Rightarrow> mqtt_client" where
  "set_reconnect_enabled e m = m"

definition mqtt_on_message :: "string \<Rightarrow> string \<Rightarrow> mqtt_client \<Rightarrow> (string \<times> string) list" where
  "mqtt_on_message t p m = (if mc_callback m then [(t, p)] else [])"

definition on_connection_lost :: "mqtt_client \<Rightarrow> mqtt_client" where
  "on_connection_lost m = m\<lparr>mc_connected := False\<rparr>"


section \<open>Reading back what was written\<close>

lemma or_high: "l < 2 ^ sh \<Longrightarrow> l OR (k * 2 ^ sh) = l + k * (2::nat) ^ sh"
proof (rule disjunctive_add [symmetric])
  fix n
  assume l: "l < 2 ^ sh"
  show "\<not> bit l n \<or> \<not> bit (k * 2 ^ sh) n"
  proof (cases "sh \<le> n")
    case True
    then have "l < 2 ^ n" using l by (meson less_le_trans one_le_numeral power_increasing)
    then show ?thesis by (simp add: bit_iff_odd)
  qed (simp add: bit_simps push_bit_eq_mult [symmetric])
qed

lemma char_code_char_of [simp]: "char_code (char_of n) = n mod 256"
  by (simp add: char_code_def)

lemma char_code_less [simp]: "char_code c < 256"
  by (simp add: char_code_def)

lemma read_length_el:
  assumes "acc < 2 ^ sh" "sh \<le> 28" "n < 2 ^ (28 - sh)"
  shows "read_length acc sh (el n @ rest) = Inr (Some (acc + n * 2 ^ sh, rest))"
  using assms
proof (induction n arbitrary: acc sh rule: el.induct)
  case (1 n)
  have split: "(2::nat) ^ 28 = 2 ^ (28 - sh) * 2 ^ sh" using 1(3) by (simp flip: power_add)
  have "n * 2 ^ sh < 2 ^ (28 - sh) * 2 ^ sh" using 1(4) by simp
  then have big: "n * 2 ^ sh < 2 ^ 28" by (simp only: split)
  have "n mod 128 * 2 ^ sh \<le> n * 2 ^ sh" by (rule mult_right_mono) simp_all
  from le_less_trans [OF this big] have "n mod 128 * 2 ^ sh < 2 ^ 32" by (rule less_trans) simp
  then have sh: "\<not> 32 \<le> sh" "\<not> 2 ^ 32 \<le> n mod 128 * 2 ^ sh" using 1(3) by simp_all
  show ?case
  proof (cases "n div 128 = 0")
    case True
    then have "n < 128" by simp
    with sh 1(2) show ?thesis by (simp add: el.simps [of n] or_high Let_def)
  next
    case False
    then have "128 \<le> n" by (simp add: div_eq_0_iff)
    then have "(2::nat) ^ 7 < 2 ^ (28 - sh)" using 1(4) by simp
    then have sh7: "8 \<le> 28 - sh" using power_less_imp_less_exp [of "2::nat" 7 "28 - sh"] by simp
    have "n div 128 < 2 ^ (28 - (sh + 7))"
    proof -
      have "28 - sh = (28 - (sh + 7)) + 7" using sh7 by simp
      then have "(2::nat) ^ (28 - sh) = 2 ^ (28 - (sh + 7)) * 2 ^ 7" by (simp only: power_add)
      with 1(4) show ?thesis by (simp add: less_mult_imp_div_less)
    qed
    moreover have "acc + n mod 128 * 2 ^ sh < 2 ^ (sh + 7)"
    proof -
      have "acc + n mod 128 * 2 ^ sh < 2 ^ sh + n mod 128 * 2 ^ sh" using 1(2) by simp
      also have "\<dots> = (1 + n mod 128) * 2 ^ sh" by simp
      also have "\<dots> \<le> 128 * 2 ^ sh" by (rule mult_right_mono) simp_all
      finally show ?thesis by (simp add: power_add)
    qed
    ultimately have "read_length (acc + n mod 128 * 2 ^ sh) (sh + 7) (el (n div 128) @ rest)
        = Inr (Some (acc + n mod 128 * 2 ^ sh + n div 128 * 2 ^ (sh + 7), rest))"
      using 1(1) [OF False, of _ "sh + 7"] sh7 by simp
    moreover have "n mod 128 * 2 ^ sh + n div 128 * 2 ^ (sh + 7) = n * 2 ^ sh"
    proof -
      have "n mod 128 * 2 ^ sh + n div 128 * 2 ^ (sh + 7) = (n mod 128 + n div 128 * 128) * 2 ^ sh"
        by (simp only: power_add distrib_right mult.assoc) simp
      then show ?thesis by (simp only: mod_div_mult_eq)
    qed
    ultimately show ?thesis
      using False sh 1(2) by (simp add: el.simps [of n] or_high Let_def)
  qed
qed

text \<open>The remaining length as a text format: up to \<open>2^28 - 1\<close>, which is what MQTT allows.\<close>

interpretation mqtt_length: text_codec el
  "\<lambda>s. case read_length 0 0 s of Inr r \<Rightarrow> r | Inl _ \<Rightarrow> None" "\<lambda>n. n < 2 ^ 28" "\<lambda>_. True"
  using read_length_el [of 0 0] by unfold_locales simp

lemma rp_packet:
  assumes "length v < 2 ^ 28"
  shows "rp (packet h v @ rest) = Inr (Some ((h mod 256 div 16, v), rest))"
proof -
  have n: "size32 v = length v" using assms by (simp add: size32_def)
  have "read_length 0 0 (el (length v) @ v @ rest) = Inr (Some (length v, v @ rest))"
    using read_length_el [of 0 0 "length v" "v @ rest"] assms by simp
  then show ?thesis by (simp add: rp_def packet_def n re_def)
qed

lemma publish_header:
  assumes "q \<le> 2"
  shows "(48 OR 2 * q) mod 256 mod 256 div 16 = (3::nat)"
proof -
  from assms consider "q = 0" | "q = 1" | "q = 2" by linarith
  then show ?thesis by cases simp_all
qed

lemma length_be16 [simp]: "length (be16 n) = 2"
  by (simp add: be16_def)

lemma length_es [simp]: "length (es t) = 2 + length t"
  by (simp add: es_def)

lemma topic_length:
  assumes "length t < 65536"
  shows "char_code (es t ! 0) * 256 + char_code (es t ! 1) = length t"
  using assms by (simp add: es_def be16_def div_mult_mod_eq)

text \<open>What the receiver takes out of a payload that starts with a written topic: it always skips two bytes.\<close>

lemma publish_parts_es:
  assumes "length t < 65536"
  shows "publish_parts (es t @ x) = (if length x < 2 then Inl Out_of_range else Inr (t, drop 2 x))"
proof -
  have ix: "(es t @ x) ! 0 = es t ! 0" "(es t @ x) ! 1 = es t ! 1" by (simp_all add: nth_append)
  have tl: "char_code ((es t @ x) ! 0) * 256 + char_code ((es t @ x) ! 1) = length t"
    unfolding ix by (rule topic_length [OF assms])
  have d: "drop 2 (es t @ x) = t @ x" "drop (2 + length t + 2) (es t @ x) = drop 2 x"
    by (simp_all add: es_def be16_def)
  show ?thesis
    using tl d by (simp add: publish_parts_def Let_def substr_def substr_from_def)
qed

definition msg_fits :: "string \<Rightarrow> string \<Rightarrow> bool" where
  "msg_fits t p \<longleftrightarrow> length t < 65536 \<and> length t + length p + 4 < 2 ^ 28"

lemma rp_publish_packet:
  assumes "msg_fits t p" "q \<le> 2"
  shows "rp (publish_packet pid t p q @ rest)
    = Inr (Some ((3, es t @ (if 0 < q then be16 (unat pid) else []) @ p), rest))"
  using assms publish_header [of q] by (simp add: publish_packet_def rp_packet msg_fits_def)

lemma recv_publish_packet:
  assumes "msg_fits t p" "q \<le> 2" "0 < q"
  shows "recv_loop True (publish_packet pid t p q @ rest)
    = (case recv_loop True rest of (r, calls) \<Rightarrow> (r, (t, p) # calls))"
proof -
  have "publish_parts (es t @ be16 (unat pid) @ p) = Inr (t, p)"
    using publish_parts_es [of t "be16 (unat pid) @ p"] assms(1) by (simp add: msg_fits_def)
  then show ?thesis
    by (subst recv_loop.simps) (simp add: rp_publish_packet [OF assms(1,2)] assms(3))
qed

lemma recv_publish_packet0:
  assumes "msg_fits t p"
  shows "recv_loop True (publish_packet pid t p 0 @ rest)
    = (if length p < 2 then (Inl Out_of_range, [])
       else (case recv_loop True rest of (r, calls) \<Rightarrow> (r, (t, drop 2 p) # calls)))"
  using publish_parts_es [of t p] assms
  by (subst recv_loop.simps) (simp add: rp_publish_packet [OF assms(1)] msg_fits_def)

text \<open>All the packets that publishing a list of messages sends.\<close>

fun publish_run :: "(string \<times> string \<times> nat) list \<Rightarrow> mqtt_client \<Rightarrow> string list \<times> mqtt_client" where
  "publish_run [] m = ([], m)"
| "publish_run ((t, p, q) # ms) m = (case mqtt_publish t p q m of (_, ps, m1) \<Rightarrow>
     (case publish_run ms m1 of (qs, m2) \<Rightarrow> (ps @ qs, m2)))"

lemma recv_published_at_least_once:
  "\<lbrakk>mc_connected m; mc_open m; \<forall>(t, p, q) \<in> set ms. msg_fits t p \<and> (q = 1 \<or> q = 2)\<rbrakk> \<Longrightarrow>
   recv_loop True (concat (fst (publish_run ms m)) @ rest)
     = (case recv_loop True rest of (r, calls) \<Rightarrow> (r, map (\<lambda>(t, p, q). (t, p)) ms @ calls))"
proof (induction ms m rule: publish_run.induct)
  case (2 t p q ms m)
  then have q: "0 < q" "q \<le> 2" "msg_fits t p" by auto
  let ?m = "m\<lparr>mc_pid_counter := mc_pid_counter m + 1\<rparr>"
  have pub: "mqtt_publish t p q m = (OK, [publish_packet (mc_pid_counter m) t p q], ?m)"
    using 2(2,3) q(1) by (simp add: mqtt_publish_def)
  have "recv_loop True (concat (fst (publish_run ms ?m)) @ rest)
      = (case recv_loop True rest of (r, calls) \<Rightarrow> (r, map (\<lambda>(t, p, q). (t, p)) ms @ calls))"
    using 2(1) [OF pub [symmetric] refl] 2(2,3,4) by simp
  then show ?case
    using recv_publish_packet [OF q(3,2,1), of "mc_pid_counter m" "concat (fst (publish_run ms ?m)) @ rest"]
    by (simp add: pub split_beta)
qed (simp split: prod.splits)

lemma recv_loop_Nil [simp]: "recv_loop cb [] = (Inr (), [])"
  by (subst recv_loop.simps) (simp add: rp_def)

text \<open>C12. Messages published with quality of service 1 or 2 reach the callback of a client that receives the
  packets: the same topics and payloads in the same order, and at the end of the stream the
  receiver is no longer connected.\<close>

theorem mqtt_publish_received:
  assumes "mc_connected m" "mc_open m" "mc_callback r"
    and "\<forall>(t, p, q) \<in> set ms. msg_fits t p \<and> (q = 1 \<or> q = 2)"
  shows "receive (concat (fst (publish_run ms m))) r
    = (Inr (), map (\<lambda>(t, p, q). (t, p)) ms, r\<lparr>mc_connected := False\<rparr>)"
  using recv_published_at_least_once [OF assms(1,2,4), of "[]"] assms(3) by (simp add: receive_def)

definition demo_mqtt :: mqtt_client where
  "demo_mqtt = new_mqtt_client\<lparr>mc_open := True, mc_connected := True, mc_callback := True\<rparr>"

theorem mqtt_publish_received_witness:
  "receive (concat (fst (publish_run [(''a/b'', ''on'', 1), (''c'', '''', 2)] demo_mqtt))) demo_mqtt
    = (Inr (), [(''a/b'', ''on''), (''c'', '''')], demo_mqtt\<lparr>mc_connected := False\<rparr>)"
  using mqtt_publish_received [of demo_mqtt demo_mqtt "[(''a/b'', ''on'', 1), (''c'', '''', 2)]"]
  by (simp add: demo_mqtt_def msg_fits_def)

text \<open>A message published with quality of service 0 does not arrive: the receiver takes its first two bytes
  for a packet identifier, and a payload shorter than that ends the receive thread with an
  exception, which ends the program.\<close>

theorem mqtt_qos0_truncated:
  assumes "msg_fits t p" "mc_callback r"
  shows "receive (publish_packet pid t p 0) r
    = (if length p < 2 then (Inl Out_of_range, [], r)
       else (Inr (), [(t, drop 2 p)], r\<lparr>mc_connected := False\<rparr>))"
  using recv_publish_packet0 [OF assms(1), of pid "[]"] assms(2) by (simp add: receive_def)

theorem mqtt_qos0_truncated_witness:
  "receive (publish_packet 1 ''a/b'' ''on!'' 0) demo_mqtt = (Inr (), [(''a/b'', ''!'')], demo_mqtt\<lparr>mc_connected := False\<rparr>)"
  using mqtt_qos0_truncated [of "''a/b''" "''on!''" demo_mqtt 1] by (simp add: msg_fits_def demo_mqtt_def)

section \<open>Connecting\<close>

lemma rp_Nil [simp]: "rp [] = Inr None"
  by (simp add: rp_def)

lemma rp_connack: "rp [CHR 0x20, CHR 0x02, x, y] = Inr (Some ((2, [x, y]), []))"
  by (simp add: rp_def char_code_def re_def)

text \<open>The answer of the broker that the client accepts: a CONNACK packet with return code 0.\<close>

definition accepts :: "string \<Rightarrow> string \<Rightarrow> bool" where
  "accepts incoming rest \<longleftrightarrow> (\<exists>pl. rp incoming = Inr (Some ((2, pl), rest)) \<and> 2 \<le> length pl \<and> pl ! 1 = CHR 0x00)"

text \<open>Connecting succeeds exactly when the address can be read, the connection opens, the first packet of
  the broker is a CONNACK with code 0 and no earlier receive thread is left; only then does the
  client become connected, and whenever the connection opened exactly one packet was sent.\<close>

theorem mqtt_connect_exact:
  assumes "\<not> mc_connected m"
  shows "(fst (mqtt_connect net u c usr pwd m) = Inr OK
      \<longleftrightarrow> (\<exists>hp incoming rest. parse_uri u = Inr hp \<and> net = Opened incoming \<and> accepts incoming rest \<and> \<not> mc_thread m))
    \<and> (fst (mqtt_connect net u c usr pwd m) \<noteq> Inl Terminated \<longrightarrow>
        mqtt_is_connected (snd (snd (snd (mqtt_connect net u c usr pwd m)))) = (fst (mqtt_connect net u c usr pwd m) = Inr OK))
    \<and> length (fst (snd (mqtt_connect net u c usr pwd m))) = (if \<exists>hp i. parse_uri u = Inr hp \<and> net = Opened i then 1 else 0)"
proof (cases "parse_uri u")
  case (Inl e)
  then show ?thesis using assms by (simp add: mqtt_connect_def mqtt_is_connected_def Let_def)
next
  case (Inr hp)
  obtain h p where hp: "hp = (h, p)" by (cases hp)
  show ?thesis
  proof (cases net)
    case (Opened incoming)
    show ?thesis
    proof (cases "rp incoming")
      case (Inl e)
      then show ?thesis using assms Inr hp Opened
        by (cases e) (simp_all add: mqtt_connect_def mqtt_is_connected_def accepts_def Let_def)
    next
      case r: (Inr o')
      show ?thesis
      proof (cases o')
        case None
        then show ?thesis using assms Inr hp Opened r
          by (simp add: mqtt_connect_def mqtt_is_connected_def accepts_def Let_def)
      next
        case (Some x)
        obtain tp pl rest where "x = ((tp, pl), rest)" by (metis surj_pair)
        then show ?thesis using assms Inr hp Opened r Some
          by (auto simp: mqtt_connect_def mqtt_is_connected_def accepts_def Let_def)
      qed
    qed
  qed (use assms Inr hp in \<open>simp_all add: mqtt_connect_def mqtt_is_connected_def Let_def\<close>)
qed

theorem mqtt_connect_exact_witness:
  "fst (mqtt_connect (Opened [CHR 0x20, CHR 0x02, CHR 0x00, CHR 0x00]) ''tcp://b:1883'' ''c'' '''' '''' new_mqtt_client) = Inr OK
   \<and> fst (mqtt_connect (Opened [CHR 0x20, CHR 0x02, CHR 0x00, CHR 0x05]) ''tcp://b:1883'' ''c'' '''' '''' new_mqtt_client) \<noteq> Inr OK"
proof -
  have c: "\<not> mc_connected new_mqtt_client" "\<not> mc_thread new_mqtt_client" by (simp_all add: new_mqtt_client_def)
  have u: "parse_uri ''tcp://b:1883'' = Inr (''b'', 1883)" by code_simp
  show ?thesis
    using mqtt_connect_exact [OF c(1), of "Opened [CHR 0x20, CHR 0x02, CHR 0x00, CHR 0x00]" "''tcp://b:1883''" "''c''" "''''" "''''"]
      mqtt_connect_exact [OF c(1), of "Opened [CHR 0x20, CHR 0x02, CHR 0x00, CHR 0x05]" "''tcp://b:1883''" "''c''" "''''" "''''"]
      u c by (simp add: accepts_def rp_connack)
qed

text \<open>After the receive thread has ended, which a pause of five seconds is enough for, the client cannot be
  connected again without an explicit disconnect: an accepted connection ends the program.\<close>

theorem mqtt_reconnect_terminates:
  assumes "fst (mqtt_connect (Opened i) u c usr pwd m) = Inr OK"
    and "receive j (snd (snd (snd (mqtt_connect (Opened i) u c usr pwd m)))) = (Inr (), calls, lost)"
    and "accepts i' rest"
  shows "\<not> mqtt_is_connected lost
    \<and> fst (mqtt_connect (Opened i') u c usr pwd lost) = Inl Terminated
    \<and> fst (mqtt_connect (Opened i') u c usr pwd (snd (snd (mqtt_disconnect lost)))) = Inr OK"
proof -
  obtain hp where u: "parse_uri u = Inr hp" using assms(1)
    by (cases "parse_uri u") (simp_all add: mqtt_connect_def Let_def)
  have t: "mc_thread (snd (snd (snd (mqtt_connect (Opened i) u c usr pwd m))))"
    using assms(1) by (auto simp: mqtt_connect_def Let_def split: sum.splits option.splits prod.splits if_splits)
  have l: "mc_thread lost" "\<not> mc_connected lost"
    using assms(2) t by (auto simp: receive_def split: prod.splits sum.splits)
  from assms(3) obtain pl where "rp i' = Inr (Some ((2, pl), rest))" "2 \<le> length pl" "pl ! 1 = CHR 0x00"
    by (auto simp: accepts_def)
  with l u show ?thesis
    by (cases hp) (simp add: mqtt_connect_def mqtt_is_connected_def mqtt_disconnect_def Let_def)
qed

theorem mqtt_reconnect_terminates_witness:
  "\<exists>lost. receive '''' (snd (snd (snd (mqtt_connect (Opened [CHR 0x20, CHR 0x02, CHR 0x00, CHR 0x00]) ''b'' ''c'' '''' '''' new_mqtt_client))))
       = (Inr (), [], lost) \<and> \<not> mqtt_is_connected lost
     \<and> fst (mqtt_connect (Opened [CHR 0x20, CHR 0x02, CHR 0x00, CHR 0x00]) ''b'' ''c'' '''' '''' lost) = Inl Terminated"
proof -
  let ?i = "[CHR 0x20, CHR 0x02, CHR 0x00, CHR 0x00]"
  have u: "parse_uri ''b'' = Inr (''b'', 1883)" by code_simp
  have ok: "fst (mqtt_connect (Opened ?i) ''b'' ''c'' '''' '''' new_mqtt_client) = Inr OK"
    by (simp add: mqtt_connect_def u rp_connack Let_def new_mqtt_client_def)
  have ac: "accepts ?i []" by (simp add: accepts_def rp_connack)
  obtain lost where r: "receive '''' (snd (snd (snd (mqtt_connect (Opened ?i) ''b'' ''c'' '''' '''' new_mqtt_client)))) = (Inr (), [], lost)"
    by (simp add: receive_def)
  from mqtt_reconnect_terminates [OF ok r ac] r show ?thesis by blast
qed

end
