(* ===== verification/Mqtt_Paho.thy ===== *)
theory Mqtt_Paho
  imports Mqtt_Client
begin

text \<open>
  The other build of \<^verbatim>\<open>src/middleware/communication/mqtt_client.cpp\<close>, over the Paho library.  The library is a
  parameter, the record \<open>paho\<close>: each function gives its outcome, where throwing \<^verbatim>\<open>mqtt::exception\<close> is one, and the
  client object afterwards.  What both builds promise their caller is the locale \<open>message_link\<close>.
\<close>

section \<open>The library\<close>

record ssl_options =
  so_trust_store :: "string option"
  so_key_store :: "string option"
  so_private_key :: "string option"
  so_verify :: bool

record paho_message =
  pm_topic :: string
  pm_payload :: string
  pm_qos :: int
  pm_retained :: bool

record connect_options =
  co_keep_alive_interval :: int
  co_clean_session :: bool
  co_automatic_reconnect :: bool
  co_user_name :: "string option"
  co_password :: "string option"
  co_ssl :: "ssl_options option"
  co_will :: "paho_message option"

datatype wait_result = Completed | Timed_out | Thrown

record 'c paho =
  pa_new :: "string \<Rightarrow> string \<Rightarrow> 'c option"
  pa_connect :: "connect_options \<Rightarrow> 'c \<Rightarrow> wait_result \<times> 'c"
  pa_disconnect :: "'c \<Rightarrow> bool"
  pa_publish :: "paho_message \<Rightarrow> 'c \<Rightarrow> bool \<times> 'c"
  pa_subscribe :: "string \<Rightarrow> int \<Rightarrow> 'c \<Rightarrow> bool \<times> 'c"
  pa_unsubscribe :: "string \<Rightarrow> 'c \<Rightarrow> bool \<times> 'c"

section \<open>The client\<close>

record 'c paho_client =
  pc_broker_uri :: string
  pc_client_id :: string
  pc_connected :: bool
  pc_reconnect_enabled :: bool
  pc_msg_cb :: bool
  pc_ca_cert_path :: string
  pc_device_cert_path :: string
  pc_device_key_path :: string
  pc_will_topic :: string
  pc_will_payload :: string
  pc_will_qos :: int
  pc_async_client :: "'c option"

definition new_paho_client :: "'c paho_client" where
  "new_paho_client = \<lparr>pc_broker_uri = '''', pc_client_id = '''', pc_connected = False, pc_reconnect_enabled = True, pc_msg_cb = False,
     pc_ca_cert_path = '''', pc_device_cert_path = '''', pc_device_key_path = '''', pc_will_topic = '''', pc_will_payload = '''',
     pc_will_qos = 1, pc_async_client = None\<rparr>"

definition MQTT_DEFAULT_KEEPALIVE_SEC :: int where
  "MQTT_DEFAULT_KEEPALIVE_SEC = 60"

definition unless_empty :: "string \<Rightarrow> string option" where
  "unless_empty s = (if s = '''' then None else Some s)"

definition use_tls :: "string \<Rightarrow> string \<Rightarrow> bool" where
  "use_tls uri ca \<longleftrightarrow> starts_with uri ''ssl://'' \<or> starts_with uri ''tls://'' \<or> ca \<noteq> ''''"

definition paho_options :: "string \<Rightarrow> string \<Rightarrow> 'c paho_client \<Rightarrow> connect_options" where
  "paho_options username password m = \<lparr>co_keep_alive_interval = MQTT_DEFAULT_KEEPALIVE_SEC, co_clean_session = True,
     co_automatic_reconnect = pc_reconnect_enabled m, co_user_name = unless_empty username, co_password = unless_empty password,
     co_ssl = (if use_tls (pc_broker_uri m) (pc_ca_cert_path m)
       then Some \<lparr>so_trust_store = unless_empty (pc_ca_cert_path m), so_key_store = unless_empty (pc_device_cert_path m),
         so_private_key = unless_empty (pc_device_key_path m), so_verify = True\<rparr> else None),
     co_will = (if pc_will_topic m = '''' then None
       else Some \<lparr>pm_topic = pc_will_topic m, pm_payload = pc_will_payload m, pm_qos = pc_will_qos m, pm_retained = True\<rparr>)\<rparr>"

text \<open>Any failure drops the client object; the flag stays as it was.\<close>

definition paho_connect ::
  "'c paho \<Rightarrow> string \<Rightarrow> string \<Rightarrow> string \<Rightarrow> string \<Rightarrow> string \<Rightarrow> string \<Rightarrow> string \<Rightarrow> 'c paho_client \<Rightarrow> status_code \<times> 'c paho_client" where
  "paho_connect pa uri cid ca cert key username password m0 =
     (let m = m0\<lparr>pc_broker_uri := uri, pc_client_id := cid, pc_ca_cert_path := ca, pc_device_cert_path := cert, pc_device_key_path := key\<rparr> in
      case pa_new pa uri cid of
        None \<Rightarrow> (COMM_DISCONNECTED, m\<lparr>pc_async_client := None\<rparr>)
      | Some c \<Rightarrow> (case pa_connect pa (paho_options username password m) c of
          (Completed, c') \<Rightarrow> (OK, m\<lparr>pc_async_client := Some c', pc_connected := True\<rparr>)
        | (_, _) \<Rightarrow> (COMM_DISCONNECTED, m\<lparr>pc_async_client := None\<rparr>)))"

text \<open>An exception on disconnecting is only printed, so that its outcome does not matter.\<close>

definition paho_disconnect :: "'c paho_client \<Rightarrow> status_code \<times> 'c paho_client" where
  "paho_disconnect m = (OK, m\<lparr>pc_async_client := None, pc_connected := False\<rparr>)"

definition paho_is_connected :: "'c paho_client \<Rightarrow> bool" where
  "paho_is_connected m = pc_connected m"

text \<open>A request to the library, when connected.\<close>

definition paho_request :: "('c \<Rightarrow> bool \<times> 'c) \<Rightarrow> 'c paho_client \<Rightarrow> status_code \<times> 'c paho_client" where
  "paho_request f m = (if \<not> pc_connected m then (COMM_DISCONNECTED, m) else (case pc_async_client m of
       None \<Rightarrow> (COMM_DISCONNECTED, m)
     | Some c \<Rightarrow> (case f c of (ok, c') \<Rightarrow> (if ok then OK else COMM_DISCONNECTED, m\<lparr>pc_async_client := Some c'\<rparr>))))"

definition paho_publish :: "'c paho \<Rightarrow> string \<Rightarrow> string \<Rightarrow> int \<Rightarrow> bool \<Rightarrow> 'c paho_client \<Rightarrow> status_code \<times> 'c paho_client" where
  "paho_publish pa topic payload qos retain =
     paho_request (pa_publish pa \<lparr>pm_topic = topic, pm_payload = payload, pm_qos = qos, pm_retained = retain\<rparr>)"

definition paho_subscribe :: "'c paho \<Rightarrow> string \<Rightarrow> int \<Rightarrow> 'c paho_client \<Rightarrow> status_code \<times> 'c paho_client" where
  "paho_subscribe pa topic qos = paho_request (pa_subscribe pa topic qos)"

definition paho_unsubscribe :: "'c paho \<Rightarrow> string \<Rightarrow> 'c paho_client \<Rightarrow> status_code \<times> 'c paho_client" where
  "paho_unsubscribe pa topic = paho_request (pa_unsubscribe pa topic)"

definition paho_set_message_callback :: "bool \<Rightarrow> 'c paho_client \<Rightarrow> 'c paho_client" where
  "paho_set_message_callback cb m = m\<lparr>pc_msg_cb := cb\<rparr>"

definition paho_set_will_message :: "string \<Rightarrow> string \<Rightarrow> int \<Rightarrow> 'c paho_client \<Rightarrow> status_code \<times> 'c paho_client" where
  "paho_set_will_message t p q m = (OK, m\<lparr>pc_will_topic := t, pc_will_payload := p, pc_will_qos := q\<rparr>)"

definition paho_set_reconnect_enabled :: "bool \<Rightarrow> 'c paho_client \<Rightarrow> 'c paho_client" where
  "paho_set_reconnect_enabled e m = m\<lparr>pc_reconnect_enabled := e\<rparr>"

definition paho_on_connection_lost :: "'c paho_client \<Rightarrow> 'c paho_client" where
  "paho_on_connection_lost m = m\<lparr>pc_connected := False\<rparr>"

definition paho_on_message :: "string \<Rightarrow> string \<Rightarrow> 'c paho_client \<Rightarrow> (string \<times> string) list" where
  "paho_on_message t p m = (if pc_msg_cb m then [(t, p)] else [])"

text \<open>What the library calls, \<^verbatim>\<open>PahoCallback\<close>: the client afterwards and the messages that are passed on.  That the
  connection is there again is only printed.\<close>

datatype paho_event = Connected | Connection_lost string | Message_arrived "(string \<times> string) option" | Delivery_complete

fun paho_callback :: "paho_event \<Rightarrow> 'c paho_client \<Rightarrow> (string \<times> string) list \<times> 'c paho_client" where
  "paho_callback Connected m = ([], m)"
| "paho_callback (Connection_lost cause) m = ([], m\<lparr>pc_connected := False\<rparr>)"
| "paho_callback (Message_arrived msg) m = ((case msg of Some (t, p) \<Rightarrow> if pc_msg_cb m then [(t, p)] else [] | None \<Rightarrow> []), m)"
| "paho_callback Delivery_complete m = ([], m)"

section \<open>The contract of both builds\<close>

text \<open>A caller may rely on this: after the connection is lost or given up, publishing is refused and does nothing.\<close>

locale message_link =
  fixes conn :: "'s \<Rightarrow> bool"
    and pub :: "string \<times> string \<Rightarrow> 's \<Rightarrow> status_code \<times> 's"
    and disc :: "'s \<Rightarrow> 's"
    and lost :: "'s \<Rightarrow> 's"
  assumes disc_off: "\<not> conn (disc s)"
    and lost_off: "\<not> conn (lost s)"
    and pub_off: "\<not> conn s \<Longrightarrow> pub m s = (COMM_DISCONNECTED, s)"
begin

lemma refused_run: "\<not> conn s \<Longrightarrow> fold (\<lambda>m (scs, s). (case pub m s of (sc, s') \<Rightarrow> (scs @ [sc], s'))) ms (scs, s) = (scs @ replicate (length ms) COMM_DISCONNECTED, s)"
proof (induction ms arbitrary: scs)
  case (Cons m ms)
  from Cons.IH [OF Cons.prems, of "scs @ [COMM_DISCONNECTED]"] show ?case by (simp add: pub_off [OF Cons.prems])
qed simp

end

interpretation socket_link: message_link mqtt_is_connected
  "\<lambda>(t, p) m. (case mqtt_publish t p 1 m of (sc, _, m') \<Rightarrow> (sc, m'))" "\<lambda>m. snd (snd (mqtt_disconnect m))" on_connection_lost
  by unfold_locales (auto simp: mqtt_is_connected_def mqtt_disconnect_def on_connection_lost_def mqtt_publish_def)

interpretation paho_link: message_link paho_is_connected
  "\<lambda>(t, p). paho_publish pa t p 1 retain" "\<lambda>m. snd (paho_disconnect m)" paho_on_connection_lost
  by unfold_locales (auto simp: paho_is_connected_def paho_disconnect_def paho_on_connection_lost_def paho_publish_def paho_request_def)

section \<open>Connections\<close>

text \<open>What happens to a client between two calls of \<^verbatim>\<open>connect\<close>.\<close>

datatype paho_step = Event paho_event | Publish string string int bool | Subscribe string int | Unsubscribe string

fun paho_run1 :: "'c paho \<Rightarrow> paho_step \<Rightarrow> 'c paho_client \<Rightarrow> 'c paho_client" where
  "paho_run1 pa (Event e) m = snd (paho_callback e m)"
| "paho_run1 pa (Publish t p q r) m = snd (paho_publish pa t p q r m)"
| "paho_run1 pa (Subscribe t q) m = snd (paho_subscribe pa t q m)"
| "paho_run1 pa (Unsubscribe t) m = snd (paho_unsubscribe pa t m)"

lemma paho_off_stays: "\<not> pc_connected m \<Longrightarrow> paho_run1 pa s m = m"
proof (cases s)
  case (Event e)
  assume "\<not> pc_connected m"
  then show ?thesis using Event by (cases e) auto
qed (simp_all add: paho_publish_def paho_subscribe_def paho_unsubscribe_def paho_request_def)

text \<open>C31. A connection that is lost once is lost for good: although the library is told to reconnect by itself and says so when it
  has, the client goes on refusing everything, and nothing reaches the library any more, until \<^verbatim>\<open>connect\<close> is called again,
  which the program does only at its start.\<close>

theorem paho_reconnect_unnoticed:
  "fold (paho_run1 pa) (Event (Connection_lost cause) # steps) m = m\<lparr>pc_connected := False\<rparr>
   \<and> fst (paho_publish pa t p q r (fold (paho_run1 pa) (Event (Connection_lost cause) # steps) m)) = COMM_DISCONNECTED
   \<and> \<not> paho_is_connected (fold (paho_run1 pa) (Event (Connection_lost cause) # steps @ [Event Connected]) m)"
proof -
  have "fold (paho_run1 pa) steps (m\<lparr>pc_connected := False\<rparr>) = m\<lparr>pc_connected := False\<rparr>" for steps
    by (induction steps) (simp_all add: paho_off_stays)
  then show ?thesis by (simp add: paho_publish_def paho_request_def paho_is_connected_def)
qed

lemma paho_connect_failed:
  "fst (paho_connect pa uri cid ca cert key user pass m) \<noteq> OK \<Longrightarrow> snd (paho_connect pa uri cid ca cert key user pass m) =
     m\<lparr>pc_broker_uri := uri, pc_client_id := cid, pc_ca_cert_path := ca, pc_device_cert_path := cert, pc_device_key_path := key,
       pc_async_client := None\<rparr>"
  unfolding paho_connect_def Let_def by (simp split: option.splits prod.splits wait_result.splits)

text \<open>A failed attempt on a connected client throws the client object away and leaves the flag: it says that it is connected
  while every request is refused.\<close>

theorem paho_failed_reconnect:
  assumes "pc_connected m" "fst (paho_connect pa uri cid ca cert key user pass m) \<noteq> OK"
  shows "paho_is_connected (snd (paho_connect pa uri cid ca cert key user pass m))
    \<and> fst (paho_publish pa t p q r (snd (paho_connect pa uri cid ca cert key user pass m))) = COMM_DISCONNECTED"
  using assms(1) unfolding paho_connect_failed [OF assms(2)] by (simp add: paho_is_connected_def paho_publish_def paho_request_def)

definition demo_paho :: "unit paho" where
  "demo_paho = \<lparr>pa_new = (\<lambda>uri cid. if uri = '''' then None else Some ()), pa_connect = (\<lambda>_ c. (Completed, c)), pa_disconnect = (\<lambda>_. True),
     pa_publish = (\<lambda>_ c. (True, c)), pa_subscribe = (\<lambda>_ _ c. (True, c)), pa_unsubscribe = (\<lambda>_ c. (True, c))\<rparr>"

theorem paho_failed_reconnect_witness:
  "paho_is_connected (snd (paho_connect demo_paho '''' ''c'' '''' '''' '''' '''' '''' (snd (paho_connect demo_paho ''tcp://b'' ''c'' '''' '''' '''' '''' '''' new_paho_client))))"
  using paho_failed_reconnect [of "snd (paho_connect demo_paho ''tcp://b'' ''c'' '''' '''' '''' '''' '''' new_paho_client)" demo_paho "''''" "''c''" "''''" "''''" "''''" "''''" "''''" "''t''" "''p''" 1 True]
  by (simp add: paho_connect_def demo_paho_def new_paho_client_def Let_def)

text \<open>Both builds refuse what is published after the connection was lost.\<close>

theorem lost_link_refuses:
  "fst (fold (\<lambda>m (scs, s). (case paho_publish pa (fst m) (snd m) 1 retain s of (sc, s') \<Rightarrow> (scs @ [sc], s'))) ms ([], paho_on_connection_lost s))
     = replicate (length ms) COMM_DISCONNECTED
   \<and> fst (fold (\<lambda>m (scs, s). (case mqtt_publish (fst m) (snd m) 1 s of (sc, _, s') \<Rightarrow> (scs @ [sc], s'))) ms ([], on_connection_lost c))
     = replicate (length ms) COMM_DISCONNECTED"
  using paho_link.refused_run [OF paho_link.lost_off, of pa retain ms "[]" s] socket_link.refused_run [OF socket_link.lost_off, of ms "[]" c]
  by (simp add: case_prod_beta')

end
