(* ===== verification/Http_Client.thy ===== *)
theory Http_Client
  imports Interfaces Cpp_Strings Dev_Types "HOL-Library.Signed_Division"
begin

text \<open>
  \<^verbatim>\<open>HttpClient\<close> of \<^verbatim>\<open>src/middleware/communication/http_client.cpp\<close>, built with libcurl.  The library is not part
  of the program: a transfer is a function of the options of the handle.  Options stay set until
  they are set again, as the library documents; the list of headers is referred to by its address,
  and the lists that have not been freed are part of the state, since the program frees a list
  while the handle still refers to it.  Printing is left out.  A body that the program leaves unassigned, because
  there is no handle, is the empty text.
\<close>

section \<open>The handle\<close>

datatype http_method = Method_get | Method_post

datatype write_target = To_text | To_file

record curl_options =
  co_url :: string
  co_method :: http_method
  co_post_fields :: string
  co_headers :: "nat option"
  co_write :: write_target
  co_timeout :: int
  co_connect_timeout :: int
  co_follow_location :: bool
  co_max_redirs :: "int option"
  co_ssl_verify_peer :: int
  co_ssl_verify_host :: int
  co_ca_info :: "string option"
  co_ssl_cert :: "string option"
  co_ssl_key :: "string option"
  co_resume_from :: int
  co_fail_on_error :: bool
  co_no_progress :: bool

record http_client =
  hc_ca_cert :: string
  hc_client_cert :: string
  hc_client_key :: string
  hc_tls_configured :: bool
  hc_curl :: "curl_options option"
  hc_lists :: "(nat \<times> string list) list"
  hc_next :: nat

text \<open>What a transfer gives: whether it succeeded, the status of the response (0 when there is none), and the pieces
  that were handed to the write function.\<close>

record transfer =
  tr_ok :: bool
  tr_http_code :: int
  tr_chunks :: "string list"

type_synonym curl = "curl_options \<Rightarrow> string list \<Rightarrow> transfer"

definition fresh_options :: curl_options where
  "fresh_options = \<lparr>co_url = '''', co_method = Method_get, co_post_fields = '''', co_headers = None, co_write = To_text, co_timeout = 30,
     co_connect_timeout = 10, co_follow_location = True, co_max_redirs = None, co_ssl_verify_peer = 1, co_ssl_verify_host = 2,
     co_ca_info = None, co_ssl_cert = None, co_ssl_key = None, co_resume_from = 0, co_fail_on_error = False, co_no_progress = True\<rparr>"

text \<open>\<^verbatim>\<open>curl_easy_init\<close> may fail; the next call tries again.\<close>

definition ensure_curl :: "bool \<Rightarrow> http_client \<Rightarrow> http_client" where
  "ensure_curl init_ok c = (if hc_curl c = None \<and> init_ok then c\<lparr>hc_curl := Some fresh_options\<rparr> else c)"

definition new_http_client :: "bool \<Rightarrow> http_client" where
  "new_http_client init_ok = ensure_curl init_ok \<lparr>hc_ca_cert = '''', hc_client_cert = '''', hc_client_key = '''', hc_tls_configured = False,
     hc_curl = None, hc_lists = [], hc_next = 0\<rparr>"

definition opt_path :: "string \<Rightarrow> string option \<Rightarrow> string option" where
  "opt_path p old = (if p \<noteq> '''' then Some p else old)"

definition set_tls :: "bool \<Rightarrow> string \<Rightarrow> string \<Rightarrow> string \<Rightarrow> http_client \<Rightarrow> status_code \<times> http_client" where
  "set_tls init_ok ca cert key c =
     (let c1 = ensure_curl init_ok (c\<lparr>hc_ca_cert := ca, hc_client_cert := cert, hc_client_key := key, hc_tls_configured := True\<rparr>) in
      case hc_curl c1 of
        None \<Rightarrow> (ERROR, c1)
      | Some co \<Rightarrow> (OK, c1\<lparr>hc_curl := Some (co\<lparr>co_ca_info := opt_path ca (co_ca_info co), co_ssl_cert := opt_path cert (co_ssl_cert co),
          co_ssl_key := opt_path key (co_ssl_key co)\<rparr>)\<rparr>))"

section \<open>Transfers\<close>

text \<open>The functions that the library calls: what it received is appended to the text or written to the file, and the
  answer is the number of bytes taken.  The last percentage reported is a static variable; a line is printed when the
  tens change.\<close>

definition write_callback :: "string \<Rightarrow> string \<Rightarrow> nat \<times> string" where
  "write_callback contents str = (length contents, str @ contents)"

definition file_write_callback :: "string \<Rightarrow> bool \<times> string \<Rightarrow> nat \<times> bool \<times> string" where
  "file_write_callback contents fp = (case fp of (is_open, data) \<Rightarrow>
     if is_open then (length contents, True, data @ contents) else (0, fp))"

definition progress_callback :: "int \<Rightarrow> int \<Rightarrow> int \<Rightarrow> (int option \<times> int) exn" where
  "progress_callback dltotal dlnow last_pct =
     (if dltotal \<le> 0 then Inr (None, last_pct)
      else if dlnow * 100 < int64_min \<or> int64_max < dlnow * 100 then Inl Undefined_behaviour
      else (let pct = sint (word_of_int (dlnow * 100 sdiv dltotal) :: 32 word) in
        if pct sdiv 10 \<noteq> last_pct sdiv 10 then Inr (Some pct, pct) else Inr (None, last_pct)))"

text \<open>What the calls of a transfer leave behind.\<close>

lemma write_callbacks: "fold (\<lambda>c. snd \<circ> write_callback c) cs str = str @ concat cs"
  by (induction cs arbitrary: str) (simp_all add: write_callback_def)

lemma file_write_callbacks: "fold (\<lambda>c. snd \<circ> file_write_callback c) cs (True, data) = (True, data @ concat cs)"
  by (induction cs arbitrary: data) (simp_all add: file_write_callback_def)

fun progress_lines :: "int \<Rightarrow> int list \<Rightarrow> int \<Rightarrow> int list" where
  "progress_lines dltotal [] last_pct = []"
| "progress_lines dltotal (n # ns) last_pct = (case progress_callback dltotal n last_pct of
     Inl _ \<Rightarrow> []
   | Inr (line, last') \<Rightarrow> (case line of None \<Rightarrow> [] | Some p \<Rightarrow> [p]) @ progress_lines dltotal ns last')"

lemma percent_bounds: "0 < (t::int) \<Longrightarrow> 0 \<le> n \<Longrightarrow> n \<le> t \<Longrightarrow> 0 \<le> n * 100 div t \<and> n * 100 div t \<le> 100"
  using zdiv_mono1 [of "n * 100" "100 * t" t] by (simp add: pos_imp_zdiv_nonneg_iff)

lemma progress_step:
  assumes "0 < t" "0 \<le> n" "n \<le> t" "t * 100 \<le> int64_max"
  shows "progress_callback t n lp = (let p = n * 100 div t in
           Inr (if p div 10 \<noteq> lp sdiv 10 then (Some p, p) else (None, lp)))"
proof -
  have p: "0 \<le> n * 100 div t" "n * 100 div t \<le> 100"
    using percent_bounds [OF assms(1-3)] by simp_all
  have "sint (word_of_int (n * 100 div t) :: 32 word) = n * 100 div t"
    using p by (simp add: int_word_sint)
  moreover have "n * 100 sdiv t = n * 100 div t" using assms by (simp add: signed_divide_int_def sgn_if)
  moreover have "n * 100 div t sdiv 10 = n * 100 div t div 10" using p by (simp add: signed_divide_int_def sgn_if)
  moreover have "int64_min \<le> n * 100" "n * 100 \<le> int64_max" using assms by (simp_all add: int64_min_def)
  ultimately show ?thesis using assms by (simp add: progress_callback_def Let_def)
qed

text \<open>A download that only makes progress prints at most ten lines.\<close>

lemma progress_lines_from:
  assumes "0 < t" "t * 100 \<le> int64_max" "sorted ns" "\<forall>n \<in> set ns. 0 \<le> n \<and> n \<le> t"
    and "0 \<le> lp sdiv 10" "lp sdiv 10 \<le> 10" "\<forall>n \<in> set ns. lp sdiv 10 \<le> n * 100 div t div 10"
  shows "int (length (progress_lines t ns lp)) \<le> 10 - lp sdiv 10"
  using assms(3-)
proof (induction ns arbitrary: lp)
  case (Cons n ns)
  let ?p = "n * 100 div t"
  have n: "0 \<le> n" "n \<le> t" using Cons.prems by auto
  have p: "0 \<le> ?p" "?p \<le> 100"
    using percent_bounds [OF assms(1) n] by simp_all
  have sp: "?p sdiv 10 = ?p div 10" using p by (simp add: signed_divide_int_def sgn_if)
  have up: "\<forall>m \<in> set ns. ?p div 10 \<le> m * 100 div t div 10"
    using Cons.prems(1) assms(1) by (auto intro!: zdiv_mono1)
  show ?case
  proof (cases "?p div 10 = lp sdiv 10")
    case True
    then show ?thesis using Cons.IH [of lp] Cons.prems progress_step [OF assms(1) n assms(2)] by (simp add: Let_def)
  next
    case False
    then have "lp sdiv 10 < ?p div 10" using Cons.prems(5) by fastforce
    moreover have "int (length (progress_lines t ns ?p)) \<le> 10 - ?p sdiv 10"
      using Cons.IH [of ?p] Cons.prems up p by (simp add: sp)
    ultimately show ?thesis using False progress_step [OF assms(1) n assms(2), of lp] sp by (simp add: Let_def)
  qed
qed simp

lemma progress_lines_few:
  assumes "0 < t" "t * 100 \<le> int64_max" "sorted ns" "\<forall>n \<in> set ns. 0 \<le> n \<and> n \<le> t"
  shows "length (progress_lines t ns (- 1)) \<le> 10"
proof -
  have "(- 1 :: int) sdiv 10 = 0" by (simp add: signed_divide_int_def)
  moreover have "\<forall>n \<in> set ns. 0 \<le> n * 100 div t div 10"
    using assms by (auto simp: pos_imp_zdiv_nonneg_iff)
  ultimately show ?thesis using progress_lines_from [OF assms, of "- 1"] by simp
qed

text \<open>A transfer reads the list of headers that the handle refers to.\<close>

definition curl_perform :: "curl \<Rightarrow> http_client \<Rightarrow> curl_options \<Rightarrow> transfer exn" where
  "curl_perform curl c co = (case co_headers co of
       None \<Rightarrow> Inr (curl co [])
     | Some a \<Rightarrow> (case map_of (hc_lists c) a of None \<Rightarrow> Inl Undefined_behaviour | Some hs \<Rightarrow> Inr (curl (co\<lparr>co_headers := None\<rparr>) hs)))"

definition slist_new :: "string list \<Rightarrow> http_client \<Rightarrow> nat \<times> http_client" where
  "slist_new hs c = (hc_next c, c\<lparr>hc_lists := (hc_next c, hs) # hc_lists c, hc_next := hc_next c + 1\<rparr>)"

definition slist_free :: "nat \<Rightarrow> http_client \<Rightarrow> http_client" where
  "slist_free a c = c\<lparr>hc_lists := filter (\<lambda>e. fst e \<noteq> a) (hc_lists c)\<rparr>"

text \<open>Both requests: the list is made, the transfer runs, the list is freed; then the outcome is looked at.\<close>

definition run_request :: "curl \<Rightarrow> curl_options \<Rightarrow> string list \<Rightarrow> (transfer \<Rightarrow> status_code) \<Rightarrow> http_client \<Rightarrow> (status_code \<times> string \<times> http_client) exn" where
  "run_request curl co hs outcome c = (case slist_new hs c of (a, c1) \<Rightarrow>
     (let co1 = co\<lparr>co_headers := Some a\<rparr> in
      exn_bind (curl_perform curl c1 co1) (\<lambda>tr. Inr (outcome tr, concat (tr_chunks tr), slist_free a (c1\<lparr>hc_curl := Some co1\<rparr>)))))"

definition get_outcome :: "transfer \<Rightarrow> status_code" where
  "get_outcome tr = (if \<not> tr_ok tr then (if 400 \<le> tr_http_code tr then COMM_DISCONNECTED else COMM_TIMEOUT)
     else if 400 \<le> tr_http_code tr then COMM_DISCONNECTED else OK)"

definition get_options :: "string \<Rightarrow> int \<Rightarrow> curl_options \<Rightarrow> curl_options" where
  "get_options url timeout_sec co = co\<lparr>co_url := url, co_method := Method_get, co_write := To_text, co_timeout := timeout_sec\<rparr>"

definition http_get :: "curl \<Rightarrow> bool \<Rightarrow> string \<Rightarrow> int \<Rightarrow> http_client \<Rightarrow> (status_code \<times> string \<times> http_client) exn" where
  "http_get curl init_ok url timeout_sec c = (let c1 = ensure_curl init_ok c in
     case hc_curl c1 of
       None \<Rightarrow> Inr (ERROR, '''', c1)
     | Some co \<Rightarrow> run_request curl (get_options url timeout_sec co) [''Accept: application/json''] get_outcome c1)"

definition post_outcome :: "transfer \<Rightarrow> status_code" where
  "post_outcome tr = (if \<not> tr_ok tr then COMM_TIMEOUT else if 400 \<le> tr_http_code tr then COMM_DISCONNECTED else OK)"

definition post_options :: "string \<Rightarrow> string \<Rightarrow> int \<Rightarrow> curl_options \<Rightarrow> curl_options" where
  "post_options url body timeout_sec co =
     co\<lparr>co_url := url, co_method := Method_post, co_post_fields := body, co_write := To_text, co_timeout := timeout_sec\<rparr>"

text \<open>The headers of the caller come in the order of a \<^verbatim>\<open>std::map\<close>.\<close>

definition http_post :: "curl \<Rightarrow> bool \<Rightarrow> string \<Rightarrow> string \<Rightarrow> (string \<times> string) list \<Rightarrow> int \<Rightarrow> http_client \<Rightarrow> (status_code \<times> string \<times> http_client) exn" where
  "http_post curl init_ok url body headers timeout_sec c = (let c1 = ensure_curl init_ok c in
     case hc_curl c1 of
       None \<Rightarrow> Inr (ERROR, '''', c1)
     | Some co \<Rightarrow> run_request curl (post_options url body timeout_sec co)
         ([''Content-Type: application/json'', ''Accept: application/json''] @ map (\<lambda>(k, v). k @ '': '' @ v) headers) post_outcome c1)"

section \<open>Downloads\<close>

type_synonym disk = "string \<Rightarrow> string option"

definition download_options :: "string \<Rightarrow> int \<Rightarrow> curl_options \<Rightarrow> curl_options" where
  "download_options url resume_from co = co\<lparr>co_url := url, co_write := To_file, co_timeout := 0, co_connect_timeout := 30, co_no_progress := False,
     co_resume_from := (if 0 < resume_from then resume_from else co_resume_from co), co_fail_on_error := True,
     co_follow_location := True, co_max_redirs := Some 5\<rparr>"

text \<open>A download that resumes appends to the file, any other one replaces it.\<close>

definition opened_file :: "bool \<Rightarrow> string \<Rightarrow> disk \<Rightarrow> string" where
  "opened_file resume path f = (if resume then (case f path of None \<Rightarrow> '''' | Some d \<Rightarrow> d) else '''')"

definition download_file :: "curl \<Rightarrow> bool \<Rightarrow> (string \<Rightarrow> bool) \<Rightarrow> string \<Rightarrow> string \<Rightarrow> bool \<Rightarrow> http_client \<Rightarrow> disk \<Rightarrow> (status_code \<times> http_client \<times> disk) exn" where
  "download_file curl init_ok can_open url path resume c f = (let c1 = ensure_curl init_ok c in
     case hc_curl c1 of
       None \<Rightarrow> Inr (ERROR, c1, f)
     | Some co \<Rightarrow>
         if \<not> can_open path then Inr (STORAGE_WRITE_ERROR, c1, f)
         else (let old = opened_file resume path f;
                   co1 = download_options url (if resume then int (length old) else 0) co in
           exn_bind (curl_perform curl c1 co1) (\<lambda>tr.
             Inr (if \<not> tr_ok tr then OTA_DOWNLOAD_FAILED else OK, c1\<lparr>hc_curl := Some co1\<rparr>,
               f(path := Some (old @ concat (tr_chunks tr)))))))"

section \<open>Requests do not disturb each other\<close>

datatype client_call = Call_get string int | Call_post string string "(string \<times> string) list" int

fun http_call :: "curl \<Rightarrow> client_call \<Rightarrow> http_client \<Rightarrow> (status_code \<times> string \<times> http_client) exn" where
  "http_call curl (Call_get url t) c = http_get curl True url t c"
| "http_call curl (Call_post url body hs t) c = http_post curl True url body hs t c"

fun http_calls :: "curl \<Rightarrow> client_call list \<Rightarrow> http_client \<Rightarrow> http_client exn" where
  "http_calls curl [] c = Inr c"
| "http_calls curl (q # qs) c = exn_bind (http_call curl q c) (\<lambda>(sc, body, c1). http_calls curl qs c1)"

text \<open>What the library documents: a request that is a GET has no body.\<close>

definition get_ignores_fields :: "curl \<Rightarrow> bool" where
  "get_ignores_fields curl \<longleftrightarrow> (\<forall>co hs b. co_method co = Method_get \<longrightarrow> curl (co\<lparr>co_post_fields := b\<rparr>) hs = curl co hs)"

text \<open>The options that no request sets.\<close>

definition lasting :: "curl_options \<Rightarrow> curl_options" where
  "lasting co = co\<lparr>co_url := '''', co_method := Method_get, co_post_fields := '''', co_headers := None, co_write := To_text, co_timeout := 0\<rparr>"

lemma run_request_eq:
  "run_request curl co hs outcome c = Inr (outcome (curl (co\<lparr>co_headers := None\<rparr>) hs), concat (tr_chunks (curl (co\<lparr>co_headers := None\<rparr>) hs)),
     c\<lparr>hc_curl := Some (co\<lparr>co_headers := Some (hc_next c)\<rparr>), hc_lists := filter (\<lambda>e. fst e \<noteq> hc_next c) (hc_lists c), hc_next := hc_next c + 1\<rparr>)"
  by (simp add: run_request_def slist_new_def slist_free_def curl_perform_def Let_def)

text \<open>The transfer of a call, as a function of the lasting options.\<close>

fun call_transfer :: "curl \<Rightarrow> client_call \<Rightarrow> curl_options \<Rightarrow> transfer" where
  "call_transfer curl (Call_get url t) co = curl (get_options url t co) [''Accept: application/json'']"
| "call_transfer curl (Call_post url body hs t) co = curl (post_options url body t co)
     ([''Content-Type: application/json'', ''Accept: application/json''] @ map (\<lambda>(k, v). k @ '': '' @ v) hs)"

fun call_outcome :: "client_call \<Rightarrow> transfer \<Rightarrow> status_code" where
  "call_outcome (Call_get _ _) = get_outcome"
| "call_outcome (Call_post _ _ _ _) = post_outcome"

lemma http_call_eq:
  assumes "get_ignores_fields curl" "hc_curl c = Some co"
  shows "\<exists>co' ls. lasting co' = lasting co \<and> co_headers co' = Some (hc_next c) \<and> map_of ls (hc_next c) = None \<and>
    http_call curl q c = Inr (call_outcome q (call_transfer curl q (lasting co)), concat (tr_chunks (call_transfer curl q (lasting co))),
      c\<lparr>hc_curl := Some co', hc_lists := ls, hc_next := hc_next c + 1\<rparr>)"
proof (cases q)
  case (Call_get url t)
  let ?co = "(get_options url t co)\<lparr>co_headers := None\<rparr>"
  have ign: "\<And>co hs b. co_method co = Method_get \<Longrightarrow> curl (co\<lparr>co_post_fields := b\<rparr>) hs = curl co hs"
    using assms(1) by (simp add: get_ignores_fields_def)
  have "get_options url t (lasting co) = ?co\<lparr>co_post_fields := ''''\<rparr>" by (simp add: get_options_def lasting_def)
  moreover have "curl (?co\<lparr>co_post_fields := ''''\<rparr>) hs = curl ?co hs" for hs by (rule ign) (simp add: get_options_def)
  ultimately have "curl (get_options url t (lasting co)) hs = curl ?co hs" for hs by simp
  with Call_get assms(2) show ?thesis
    by (intro exI [of _ "(get_options url t co)\<lparr>co_headers := Some (hc_next c)\<rparr>"] exI [of _ "filter (\<lambda>e. fst e \<noteq> hc_next c) (hc_lists c)"])
       (auto simp: http_get_def ensure_curl_def run_request_eq lasting_def get_options_def map_of_eq_None_iff)
next
  case (Call_post url body hs t)
  have "post_options url body t (lasting co) = (post_options url body t co)\<lparr>co_headers := None\<rparr>"
    by (simp add: post_options_def lasting_def)
  moreover have "lasting ((post_options url body t co)\<lparr>co_headers := Some (hc_next c)\<rparr>) = lasting co"
    by (simp add: post_options_def lasting_def)
  ultimately show ?thesis using Call_post assms(2)
    by (intro exI [of _ "(post_options url body t co)\<lparr>co_headers := Some (hc_next c)\<rparr>"] exI [of _ "filter (\<lambda>e. fst e \<noteq> hc_next c) (hc_lists c)"])
       (auto simp: http_post_def ensure_curl_def run_request_eq map_of_eq_None_iff)
qed

lemma http_calls_lasting:
  assumes "get_ignores_fields curl" "hc_curl c = Some co"
  shows "\<exists>c' co'. http_calls curl qs c = Inr c' \<and> hc_curl c' = Some co' \<and> lasting co' = lasting co
    \<and> (qs \<noteq> [] \<longrightarrow> (\<exists>a. co_headers co' = Some a \<and> map_of (hc_lists c') a = None))"
  using assms(2)
proof (induction qs arbitrary: c co)
  case (Cons q qs)
  from http_call_eq [OF assms(1) Cons.prems, of q] obtain co1 ls where q: "lasting co1 = lasting co"
    "co_headers co1 = Some (hc_next c)" "map_of ls (hc_next c) = None"
    "http_call curl q c = Inr (call_outcome q (call_transfer curl q (lasting co)), concat (tr_chunks (call_transfer curl q (lasting co))),
      c\<lparr>hc_curl := Some co1, hc_lists := ls, hc_next := hc_next c + 1\<rparr>)" by blast
  from Cons.IH [of "c\<lparr>hc_curl := Some co1, hc_lists := ls, hc_next := hc_next c + 1\<rparr>" co1] q show ?case
    by (cases "qs = []") auto
qed simp

text \<open>C37. The requests of one client do not disturb each other: whatever GET and POST requests went before, a further
  one gives the same status and the same body as on the client as it was in the beginning.\<close>

theorem requests_independent:
  assumes "get_ignores_fields curl" "hc_curl c = Some co"
  shows "\<exists>c'. http_calls curl qs c = Inr c' \<and>
    map_sum id (\<lambda>(sc, body, _). (sc, body)) (http_call curl q c') = map_sum id (\<lambda>(sc, body, _). (sc, body)) (http_call curl q c)"
proof -
  from http_calls_lasting [OF assms, of qs] obtain c' co' where c': "http_calls curl qs c = Inr c'" "hc_curl c' = Some co'"
    "lasting co' = lasting co" by blast
  from http_call_eq [OF assms(1) c'(2), of q] http_call_eq [OF assms, of q] c'(3)
  have "map_sum id (\<lambda>(sc, body, _). (sc, body)) (http_call curl q c') = map_sum id (\<lambda>(sc, body, _). (sc, body)) (http_call curl q c)" by auto
  with c'(1) show ?thesis by blast
qed

definition demo_curl :: curl where
  "demo_curl co hs = \<lparr>tr_ok = True, tr_http_code = 200, tr_chunks = [if co_method co = Method_post then co_post_fields co else co_url co]\<rparr>"

lemma demo_curl_ok: "get_ignores_fields demo_curl"
  by (simp add: get_ignores_fields_def demo_curl_def)

theorem requests_independent_witness:
  "\<exists>c'. http_calls demo_curl [Call_post ''u'' ''x'' [] 5] (new_http_client True) = Inr c'
    \<and> map_sum id (\<lambda>(sc, body, _). (sc, body)) (http_call demo_curl (Call_get ''v'' 5) c') = Inr (OK, ''v'')"
proof -
  have "map_sum id (\<lambda>(sc, body, _). (sc, body)) (http_call demo_curl (Call_get ''v'' 5) (new_http_client True)) = Inr (OK, ''v'')"
    by code_simp
  with requests_independent [OF demo_curl_ok, of "new_http_client True" fresh_options "[Call_post ''u'' ''x'' [] 5]" "Call_get ''v'' 5"]
  show ?thesis by (simp add: new_http_client_def ensure_curl_def)
qed

text \<open>A download after a request is undefined: the handle still refers to the list of headers of the last
  request, which has been freed, and a download sets no other one.\<close>

theorem download_after_request:
  assumes "get_ignores_fields curl" "hc_curl c = Some co" "qs \<noteq> []" "can_open path"
  shows "exn_bind (http_calls curl qs c) (\<lambda>c'. download_file curl True can_open url path resume c' f) = Inl Undefined_behaviour"
proof -
  from http_calls_lasting [OF assms(1,2), of qs] assms(3) obtain c' co' a where "http_calls curl qs c = Inr c'" "hc_curl c' = Some co'"
    "co_headers co' = Some a" "map_of (hc_lists c') a = None" by blast
  with assms(4) show ?thesis
    by (simp add: download_file_def ensure_curl_def curl_perform_def download_options_def Let_def)
qed

theorem download_after_request_witness:
  "exn_bind (http_calls demo_curl [Call_get ''u'' 5] (new_http_client True))
     (\<lambda>c'. download_file demo_curl True (\<lambda>_. True) ''v'' ''p'' True c' (\<lambda>_. None)) = Inl Undefined_behaviour"
  by (rule download_after_request [OF demo_curl_ok]) (simp_all add: new_http_client_def ensure_curl_def)

section \<open>Interrupted downloads\<close>

text \<open>A transfer of one content: the library asks for the rest behind the offset and hands over a part of it, and
  all of it when the transfer succeeds.\<close>

definition serves :: "curl \<Rightarrow> string \<Rightarrow> string \<Rightarrow> bool" where
  "serves curl url data \<longleftrightarrow> (\<forall>co hs. co_url co = url \<and> co_method co = Method_get \<and> 0 \<le> co_resume_from co \<longrightarrow>
     prefix (concat (tr_chunks (curl co hs))) (drop (nat (co_resume_from co)) data)
     \<and> (tr_ok (curl co hs) \<longrightarrow> concat (tr_chunks (curl co hs)) = drop (nat (co_resume_from co)) data))"

text \<open>A client that has only downloaded, and a file that holds the beginning of the content.\<close>

definition resumable :: "string \<Rightarrow> string \<Rightarrow> http_client \<times> disk \<Rightarrow> bool" where
  "resumable path data s \<longleftrightarrow> (case s of (c, f) \<Rightarrow> (\<exists>co. hc_curl c = Some co \<and> co_headers co = None \<and> co_method co = Method_get
     \<and> prefix (opened_file True path f) data \<and> (opened_file True path f = '''' \<longrightarrow> co_resume_from co = 0)))"

lemma resume_step:
  assumes "serves curl url data" "resumable path data (c, f)" "can_open path"
  obtains sc c' f' where "download_file curl True can_open url path True c f = Inr (sc, c', f')" "resumable path data (c', f')"
    "sc = OK \<Longrightarrow> f' path = Some data" "\<And>p. p \<noteq> path \<Longrightarrow> f' p = f p"
proof -
  let ?old = "opened_file True path f"
  from assms(2) obtain co where co: "hc_curl c = Some co" "co_headers co = None" "co_method co = Method_get"
    "prefix ?old data" "?old = '''' \<longrightarrow> co_resume_from co = 0" by (auto simp: resumable_def)
  let ?co = "download_options url (int (length ?old)) co"
  let ?tr = "curl ?co []"
  have opts: "co_headers ?co = None" "co_method ?co = Method_get" "co_url ?co = url" "co_resume_from ?co = int (length ?old)"
    using co by (auto simp: download_options_def)
  have sv: "prefix (concat (tr_chunks ?tr)) (drop (length ?old) data)" "tr_ok ?tr \<Longrightarrow> concat (tr_chunks ?tr) = drop (length ?old) data"
    using assms(1) [unfolded serves_def, THEN spec, THEN spec, of ?co "[]"] opts by simp_all
  have whole: "?old @ drop (length ?old) data = data" using co(4) by (auto simp: prefix_def)
  have new: "prefix (?old @ concat (tr_chunks ?tr)) data" "tr_ok ?tr \<Longrightarrow> ?old @ concat (tr_chunks ?tr) = data"
    using sv whole by (metis same_prefix_prefix, metis)
  let ?c = "c\<lparr>hc_curl := Some ?co\<rparr>" and ?f = "f(path := Some (?old @ concat (tr_chunks ?tr)))"
  have d: "download_file curl True can_open url path True c f = Inr (if \<not> tr_ok ?tr then OTA_DOWNLOAD_FAILED else OK, ?c, ?f)"
    using co(1) opts(1) assms(3) by (simp add: download_file_def ensure_curl_def curl_perform_def Let_def)
  have "opened_file True path ?f = ?old @ concat (tr_chunks ?tr)" by (simp add: opened_file_def)
  with new(1) opts co(5) have r: "resumable path data (?c, ?f)" by (auto simp: resumable_def)
  show ?thesis by (rule that [OF d r]) (use new(2) in \<open>auto split: if_splits\<close>)
qed

text \<open>Attempts with connections that break in different places.\<close>

fun download_attempts :: "curl list \<Rightarrow> string \<Rightarrow> string \<Rightarrow> http_client \<Rightarrow> disk \<Rightarrow> (status_code \<times> http_client \<times> disk) exn" where
  "download_attempts [] url path c f = Inr (OTA_DOWNLOAD_FAILED, c, f)"
| "download_attempts (curl # curls) url path c f = exn_bind (download_file curl True (\<lambda>_. True) url path True c f) (\<lambda>(sc, c1, f1).
     if sc = OK then Inr (sc, c1, f1) else download_attempts curls url path c1 f1)"

lemma attempts_resumable:
  assumes "list_all (\<lambda>curl. serves curl url data) curls" "resumable path data (c, f)"
  shows "\<exists>sc c' f'. download_attempts curls url path c f = Inr (sc, c', f') \<and> prefix (opened_file True path f') data
    \<and> (sc = OK \<longrightarrow> f' path = Some data) \<and> (\<forall>p. p \<noteq> path \<longrightarrow> f' p = f p)"
  using assms
proof (induction curls arbitrary: c f)
  case Nil
  then show ?case by (auto simp: resumable_def)
next
  case (Cons curl curls)
  have s: "serves curl url data" "list_all (\<lambda>curl. serves curl url data) curls" using Cons.prems(1) by simp_all
  from resume_step [OF s(1) Cons.prems(2), of "\<lambda>_. True"] obtain sc c1 f1 where
    d: "download_file curl True (\<lambda>_. True) url path True c f = Inr (sc, c1, f1)" "resumable path data (c1, f1)"
      "sc = OK \<Longrightarrow> f1 path = Some data" "\<And>p. p \<noteq> path \<Longrightarrow> f1 p = f p" by auto
  show ?case
  proof (cases "sc = OK")
    case True
    with d show ?thesis by (auto simp: resumable_def)
  next
    case False
    from Cons.IH [OF s(2) d(2)] d False show ?thesis by auto
  qed
qed

text \<open>C33. A download that breaks off can be resumed as often as it takes: on a new client, whatever part of the content
  the file already holds and wherever the connections break, the file always holds a beginning of
  the content, no other file is touched, and when an attempt succeeds the file is the content.\<close>

theorem resumed_download_exact:
  assumes "list_all (\<lambda>curl. serves curl url data) curls" "prefix (opened_file True path f) data"
  shows "\<exists>sc c' f'. download_attempts curls url path (new_http_client True) f = Inr (sc, c', f')
    \<and> prefix (opened_file True path f') data \<and> (sc = OK \<longrightarrow> f' path = Some data) \<and> (\<forall>p. p \<noteq> path \<longrightarrow> f' p = f p)"
  by (rule attempts_resumable [OF assms(1)])
    (use assms(2) in \<open>simp add: resumable_def new_http_client_def ensure_curl_def fresh_options_def\<close>)

definition demo_server :: "bool \<Rightarrow> nat \<Rightarrow> curl" where
  "demo_server ok k co hs = (let rest = drop (nat (co_resume_from co)) ''firmware'' in
     \<lparr>tr_ok = ok, tr_http_code = 200, tr_chunks = [if ok then rest else take k rest]\<rparr>)"

lemma demo_server_ok: "serves (demo_server ok k) url ''firmware''"
  by (simp add: serves_def demo_server_def take_is_prefix Let_def)

theorem resumed_download_exact_witness:
  "\<exists>c' f'. download_attempts [demo_server False 3, demo_server False 2, demo_server True 0] ''u'' ''p'' (new_http_client True) (\<lambda>_. None)
     = Inr (OK, c', f') \<and> f' ''p'' = Some ''firmware''"
proof -
  have "map_sum id fst (download_attempts [demo_server False 3, demo_server False 2, demo_server True 0] ''u'' ''p'' (new_http_client True) (\<lambda>_. None)) = Inr OK"
    by (simp add: download_file_def new_http_client_def ensure_curl_def curl_perform_def fresh_options_def download_options_def demo_server_def opened_file_def Let_def)
  with resumed_download_exact [of "''u''" "''firmware''" "[demo_server False 3, demo_server False 2, demo_server True 0]" "''p''" "\<lambda>_. None"]
    demo_server_ok show ?thesis by (auto simp: opened_file_def)
qed

text \<open>A resumed download leaves its offset behind: a GET request on the same client afterwards asks for the part
  of its own document behind that offset.\<close>

theorem get_after_resume:
  assumes "hc_curl c = Some co" "co_headers co = None" "f path = Some old" "old \<noteq> ''''" "can_open path"
  shows "\<exists>sc c' f' co' r. download_file curl True can_open url path True c f = Inr (sc, c', f')
    \<and> co_url co' = url' \<and> co_method co' = Method_get \<and> co_resume_from co' = int (length old)
    \<and> http_get curl True url' t c' = Inr r \<and> fst (snd r) = concat (tr_chunks (curl co' [''Accept: application/json'']))"
  using assms
  by (simp add: download_file_def opened_file_def ensure_curl_def curl_perform_def download_options_def Let_def http_get_def run_request_eq)
    (intro exI conjI; (rule refl)?; simp add: get_options_def)

theorem get_after_resume_witness:
  "\<exists>sc c' f' co' r. download_file (demo_server True 0) True (\<lambda>_. True) ''u'' ''p'' True (new_http_client True) (\<lambda>_. Some ''firm'') = Inr (sc, c', f')
    \<and> co_resume_from co' = 4 \<and> http_get (demo_server True 0) True ''v'' 5 c' = Inr r
    \<and> fst (snd r) = concat (tr_chunks (demo_server True 0 co' [''Accept: application/json'']))"
proof -
  have "hc_curl (new_http_client True) = Some fresh_options" "co_headers fresh_options = None"
    by (simp_all add: new_http_client_def ensure_curl_def fresh_options_def)
  from get_after_resume [OF this, of "\<lambda>_. Some ''firm''" "''p''" "''firm''" "\<lambda>_. True" "demo_server True 0" "''u''" "''v''" 5]
  show ?thesis by simp blast
qed

end
