(* ===== verification/Tls_Manager.thy ===== *)
theory Tls_Manager
  imports Cpp_Strings Dev_Types
begin

text \<open>
  \<^verbatim>\<open>TlsManager\<close> of \<^verbatim>\<open>src/middleware/security/tls_manager.cpp\<close>: loading the certificates, their
  validity, and the store of credentials.  OpenSSL is not part of the program: what its functions
  give is the record \<open>openssl\<close>, a parameter that is absent in the build without it.  Files are a
  map from paths to contents.  Allocations inside of the library succeed; permissions of files and printing are left out, and values are
  shorter than 2 gigabytes, so that their lengths fit the \<^verbatim>\<open>int\<close> of the library.
\<close>

section \<open>State\<close>

record ('x, 'k) openssl =
  ossl_ctx :: bool
  ossl_x509 :: "string \<Rightarrow> 'x option"
  ossl_pkey :: "string \<Rightarrow> 'k option"
  ossl_use_certificate :: "'x \<Rightarrow> bool"
  ossl_use_key :: "'k \<Rightarrow> bool"
  ossl_check_key :: "'x option \<Rightarrow> 'k \<Rightarrow> bool"
  ossl_cmp_not_before :: "'x \<Rightarrow> int \<Rightarrow> int"
  ossl_cmp_not_after :: "'x \<Rightarrow> int \<Rightarrow> int"
  ossl_days_left :: "'x \<Rightarrow> int option"
  ossl_request :: "(string \<times> string) option"
  ossl_sha256 :: "string \<Rightarrow> string"
  ossl_encrypt :: "string \<Rightarrow> string \<Rightarrow> string \<Rightarrow> string \<times> string"
  ossl_decrypt :: "string \<Rightarrow> string \<Rightarrow> string \<Rightarrow> string \<Rightarrow> string option"

record ('x, 'k) tls_manager =
  tm_ca_cert_path :: string
  tm_device_cert_path :: string
  tm_device_key_path :: string
  tm_ca_cert_pem :: string
  tm_device_cert_pem :: string
  tm_device_key_pem :: string
  tm_initialized :: bool
  tm_ssl_ctx :: bool
  tm_device_x509 :: "'x option"
  tm_device_pkey :: "'k option"

definition new_tls_manager :: "('x, 'k) tls_manager" where
  "new_tls_manager = \<lparr>tm_ca_cert_path = '''', tm_device_cert_path = '''', tm_device_key_path = '''', tm_ca_cert_pem = '''',
     tm_device_cert_pem = '''', tm_device_key_pem = '''', tm_initialized = False, tm_ssl_ctx = False,
     tm_device_x509 = None, tm_device_pkey = None\<rparr>"

type_synonym cred_files = "string \<Rightarrow> string option"

definition read_file :: "cred_files \<Rightarrow> string \<Rightarrow> string" where
  "read_file f path = (case f path of None \<Rightarrow> '''' | Some d \<Rightarrow> d)"

section \<open>Certificates\<close>

text \<open>The steps of the build with OpenSSL: each may end the initialisation with a status.\<close>

definition load_ca :: "('x, 'k) openssl \<Rightarrow> ('x, 'k) tls_manager \<Rightarrow> status_code \<times> ('x, 'k) tls_manager" where
  "load_ca ossl tm = (if tm_ca_cert_pem tm \<noteq> '''' \<and> ossl_x509 ossl (tm_ca_cert_pem tm) = None then (DEV_CERT_INVALID, tm) else (OK, tm))"

definition load_device_cert :: "('x, 'k) openssl \<Rightarrow> ('x, 'k) tls_manager \<Rightarrow> status_code \<times> ('x, 'k) tls_manager" where
  "load_device_cert ossl tm = (if tm_device_cert_pem tm = '''' then (OK, tm)
     else (let x = ossl_x509 ossl (tm_device_cert_pem tm); tm1 = tm\<lparr>tm_device_x509 := x\<rparr> in
       case x of None \<Rightarrow> (DEV_CERT_INVALID, tm1)
       | Some c \<Rightarrow> if \<not> ossl_use_certificate ossl c then (COMM_TLS_FAILED, tm1) else (OK, tm1)))"

definition load_device_key :: "('x, 'k) openssl \<Rightarrow> ('x, 'k) tls_manager \<Rightarrow> status_code \<times> ('x, 'k) tls_manager" where
  "load_device_key ossl tm = (if tm_device_key_pem tm = '''' then (OK, tm)
     else (let k = ossl_pkey ossl (tm_device_key_pem tm); tm1 = tm\<lparr>tm_device_pkey := k\<rparr> in
       case k of None \<Rightarrow> (COMM_TLS_FAILED, tm1)
       | Some k' \<Rightarrow> if \<not> ossl_use_key ossl k' then (COMM_TLS_FAILED, tm1)
           else if \<not> ossl_check_key ossl (tm_device_x509 tm1) k' then (COMM_TLS_FAILED, tm1) else (OK, tm1)))"

definition tls_init :: "('x, 'k) openssl option \<Rightarrow> cred_files \<Rightarrow> string \<Rightarrow> string \<Rightarrow> string \<Rightarrow> ('x, 'k) tls_manager \<Rightarrow> status_code \<times> ('x, 'k) tls_manager" where
  "tls_init ssl f ca cert key tm =
     (let tm0 = tm\<lparr>tm_ca_cert_path := ca, tm_device_cert_path := cert, tm_device_key_path := key,
          tm_ca_cert_pem := read_file f ca, tm_device_cert_pem := read_file f cert, tm_device_key_pem := read_file f key\<rparr> in
      case ssl of
        None \<Rightarrow> (OK, tm0\<lparr>tm_initialized := True\<rparr>)
      | Some ossl \<Rightarrow>
          if \<not> ossl_ctx ossl then (COMM_TLS_FAILED, tm0\<lparr>tm_ssl_ctx := False\<rparr>)
          else (case load_ca ossl (tm0\<lparr>tm_ssl_ctx := True\<rparr>) of (sc1, tm1) \<Rightarrow>
            if sc1 \<noteq> OK then (sc1, tm1)
            else (case load_device_cert ossl tm1 of (sc2, tm2) \<Rightarrow>
              if sc2 \<noteq> OK then (sc2, tm2)
              else (case load_device_key ossl tm2 of (sc3, tm3) \<Rightarrow>
                if sc3 \<noteq> OK then (sc3, tm3) else (OK, tm3\<lparr>tm_initialized := True\<rparr>)))))"

definition is_cert_valid :: "('x, 'k) openssl option \<Rightarrow> int \<Rightarrow> ('x, 'k) tls_manager \<Rightarrow> bool" where
  "is_cert_valid ssl now tm = (if \<not> tm_initialized tm then False
     else (case ssl of
         None \<Rightarrow> tm_initialized tm
       | Some ossl \<Rightarrow> (case tm_device_x509 tm of
             None \<Rightarrow> False
           | Some c \<Rightarrow> \<not> 0 < ossl_cmp_not_before ossl c now \<and> \<not> ossl_cmp_not_after ossl c now < 0)))"

definition cert_days_until_expiry :: "('x, 'k) openssl option \<Rightarrow> ('x, 'k) tls_manager \<Rightarrow> int" where
  "cert_days_until_expiry ssl tm = (if \<not> tm_initialized tm then - 1
     else (case ssl of
         None \<Rightarrow> 365
       | Some ossl \<Rightarrow> (case tm_device_x509 tm of
             None \<Rightarrow> - 1
           | Some c \<Rightarrow> (case ossl_days_left ossl c of None \<Rightarrow> - 1 | Some d \<Rightarrow> d))))"

section \<open>Credentials\<close>

text \<open>Which directories can be made and which files can be written.\<close>

record storage =
  sto_dir_ok :: bool
  sto_can_write :: "string \<Rightarrow> bool"

definition cred_dir :: string where
  "cred_dir = ''/etc/dev-sys-cloud/credentials''"

definition cred_path :: "string \<Rightarrow> string" where
  "cred_path key = cred_dir @ ''/'' @ key @ ''.cred''"

definition kdf :: "('x, 'k) openssl \<Rightarrow> string \<Rightarrow> string" where
  "kdf ossl key = ossl_sha256 ossl (''dev-sys-cred-v1:'' @ key)"

definition enc_key :: "('x, 'k) openssl \<Rightarrow> string \<Rightarrow> string" where
  "enc_key ossl key = take 32 (kdf ossl key)"

definition enc_iv :: "('x, 'k) openssl \<Rightarrow> string \<Rightarrow> string" where
  "enc_iv ossl key = take 12 (kdf ossl key)"

definition sealed :: "('x, 'k) openssl option \<Rightarrow> string \<Rightarrow> string \<Rightarrow> string" where
  "sealed ssl key value = (case ssl of
       None \<Rightarrow> value
     | Some ossl \<Rightarrow> (case ossl_encrypt ossl (enc_key ossl key) (enc_iv ossl key) value of (ciphertext, tag) \<Rightarrow>
         enc_iv ossl key @ take 16 tag @ ciphertext))"

definition write_cred_file :: "storage \<Rightarrow> string \<Rightarrow> string \<Rightarrow> cred_files \<Rightarrow> bool \<times> cred_files" where
  "write_cred_file disk path data f = (if sto_can_write disk path then (True, f(path := Some data)) else (False, f))"

definition store_credential :: "('x, 'k) openssl option \<Rightarrow> storage \<Rightarrow> string \<Rightarrow> string \<Rightarrow> cred_files \<Rightarrow> status_code \<times> cred_files" where
  "store_credential ssl disk key value f =
     (if \<not> sto_dir_ok disk then (STORAGE_WRITE_ERROR, f)
      else (case write_cred_file disk (cred_path key) (sealed ssl key value) f of (ok, f') \<Rightarrow>
        (if \<not> ok then STORAGE_WRITE_ERROR else OK, f')))"

lemma store_credential_eq:
  "store_credential ssl disk key value f =
     (if sto_dir_ok disk \<and> sto_can_write disk (cred_path key)
      then (OK, f(cred_path key := Some (sealed ssl key value))) else (STORAGE_WRITE_ERROR, f))"
  by (simp add: store_credential_def write_cred_file_def)

text \<open>The value is assigned only on success.\<close>

definition load_credential :: "('x, 'k) openssl option \<Rightarrow> string \<Rightarrow> cred_files \<Rightarrow> status_code \<times> string option" where
  "load_credential ssl key f =
     (let file_data = read_file f (cred_path key) in
      if file_data = '''' then (STORAGE_READ_ERROR, None)
      else (case ssl of
          None \<Rightarrow> (OK, Some file_data)
        | Some ossl \<Rightarrow>
            if length file_data < 28 then (STORAGE_READ_ERROR, None)
            else (case ossl_decrypt ossl (enc_key ossl key) (take 12 file_data) (drop 28 file_data) (take 16 (drop 12 file_data)) of
                None \<Rightarrow> (STORAGE_READ_ERROR, None)
              | Some value \<Rightarrow> (OK, Some value))))"

text \<open>The new key and the request for a certificate are stored; whether that worked is not looked at.\<close>

definition request_cert_renewal :: "('x, 'k) openssl option \<Rightarrow> storage \<Rightarrow> cred_files \<Rightarrow> status_code \<times> cred_files" where
  "request_cert_renewal ssl disk f = (case ssl of
       None \<Rightarrow> (ERROR, f)
     | Some ossl \<Rightarrow> (case ossl_request ossl of
           None \<Rightarrow> (ERROR, f)
         | Some (csr_pem, key_pem) \<Rightarrow> (OK, snd (store_credential ssl disk ''pending_csr'' csr_pem
             (snd (store_credential ssl disk ''pending_key'' key_pem f))))))"

section \<open>What the store promises\<close>

text \<open>What the program relies on: a digest has 32 bytes, a tag 16, and what was encrypted is decrypted by the same key,
  vector and tag.\<close>

definition cipher_ok :: "('x, 'k) openssl \<Rightarrow> bool" where
  "cipher_ok ossl \<longleftrightarrow> (\<forall>s. length (ossl_sha256 ossl s) = 32) \<and>
     (\<forall>k iv v. length (snd (ossl_encrypt ossl k iv v)) = 16
        \<and> ossl_decrypt ossl k iv (fst (ossl_encrypt ossl k iv v)) (snd (ossl_encrypt ossl k iv v)) = Some v)"

definition build_ok :: "('x, 'k) openssl option \<Rightarrow> bool" where
  "build_ok ssl = (case ssl of None \<Rightarrow> True | Some ossl \<Rightarrow> cipher_ok ossl)"

lemma cred_path_inject: "cred_path key = cred_path key' \<longleftrightarrow> key = key'"
  by (simp add: cred_path_def)

lemma sealed_parts:
  fixes key v :: string
  assumes "cipher_ok ossl"
  defines "e \<equiv> ossl_encrypt ossl (enc_key ossl key) (enc_iv ossl key) v"
  shows "take 12 (sealed (Some ossl) key v) = enc_iv ossl key" "drop 28 (sealed (Some ossl) key v) = fst e"
    "take 16 (drop 12 (sealed (Some ossl) key v)) = snd e" "28 \<le> length (sealed (Some ossl) key v)"
proof -
  have len: "length (enc_iv ossl key) = 12" using assms(1) by (simp add: enc_iv_def kdf_def cipher_ok_def)
  have tag: "length (snd e) = 16" using assms(1) by (simp add: e_def cipher_ok_def)
  have s: "sealed (Some ossl) key v = enc_iv ossl key @ snd e @ fst e" using tag by (simp add: sealed_def e_def case_prod_beta)
  from len tag show "take 12 (sealed (Some ossl) key v) = enc_iv ossl key" "drop 28 (sealed (Some ossl) key v) = fst e"
    "take 16 (drop 12 (sealed (Some ossl) key v)) = snd e" "28 \<le> length (sealed (Some ossl) key v)"
    by (simp_all add: s)
qed

lemma load_sealed:
  assumes "build_ok ssl" "f (cred_path key) = Some (sealed ssl key v)" "ssl = None \<longrightarrow> v \<noteq> ''''"
  shows "load_credential ssl key f = (OK, Some v)"
proof (cases ssl)
  case (Some ossl)
  then have ok: "cipher_ok ossl" using assms(1) by (simp add: build_ok_def)
  note parts = sealed_parts [OF ok, of key v]
  have "sealed (Some ossl) key v \<noteq> []" using parts(4) by auto
  with assms(2) Some parts ok show ?thesis
    by (simp add: load_credential_def read_file_def cipher_ok_def)
qed (use assms in \<open>simp add: load_credential_def read_file_def sealed_def\<close>)

text \<open>C24. A credential that was stored is read back as it was, in both builds, and no other credential changes; only
  the empty text, which the build without encryption cannot tell from a missing file, is excluded.\<close>

theorem credential_roundtrip:
  assumes "build_ok ssl" "store_credential ssl disk key v f = (OK, f')" "ssl = None \<longrightarrow> v \<noteq> ''''"
  shows "load_credential ssl key f' = (OK, Some v)
    \<and> (\<forall>key'. key' \<noteq> key \<longrightarrow> load_credential ssl key' f' = load_credential ssl key' f)"
proof -
  have f': "f' = f(cred_path key := Some (sealed ssl key v))" using assms(2) by (auto simp: store_credential_eq split: if_splits)
  then have "load_credential ssl key f' = (OK, Some v)" by (intro load_sealed [OF assms(1) _ assms(3)]) simp
  moreover have "load_credential ssl key' f' = load_credential ssl key' f" if "key' \<noteq> key" for key'
    using that by (simp add: f' load_credential_def read_file_def cred_path_inject)
  ultimately show ?thesis by blast
qed

text \<open>A cipher for the witness: the text stays as it is and the tag is fixed.\<close>

definition demo_openssl :: "(unit, unit) openssl" where
  "demo_openssl = \<lparr>ossl_ctx = True, ossl_x509 = (\<lambda>_. Some ()), ossl_pkey = (\<lambda>_. Some ()), ossl_use_certificate = (\<lambda>_. True),
     ossl_use_key = (\<lambda>_. True), ossl_check_key = (\<lambda>_ _. True), ossl_cmp_not_before = (\<lambda>_ _. - 1), ossl_cmp_not_after = (\<lambda>_ _. 1),
     ossl_days_left = (\<lambda>_. Some 1), ossl_request = None, ossl_sha256 = (\<lambda>s. replicate 32 (CHR ''h'')),
     ossl_encrypt = (\<lambda>k iv v. (v, replicate 16 (CHR ''t''))), ossl_decrypt = (\<lambda>k iv c t. Some c)\<rparr>"

lemma demo_openssl_ok: "build_ok (Some demo_openssl)"
  by (simp add: build_ok_def cipher_ok_def demo_openssl_def)

theorem credential_roundtrip_witness:
  "load_credential (Some demo_openssl) ''k'' (snd (store_credential (Some demo_openssl) \<lparr>sto_dir_ok = True, sto_can_write = (\<lambda>_. True)\<rparr>
     ''k'' ''v'' (\<lambda>_. None))) = (OK, Some ''v'')"
  by (rule credential_roundtrip [OF demo_openssl_ok, THEN conjunct1, of "\<lparr>sto_dir_ok = True, sto_can_write = (\<lambda>_. True)\<rparr>" _ _ "\<lambda>_. None"])
    (simp_all add: store_credential_eq)

text \<open>The encryption gives its key away: the vector is the beginning of the key, so that every file of the store
  begins with 12 of the 32 bytes of the key it is encrypted with, and two values stored under one
  name are encrypted with the same key and the same vector, which the cipher forbids.\<close>

theorem key_disclosed:
  assumes "cipher_ok ossl" "store_credential (Some ossl) disk key v f = (OK, f')"
  shows "\<exists>d c. f' (cred_path key) = Some d \<and> take 12 d = take 12 (enc_key ossl key)
    \<and> ossl_encrypt ossl (enc_key ossl key) (take 12 d) v = (drop 28 d, c)"
proof -
  have f': "f' (cred_path key) = Some (sealed (Some ossl) key v)" using assms(2) by (auto simp: store_credential_eq split: if_splits)
  have "take 12 (enc_key ossl key) = enc_iv ossl key" by (simp add: enc_key_def enc_iv_def)
  with f' sealed_parts [OF assms(1), of key v] show ?thesis by (metis prod.collapse)
qed

theorem key_disclosed_witness:
  "\<exists>d c. snd (store_credential (Some demo_openssl) \<lparr>sto_dir_ok = True, sto_can_write = (\<lambda>_. True)\<rparr> ''k'' ''v'' (\<lambda>_. None)) (cred_path ''k'') = Some d
    \<and> take 12 d = take 12 (enc_key demo_openssl ''k'') \<and> ossl_encrypt demo_openssl (enc_key demo_openssl ''k'') (take 12 d) ''v'' = (drop 28 d, c)"
proof -
  have "cipher_ok demo_openssl" using demo_openssl_ok by (simp add: build_ok_def)
  from key_disclosed [OF this, of "\<lparr>sto_dir_ok = True, sto_can_write = (\<lambda>_. True)\<rparr>" "''k''" "''v''" "\<lambda>_. None"] show ?thesis
    by (auto simp: store_credential_eq)
qed

text \<open>Missing certificates are not noticed: with none of the files present the initialisation succeeds in both
  builds, and only the question for the validity of the certificate tells the difference.\<close>

theorem init_without_files:
  assumes "\<forall>p \<in> {ca, cert, key}. f p = None" "ssl \<noteq> None \<longrightarrow> ossl_ctx (the ssl)"
  shows "\<exists>tm. tls_init ssl f ca cert key new_tls_manager = (OK, tm) \<and> tm_initialized tm
    \<and> is_cert_valid ssl now tm = (ssl = None)"
  using assms by (cases ssl) (simp_all add: tls_init_def read_file_def load_ca_def load_device_cert_def load_device_key_def
      is_cert_valid_def new_tls_manager_def)

theorem init_without_files_witness:
  "\<exists>tm. tls_init (Some demo_openssl) (\<lambda>_. None) ''a'' ''b'' ''c'' new_tls_manager = (OK, tm) \<and> tm_initialized tm \<and> \<not> is_cert_valid (Some demo_openssl) 5 tm"
  using init_without_files [of "''a''" "''b''" "''c''" "\<lambda>_. None" "Some demo_openssl" 5] by (auto simp: demo_openssl_def)

end
