(* ===== verification/Log_Manager.thy ===== *)
theory Log_Manager
  imports Interfaces Cpp_Strings Dev_Types
begin

text \<open>
  \<^verbatim>\<open>src/middleware/storage/log_manager.cpp\<close>: levels, the JSON line of an entry, the file with its rotation.
  The file system is a map from names to contents, and renaming, removing and appending on it
  succeed; creating the directory and opening a file may fail, which is an argument.  The clock
  (milliseconds since the epoch) is an argument.  The copy to the standard error stream is left out;
  \<^verbatim>\<open>export_recent\<close> is in \<open>Log_Export\<close>.
\<close>

section \<open>Levels\<close>

datatype log_level = DEBUG_LEVEL | INFO_LEVEL | WARN_LEVEL | ERROR_LEVEL

fun level_num :: "log_level \<Rightarrow> nat" where
  "level_num DEBUG_LEVEL = 0"
| "level_num INFO_LEVEL = 1"
| "level_num WARN_LEVEL = 2"
| "level_num ERROR_LEVEL = 3"

instantiation log_level :: linorder
begin

definition less_eq_log_level :: "log_level \<Rightarrow> log_level \<Rightarrow> bool" where
  "less_eq_log_level a b \<longleftrightarrow> level_num a \<le> level_num b"

definition less_log_level :: "log_level \<Rightarrow> log_level \<Rightarrow> bool" where
  "less_log_level a b \<longleftrightarrow> level_num a < level_num b"

instance
proof
  fix a b :: log_level
  show "a \<le> b \<Longrightarrow> b \<le> a \<Longrightarrow> a = b"
    by (cases a; cases b) (simp_all add: less_eq_log_level_def)
qed (auto simp: less_eq_log_level_def less_log_level_def)

end

fun level_str :: "log_level \<Rightarrow> string" where
  "level_str DEBUG_LEVEL = ''DEBUG''"
| "level_str INFO_LEVEL = ''INFO''"
| "level_str WARN_LEVEL = ''WARN''"
| "level_str ERROR_LEVEL = ''ERROR''"

section \<open>The line of an entry\<close>

definition pad3 :: "nat \<Rightarrow> string" where
  "pad3 n = replicate (3 - length (nat_str n)) (CHR ''0'') @ nat_str n"

definition now_iso :: "nat \<Rightarrow> string" where
  "now_iso ms = butlast (iso_utc (int (ms div 1000))) @ ''.'' @ pad3 (ms mod 1000) @ ''Z''"

definition escape_char :: "char \<Rightarrow> string" where
  "escape_char c = (if c = CHR 0x22 then [CHR 0x5C, CHR 0x22] else if c = CHR 0x5C then [CHR 0x5C, CHR 0x5C]
     else if c = CHR 0x0A then [CHR 0x5C, CHR ''n''] else if c = CHR 0x0D then [CHR 0x5C, CHR ''r'']
     else if c = CHR 0x09 then [CHR 0x5C, CHR ''t''] else [c])"

definition json_escape :: "string \<Rightarrow> string" where
  "json_escape s = concat (map escape_char s)"

record log_manager =
  lg_log_dir :: string
  lg_min_level :: log_level
  lg_max_file_size_mb :: int
  lg_max_files :: int
  lg_trace_id :: string
  lg_current_file_path :: string
  lg_open :: bool
  lg_failed :: bool

definition new_log_manager :: log_manager where
  "new_log_manager = \<lparr>lg_log_dir = '''', lg_min_level = INFO_LEVEL, lg_max_file_size_mb = 50, lg_max_files = 10,
     lg_trace_id = '''', lg_current_file_path = '''', lg_open = False, lg_failed = False\<rparr>"

definition log_line :: "nat \<Rightarrow> log_level \<Rightarrow> string \<Rightarrow> string \<Rightarrow> log_manager \<Rightarrow> string" where
  \<open>log_line ms lvl m msg lg = ''{"ts":"'' @ now_iso ms @ ''"'' @ '',"level":"'' @ level_str lvl @ ''"''
     @ '',"module":"'' @ json_escape m @ ''"'' @ '',"msg":"'' @ json_escape msg @ ''"''
     @ (if lg_trace_id lg \<noteq> '''' then '',"trace_id":"'' @ json_escape (lg_trace_id lg) @ ''"'' else '''')
     @ ''}'' @ [CHR 0x0A]\<close>

section \<open>Files\<close>

type_synonym fs = "string \<Rightarrow> string option"

definition fs_append :: "string \<Rightarrow> string \<Rightarrow> fs \<Rightarrow> fs" where
  "fs_append p s f = f(p := Some (case f p of None \<Rightarrow> s | Some c \<Rightarrow> c @ s))"

definition fs_rename :: "string \<Rightarrow> string \<Rightarrow> fs \<Rightarrow> fs" where
  "fs_rename a b f = (case f a of None \<Rightarrow> f | Some c \<Rightarrow> (f(a := None))(b := Some c))"

definition log_base :: "log_manager \<Rightarrow> string" where
  "log_base lg = lg_log_dir lg @ ''/dev-sys-cloud.log''"

definition rotated :: "string \<Rightarrow> nat \<Rightarrow> string" where
  "rotated base i = base @ ''.'' @ nat_str i"

text \<open>The loop of \<^verbatim>\<open>rotate\<close>, from the highest number down.\<close>

fun rotate_loop :: "string \<Rightarrow> nat \<Rightarrow> nat \<Rightarrow> fs \<Rightarrow> fs" where
  "rotate_loop base mx 0 f = f"
| "rotate_loop base mx (Suc i) f = rotate_loop base mx i
     (if f (rotated base i) = None then f
      else if mx \<le> i + 1 then f(rotated base i := None)
      else fs_rename (rotated base i) (rotated base (i + 1)) f)"

definition log_rotate :: "log_manager \<Rightarrow> fs \<Rightarrow> status_code \<times> log_manager \<times> fs" where
  "log_rotate lg f =
     (let base = log_base lg; f1 = rotate_loop base (nat (lg_max_files lg)) (nat (lg_max_files lg)) f
      in (OK, lg\<lparr>lg_open := False\<rparr>, fs_rename base (rotated base 0) f1))"

text \<open>\<^verbatim>\<open>file_stream.open(path, out | app)\<close>: opening an open stream fails and leaves it open.\<close>

definition log_open :: "bool \<Rightarrow> log_manager \<Rightarrow> fs \<Rightarrow> log_manager \<times> fs" where
  "log_open ok lg f = (if lg_open lg then (lg\<lparr>lg_failed := True\<rparr>, f)
     else if ok then (lg\<lparr>lg_open := True, lg_failed := False\<rparr>, fs_append (lg_current_file_path lg) '''' f)
     else (lg\<lparr>lg_failed := True\<rparr>, f))"

definition stream_write :: "string \<Rightarrow> log_manager \<Rightarrow> fs \<Rightarrow> fs" where
  "stream_write s lg f = (if lg_open lg \<and> \<not> lg_failed lg then fs_append (lg_current_file_path lg) s f else f)"

definition tellp :: "log_manager \<Rightarrow> fs \<Rightarrow> int" where
  "tellp lg f = (if lg_failed lg then - 1 else int (length (case f (lg_current_file_path lg) of None \<Rightarrow> '''' | Some c \<Rightarrow> c)))"

definition max_bytes :: "log_manager \<Rightarrow> int" where
  "max_bytes lg = lg_max_file_size_mb lg * 1024 * 1024"

definition log_write :: "bool \<Rightarrow> nat \<Rightarrow> log_level \<Rightarrow> string \<Rightarrow> string \<Rightarrow> log_manager \<times> fs \<Rightarrow> log_manager \<times> fs" where
  "log_write ok ms lvl m msg s = (case s of (lg, f) \<Rightarrow>
     if lvl < lg_min_level lg then s
     else if \<not> lg_open lg then s
     else (let line = log_line ms lvl m msg lg; f1 = stream_write line lg f; pos = tellp lg f1 in
       if 0 < pos \<and> max_bytes lg \<le> pos then
         (case log_rotate (lg\<lparr>lg_open := False\<rparr>) f1 of (_, lg2, f2) \<Rightarrow>
           (case log_open ok lg2 f2 of (lg3, f3) \<Rightarrow> (lg3, if lg_open lg3 then stream_write line lg3 f3 else f3)))
       else (lg, f1)))"

definition log_init ::
  "bool \<Rightarrow> bool \<Rightarrow> bool \<Rightarrow> nat \<Rightarrow> string \<Rightarrow> log_level \<Rightarrow> int \<Rightarrow> int \<Rightarrow> log_manager \<times> fs \<Rightarrow> status_code \<times> log_manager \<times> fs" where
  "log_init dir_ok open_ok reopen_ok ms dir lvl mb n s = (case s of (lg, f) \<Rightarrow>
     (let lg1 = lg\<lparr>lg_log_dir := dir, lg_min_level := lvl, lg_max_file_size_mb := mb, lg_max_files := n\<rparr> in
      if \<not> dir_ok then (ERROR, lg1, f)
      else (case log_open open_ok (lg1\<lparr>lg_current_file_path := dir @ ''/dev-sys-cloud.log''\<rparr>) f of (lg2, f2) \<Rightarrow>
        if \<not> lg_open lg2 then (ERROR, lg2, f2)
        else (case log_write reopen_ok ms INFO_LEVEL ''log_manager'' (''Log system initialized. dir='' @ dir) (lg2, f2) of
            (lg3, f3) \<Rightarrow> (OK, lg3, f3)))))"

definition set_level :: "log_level \<Rightarrow> log_manager \<Rightarrow> log_manager" where
  "set_level lvl lg = lg\<lparr>lg_min_level := lvl\<rparr>"

definition log_debug :: "bool \<Rightarrow> nat \<Rightarrow> string \<Rightarrow> string \<Rightarrow> log_manager \<times> fs \<Rightarrow> log_manager \<times> fs" where
  "log_debug ok ms m msg = log_write ok ms DEBUG_LEVEL m msg"

definition log_info :: "bool \<Rightarrow> nat \<Rightarrow> string \<Rightarrow> string \<Rightarrow> log_manager \<times> fs \<Rightarrow> log_manager \<times> fs" where
  "log_info ok ms m msg = log_write ok ms INFO_LEVEL m msg"

definition log_warn :: "bool \<Rightarrow> nat \<Rightarrow> string \<Rightarrow> string \<Rightarrow> log_manager \<times> fs \<Rightarrow> log_manager \<times> fs" where
  "log_warn ok ms m msg = log_write ok ms WARN_LEVEL m msg"

definition log_error :: "bool \<Rightarrow> nat \<Rightarrow> string \<Rightarrow> string \<Rightarrow> log_manager \<times> fs \<Rightarrow> log_manager \<times> fs" where
  "log_error ok ms m msg = log_write ok ms ERROR_LEVEL m msg"

section \<open>Escaped text is read back\<close>

text \<open>Reading a JSON string up to its closing quote.\<close>

fun json_unescape :: "string \<Rightarrow> (string \<times> string) option" where
  "json_unescape [] = None"
| "json_unescape (c # s) = (if c = CHR 0x22 then Some ([], c # s)
     else if c = CHR 0x5C then (case s of
         [] \<Rightarrow> None
       | d # t \<Rightarrow> map_option (\<lambda>(u, r). ((if d = CHR ''n'' then CHR 0x0A else if d = CHR ''r'' then CHR 0x0D
             else if d = CHR ''t'' then CHR 0x09 else d) # u, r)) (json_unescape t))
     else map_option (\<lambda>(u, r). (c # u, r)) (json_unescape s))"

lemma json_unescape_escape: "json_unescape (json_escape s @ CHR 0x22 # rest) = Some (s, CHR 0x22 # rest)"
  by (induction s) (auto simp: json_escape_def escape_char_def)

text \<open>The text of an entry as a text format, which ends at a quote.\<close>

interpretation log_text: text_codec json_escape json_unescape "\<lambda>_. True" "\<lambda>r. r \<noteq> [] \<and> hd r = CHR 0x22"
proof
  fix x rest :: string
  assume "rest \<noteq> [] \<and> hd rest = CHR 0x22"
  then show "json_unescape (json_escape x @ rest) = Some (x, rest)"
    using json_unescape_escape [of x "tl rest"] by (cases rest) auto
qed

section \<open>Rotation\<close>

lemma rotated_inject [simp]: "rotated b i = rotated b j \<longleftrightarrow> i = j" "rotated b i \<noteq> b" "b \<noteq> rotated b i"
  by (simp_all add: rotated_def)

lemma rotate_loop_other:
  "\<forall>i. g \<noteq> rotated base i \<Longrightarrow> rotate_loop base mx n f g = f g"
  by (induction n arbitrary: f) (auto simp: fs_rename_def split: option.splits)

lemma rotate_loop_shift:
  assumes "n \<le> mx" "n < mx \<Longrightarrow> f (rotated base n) = None"
  shows "rotate_loop base mx n f (rotated base k) =
    (if k = 0 \<and> 0 < n then None else if 0 < k \<and> k \<le> n \<and> k < mx then f (rotated base (k - 1)) else f (rotated base k))"
  using assms
proof (induction n arbitrary: f)
  case (Suc i)
  define g where "g = (if f (rotated base i) = None then f
      else if mx \<le> i + 1 then f(rotated base i := None) else fs_rename (rotated base i) (rotated base (i + 1)) f)"
  have gi: "g (rotated base i) = None"
    by (auto simp: g_def fs_rename_def split: option.splits)
  have gk: "g (rotated base j) = (if j = i then None else if j = i + 1 \<and> i + 1 < mx then f (rotated base i) else f (rotated base j))" for j
    using Suc.prems by (cases "mx \<le> i + 1") (auto simp: g_def fs_rename_def split: option.splits)
  have "rotate_loop base mx (Suc i) f = rotate_loop base mx i g" by (simp add: g_def)
  moreover have "rotate_loop base mx i g (rotated base k) =
    (if k = 0 \<and> 0 < i then None else if 0 < k \<and> k \<le> i \<and> k < mx then g (rotated base (k - 1)) else g (rotated base k))"
    by (rule Suc.IH) (use Suc.prems gi in simp_all)
  ultimately show ?case using Suc.prems(1) by (auto simp: gk)
qed auto

text \<open>The log as the reader of the directory sees it: the current file and the numbered ones, newest first.\<close>

definition log_history :: "string \<Rightarrow> nat \<Rightarrow> fs \<Rightarrow> string option list" where
  "log_history base mx f = map f (base # map (rotated base) [0..<mx])"

lemma rotate_files:
  fixes lg :: log_manager and f :: fs
  assumes "0 < lg_max_files lg"
  defines "base \<equiv> log_base lg" and "mx \<equiv> nat (lg_max_files lg)" and "f' \<equiv> snd (snd (log_rotate lg f))"
  shows "f' base = None" "f' (rotated base k) = (if k = 0 then f base else if k < mx then f (rotated base (k - 1)) else f (rotated base k))"
    "g \<noteq> base \<Longrightarrow> \<forall>i. g \<noteq> rotated base i \<Longrightarrow> f' g = f g"
proof -
  have r: "f' = fs_rename base (rotated base 0) (rotate_loop base mx mx f)"
    by (simp add: f'_def log_rotate_def base_def mx_def Let_def)
  have b: "rotate_loop base mx mx f base = f base" by (rule rotate_loop_other) simp
  have k: "rotate_loop base mx mx f (rotated base k) =
      (if k = 0 then None else if k < mx then f (rotated base (k - 1)) else f (rotated base k))" for k
    using rotate_loop_shift [of mx mx f base k] assms(1) by (auto simp: mx_def)
  show "f' base = None" by (simp add: r fs_rename_def b split: option.splits)
  show "f' (rotated base k) = (if k = 0 then f base else if k < mx then f (rotated base (k - 1)) else f (rotated base k))"
    by (auto simp: r fs_rename_def b k split: option.splits)
  show "f' g = f g" if "g \<noteq> base" "\<forall>i. g \<noteq> rotated base i"
    using that rotate_loop_other [of g base mx mx f] by (auto simp: r fs_rename_def split: option.splits)
qed

text \<open>C22. Rotating shifts the history by one: the current file becomes the newest numbered one, each numbered
  file moves up, the oldest is dropped, and no other file is touched.\<close>

theorem log_rotate_refines:
  assumes "0 < lg_max_files lg"
  shows "log_history (log_base lg) (nat (lg_max_files lg)) (snd (snd (log_rotate lg f)))
      = None # butlast (log_history (log_base lg) (nat (lg_max_files lg)) f)
    \<and> (\<forall>g. g \<noteq> log_base lg \<and> (\<forall>i < nat (lg_max_files lg). g \<noteq> rotated (log_base lg) i)
        \<longrightarrow> snd (snd (log_rotate lg f)) g = f g)"
proof (intro conjI allI impI)
  let ?mx = "nat (lg_max_files lg)"
  show "log_history (log_base lg) ?mx (snd (snd (log_rotate lg f))) = None # butlast (log_history (log_base lg) ?mx f)"
  proof (rule nth_equalityI)
    fix i
    assume "i < length (log_history (log_base lg) ?mx (snd (snd (log_rotate lg f))))"
    then have "i \<le> ?mx" by (simp add: log_history_def)
    then show "log_history (log_base lg) ?mx (snd (snd (log_rotate lg f))) ! i = (None # butlast (log_history (log_base lg) ?mx f)) ! i"
      using rotate_files(1,2) [OF assms, of f] by (auto simp: log_history_def nth_Cons nth_butlast split: nat.splits)
  qed (use assms in \<open>simp add: log_history_def\<close>)
next
  fix g
  assume g: "g \<noteq> log_base lg \<and> (\<forall>i < nat (lg_max_files lg). g \<noteq> rotated (log_base lg) i)"
  show "snd (snd (log_rotate lg f)) g = f g"
  proof (cases "\<exists>i. g = rotated (log_base lg) i")
    case True
    then obtain i where i: "g = rotated (log_base lg) i" by blast
    with g have "\<not> i < nat (lg_max_files lg)" by blast
    with i rotate_files(2) [OF assms, of f i] assms show ?thesis by (cases "i = 0") simp_all
  next
    case False
    with g rotate_files(3) [OF assms, of g f] show ?thesis by blast
  qed
qed

definition demo_log :: log_manager where
  "demo_log = new_log_manager\<lparr>lg_log_dir := ''/l'', lg_max_files := 2, lg_max_file_size_mb := 0,
     lg_current_file_path := ''/l/dev-sys-cloud.log'', lg_open := True\<rparr>"

definition demo_fs :: fs where
  "demo_fs = [''/l/dev-sys-cloud.log'' \<mapsto> ''now'', rotated ''/l/dev-sys-cloud.log'' 0 \<mapsto> ''old'', rotated ''/l/dev-sys-cloud.log'' 1 \<mapsto> ''older'']"

lemma demo_log_base [simp]: "log_base demo_log = ''/l/dev-sys-cloud.log''"
  by (simp add: demo_log_def log_base_def)

theorem log_rotate_refines_witness:
  "log_history ''/l/dev-sys-cloud.log'' 2 (snd (snd (log_rotate demo_log demo_fs))) = [None, Some ''now'', Some ''old'']"
proof -
  have "log_history ''/l/dev-sys-cloud.log'' 2 demo_fs = [Some ''now'', Some ''old'', Some ''older'']"
    by (simp add: log_history_def demo_fs_def upt_rec)
  then show ?thesis
    using log_rotate_refines [of demo_log demo_fs] by (simp add: demo_log_base) (simp add: demo_log_def)
qed

section \<open>Writing\<close>

definition log_ready :: "log_level \<Rightarrow> log_manager \<Rightarrow> bool" where
  "log_ready lvl lg \<longleftrightarrow> lg_open lg \<and> \<not> lg_failed lg \<and> lg_current_file_path lg = log_base lg \<and> lg_min_level lg \<le> lvl
     \<and> 0 < lg_max_files lg"

definition content :: "string \<Rightarrow> fs \<Rightarrow> string" where
  "content p f = (case f p of None \<Rightarrow> '''' | Some c \<Rightarrow> c)"

lemma log_line_not_Nil [simp]: "log_line ms lvl m msg lg \<noteq> []"
  by (simp add: log_line_def)

text \<open>An entry of a sufficient level is appended to the current file as long as the file stays below its
  limit.  The entry that reaches the limit is written twice: at the end of the file that is
  rotated away and as the first line of the new one.\<close>

theorem log_write_exact:
  fixes lg :: log_manager and f :: fs and m msg :: string and ms :: nat and lvl :: log_level
  assumes "log_ready lvl lg"
  defines "line \<equiv> log_line ms lvl m msg lg" and "base \<equiv> log_base lg"
  shows "if int (length (content base f @ line)) < max_bytes lg
    then log_write True ms lvl m msg (lg, f) = (lg, f(base := Some (content base f @ line)))
    else (\<exists>f'. log_write True ms lvl m msg (lg, f) = (lg, f') \<and> f' base = Some line
       \<and> f' (rotated base 0) = Some (content base f @ line)
       \<and> (\<forall>k. 0 < k \<and> k < nat (lg_max_files lg) \<longrightarrow> f' (rotated base k) = f (rotated base (k - 1))))"
proof -
  let ?f = "f(base := Some (content base f @ line))"
  let ?lg = "lg\<lparr>lg_open := False\<rparr>"
  have b: "log_base ?lg = base" "lg_current_file_path lg = base" using assms(1) by (simp_all add: base_def log_base_def log_ready_def)
  have w: "stream_write line lg f = ?f"
    using assms(1) b by (auto simp: stream_write_def fs_append_def log_ready_def content_def split: option.splits)
  have pos: "tellp lg ?f = int (length (content base f @ line))" "0 < length (content base f @ line)"
    using assms(1) b by (simp_all add: tellp_def log_ready_def line_def)
  have lvl: "\<not> lvl < lg_min_level lg" "lg_open lg" using assms(1) by (simp_all add: log_ready_def not_less)
  show ?thesis
  proof (cases "int (length (content base f @ line)) < max_bytes lg")
    case True
    then show ?thesis using lvl
      by (simp add: log_write_def Let_def line_def [symmetric] w pos(1) del: length_append)
  next
    case False
    have mx: "0 < lg_max_files ?lg" using assms(1) by (simp add: log_ready_def)
    obtain fr where rot: "log_rotate ?lg ?f = (OK, ?lg, fr)" by (simp add: log_rotate_def Let_def)
    note r = rotate_files(1,2) [OF mx, of ?f, unfolded b(1) rot prod.sel]
    have lg: "lg\<lparr>lg_open := True, lg_failed := False\<rparr> = lg" using lvl assms(1) by (simp add: log_ready_def)
    have nofail: "\<not> lg_failed lg" using assms(1) by (simp add: log_ready_def)
    have op: "log_open True ?lg fr = (lg, fs_append base '''' fr)" using lg by (simp add: log_open_def b(2))
    have sw: "stream_write line lg g = fs_append base line g" for g using lvl nofail by (simp add: stream_write_def b(2))
    have "log_write True ms lvl m msg (lg, f) = (lg, fs_append base line (fs_append base '''' fr))"
      using lvl False pos nofail
      by (simp add: log_write_def Let_def line_def [symmetric] w rot op del: length_append) (simp add: sw)
    moreover have "fs_append base line (fs_append base '''' fr) = fr(base := Some line)"
      using r(1) by (simp add: fs_append_def)
    ultimately show ?thesis using False r(2) by (auto simp: mx)
  qed
qed

theorem log_write_exact_witness:
  "\<exists>f'. log_write True 0 INFO_LEVEL ''m'' ''x'' (demo_log, demo_fs) = (demo_log, f')
     \<and> f' ''/l/dev-sys-cloud.log'' = Some (log_line 0 INFO_LEVEL ''m'' ''x'' demo_log)
     \<and> f' (rotated ''/l/dev-sys-cloud.log'' 0) = Some (''now'' @ log_line 0 INFO_LEVEL ''m'' ''x'' demo_log)"
proof -
  have "log_ready INFO_LEVEL demo_log" by (simp add: log_ready_def demo_log_def new_log_manager_def log_base_def)
  moreover have "content ''/l/dev-sys-cloud.log'' demo_fs = ''now''" by (simp add: content_def demo_fs_def)
  moreover have "max_bytes demo_log = 0" by (simp add: max_bytes_def demo_log_def)
  ultimately show ?thesis
    using log_write_exact [of INFO_LEVEL demo_log demo_fs 0 "''m''" "''x''"] by auto
qed

section \<open>Sequences of calls\<close>

datatype log_op = Log_write bool nat log_level string string | Log_rotate | Log_set_level log_level

fun log_step :: "log_op \<Rightarrow> log_manager \<times> fs \<Rightarrow> log_manager \<times> fs" where
  "log_step (Log_write ok ms lvl m msg) s = log_write ok ms lvl m msg s"
| "log_step Log_rotate (lg, f) = snd (log_rotate lg f)"
| "log_step (Log_set_level lvl) (lg, f) = (set_level lvl lg, f)"

definition log_inv :: "string \<Rightarrow> nat \<Rightarrow> log_manager \<times> fs \<Rightarrow> bool" where
  "log_inv base mx s \<longleftrightarrow> log_base (fst s) = base \<and> lg_current_file_path (fst s) = base \<and> nat (lg_max_files (fst s)) = mx \<and> 0 < mx
     \<and> (\<forall>k \<ge> mx. snd s (rotated base k) = None)"

lemma log_inv_rotate:
  assumes "log_inv base mx (lg, f)"
  shows "log_inv base mx (snd (log_rotate lg f))"
proof -
  have "0 < lg_max_files lg" using assms by (auto simp: log_inv_def)
  note r = rotate_files(2) [OF this, of f]
  have "fst (snd (log_rotate lg f)) = lg\<lparr>lg_open := False\<rparr>" by (simp add: log_rotate_def Let_def)
  with assms r show ?thesis by (simp add: log_inv_def log_base_def)
qed

lemma log_inv_simps:
  "log_inv base mx (lg, fs_append base s f) = log_inv base mx (lg, f)"
  "log_inv base mx (lg\<lparr>lg_open := a\<rparr>, f) = log_inv base mx (lg, f)"
  "log_inv base mx (lg\<lparr>lg_failed := a\<rparr>, f) = log_inv base mx (lg, f)"
  "log_inv base mx (lg\<lparr>lg_min_level := l\<rparr>, f) = log_inv base mx (lg, f)"
  by (simp_all add: log_inv_def fs_append_def log_base_def)

lemma log_inv_stream_write:
  "log_inv base mx (lg, f) \<Longrightarrow> log_inv base mx (lg, stream_write s lg f)"
proof -
  assume a: "log_inv base mx (lg, f)"
  then have "lg_current_file_path lg = base" by (simp add: log_inv_def)
  with a show ?thesis by (simp add: stream_write_def log_inv_simps)
qed

lemma log_inv_open:
  assumes "log_inv base mx (lg, f)"
  shows "log_inv base mx (log_open ok lg f)"
proof -
  have "lg_current_file_path lg = base" using assms by (simp add: log_inv_def)
  with assms show ?thesis by (simp add: log_open_def log_inv_simps)
qed

lemma log_inv_write:
  assumes "log_inv base mx s"
  shows "log_inv base mx (log_write ok ms lvl m msg s)"
proof -
  obtain lg f where s: "s = (lg, f)" by (cases s)
  define line where "line = log_line ms lvl m msg lg"
  have f1: "log_inv base mx (lg, stream_write line lg f)" using assms by (simp add: s log_inv_stream_write)
  obtain lg2 f2 where r: "log_rotate (lg\<lparr>lg_open := False\<rparr>) (stream_write line lg f) = (OK, lg2, f2)"
    by (simp add: log_rotate_def Let_def)
  obtain lg3 f3 where o3: "log_open ok lg2 f2 = (lg3, f3)" by (cases "log_open ok lg2 f2")
  have "log_inv base mx (lg2, f2)"
    using log_inv_rotate [of base mx "lg\<lparr>lg_open := False\<rparr>" "stream_write line lg f"] f1 r by (simp add: log_inv_simps)
  from log_inv_open [OF this, of ok] have "log_inv base mx (lg3, f3)" by (simp add: o3)
  with assms f1 show ?thesis
    by (simp add: s log_write_def Let_def line_def [symmetric] r o3 log_inv_stream_write)
qed

interpretation lgm: machine log_step "log_inv base mx"
proof
  fix s op
  assume "log_inv base mx s"
  then show "log_inv base mx (log_step op s)"
    by (cases s; cases op) (auto simp: log_inv_write log_inv_simps set_level_def intro: log_inv_rotate)
qed

text \<open>C36. Whatever is logged, and however often the log is rotated, there are never more numbered files than
  allowed: no file with a number from \<^verbatim>\<open>max_files\<close> on comes into being.\<close>

theorem log_files_bounded:
  assumes "log_inv base mx (lg, f)" "fold log_step ops (lg, f) = (lg', f')"
  shows "{k. f' (rotated base k) \<noteq> None} \<subseteq> {..<mx}"
proof -
  have "log_inv base mx (lg', f')" using lgm.run_inv [OF assms(1), of ops] assms(2) by simp
  then show ?thesis by (auto simp: log_inv_def not_less [symmetric])
qed

theorem log_files_bounded_witness:
  "{k. snd (fold log_step [Log_rotate, Log_rotate, Log_rotate] (demo_log, demo_fs)) (rotated ''/l/dev-sys-cloud.log'' k) \<noteq> None} \<subseteq> {..<2}"
proof -
  have "log_inv ''/l/dev-sys-cloud.log'' 2 (demo_log, demo_fs)"
    by (auto simp: log_inv_def demo_log_def demo_fs_def log_base_def)
  from log_files_bounded [OF this, of "[Log_rotate, Log_rotate, Log_rotate]"] show ?thesis
    by (cases "fold log_step [Log_rotate, Log_rotate, Log_rotate] (demo_log, demo_fs)") simp
qed

text \<open>Rotating by hand ends the log: the file is closed and only the rotation inside of a write opens it
  again, so that nothing that is logged afterwards is written anywhere.\<close>

theorem log_rotate_silences:
  "snd (fold (\<lambda>(ok, ms, lvl, m, msg). log_write ok ms lvl m msg) entries (snd (log_rotate lg f))) = snd (snd (log_rotate lg f))"
proof -
  have "fold (\<lambda>(ok, ms, lvl, m, msg). log_write ok ms lvl m msg) entries (lg', f') = (lg', f')" if "\<not> lg_open lg'" for lg' f'
    using that by (induction entries) (auto simp: log_write_def)
  from this [of "lg\<lparr>lg_open := False\<rparr>"] show ?thesis by (simp add: log_rotate_def Let_def)
qed

end
