(* ===== verification/Log_Export.thy ===== *)
theory Log_Export
  imports Log_Manager
begin

text \<open>
  \<^verbatim>\<open>export_recent\<close> of \<^verbatim>\<open>src/middleware/storage/log_manager.cpp\<close>: the entries of the last hours, read back from
  the current file and the numbered ones.  \<^verbatim>\<open>std::get_time\<close> reads fields of full width in
  the ranges of \<^verbatim>\<open>libstdc++\<close>; \<^verbatim>\<open>timegm\<close> counts days in the proleptic Gregorian calendar.  The clock
  counts nanoseconds, as \<^verbatim>\<open>system_clock\<close> does.
\<close>

section \<open>The calendar\<close>

definition days_from_civil :: "int \<Rightarrow> int \<Rightarrow> int \<Rightarrow> int" where
  "days_from_civil y0 m d = (let y = (if m \<le> 2 then y0 - 1 else y0);
       era = y div 400;
       yoe = y - era * 400;
       doy = (153 * (if 2 < m then m - 3 else m + 9) + 2) div 5 + d - 1;
       doe = yoe * 365 + yoe div 4 - yoe div 100 + doy
     in era * 146097 + doe - 719468)"

text \<open>The quotients of a day in a period of 400 years, as inequalities: then each century is a linear problem.\<close>

lemma div_bounds:
  fixes x k :: int
  assumes "0 < k"
  shows "k * (x div k) \<le> x" "x < k * (x div k) + k"
  using mult_div_mod_eq [of k x] pos_mod_sign [OF assms, of x] pos_mod_bound [OF assms, of x] by linarith+

text \<open>What the quotients satisfy settles the bounds by linear arithmetic.\<close>

lemma yoe_linear:
  fixes doe A C D Q B yoe :: int
  assumes doe: "0 \<le> doe" "doe < 146097"
    and A: "1460 * A \<le> doe" "doe < 1460 * A + 1460" and C: "36524 * C \<le> doe" "doe < 36524 * C + 36524"
    and D: "146096 * D \<le> doe" "doe < 146096 * D + 146096" and Q: "4 * Q \<le> yoe" "yoe < 4 * Q + 4"
    and B: "100 * B \<le> yoe" "yoe < 100 * B + 100" and y: "365 * yoe \<le> doe - A + C - D" "doe - A + C - D < 365 * yoe + 365"
  shows "0 \<le> yoe" "yoe < 400" "0 \<le> doe - (365 * yoe + Q - B)" "doe - (365 * yoe + Q - B) \<le> 365"
proof -
  have A0: "0 \<le> A" "A \<le> 100" using A doe by linarith+
  have C0: "0 \<le> C" "C \<le> 4" using C doe by linarith+
  have D0: "0 \<le> D" "D \<le> 1" using D doe by linarith+
  have CD: "C \<le> 3 + D" using C(1) D(2) D0 C0 by (cases "D = 0") linarith+
  show "0 \<le> yoe" using y(2) A(1) A0 C0 D(1) D0 by linarith
  show y4: "yoe < 400" using y(1) A(2) CD doe D0 by linarith
  have B3: "0 \<le> B" "B \<le> 3" using B y4 \<open>0 \<le> yoe\<close> by linarith+
  have BC: "B \<le> C"  using A(2) C(2) B(1) y(1) D0 C0 by linarith
  have CB: "C \<le> B + 1" using A(1) C(1) B(2) y(2) D0 C0 by linarith
  show "0 \<le> doe - (365 * yoe + Q - B)"
  proof (cases "C = B")
    case True
    then show ?thesis using A(2) Q(1) y(1) C(1) A0(1) D0(1) B3(1) by linarith
  next
    case False
    then show ?thesis using C(1) Q(1) B(2) BC by linarith
  qed
  show "doe - (365 * yoe + Q - B) \<le> 365"
  proof (cases "C = B")
    case True
    moreover from this have "D = 0" using D(1) C(2) B3(2) D0 by linarith
    ultimately show ?thesis using y(2) A(1) Q(2) A0(2) B3(1) by linarith
  next
    case False
    then show ?thesis using y(2) C(1) Q(2) B(2) CB BC A0(2) D0(2) A(1) by linarith
  qed
qed

lemma yoe_bounds:
  fixes doe :: int
  assumes "0 \<le> doe" "doe < 146097"
  defines "yoe \<equiv> (doe - doe div 1460 + doe div 36524 - doe div 146096) div 365"
  shows "0 \<le> yoe" "yoe < 400" "0 \<le> doe - (365 * yoe + yoe div 4 - yoe div 100)"
    "doe - (365 * yoe + yoe div 4 - yoe div 100) \<le> 365"
proof -
  note d = div_bounds [of 1460 doe] div_bounds [of 36524 doe] div_bounds [of 146096 doe] div_bounds [of 4 yoe] div_bounds [of 100 yoe]
    div_bounds [of 365 "doe - doe div 1460 + doe div 36524 - doe div 146096", folded yoe_def]
  note l = yoe_linear [OF assms(1,2) d(1-12), simplified]
  show "0 \<le> yoe" "yoe < 400" "0 \<le> doe - (365 * yoe + yoe div 4 - yoe div 100)"
    "doe - (365 * yoe + yoe div 4 - yoe div 100) \<le> 365" using l by simp_all
qed

text \<open>What the computation of a civil date has in hand: period, year in it counted from March, day and month.\<close>

lemma civil_parts:
  assumes "civil_from_days z = (y, m, d)"
  obtains era yoe doy mp where
    "z + 719468 = era * 146097 + (365 * yoe + yoe div 4 - yoe div 100) + doy" "0 \<le> yoe" "yoe < 400" "0 \<le> doy" "doy \<le> 365"
    "153 * mp \<le> 5 * doy + 2" "5 * doy + 2 < 153 * mp + 153" "0 \<le> mp" "mp \<le> 11"
    "m = (if mp < 10 then mp + 3 else mp - 9)" "d = doy - (153 * mp + 2) div 5 + 1" "y = yoe + era * 400 + (if m \<le> 2 then 1 else 0)"
proof -
  define era where "era = (z + 719468) div 146097"
  define doe where "doe = z + 719468 - era * 146097"
  define yoe where "yoe = (doe - doe div 1460 + doe div 36524 - doe div 146096) div 365"
  define doy where "doy = doe - (365 * yoe + yoe div 4 - yoe div 100)"
  define mp where "mp = (5 * doy + 2) div 153"
  have doe: "0 \<le> doe" "doe < 146097" using div_bounds [of 146097 "z + 719468"] by (simp_all add: doe_def era_def)
  note y = yoe_bounds [OF doe, folded yoe_def, folded doy_def]
  have mpb: "153 * mp \<le> 5 * doy + 2" "5 * doy + 2 < 153 * mp + 153" unfolding mp_def by (rule div_bounds, simp)+
  have mp: "0 \<le> mp" "mp \<le> 11" using y(3,4) mpb by linarith+
  have sum: "z + 719468 = era * 146097 + (365 * yoe + yoe div 4 - yoe div 100) + doy" by (simp add: doy_def doe_def)
  note c = assms [unfolded civil_from_days_def Let_def, folded era_def, folded doe_def, folded yoe_def, folded doy_def, folded mp_def,
    unfolded prod.inject]
  show thesis by (rule that [OF sum y mpb mp]) (use c in auto)
qed

lemma days_civil: "civil_from_days z = (y, m, d) \<Longrightarrow> days_from_civil y m d = z"
proof (erule civil_parts)
  fix era yoe doy mp :: int
  assume a: "z + 719468 = era * 146097 + (365 * yoe + yoe div 4 - yoe div 100) + doy" "0 \<le> yoe" "yoe < 400" "0 \<le> mp" "mp \<le> 11"
    and c: "m = (if mp < 10 then mp + 3 else mp - 9)" "d = doy - (153 * mp + 2) div 5 + 1"
      "y = yoe + era * 400 + (if m \<le> 2 then 1 else 0)"
  have "(if m \<le> 2 then y - 1 else y) = yoe + era * 400" "(if 2 < m then m - 3 else m + 9) = mp"
    using c(1,3) a(4,5) by (simp_all split: if_splits)
  moreover have "(yoe + era * 400) div 400 = era" using a(2,3) by simp
  ultimately have "days_from_civil y m d = era * 146097 + (yoe * 365 + yoe div 4 - yoe div 100 + ((153 * mp + 2) div 5 + d - 1)) - 719468"
    by (simp only: days_from_civil_def Let_def) simp
  with a(1) c(2) show ?thesis by linarith
qed

lemma civil_ranges:
  assumes "civil_from_days z = (y, m, d)"
  shows "1 \<le> m" "m \<le> 12" "1 \<le> d" "d \<le> 31" "0 \<le> z \<Longrightarrow> 1970 \<le> y" "z < 2932897 \<Longrightarrow> y \<le> 9999"
proof -
  from assms obtain era yoe doy mp where
    sum: "z + 719468 = era * 146097 + (365 * yoe + yoe div 4 - yoe div 100) + doy" and b: "0 \<le> yoe" "yoe < 400" "0 \<le> doy" "doy \<le> 365"
    and mp: "153 * mp \<le> 5 * doy + 2" "5 * doy + 2 < 153 * mp + 153" "0 \<le> mp" "mp \<le> 11"
    and c: "m = (if mp < 10 then mp + 3 else mp - 9)" "d = doy - (153 * mp + 2) div 5 + 1" "y = yoe + era * 400 + (if m \<le> 2 then 1 else 0)"
    by (rule civil_parts)
  show "1 \<le> m" "m \<le> 12" using c(1) mp(3,4) by (simp_all split: if_splits)
  show "1 \<le> d" "d \<le> 31" using c(2) mp(1,2) div_bounds [of 5 "153 * mp + 2"] by linarith+
  define Q B where "Q = yoe div 4" and "B = yoe div 100"
  have q: "4 * Q \<le> yoe" "yoe < 4 * Q + 4" "100 * B \<le> yoe" "yoe < 100 * B + 100"
    using div_bounds [of 4 yoe] div_bounds [of 100 yoe] by (simp_all add: Q_def B_def)
  note sum' = sum [folded Q_def B_def]
  show "1970 \<le> y" if z: "0 \<le> z"
  proof (rule ccontr)
    assume "\<not> 1970 \<le> y"
    then have y: "yoe + era * 400 \<le> 1969" using c(3) by (simp split: if_splits)
    have "era * 146097 + 36524 * 4 + 366 > 719468" using sum' z b q by linarith
    then have e: "4 \<le> era" by linarith
    then have e4: "era = 4" using y b by linarith
    then have "yoe \<le> 369" using y by linarith
    then have "yoe = 369" "306 \<le> doy" using sum' z e4 b q by linarith+
    then have "10 \<le> mp" using mp by linarith
    then have "m \<le> 2" using c(1) mp(4) by simp
    then show False using \<open>yoe = 369\<close> e4 c(3) \<open>\<not> 1970 \<le> y\<close> by simp
  qed
  show "y \<le> 9999" if z: "z < 2932897"
  proof (rule ccontr)
    assume n: "\<not> y \<le> 9999"
    then have y: "9999 \<le> yoe + era * 400" using c(3) by (simp split: if_splits)
    then have "24 \<le> era" using b by linarith
    moreover have "era < 25" using sum' z b q by linarith
    ultimately have e: "era = 24" "yoe = 399" using y b by linarith+
    then have "doy < 306" using sum' z q by linarith
    then have "mp < 10" using mp by linarith
    with e c(1,3) mp(3) n show False by simp
  qed
qed

section \<open>Reading the time of a line\<close>

record tm =
  tm_year :: int
  tm_mon :: int
  tm_mday :: int
  tm_hour :: int
  tm_min :: int
  tm_sec :: int

text \<open>\<^verbatim>\<open>timegm\<close>, with years and months counted as they are written.\<close>

definition timegm :: "tm \<Rightarrow> int" where
  "timegm t = days_from_civil (tm_year t) (tm_mon t) (tm_mday t) * 86400 + tm_hour t * 3600 + tm_min t * 60 + tm_sec t"

definition get_num :: "nat \<Rightarrow> int \<Rightarrow> int \<Rightarrow> string \<Rightarrow> (int \<times> string) option" where
  "get_num n lo hi s = (let ds = takeWhile is_digit (take n s); v = int (digits_value 0 ds)
     in if length ds = n \<and> lo \<le> v \<and> v \<le> hi then Some (v, drop n s) else None)"

definition get_lit :: "char \<Rightarrow> string \<Rightarrow> string option" where
  "get_lit c s = (case s of [] \<Rightarrow> None | x # r \<Rightarrow> if x = c then Some r else None)"

text \<open>\<^verbatim>\<open>iss >> std::get_time(&tm, "%Y-%m-%dT%H:%M:%S")\<close>: leading white space is skipped; \<^term>\<open>None\<close> is \<^verbatim>\<open>iss.fail()\<close>.\<close>

definition get_time :: "string \<Rightarrow> tm option" where
  "get_time s =
     Option.bind (get_num 4 0 9999 (dropWhile is_space s)) (\<lambda>(y, s).
     Option.bind (get_lit CHR ''-'' s) (\<lambda>s. Option.bind (get_num 2 1 12 s) (\<lambda>(m, s).
     Option.bind (get_lit CHR ''-'' s) (\<lambda>s. Option.bind (get_num 2 1 31 s) (\<lambda>(d, s).
     Option.bind (get_lit CHR ''T'' s) (\<lambda>s. Option.bind (get_num 2 0 23 s) (\<lambda>(h, s).
     Option.bind (get_lit CHR '':'' s) (\<lambda>s. Option.bind (get_num 2 0 59 s) (\<lambda>(mi, s).
     Option.bind (get_lit CHR '':'' s) (\<lambda>s. Option.bind (get_num 2 0 60 s) (\<lambda>(sec, s).
       Some \<lparr>tm_year = y, tm_mon = m, tm_mday = d, tm_hour = h, tm_min = mi, tm_sec = sec\<rparr>)))))))))))"

section \<open>Export\<close>

text \<open>The time of a line in seconds, where it has one.\<close>

definition line_epoch :: "string \<Rightarrow> int option" where
  \<open>line_epoch line = (case find_sub ''"ts":"'' line of
       None \<Rightarrow> None
     | Some p \<Rightarrow> (case find_from line [CHR 0x22] (p + 6) of
         None \<Rightarrow> None
       | Some e \<Rightarrow> map_option timegm (get_time (take 19 (take (e - (p + 6)) (drop (p + 6) line))))))\<close>

text \<open>\<^verbatim>\<open>duration_cast<seconds>\<close> truncates towards zero; an interval that does not fit into the clock's 64 bits overflows.\<close>

definition cutoff_ts :: "int \<Rightarrow> int \<Rightarrow> int exn" where
  "cutoff_ts now_ns hours = (let h = hours * 3600 * 1000000000; c = now_ns - h in
     if h < int64_min \<or> int64_max < h \<or> c < int64_min \<or> int64_max < c then Inl Undefined_behaviour
     else Inr (if 0 \<le> c then c div 1000000000 else - ((- c) div 1000000000)))"

definition log_files :: "log_manager \<Rightarrow> fs \<Rightarrow> string list" where
  "log_files lg f = log_base lg # filter (\<lambda>p. f p \<noteq> None) (map (rotated (log_base lg)) [0..<nat (lg_max_files lg)])"

definition recent_lines :: "int \<Rightarrow> string \<Rightarrow> string list" where
  "recent_lines cutoff c = filter (\<lambda>line. case line_epoch line of None \<Rightarrow> False | Some t \<Rightarrow> cutoff \<le> t) (getlines (CHR 0x0A) c)"

text \<open>A file that cannot be opened is passed over.\<close>

definition export_recent :: "(string \<Rightarrow> bool) \<Rightarrow> int \<Rightarrow> int \<Rightarrow> log_manager \<Rightarrow> fs \<Rightarrow> string exn" where
  "export_recent can_read now_ns hours lg f = exn_bind (cutoff_ts now_ns hours) (\<lambda>cutoff.
     Inr (''['' @ join (CHR '','') (concat (map (\<lambda>p. case f p of
             None \<Rightarrow> [] | Some c \<Rightarrow> if can_read p then recent_lines cutoff c else [])
         (log_files lg f))) @ '']''))"

section \<open>Lines that were written are read back\<close>

lemma nat_str_2: "n < 100 \<Longrightarrow> 10 \<le> n \<Longrightarrow> length (nat_str n) = 2"
  by (simp add: nat_str.simps [of n] nat_str.simps [of "n div 10"])

lemma nat_str_4: "n < 10000 \<Longrightarrow> 1000 \<le> n \<Longrightarrow> length (nat_str n) = 4"
proof -
  assume a: "n < 10000" "1000 \<le> n"
  then have "length (nat_str (n div 100)) = 2" by (intro nat_str_2) simp_all
  moreover have "nat_str n = nat_str (n div 100) @ [digit_char (n div 10 mod 10), digit_char (n mod 10)]"
    using a by (simp add: nat_str.simps [of n] nat_str.simps [of "n div 10"] div_mult2_eq [symmetric])
  ultimately show ?thesis by simp
qed

lemma get_num_digits:
  "\<forall>c \<in> set ds. is_digit c \<Longrightarrow> length ds = n \<Longrightarrow> int (digits_value 0 ds) = v \<Longrightarrow> lo \<le> v \<Longrightarrow> v \<le> hi
    \<Longrightarrow> get_num n lo hi (ds @ rest) = Some (v, rest)"
  by (simp add: get_num_def Let_def takeWhile_eq_all_conv [THEN iffD2])

lemma pad2_facts:
  assumes "0 \<le> v" "v < 100"
  shows "\<forall>c \<in> set (pad2 v). is_digit c" "length (pad2 v) = 2" "int (digits_value 0 (pad2 v)) = v"
proof -
  have zero: "is_digit CHR ''0''" "digit_val CHR ''0'' = 0" by (simp_all add: is_digit_def digit_val_def char_code_def)
  have one: "v < 10 \<Longrightarrow> length (nat_str (nat v)) = 1" by (simp add: nat_str.simps)
  have v: "int (digits_value 0 (nat_str (nat v))) = v" using assms(1) by (simp add: digits_value_nat_str)
  show "\<forall>c \<in> set (pad2 v). is_digit c" using nat_str_digits [of "nat v"] zero assms(1) by (simp add: pad2_def to_string_def)
  show "length (pad2 v) = 2" using one nat_str_2 [of "nat v"] assms by (simp add: pad2_def to_string_def)
  show "int (digits_value 0 (pad2 v)) = v" using v zero assms(1) by (simp add: pad2_def to_string_def digits_value_def)
qed

lemma get_num_pad2: "0 \<le> lo \<Longrightarrow> hi < 100 \<Longrightarrow> lo \<le> v \<Longrightarrow> v \<le> hi \<Longrightarrow> get_num 2 lo hi (pad2 v @ rest) = Some (v, rest)"
  by (rule get_num_digits) (use pad2_facts [of v] in simp_all)

lemma get_num_year: "1000 \<le> v \<Longrightarrow> v \<le> 9999 \<Longrightarrow> get_num 4 0 9999 (to_string v @ rest) = Some (v, rest)"
  by (rule get_num_digits) (use nat_str_digits [of "nat v"] nat_str_4 [of "nat v"] digits_value_nat_str [of "nat v"] in \<open>simp_all add: to_string_def\<close>)

lemma iso_parts:
  assumes "civil_from_days (t div 86400) = (y, m, d)"
  shows "butlast (iso_utc t) = to_string y @ CHR ''-'' # pad2 m @ CHR ''-'' # pad2 d @ CHR ''T'' #
       pad2 (t mod 86400 div 3600) @ CHR '':'' # pad2 (t mod 86400 div 60 mod 60) @ CHR '':'' # pad2 (t mod 86400 mod 60)"
  by (simp add: iso_utc_def assms Let_def butlast_append)

text \<open>The years that are written with four digits.\<close>

definition four_digit_year :: "int \<Rightarrow> bool" where
  "four_digit_year t \<longleftrightarrow> 0 \<le> t \<and> t < 253402300800"

lemma iso_facts:
  assumes "four_digit_year t"
  shows "length (butlast (iso_utc t)) = 19" "get_time (butlast (iso_utc t)) = Some tm \<Longrightarrow> timegm tm = t"
    "get_time (butlast (iso_utc t)) \<noteq> None" "set (butlast (iso_utc t)) \<subseteq> Collect is_digit \<union> {CHR ''-'', CHR ''T'', CHR '':''}"
proof -
  obtain y m d where c: "civil_from_days (t div 86400) = (y, m, d)" by (metis prod_cases3)
  have z: "0 \<le> t div 86400" "t div 86400 < 2932897" using assms div_bounds [of 86400 t] by (simp_all add: four_digit_year_def)
  note r = civil_ranges [OF c] note r(5) [OF z(1)] r(6) [OF z(2)]
  note y = this
  define h mi sec where "h = t mod 86400 div 3600" and "mi = t mod 86400 div 60 mod 60" and "sec = t mod 86400 mod 60"
  have s: "0 \<le> t mod 86400" "t mod 86400 < 86400" by simp_all
  have h: "0 \<le> h" "h \<le> 23" "0 \<le> mi" "mi \<le> 59" "0 \<le> sec" "sec \<le> 59"
    using s div_bounds [of 3600 "t mod 86400"] pos_mod_bound [of 60 "t mod 86400 div 60"] pos_mod_bound [of 60 "t mod 86400"]
    by (simp_all add: h_def mi_def sec_def)
  have hms: "h * 3600 + mi * 60 + sec = t mod 86400"
  proof -
    have "h = t mod 86400 div 60 div 60" using zdiv_zmult2_eq [of 60 "t mod 86400" 60] by (simp add: h_def)
    then have "h * 60 + mi = t mod 86400 div 60" by (simp add: mi_def)
    moreover have "t mod 86400 div 60 * 60 + sec = t mod 86400" unfolding sec_def by (rule div_mult_mod_eq)
    ultimately show ?thesis by linarith
  qed
  let ?iso = "to_string y @ CHR ''-'' # pad2 m @ CHR ''-'' # pad2 d @ CHR ''T'' # pad2 h @ CHR '':'' # pad2 mi @ CHR '':'' # pad2 sec"
  have iso: "butlast (iso_utc t) = ?iso" by (simp only: iso_parts [OF c] h_def mi_def sec_def)
  have nosp: "dropWhile is_space ?iso = ?iso"
    using nat_str_Cons [of "nat y"] y digit_not_space by (auto simp: to_string_def)
  have yr: "get_num 4 0 9999 (to_string y @ u) = Some (y, u)" for u using y by (simp add: get_num_year)
  have g: "get_time ?iso = Some \<lparr>tm_year = y, tm_mon = m, tm_mday = d, tm_hour = h, tm_min = mi, tm_sec = sec\<rparr>"
    using r(1-4) h get_num_pad2 [of 0 60 sec "[]"]
    unfolding get_time_def nosp by (simp add: yr get_lit_def get_num_pad2)
  show "get_time (butlast (iso_utc t)) \<noteq> None" by (simp add: iso g)
  show "timegm tm = t" if "get_time (butlast (iso_utc t)) = Some tm"
  proof -
    have "t div 86400 * 86400 + h * 3600 + mi * 60 + sec = t" using hms div_mult_mod_eq [of t 86400] by linarith
    with that show ?thesis by (auto simp: iso g timegm_def days_civil [OF c])
  qed
  show "length (butlast (iso_utc t)) = 19"
    using r(1-4) h y nat_str_4 [of "nat y"] by (simp add: iso pad2_facts to_string_def)
  show "set (butlast (iso_utc t)) \<subseteq> Collect is_digit \<union> {CHR ''-'', CHR ''T'', CHR '':''}"
    using r(1-4) h y nat_str_digits [of "nat y"] pad2_facts(1) [of m] pad2_facts(1) [of d] pad2_facts(1) [of h] pad2_facts(1) [of mi] pad2_facts(1) [of sec]
    by (auto simp: iso to_string_def)
qed

type_synonym log_entry = "nat \<times> log_level \<times> string \<times> string \<times> log_manager"

definition entry_time :: "log_entry \<Rightarrow> int" where
  "entry_time e = int (fst e div 1000)"

definition entry_line :: "log_entry \<Rightarrow> string" where
  "entry_line e = (case e of (ms, lvl, m, msg, lg) \<Rightarrow> butlast (log_line ms lvl m msg lg))"

definition entries_text :: "log_entry list \<Rightarrow> string" where
  "entries_text es = concat (map (\<lambda>(ms, lvl, m, msg, lg). log_line ms lvl m msg lg) es)"

lemma line_shape:
  obtains w where "log_line ms lvl m msg lg = ''{'' @ ''\"ts\":\"'' @ now_iso ms @ CHR 0x22 # w @ [CHR 0x0A]" "CHR 0x0A \<notin> set w"
proof
  have esc: "CHR 0x0A \<notin> set (json_escape s)" for s by (induction s) (auto simp: json_escape_def escape_char_def)
  let ?w = "'',\"level\":\"'' @ level_str lvl @ ''\"'' @ '',\"module\":\"'' @ json_escape m @ ''\"'' @ '',\"msg\":\"'' @ json_escape msg @ ''\"''
     @ (if lg_trace_id lg \<noteq> '''' then '',\"trace_id\":\"'' @ json_escape (lg_trace_id lg) @ ''\"'' else '''') @ ''}''"
  show "log_line ms lvl m msg lg = ''{'' @ ''\"ts\":\"'' @ now_iso ms @ CHR 0x22 # ?w @ [CHR 0x0A]"
    by (simp add: log_line_def)
  show "CHR 0x0A \<notin> set ?w" by (cases lvl) (simp_all add: esc)
qed

lemma now_iso_parts:
  assumes "four_digit_year (int (ms div 1000))"
  shows "take 19 (now_iso ms) = butlast (iso_utc (int (ms div 1000)))" "set (now_iso ms) \<inter> {CHR 0x22, CHR 0x0A} = {}"
proof -
  note i = iso_facts(1,4) [OF assms]
  have dig: "\<not> is_digit CHR 0x22" "\<not> is_digit CHR 0x0A" "is_digit CHR ''0''" by (simp_all add: is_digit_def char_code_def)
  have "set (pad3 (ms mod 1000)) \<subseteq> Collect is_digit" using nat_str_digits [of "ms mod 1000"] dig(3) by (auto simp: pad3_def)
  with i dig show "set (now_iso ms) \<inter> {CHR 0x22, CHR 0x0A} = {}" by (auto simp: now_iso_def)
  show "take 19 (now_iso ms) = butlast (iso_utc (int (ms div 1000)))" using i(1) by (simp add: now_iso_def)
qed

lemma entry_line_facts:
  assumes "four_digit_year (entry_time (ms, lvl, m, msg, lg))"
  shows "log_line ms lvl m msg lg = entry_line (ms, lvl, m, msg, lg) @ [CHR 0x0A]" "CHR 0x0A \<notin> set (entry_line (ms, lvl, m, msg, lg))"
    "line_epoch (entry_line (ms, lvl, m, msg, lg)) = Some (entry_time (ms, lvl, m, msg, lg))"
proof -
  have yr: "four_digit_year (int (ms div 1000))" using assms by (simp add: entry_time_def)
  note n = now_iso_parts [OF yr]
  obtain w where w: "log_line ms lvl m msg lg = ''{'' @ ''\"ts\":\"'' @ now_iso ms @ CHR 0x22 # w @ [CHR 0x0A]" "CHR 0x0A \<notin> set w"
    by (rule line_shape)
  have line: "entry_line (ms, lvl, m, msg, lg) = ''{'' @ ''\"ts\":\"'' @ now_iso ms @ CHR 0x22 # w"
    by (simp add: entry_line_def w(1) butlast_append)
  show "log_line ms lvl m msg lg = entry_line (ms, lvl, m, msg, lg) @ [CHR 0x0A]" by (simp add: line w(1))
  show "CHR 0x0A \<notin> set (entry_line (ms, lvl, m, msg, lg))" using n(2) w(2) by (auto simp: line)
  have p: "find_sub ''\"ts\":\"'' (''{'' @ ''\"ts\":\"'' @ now_iso ms @ CHR 0x22 # w) = Some 1"
    by (subst find_sub_skip) simp_all
  have e: "find_from ((''{'' @ ''\"ts\":\"'') @ now_iso ms @ CHR 0x22 # w) [CHR 0x22] 7 = Some (7 + length (now_iso ms))"
    using find_from_append [of "''{'' @ ''\"ts\":\"''" "now_iso ms @ CHR 0x22 # w" "[CHR 0x22]"] n(2)
    by (simp add: find_sub_skip numeral_eq_Suc)
  have t: "get_time (take 19 (now_iso ms)) = Some tm \<Longrightarrow> timegm tm = int (ms div 1000)" "get_time (take 19 (now_iso ms)) \<noteq> None" for tm
    using iso_facts(2,3) [OF yr] by (simp_all add: n(1))
  then obtain tm where tm: "get_time (take 19 (now_iso ms)) = Some tm" "timegm tm = int (ms div 1000)" by blast
  show "line_epoch (entry_line (ms, lvl, m, msg, lg)) = Some (entry_time (ms, lvl, m, msg, lg))"
    unfolding line line_epoch_def p using e tm by (simp add: entry_time_def)
qed

lemma recent_lines_entries:
  "\<forall>e \<in> set es. four_digit_year (entry_time e) \<Longrightarrow>
     recent_lines cutoff (entries_text es) = map entry_line (filter (\<lambda>e. cutoff \<le> entry_time e) es)"
proof (induction es)
  case Nil
  show ?case by (simp add: recent_lines_def entries_text_def getlines_def)
next
  case (Cons e es)
  obtain ms lvl m msg lg where e: "e = (ms, lvl, m, msg, lg)" by (cases e)
  have "entries_text (e # es) = entry_line e @ CHR 0x0A # entries_text es"
    using entry_line_facts(1) [of ms lvl m msg lg] Cons.prems by (simp add: e entries_text_def)
  moreover have "CHR 0x0A \<notin> set (entry_line e)" "line_epoch (entry_line e) = Some (entry_time e)"
    using entry_line_facts(2,3) [of ms lvl m msg lg] Cons.prems by (simp_all add: e)
  ultimately show ?case using Cons by (simp add: recent_lines_def)
qed

text \<open>C17. What was logged within the last hours is exported, and nothing else: when the current file and the numbered
  ones hold the lines of entries, newest file first, the export is the array of exactly those lines whose entry is not older than the
  given number of hours (counted in whole seconds), file by file in the order they were written.\<close>

theorem export_recent_exact:
  assumes "log_history (log_base lg) (nat (lg_max_files lg)) f = map (map_option entries_text) hist"
    and "\<forall>es. Some es \<in> set hist \<longrightarrow> list_all (\<lambda>e. four_digit_year (entry_time e)) es"
    and "0 \<le> hours" "hours * 3600 * 1000000000 \<le> now_ns" "now_ns \<le> int64_max"
  shows "export_recent (\<lambda>_. True) now_ns hours lg f = Inr (''['' @ join (CHR '','') (concat (map
      (\<lambda>es. map entry_line (filter (\<lambda>e. now_ns div 1000000000 - hours * 3600 \<le> entry_time e) es)) (List.map_filter id hist))) @ '']'')"
proof -
  let ?c = "now_ns div 1000000000 - hours * 3600"
  have c: "(now_ns - hours * 3600 * 1000000000) div 1000000000 = ?c"
    using div_mult_self1 [of 1000000000 now_ns "- hours * 3600"] by (simp add: algebra_simps)
  have cut: "cutoff_ts now_ns hours = Inr ?c"
    using assms(3-5) c by (simp add: cutoff_ts_def Let_def int64_min_def)
  let ?g = "\<lambda>x. case x of None \<Rightarrow> [] | Some c \<Rightarrow> recent_lines ?c c"
  have skip: "concat (map (\<lambda>p. ?g (f p)) (filter (\<lambda>p. \<exists>y. f p = Some y) ps)) = concat (map (\<lambda>p. ?g (f p)) ps)" for ps
    by (induction ps) auto
  have "concat (map (\<lambda>p. ?g (f p)) (log_files lg f)) = concat (map ?g (log_history (log_base lg) (nat (lg_max_files lg)) f))"
    using skip [of "map (rotated (log_base lg)) [0..<nat (lg_max_files lg)]"] by (simp add: log_files_def log_history_def comp_def)
  also have "\<dots> = concat (map (\<lambda>x. case x of None \<Rightarrow> [] | Some es \<Rightarrow> recent_lines ?c (entries_text es)) hist)"
    by (simp add: assms(1) comp_def option.case_distrib map_option_case) (rule arg_cong [of _ _ concat], simp split: option.splits)
  also have "\<dots> = concat (map (\<lambda>es. map entry_line (filter (\<lambda>e. ?c \<le> entry_time e) es)) (List.map_filter id hist))"
    using assms(2) by (induction hist) (auto simp: map_filter_def list_all_iff recent_lines_entries split: option.splits)
  finally show ?thesis by (simp add: export_recent_def cut cong: option.case_cong)
qed

definition demo_early :: log_entry where
  "demo_early = (0, INFO_LEVEL, ''m'', ''a'', demo_log)"

definition demo_late :: log_entry where
  "demo_late = (7200500, WARN_LEVEL, ''m'', ''b'', demo_log)"

theorem export_recent_exact_witness:
  "export_recent (\<lambda>_. True) 7201000000000 1 demo_log
     [''/l/dev-sys-cloud.log'' \<mapsto> entries_text [demo_late], rotated ''/l/dev-sys-cloud.log'' 0 \<mapsto> entries_text [demo_early, demo_late]]
   = Inr (''['' @ entry_line demo_late @ '','' @ entry_line demo_late @ '']'')"
proof -
  let ?f = "[''/l/dev-sys-cloud.log'' \<mapsto> entries_text [demo_late], rotated ''/l/dev-sys-cloud.log'' 0 \<mapsto> entries_text [demo_early, demo_late]]"
  have mx: "nat (lg_max_files demo_log) = 2" by (simp add: demo_log_def)
  have h: "log_history (log_base demo_log) (nat (lg_max_files demo_log)) ?f
      = map (map_option entries_text) [Some [demo_late], Some [demo_early, demo_late], None]"
    by (simp add: log_history_def mx upt_rec)
  have y: "\<forall>es. Some es \<in> set [Some [demo_late], Some [demo_early, demo_late], None] \<longrightarrow>
      list_all (\<lambda>e. four_digit_year (entry_time e)) es"
    by (auto simp: entry_time_def four_digit_year_def demo_early_def demo_late_def)
  have t: "entry_time demo_early = 0" "entry_time demo_late = 7200" by (simp_all add: entry_time_def demo_early_def demo_late_def)
  show ?thesis using export_recent_exact [OF h y, of 1 7201000000000] by (simp add: t map_filter_def int64_max_def)
qed

end
