(* ===== verification/Hal.thy ===== *)
theory Hal
  imports Interfaces Dev_Types
begin

text \<open>
  The hardware layer, \<^verbatim>\<open>src/hal\<close>: heater, motor, pump and valve behind the common interface
  \<^verbatim>\<open>ActuatorBase\<close>, which is the locale \<open>actuator\<close> here, the two sensors behind \<^verbatim>\<open>SensorBase\<close>, and the
  Bluetooth provisioning.  The classes drive no hardware yet; what they keep and return is
  modelled as it is written.  A \<^verbatim>\<open>double\<close> is only stored and compared and is a rational.
\<close>

section \<open>Actuators\<close>

datatype act_op = Act_init | Act_start | Act_stop

text \<open>What a client of \<^verbatim>\<open>ActuatorBase\<close> relies on: starting and stopping succeed and decide whether it
  runs, the other calls leave that alone.\<close>

locale actuator =
  fixes init :: "'a \<Rightarrow> bool \<times> 'a"
    and start :: "'a \<Rightarrow> bool \<times> 'a"
    and stop :: "'a \<Rightarrow> bool \<times> 'a"
    and running :: "'a \<Rightarrow> bool"
    and setting :: "'a \<Rightarrow> 'b"
  assumes init_ok: "fst (init a)" and init_same: "snd (init a) = a"
    and start_ok: "fst (start a)" and start_running: "running (snd (start a))"
    and stop_ok: "fst (stop a)" and stop_running: "\<not> running (snd (stop a))"
    and start_setting: "setting (snd (start a)) = setting a"
    and stop_setting: "setting (snd (stop a)) = setting a"
begin

fun act :: "act_op \<Rightarrow> 'a \<Rightarrow> 'a" where
  "act Act_init a = snd (init a)"
| "act Act_start a = snd (start a)"
| "act Act_stop a = snd (stop a)"

lemma act_setting: "setting (fold act ops a) = setting a"
proof (induction ops arbitrary: a)
  case (Cons op ops)
  then show ?case by (cases op) (simp_all add: init_same start_setting stop_setting)
qed simp

text \<open>Whether it runs is what the last start or stop said.\<close>

lemma act_running:
  "running (fold act ops a) = (case List.find (\<lambda>op. op \<noteq> Act_init) (rev ops) of
     None \<Rightarrow> running a | Some op \<Rightarrow> op = Act_start)"
proof (induction ops rule: rev_induct)
  case (snoc op ops)
  then show ?case by (cases op) (auto simp: init_same start_running stop_running split: option.splits)
qed simp

end

subsection \<open>Heater\<close>

record heater =
  ht_gpio_pin :: int
  ht_target_temp :: rat
  ht_kp :: rat
  ht_ki :: rat
  ht_kd :: rat
  ht_running :: bool

definition new_heater :: "int \<Rightarrow> heater" where
  "new_heater pin = \<lparr>ht_gpio_pin = pin, ht_target_temp = 0, ht_kp = 2, ht_ki = 1 / 10, ht_kd = 1 / 2, ht_running = False\<rparr>"

definition heater_init :: "heater \<Rightarrow> bool \<times> heater" where
  "heater_init h = (True, h)"

definition heater_start :: "heater \<Rightarrow> bool \<times> heater" where
  "heater_start h = (True, h\<lparr>ht_running := True\<rparr>)"

definition heater_stop :: "heater \<Rightarrow> bool \<times> heater" where
  "heater_stop h = (True, h\<lparr>ht_running := False\<rparr>)"

definition heater_is_running :: "heater \<Rightarrow> bool" where
  "heater_is_running h = ht_running h"

definition heater_run_time_ms :: "heater \<Rightarrow> 32 word" where
  "heater_run_time_ms h = 0"

definition set_target_temp :: "rat \<Rightarrow> heater \<Rightarrow> heater" where
  "set_target_temp c h = h\<lparr>ht_target_temp := c\<rparr>"

definition current_temp :: "heater \<Rightarrow> rat" where
  "current_temp h = 0"

definition set_pid_params :: "rat \<Rightarrow> rat \<Rightarrow> rat \<Rightarrow> heater \<Rightarrow> heater" where
  "set_pid_params p i d h = h\<lparr>ht_kp := p, ht_ki := i, ht_kd := d\<rparr>"

definition max_temp_limit :: "heater \<Rightarrow> rat" where
  "max_temp_limit h = 105"

definition is_overtemp :: "heater \<Rightarrow> bool" where
  "is_overtemp h \<longleftrightarrow> max_temp_limit h < current_temp h"

interpretation heater: actuator heater_init heater_start heater_stop heater_is_running
  "\<lambda>h. (ht_gpio_pin h, ht_target_temp h, ht_kp h, ht_ki h, ht_kd h)"
  by unfold_locales (simp_all add: heater_init_def heater_start_def heater_stop_def heater_is_running_def)

subsection \<open>Motor\<close>

record motor =
  mo_pwm_pin :: int
  mo_dir_pin :: int
  mo_speed :: int
  mo_running :: bool

definition new_motor :: "int \<Rightarrow> int \<Rightarrow> motor" where
  "new_motor pwm dir = \<lparr>mo_pwm_pin = pwm, mo_dir_pin = dir, mo_speed = 100, mo_running = False\<rparr>"

definition motor_init :: "motor \<Rightarrow> bool \<times> motor" where
  "motor_init m = (True, m)"

definition motor_start :: "motor \<Rightarrow> bool \<times> motor" where
  "motor_start m = (True, m\<lparr>mo_running := True\<rparr>)"

definition motor_stop :: "motor \<Rightarrow> bool \<times> motor" where
  "motor_stop m = (True, m\<lparr>mo_running := False\<rparr>)"

definition motor_is_running :: "motor \<Rightarrow> bool" where
  "motor_is_running m = mo_running m"

definition motor_run_time_ms :: "motor \<Rightarrow> 32 word" where
  "motor_run_time_ms m = 0"

definition motor_set_speed :: "int \<Rightarrow> motor \<Rightarrow> motor" where
  "motor_set_speed percent m = m\<lparr>mo_speed := percent\<rparr>"

definition set_direction :: "bool \<Rightarrow> motor \<Rightarrow> motor" where
  "set_direction forward m = m"

definition is_stalled :: "motor \<Rightarrow> bool" where
  "is_stalled m = False"

interpretation motor: actuator motor_init motor_start motor_stop motor_is_running
  "\<lambda>m. (mo_pwm_pin m, mo_dir_pin m, mo_speed m)"
  by unfold_locales (simp_all add: motor_init_def motor_start_def motor_stop_def motor_is_running_def)

subsection \<open>Pump\<close>

record pump =
  pu_gpio_pin :: int
  pu_pwm_channel :: int
  pu_speed :: int
  pu_running :: bool

definition new_pump :: "int \<Rightarrow> int \<Rightarrow> pump" where
  "new_pump pin ch = \<lparr>pu_gpio_pin = pin, pu_pwm_channel = ch, pu_speed = 100, pu_running = False\<rparr>"

definition pump_init :: "pump \<Rightarrow> bool \<times> pump" where
  "pump_init p = (True, p)"

definition pump_start :: "pump \<Rightarrow> bool \<times> pump" where
  "pump_start p = (True, p\<lparr>pu_running := True\<rparr>)"

definition pump_stop :: "pump \<Rightarrow> bool \<times> pump" where
  "pump_stop p = (True, p\<lparr>pu_running := False\<rparr>)"

definition pump_is_running :: "pump \<Rightarrow> bool" where
  "pump_is_running p = pu_running p"

definition pump_run_time_ms :: "pump \<Rightarrow> 32 word" where
  "pump_run_time_ms p = 0"

definition pump_set_speed :: "int \<Rightarrow> pump \<Rightarrow> pump" where
  "pump_set_speed percent p = p\<lparr>pu_speed := percent\<rparr>"

definition current_speed :: "pump \<Rightarrow> int" where
  "current_speed p = pu_speed p"

interpretation pump: actuator pump_init pump_start pump_stop pump_is_running
  "\<lambda>p. (pu_gpio_pin p, pu_pwm_channel p, pu_speed p)"
  by unfold_locales (simp_all add: pump_init_def pump_start_def pump_stop_def pump_is_running_def)

subsection \<open>Valve\<close>

record valve =
  va_gpio_pin :: int
  va_normally_closed :: bool
  va_open :: bool

definition new_valve :: "int \<Rightarrow> bool \<Rightarrow> valve" where
  "new_valve pin nc = \<lparr>va_gpio_pin = pin, va_normally_closed = nc, va_open = False\<rparr>"

definition valve_init :: "valve \<Rightarrow> bool \<times> valve" where
  "valve_init v = (True, v)"

definition valve_start :: "valve \<Rightarrow> bool \<times> valve" where
  "valve_start v = (True, v\<lparr>va_open := True\<rparr>)"

definition valve_stop :: "valve \<Rightarrow> bool \<times> valve" where
  "valve_stop v = (True, v\<lparr>va_open := False\<rparr>)"

definition valve_is_running :: "valve \<Rightarrow> bool" where
  "valve_is_running v = va_open v"

definition valve_run_time_ms :: "valve \<Rightarrow> 32 word" where
  "valve_run_time_ms v = 0"

interpretation valve: actuator valve_init valve_start valve_stop valve_is_running
  "\<lambda>v. (va_gpio_pin v, va_normally_closed v)"
  by unfold_locales (simp_all add: valve_init_def valve_start_def valve_stop_def valve_is_running_def)

section \<open>Sensors and Bluetooth\<close>

record flow_sensor =
  fl_gpio_pin :: int
  fl_flow_rate :: rat
  fl_total_ml :: rat

definition new_flow_sensor :: "int \<Rightarrow> flow_sensor" where
  "new_flow_sensor pin = \<lparr>fl_gpio_pin = pin, fl_flow_rate = 0, fl_total_ml = 0\<rparr>"

definition flow_init :: "flow_sensor \<Rightarrow> bool \<times> flow_sensor" where
  "flow_init s = (True, s)"

definition flow_is_healthy :: "flow_sensor \<Rightarrow> bool" where
  "flow_is_healthy s = True"

definition flow_read_value :: "flow_sensor \<Rightarrow> rat \<times> flow_sensor" where
  "flow_read_value s = (fl_flow_rate s, s)"

definition total_volume_ml :: "flow_sensor \<Rightarrow> rat" where
  "total_volume_ml s = fl_total_ml s"

definition reset_total :: "flow_sensor \<Rightarrow> flow_sensor" where
  "reset_total s = s\<lparr>fl_total_ml := 0\<rparr>"

datatype temp_type = DS18B20 | NTC_ADC

record temp_sensor =
  te_type :: temp_type
  te_bus_id :: int
  te_addr :: int
  te_last_value :: rat

definition new_temp_sensor :: "temp_type \<Rightarrow> int \<Rightarrow> int \<Rightarrow> temp_sensor" where
  "new_temp_sensor t b a = \<lparr>te_type = t, te_bus_id = b, te_addr = a, te_last_value = 0\<rparr>"

definition temp_init :: "temp_sensor \<Rightarrow> bool \<times> temp_sensor" where
  "temp_init s = (True, s)"

definition temp_is_healthy :: "temp_sensor \<Rightarrow> bool" where
  "temp_is_healthy s = True"

definition temp_read_value :: "temp_sensor \<Rightarrow> rat \<times> temp_sensor" where
  "temp_read_value s = (25, s\<lparr>te_last_value := 25\<rparr>)"

record bluetooth =
  bt_device_name :: string

definition bt_init :: "string \<Rightarrow> bluetooth \<Rightarrow> bool \<times> bluetooth" where
  "bt_init n b = (True, b\<lparr>bt_device_name := n\<rparr>)"

definition start_advertising :: "bluetooth \<Rightarrow> bool" where
  "start_advertising b = True"

definition stop_advertising :: "bluetooth \<Rightarrow> bool" where
  "stop_advertising b = True"

definition generate_pin :: "bluetooth \<Rightarrow> string" where
  "generate_pin b = ''000000''"

definition verify_pin :: "string \<Rightarrow> bluetooth \<Rightarrow> bool" where
  "verify_pin pin b = True"

definition configure_wifi :: "string \<Rightarrow> string \<Rightarrow> bluetooth \<Rightarrow> bool" where
  "configure_wifi ssid password b = True"

text \<open>The display keeps no state: initialising it succeeds and every other operation has an empty body.\<close>

definition display_init :: "int \<Rightarrow> int \<Rightarrow> bool" where
  "display_init width height = True"

section \<open>What they promise\<close>

definition heater_act :: "act_op \<Rightarrow> heater \<Rightarrow> heater" where
  "heater_act op h = (case op of Act_init \<Rightarrow> snd (heater_init h) | Act_start \<Rightarrow> snd (heater_start h) | Act_stop \<Rightarrow> snd (heater_stop h))"

lemma heater_act_eq: "heater_act = heater.act"
proof (intro ext)
  fix op h
  show "heater_act op h = heater.act op h" by (cases op) (simp_all add: heater_act_def)
qed

text \<open>A heater runs exactly when the last of its start and stop calls was a start, whatever was called before,
  and none of these calls changes its target temperature or its control parameters; but no
  state of it counts as too hot, since the temperature it reports is always 0.\<close>

theorem heater_runs_exactly:
  "heater_is_running (fold heater_act ops h) = (case List.find (\<lambda>op. op \<noteq> Act_init) (rev ops) of
     None \<Rightarrow> heater_is_running h | Some op \<Rightarrow> op = Act_start)
   \<and> ht_target_temp (fold heater_act ops h) = ht_target_temp h
   \<and> \<not> is_overtemp (set_target_temp t (fold heater_act ops h))"
  using heater.act_running [of ops h] heater.act_setting [of ops h]
  by (simp add: heater_act_eq is_overtemp_def current_temp_def max_temp_limit_def)

end
