(* ===== verification/Api_Server.thy ===== *)
theory Api_Server
  imports Interfaces Cpp_Strings Dev_Types
begin

text \<open>
  \<^verbatim>\<open>src/middleware/communication/api_server.cpp\<close>: reading a request from a connection, route matching, the
  response.  What arrives on a connection is a list of segments, the way the network cuts the
  stream, and \<^verbatim>\<open>recv\<close> returns at most one of them; the list ends where \<^verbatim>\<open>recv\<close> returns nothing more
  (the peer closed or the timeout passed).  A handler is a function on the state \<open>'s\<close> of the
  rest of the program, and may throw.  \<^verbatim>\<open>size_t\<close> has 64 bits; \<^verbatim>\<open>max_size\<close> of a string is
  implementation defined and a parameter \<open>cap\<close>.
\<close>

section \<open>Data\<close>

record http_request =
  rq_method :: string
  rq_path :: string
  rq_query :: string
  rq_body :: string
  rq_headers :: "(string, string) umap"
  rq_remote_ip :: string

record http_response =
  rs_status_code :: int
  rs_content_type :: string
  rs_body :: string
  rs_extra_headers :: string

definition new_request :: http_request where
  "new_request = \<lparr>rq_method = '''', rq_path = '''', rq_query = '''', rq_body = '''', rq_headers = [], rq_remote_ip = ''''\<rparr>"

definition new_response :: http_response where
  "new_response = \<lparr>rs_status_code = 200, rs_content_type = ''application/json'', rs_body = '''', rs_extra_headers = ''''\<rparr>"

type_synonym 's route_handler = "http_request \<Rightarrow> 's \<Rightarrow> http_response exn \<times> 's"

record 's api_server =
  as_port :: int
  as_server_fd :: bool
  as_running :: bool
  as_thread :: bool
  as_routes :: "(string, 's route_handler) umap"

definition new_api_server :: "'s api_server" where
  "new_api_server = \<lparr>as_port = 8080, as_server_fd = False, as_running = False, as_thread = False, as_routes = []\<rparr>"

definition add_route :: "string \<Rightarrow> string \<Rightarrow> 'h \<Rightarrow> (string, 'h) umap \<Rightarrow> (string, 'h) umap" where
  "add_route method path h routes = AList.update (method @ '' '' @ path) h routes"

definition api_get :: "string \<Rightarrow> 'h \<Rightarrow> (string, 'h) umap \<Rightarrow> (string, 'h) umap" where
  "api_get p h = add_route ''GET'' p h"

definition api_post :: "string \<Rightarrow> 'h \<Rightarrow> (string, 'h) umap \<Rightarrow> (string, 'h) umap" where
  "api_post p h = add_route ''POST'' p h"

definition api_put :: "string \<Rightarrow> 'h \<Rightarrow> (string, 'h) umap \<Rightarrow> (string, 'h) umap" where
  "api_put p h = add_route ''PUT'' p h"

definition api_del :: "string \<Rightarrow> 'h \<Rightarrow> (string, 'h) umap \<Rightarrow> (string, 'h) umap" where
  "api_del p h = add_route ''DELETE'' p h"

section \<open>Starting and stopping\<close>

text \<open>Which of the calls that open the listening socket fails, if any.\<close>

datatype listen_result = Socket_failed | Bind_failed | Listen_failed | Listening

text \<open>When \<^verbatim>\<open>bind\<close> or \<^verbatim>\<open>listen\<close> fails the descriptor is closed but kept in \<^verbatim>\<open>server_fd\<close>.\<close>

definition api_start :: "listen_result \<Rightarrow> int \<Rightarrow> 's api_server \<Rightarrow> status_code exn \<times> 's api_server" where
  "api_start net port s =
     (let s1 = s\<lparr>as_port := port, as_server_fd := net \<noteq> Socket_failed\<rparr> in
      if net \<noteq> Listening then (Inr COMM_DISCONNECTED, s1)
      else if as_thread s then (Inl Terminated, s1\<lparr>as_running := True\<rparr>)
      else (Inr OK, s1\<lparr>as_running := True, as_thread := True\<rparr>))"

definition api_stop :: "'s api_server \<Rightarrow> status_code \<times> 's api_server" where
  "api_stop s = (OK, s\<lparr>as_running := False, as_server_fd := False, as_thread := False\<rparr>)"

definition is_running :: "'s api_server \<Rightarrow> bool" where
  "is_running s = as_running s"

text \<open>The accept loop: what \<^verbatim>\<open>running\<close> is and how \<^verbatim>\<open>accept\<close> ends, round after round; the connections that
  are given a thread.\<close>

datatype 'c accept_result = Accepted 'c | Try_again | Accept_failed

fun accept_loop :: "(bool \<times> 'c accept_result) list \<Rightarrow> 'c list" where
  "accept_loop [] = []"
| "accept_loop ((running, r) # rs) = (if \<not> running then [] else (case r of
     Accepted c \<Rightarrow> c # accept_loop rs | Try_again \<Rightarrow> accept_loop rs | Accept_failed \<Rightarrow> []))"

section \<open>Reading from the connection\<close>

fun recv_some :: "nat \<Rightarrow> string list \<Rightarrow> (string \<times> string list) option" where
  "recv_some n [] = None"
| "recv_some n (c # cs) = (if c = [] then None
     else if length c \<le> n then Some (c, cs) else Some (take n c, drop n c # cs))"

lemma recv_some_split:
  "recv_some n cs = Some (d, rest) \<Longrightarrow> concat cs = d @ concat rest \<and> (0 < n \<longrightarrow> d \<noteq> []) \<and> length d \<le> n"
  by (cases cs) (auto split: if_splits)

lemma recv_some_shorter:
  "recv_some n cs = Some (d, rest) \<Longrightarrow> 0 < n \<Longrightarrow> length (concat rest) < length (concat cs)"
  using recv_some_split [of n cs d rest] by (simp del: length_concat)

definition crlf2 :: string where
  "crlf2 = [CHR 0x0D, CHR 0x0A, CHR 0x0D, CHR 0x0A]"

text \<open>Phase 1: until the blank line is there; at most 131072 bytes.\<close>

function read_headers :: "string \<Rightarrow> string list \<Rightarrow> (string \<times> string list) option" where
  "read_headers raw cs = (if find_sub crlf2 raw \<noteq> None then Some (raw, cs)
     else (case recv_some 65536 cs of
         None \<Rightarrow> None
       | Some (d, rest) \<Rightarrow> if 131072 < length (raw @ d) then None else read_headers (raw @ d) rest))"
  by pat_completeness auto

termination
  by (relation "measure (\<lambda>(raw, cs). length (concat cs))") (auto dest: recv_some_shorter simp del: length_concat)

declare read_headers.simps [simp del]

text \<open>Phase 2: exactly as many bytes as are needed.\<close>

function read_exact :: "string \<Rightarrow> nat \<Rightarrow> string list \<Rightarrow> (string \<times> string list) option" where
  "read_exact buf needed cs = (if length buf < needed then
       (let remain = needed - length buf; n = (if remain < 65536 then remain else 65536) in
        case recv_some n cs of None \<Rightarrow> None | Some (d, rest) \<Rightarrow> read_exact (buf @ d) needed rest)
     else Some (buf, cs))"
  by pat_completeness auto

termination
  by (relation "measure (\<lambda>(buf, needed, cs). length (concat cs))")
    (auto dest: recv_some_shorter simp del: length_concat split: if_splits)

declare read_exact.simps [simp del]

section \<open>Writing to the connection\<close>

text \<open>What \<^verbatim>\<open>send\<close> answers, call after call, and what has gone out when the loop ends.  A connection that has no
  further answer has failed.\<close>

fun write_all :: "int list \<Rightarrow> string \<Rightarrow> bool \<times> string" where
  "write_all rs [] = (True, '''')"
| "write_all [] (c # cs) = (False, '''')"
| "write_all (n # rs) (c # cs) = (if n \<le> 0 then (False, '''')
     else (case write_all rs (drop (nat n) (c # cs)) of (ok, out) \<Rightarrow> (ok, take (nat n) (c # cs) @ out)))"

text \<open>However the answers fall, the peer gets a beginning of the text, and all of it exactly when the loop reports success;
  a connection that takes at least a byte each time gets everything.\<close>

lemma write_all_beginning: "prefix (snd (write_all rs data)) data \<and> (fst (write_all rs data) \<longleftrightarrow> snd (write_all rs data) = data)"
proof (induction rs data rule: write_all.induct)
  case (3 n rs c cs)
  let ?a = "take (nat n) (c # cs)" and ?b = "drop (nat n) (c # cs)"
  obtain ok out where w: "write_all rs ?b = (ok, out)" by fastforce
  have "prefix (?a @ out) (?a @ ?b) \<longleftrightarrow> prefix out ?b" "?a @ out = ?a @ ?b \<longleftrightarrow> out = ?b" by (simp_all only: same_prefix_prefix same_append_eq)
  then show ?case using 3 w by (cases "n \<le> 0") (simp_all only: append_take_drop_id write_all.simps if_True if_False prod.case fst_conv snd_conv, simp_all)
qed simp_all

lemma write_all_complete:
  "\<forall>n \<in> set rs. 0 < n \<Longrightarrow> length data \<le> length rs \<Longrightarrow> write_all rs data = (True, data)"
proof (induction rs data rule: write_all.induct)
  case (3 n rs c cs)
  from 3(2) have n: "0 < n" and rs: "\<forall>n \<in> set rs. 0 < n" by simp_all
  have "length (drop (nat n) (c # cs)) \<le> length rs" using 3(3) n by simp
  with 3(1) n rs have w: "write_all rs (drop (nat n) (c # cs)) = (True, drop (nat n) (c # cs))" by simp
  show ?case using n by (simp only: write_all.simps w) simp
qed simp_all
section \<open>Parsing\<close>

definition to_lower :: "char \<Rightarrow> char" where
  "to_lower c = (if 65 \<le> char_code c \<and> char_code c \<le> 90 then char_of (char_code c + 32) else c)"

definition stoull :: "string \<Rightarrow> nat exn" where
  "stoull s = (case read_int s of
       None \<Rightarrow> Inl Invalid_argument
     | Some i \<Rightarrow> if 2 ^ 64 \<le> \<bar>i\<bar> then Inl Out_of_range else Inr (nat (i mod 2 ^ 64)))"

definition size_add :: "nat \<Rightarrow> nat \<Rightarrow> nat" where
  "size_add a b = (a + b) mod 2 ^ 64"

text \<open>The length of the body: the first place where the header text says \<^verbatim>\<open>content-length:\<close>, up to the next
  carriage return; 0 when there is none or it is no number.\<close>

definition content_length :: "string \<Rightarrow> nat" where
  "content_length header =
     (case find_sub ''content-length:'' (map to_lower header) of
        None \<Rightarrow> 0
      | Some p \<Rightarrow>
          (let value = dropWhile (\<lambda>c. c = CHR '' '') (drop (p + 15) header) in
           case stoull (takeWhile (\<lambda>c. c \<noteq> CHR 0x0D) value) of Inl _ \<Rightarrow> 0 | Inr n \<Rightarrow> n))"

text \<open>\<^verbatim>\<open>line.pop_back()\<close> when the line ends in a carriage return.\<close>

definition strip_cr :: "string \<Rightarrow> string" where
  "strip_cr line = (if line \<noteq> [] \<and> last line = CHR 0x0D then butlast line else line)"

text \<open>\<^verbatim>\<open>stream >> word\<close>.\<close>

definition next_word :: "string \<Rightarrow> string \<times> string" where
  "next_word s = (let t = dropWhile is_space s in (takeWhile (\<lambda>c. \<not> is_space c) t, dropWhile (\<lambda>c. \<not> is_space c) t))"

definition split_query :: "string \<Rightarrow> string \<times> string" where
  "split_query p = (case find_char (\<lambda>c. c = CHR ''?'') p of
       None \<Rightarrow> (p, '''') | Some q \<Rightarrow> (take q p, drop (q + 1) p))"

fun parse_headers :: "string list \<Rightarrow> (string, string) umap \<Rightarrow> (string, string) umap" where
  "parse_headers [] hs = hs"
| "parse_headers (l # ls) hs = (let line = strip_cr l in
     if line = [] then hs
     else (case find_char (\<lambda>c. c = CHR '':'') line of
         None \<Rightarrow> parse_headers ls hs
       | Some colon \<Rightarrow>
           (let v = drop (colon + 1) line;
                v' = (if v \<noteq> [] \<and> hd v = CHR '' '' then tl v else v)
            in parse_headers ls (AList.update (take colon line) v' hs))))"

definition parse_body :: "string \<Rightarrow> nat \<Rightarrow> string" where
  "parse_body raw n = (case find_sub crlf2 raw of
       None \<Rightarrow> ''''
     | Some p \<Rightarrow> if 0 < n \<and> size_add (p + 4) n \<le> length raw then take n (drop (p + 4) raw) else '''')"

definition parse_request :: "string \<Rightarrow> nat \<Rightarrow> http_request" where
  "parse_request raw n =
     (let lines = getlines (CHR 0x0A) raw;
          (m, rest) = (case lines of [] \<Rightarrow> ('''', '''') | l # _ \<Rightarrow> next_word (strip_cr l));
          (path, query) = split_query (fst (next_word rest))
      in new_request\<lparr>rq_method := m, rq_path := path, rq_query := query,
           rq_headers := parse_headers (tl lines) [], rq_body := parse_body raw n\<rparr>)"

section \<open>Responses\<close>

definition reason :: "int \<Rightarrow> string" where
  "reason code = (if code = 200 then ''OK'' else if code = 201 then ''Created'' else if code = 206 then ''Partial Content''
     else if code = 400 then ''Bad Request'' else if code = 401 then ''Unauthorized'' else if code = 404 then ''Not Found''
     else if code = 500 then ''Internal Server Error'' else ''Unknown'')"

definition build_response :: "http_response \<Rightarrow> string" where
  "build_response r = ''HTTP/1.1 '' @ to_string (rs_status_code r) @ '' '' @ reason (rs_status_code r) @ crlf
     @ ''Content-Type: '' @ rs_content_type r @ crlf
     @ ''Content-Length: '' @ nat_str (length (rs_body r)) @ crlf
     @ ''Connection: close'' @ crlf
     @ (if rs_extra_headers r \<noteq> '''' then rs_extra_headers r @ (if last (rs_extra_headers r) \<noteq> CHR 0x0A then crlf else '''') else '''')
     @ crlf @ rs_body r"

definition json_response :: "int \<Rightarrow> string \<Rightarrow> http_response" where
  "json_response code json = new_response\<lparr>rs_status_code := code, rs_content_type := ''application/json'', rs_body := json\<rparr>"

definition error_response :: "int \<Rightarrow> int \<Rightarrow> string \<Rightarrow> http_response" where
  \<open>error_response code err msg = json_response code
     (''{"success":false,"error_code":'' @ to_string err @ '',"error_message":"'' @ msg @ ''"}'')\<close>

definition cors_response :: http_response where
  "cors_response = new_response\<lparr>rs_status_code := 204, rs_content_type := ''text/plain'',
     rs_extra_headers := ''Access-Control-Allow-Origin: *'' @ crlf
       @ ''Access-Control-Allow-Methods: GET,POST,PUT,DELETE,OPTIONS'' @ crlf
       @ ''Access-Control-Allow-Headers: Content-Type,Authorization,X-Firmware-Version,X-Firmware-Product,X-Firmware-Changelog,Range'' @ crlf
       @ ''Access-Control-Max-Age: 86400'' @ crlf\<rparr>"

section \<open>Routes\<close>

text \<open>A key of the route table is method, space, path.\<close>

definition route_parts :: "string \<Rightarrow> (string \<times> string) option" where
  "route_parts rk = (case find_char (\<lambda>c. c = CHR '' '') rk of
       None \<Rightarrow> None | Some sp \<Rightarrow> Some (take sp rk, drop (sp + 1) rk))"

definition exact_match :: "string \<Rightarrow> string \<Rightarrow> string \<Rightarrow> bool" where
  "exact_match m path rk = (case route_parts rk of
       None \<Rightarrow> False
     | Some (rm, rp) \<Rightarrow> rm = m \<and> CHR 0x7B \<notin> set rp \<and> rp = path)"

definition pattern_match :: "string \<Rightarrow> string \<Rightarrow> string \<Rightarrow> bool" where
  "pattern_match m path rk = (case route_parts rk of
       None \<Rightarrow> False
     | Some (rm, rp) \<Rightarrow> rm = m \<and> (case find_char (\<lambda>c. c = CHR 0x7B) rp of
           None \<Rightarrow> False
         | Some brace \<Rightarrow> starts_with path (take brace rp) \<and> drop brace path \<noteq> []
             \<and> (CHR ''/'' \<in> set (drop brace rp) \<or> CHR ''/'' \<notin> set (drop brace path))))"

definition find_route :: "(string, 'h) umap \<Rightarrow> string \<Rightarrow> string \<Rightarrow> 'h option" where
  "find_route routes m path = (case List.find (\<lambda>(rk, h). exact_match m path rk) routes of
       Some (_, h) \<Rightarrow> Some h
     | None \<Rightarrow> map_option snd (List.find (\<lambda>(rk, h). pattern_match m path rk) routes))"

section \<open>A connection\<close>

text \<open>The answer to a request that was read: CORS, the matched handler, or 404.\<close>

definition respond :: "(string, 's route_handler) umap \<Rightarrow> http_request \<Rightarrow> 's \<Rightarrow> http_response exn \<times> 's" where
  "respond routes req s =
     (if rq_method req = ''OPTIONS'' then (Inr cors_response, s)
      else (case find_route routes (rq_method req) (rq_path req) of
          Some h \<Rightarrow> h req s
        | None \<Rightarrow> (Inr (error_response 404 (- 404) (''Not Found: '' @ rq_path req)), s)))"

text \<open>What is sent on the connection, and the state afterwards.  An exception leaves the thread of the
  connection, which ends the program: a handler that throws, or a \<^verbatim>\<open>reserve\<close> for more bytes than a
  string may have.\<close>

definition handle_connection ::
  "nat \<Rightarrow> (string, 's route_handler) umap \<Rightarrow> string list \<Rightarrow> 's \<Rightarrow> unit exn \<times> string list \<times> 's" where
  "handle_connection cap routes cs s =
     (case read_headers '''' cs of
        None \<Rightarrow> (Inr (), [], s)
      | Some (raw, rest) \<Rightarrow>
          (let header_end = the (find_sub crlf2 raw);
               header = take header_end raw;
               cont = (if find_sub ''expect: 100-continue'' (map to_lower header) \<noteq> None
                       then [''HTTP/1.1 100 Continue'' @ crlf2] else []);
               n = content_length header;
               needed = size_add (header_end + 4) n
           in if length raw < needed \<and> cap < needed then (Inl Terminated, cont, s)
              else (case (if length raw < needed then read_exact raw needed rest else Some (raw, rest)) of
                  None \<Rightarrow> (Inr (), cont, s)
                | Some (raw', _) \<Rightarrow>
                    (case respond routes (parse_request raw' n) s of
                       (Inl _, s') \<Rightarrow> (Inl Terminated, cont, s')
                     | (Inr resp, s') \<Rightarrow> (Inr (), cont @ [build_response resp], s')))))"

section \<open>However the stream is cut\<close>

lemma find_sub_append: "find_sub p s = Some i \<Longrightarrow> find_sub p (s @ t) = Some i"
proof (induction s arbitrary: i)
  case (Cons c cs)
  show ?case
  proof (cases "prefix p (c # cs)")
    case False
    with Cons.prems obtain j where j: "find_sub p cs = Some j" "i = Suc j" by auto
    have "\<not> prefix p (c # cs @ t)"
    proof
      assume "prefix p (c # cs @ t)"
      with find_sub_SomeD [OF j(1)] False show False
        using prefix_length_prefix [of p "c # cs @ t" "c # cs"] by simp
    qed
    with j Cons.IH [OF j(1)] show ?thesis by simp
  qed (use Cons.prems prefix_prefix [of p "c # cs" t] in simp)
qed (auto simp: find_sub_Some_0 split: if_splits)

lemma find_sub_take:
  assumes "find_sub p (s @ t) = Some i" "i + length p \<le> length s"
  shows "find_sub p s = Some i"
  using assms
proof (induction s arbitrary: i)
  case (Cons c cs)
  show ?case
  proof (cases i)
    case 0
    with Cons.prems have "prefix p ((c # cs) @ t)" by (simp add: find_sub_Some_0 flip: append_Cons)
    with Cons.prems(2) have "prefix p (c # cs)" by (auto intro: prefix_length_prefix)
    with 0 show ?thesis by simp
  next
    case (Suc j)
    with Cons.prems have "\<not> prefix p (c # cs @ t)" "find_sub p (cs @ t) = Some j" by (auto split: if_splits)
    moreover from this have "\<not> prefix p (c # cs)" using prefix_prefix [of p "c # cs" t] by auto
    ultimately show ?thesis using Cons Suc by simp
  qed
qed (auto split: if_splits)

lemma find_sub_split:
  assumes "find_sub p s = Some i"
  shows "s = take i s @ p @ drop (i + length p) s"
proof -
  from find_sub_SomeD [OF assms] obtain z where "drop i s = p @ z" by (auto simp: prefix_def)
  moreover from this have "z = drop (length p + i) s" by (metis append_eq_conv_conj drop_drop)
  ultimately show ?thesis by (metis add.commute append_take_drop_id)
qed

definition segments :: "string list \<Rightarrow> bool" where
  "segments cs \<longleftrightarrow> (\<forall>c \<in> set cs. c \<noteq> [])"

lemma recv_some_segments:
  assumes "segments cs" "length (concat cs) \<noteq> 0" "0 < n"
  shows "\<exists>d rest. recv_some n cs = Some (d, rest) \<and> segments rest"
proof (cases cs)
  case (Cons c cs')
  then show ?thesis using assms by (cases "length c \<le> n") (auto simp: segments_def)
qed (use assms(2) in simp)

lemma length_crlf2 [simp]: "length crlf2 = 4"
  by (simp add: crlf2_def)

lemma read_headers_found:
  "\<lbrakk>segments cs; find_sub crlf2 (raw @ concat cs) = Some he; he + 4 \<le> 65536\<rbrakk> \<Longrightarrow>
   \<exists>raw' rest. read_headers raw cs = Some (raw', rest) \<and> raw' @ concat rest = raw @ concat cs
     \<and> find_sub crlf2 raw' = Some he \<and> segments rest"
proof (induction raw cs rule: read_headers.induct)
  case (1 raw cs)
  show ?case
  proof (cases "find_sub crlf2 raw")
    case (Some j)
    with find_sub_append [OF Some, of "concat cs"] 1(3) have "j = he" by simp
    with Some 1(2) show ?thesis by (subst read_headers.simps) simp
  next
    case None
    have less: "length raw < he + 4"
      using find_sub_take [OF 1(3)] None by (cases "he + 4 \<le> length raw") auto
    moreover have "he + 4 \<le> length raw + length (concat cs)"
      using find_sub_SomeD [OF 1(3)] by (simp del: length_concat)
    ultimately have "length (concat cs) \<noteq> 0" by linarith
    then obtain d rest where d: "recv_some 65536 cs = Some (d, rest)" "segments rest"
      using recv_some_segments [OF 1(2), of 65536] by auto
    from recv_some_split [OF d(1)] have c: "concat cs = d @ concat rest" "length d \<le> 65536" by auto
    with less 1(4) have small: "\<not> 131072 < length (raw @ d)" by simp
    have "\<exists>raw' rest'. read_headers (raw @ d) rest = Some (raw', rest') \<and> raw' @ concat rest' = (raw @ d) @ concat rest
     \<and> find_sub crlf2 raw' = Some he \<and> segments rest'"
      using 1(1) [of "(d, rest)" d rest] None d small c 1(3,4) by simp
    with None d small c show ?thesis by (subst read_headers.simps) simp
  qed
qed

lemma read_exact_full:
  "\<lbrakk>segments cs; length buf \<le> needed; needed \<le> length (buf @ concat cs)\<rbrakk> \<Longrightarrow>
   \<exists>rest. read_exact buf needed cs = Some (take needed (buf @ concat cs), rest)"
proof (induction buf needed cs rule: read_exact.induct)
  case (1 buf needed cs)
  show ?case
  proof (cases "length buf < needed")
    case True
    define n where "n = (if needed - length buf < 65536 then needed - length buf else 65536)"
    have n: "0 < n" "n \<le> needed - length buf" using True by (auto simp: n_def)
    have "needed \<le> length buf + length (concat cs)" using 1(4) by (simp del: length_concat)
    then have "length (concat cs) \<noteq> 0" using True by linarith
    then obtain d rest where d: "recv_some n cs = Some (d, rest)" "segments rest"
      using recv_some_segments [OF 1(2) _ n(1)] by auto
    from recv_some_split [OF d(1)] have c: "concat cs = d @ concat rest" "length d \<le> n" by auto
    have "\<exists>rest'. read_exact (buf @ d) needed rest = Some (take needed ((buf @ d) @ concat rest), rest')"
      by (rule 1(1) [OF True refl n_def]) (use d c n 1(4) in \<open>auto simp del: length_concat\<close>)
    with True d c show ?thesis by (subst read_exact.simps) (simp add: n_def [symmetric] Let_def)
  next
    case False
    with 1(3) show ?thesis by (subst read_exact.simps) simp
  qed
qed

lemma getline_aux_append:
  "getline_aux d acc (u @ d # v) = getline_aux d acc (u @ [d]) @ getline_aux d [] v"
  by (induction u arbitrary: acc) auto

lemma getlines_append: "getlines d (u @ d # v) = getlines d (u @ [d]) @ getlines d v"
  by (simp add: getlines_def getline_aux_append [of d "[]" u v])

lemma parse_headers_stop:
  "strip_cr l = [] \<Longrightarrow> parse_headers (ls @ l # xs) hs = parse_headers (ls @ [l]) hs"
  by (induction ls hs rule: parse_headers.induct) (auto simp: Let_def split: option.splits)

lemma getline_aux_not_Nil: "getline_aux d acc (u @ [d]) \<noteq> []"
  by (induction u arbitrary: acc) auto

lemma getlines_not_Nil: "getlines d (u @ [d]) \<noteq> []"
  by (simp add: getlines_def getline_aux_not_Nil)

lemma strip_cr_cr: "strip_cr [CHR 0x0D] = []"
  by (simp add: strip_cr_def)

lemma getlines_head:
  "getlines (CHR 0x0A) (h @ crlf2 @ x) = getlines (CHR 0x0A) (h @ crlf) @ [CHR 0x0D] # getlines (CHR 0x0A) x"
proof -
  have "getlines (CHR 0x0A) (h @ crlf2 @ x) = getlines (CHR 0x0A) ((h @ [CHR 0x0D]) @ CHR 0x0A # ([CHR 0x0D] @ CHR 0x0A # x))"
    by (simp add: crlf2_def)
  also have "\<dots> = getlines (CHR 0x0A) ((h @ [CHR 0x0D]) @ [CHR 0x0A]) @ getlines (CHR 0x0A) ([CHR 0x0D] @ CHR 0x0A # x)"
    by (rule getlines_append)
  also have "getlines (CHR 0x0A) ([CHR 0x0D] @ CHR 0x0A # x) = [CHR 0x0D] # getlines (CHR 0x0A) x"
    by (rule getlines_segment) simp
  finally show ?thesis by (simp add: crlf_def)
qed

text \<open>What is parsed is the text up to the blank line and the body.\<close>

lemma parse_request_head:
  "parse_request (h @ crlf2 @ x) n
   = parse_request (h @ crlf2) 0 \<lparr>rq_body := parse_body (h @ crlf2 @ x) n\<rparr>"
proof -
  obtain l ls where l: "getlines (CHR 0x0A) (h @ crlf) = l # ls"
    using getlines_not_Nil [of "CHR 0x0A" "h @ [CHR 0x0D]"] by (auto simp: crlf_def neq_Nil_conv)
  have lines: "getlines (CHR 0x0A) (h @ crlf2 @ x) = l # ls @ [CHR 0x0D] # getlines (CHR 0x0A) x"
    "getlines (CHR 0x0A) (h @ crlf2) = l # ls @ [[CHR 0x0D]]"
    using getlines_head [of h x] getlines_head [of h "[]"] l by (simp_all add: getlines_last)
  have hs: "parse_headers (ls @ [CHR 0x0D] # getlines (CHR 0x0A) x) [] = parse_headers (ls @ [[CHR 0x0D]]) []"
    by (rule parse_headers_stop [OF strip_cr_cr])
  show ?thesis
    unfolding parse_request_def lines list.case list.sel by (simp add: Let_def split_beta hs)
qed

lemma parse_request_take:
  assumes "find_sub crlf2 raw = Some he" "he + 4 + n \<le> k" "k \<le> length raw" "length raw < 2 ^ 64"
  shows "parse_request (take k raw) n = parse_request raw n"
proof -
  let ?h = "take he raw" and ?x = "drop (he + 4) raw"
  have raw: "raw = ?h @ crlf2 @ ?x" using find_sub_split [OF assms(1)] by simp
  have he: "length ?h = he" using find_sub_SomeD [OF assms(1)] by simp
  have tk: "take k raw = ?h @ crlf2 @ take (k - he - 4) ?x"
    using he assms(2) by (subst (1) raw) (simp del: append_take_drop_id)
  have found: "find_sub crlf2 (take k raw) = Some he"
    by (rule find_sub_take [of _ _ "drop k raw"]) (use assms in simp_all)
  have "parse_body (take k raw) n = parse_body raw n"
    using assms found by (simp add: parse_body_def size_add_def min_def take_drop)
  then show ?thesis
    using parse_request_head [of ?h "take (k - he - 4) ?x" n] parse_request_head [of ?h ?x n]
    by (simp only: tk [symmetric] raw [symmetric])
qed

definition continue_text :: "string \<Rightarrow> string list" where
  "continue_text header = (if find_sub ''expect: 100-continue'' (map to_lower header) \<noteq> None
     then [''HTTP/1.1 100 Continue'' @ crlf2] else [])"

text \<open>What a connection should do with a whole request: a specification over the stream, without segments.\<close>

definition serve :: "(string, 's route_handler) umap \<Rightarrow> string \<Rightarrow> nat \<Rightarrow> 's \<Rightarrow> unit exn \<times> string list \<times> 's" where
  "serve routes data he s =
     (let header = take he data in
      case respond routes (parse_request data (content_length header)) s of
        (Inl _, s') \<Rightarrow> (Inl Terminated, continue_text header, s')
      | (Inr resp, s') \<Rightarrow> (Inr (), continue_text header @ [build_response resp], s'))"

lemma segments_served:
  assumes "segments cs" "find_sub crlf2 (concat cs) = Some he" "he + 4 \<le> 65536"
    and "he + 4 + content_length (take he (concat cs)) \<le> length (concat cs)"
    and "length (concat cs) \<le> cap" "cap < 2 ^ 64"
  shows "handle_connection cap routes cs s = serve routes (concat cs) he s"
proof -
  let ?data = "concat cs"
  let ?n = "content_length (take he ?data)"
  let ?needed = "he + 4 + ?n"
  from read_headers_found [OF assms(1), of "''''" he] assms(2,3) obtain raw rest where
    r: "read_headers '''' cs = Some (raw, rest)" "raw @ concat rest = ?data"
      "find_sub crlf2 raw = Some he" "segments rest" by auto
  have he: "he + 4 \<le> length raw" using find_sub_SomeD [OF r(3)] by simp
  have raw: "raw = take (length raw) ?data" using r(2) by (metis append_eq_conv_conj)
  have hd: "take he raw = take he ?data" using he r(2) by (metis add_leD1 append_eq_conv_conj min.absorb1 take_take)
  have small: "?needed < 2 ^ 64" "length ?data < 2 ^ 64" using assms(4-6) by linarith+
  have wrap: "size_add (he + 4) ?n = ?needed" using small(1) by (simp add: size_add_def)
  have cap: "\<not> cap < ?needed" using assms(4,5) by linarith
  obtain raw' rest' k where k: "(if length raw < ?needed then read_exact raw ?needed rest else Some (raw, rest)) = Some (raw', rest')"
    "raw' = take k ?data" "?needed \<le> k" "k \<le> length ?data"
  proof (cases "length raw < ?needed")
    case True
    with read_exact_full [OF r(4), of raw ?needed] assms(4) obtain rest' where
      "read_exact raw ?needed rest = Some (take ?needed ?data, rest')" unfolding r(2) by auto
    with True assms(4) that [of "take ?needed ?data" rest' ?needed] show ?thesis by simp
  next
    case False
    have "length raw \<le> length ?data" using r(2) by (metis length_append le_add1)
    with False raw that [of raw rest "length raw"] show ?thesis by simp
  qed
  have parsed: "parse_request raw' ?n = parse_request ?data ?n"
    unfolding k(2) by (rule parse_request_take [OF assms(2) k(3,4) small(2)])
  show ?thesis
    unfolding handle_connection_def r(1) Let_def option.case prod.case r(3) option.sel hd wrap k(1) parsed
      serve_def continue_text_def
    by (simp only: cap simp_thms if_False)
qed

text \<open>The network may cut a request anywhere: whatever the segments are, a request whose header block has
  at most 65536 bytes and whose body arrives completely is answered as the stream as a whole
  says, with the same bytes and the same effect.\<close>

theorem segments_irrelevant:
  assumes "segments cs" "find_sub crlf2 (concat cs) = Some he" "he + 4 \<le> 65536"
    and "he + 4 + content_length (take he (concat cs)) \<le> length (concat cs)"
    and "length (concat cs) \<le> cap" "cap < 2 ^ 64"
  shows "handle_connection cap routes cs s = serve routes (concat cs) he s"
  by (rule segments_served [OF assms])

section \<open>Requests as text\<close>

definition header_line :: "string \<times> string \<Rightarrow> string" where
  "header_line h = fst h @ '': '' @ snd h"

definition request_line :: "string \<Rightarrow> string \<Rightarrow> string" where
  "request_line m target = m @ '' '' @ target @ '' HTTP/1.1''"

text \<open>A request as HTTP/1.1 writes it, with the length of the body as its first header.\<close>

definition request_head :: "string \<Rightarrow> string \<Rightarrow> (string \<times> string) list \<Rightarrow> nat \<Rightarrow> string" where
  "request_head m target hs n = concat (map (\<lambda>l. l @ crlf)
     (request_line m target # map header_line ((''Content-Length'', nat_str n) # hs)))"

definition request_text :: "string \<Rightarrow> string \<Rightarrow> (string \<times> string) list \<Rightarrow> string \<Rightarrow> string" where
  "request_text m target hs body = request_head m target hs (length body) @ crlf @ body"

definition plain :: "string \<Rightarrow> bool" where
  "plain s \<longleftrightarrow> (\<forall>c \<in> set s. c \<noteq> CHR 0x0D \<and> c \<noteq> CHR 0x0A)"

definition word_ok :: "string \<Rightarrow> bool" where
  "word_ok w \<longleftrightarrow> w \<noteq> [] \<and> (\<forall>c \<in> set w. \<not> is_space c)"

definition header_ok :: "string \<times> string \<Rightarrow> bool" where
  "header_ok h \<longleftrightarrow> plain (fst h) \<and> plain (snd h) \<and> CHR '':'' \<notin> set (fst h)"

definition request_ok :: "string \<Rightarrow> string \<Rightarrow> (string \<times> string) list \<Rightarrow> bool" where
  "request_ok m target hs \<longleftrightarrow> word_ok m \<and> word_ok target \<and> (\<forall>h \<in> set hs. header_ok h)
     \<and> find_sub ''content-length:'' (map to_lower (request_line m target)) = None"

lemma space_facts [simp]: "is_space (CHR '' '')" "is_space (CHR 0x0D)" "is_space (CHR 0x0A)"
  by (simp_all add: is_space_def char_code_def)

lemma digit_plain: "is_digit c \<Longrightarrow> c \<noteq> CHR 0x0D \<and> c \<noteq> CHR 0x0A"
  by (auto simp: is_digit_def char_code_def)

lemma plain_word: "word_ok w \<Longrightarrow> plain w"
  by (auto simp: word_ok_def plain_def)

lemma plain_append [simp]: "plain (a @ b) \<longleftrightarrow> plain a \<and> plain b"
  by (auto simp: plain_def)

lemma plain_nat_str: "plain (nat_str n)"
  using nat_str_digits [of n] digit_plain by (auto simp: plain_def)

lemma plain_request_line: "word_ok m \<Longrightarrow> word_ok target \<Longrightarrow> plain (request_line m target)"
  using plain_word [of m] plain_word [of target] by (auto simp: request_line_def plain_def)

lemma plain_header_line: "header_ok h \<Longrightarrow> plain (header_line h)"
  by (simp add: header_ok_def header_line_def) (simp add: plain_def)

text \<open>The blank line of a text of non-empty lines is the one at its end.\<close>

lemma find_crlf2_lines:
  assumes "\<forall>l \<in> set ls. plain l \<and> l \<noteq> []" "ls \<noteq> []"
  shows "find_sub crlf2 (concat (map (\<lambda>l. l @ crlf) ls) @ crlf @ x)
    = Some (length (concat (map (\<lambda>l. l @ crlf) ls)) - 2)"
  using assms
proof (induction ls)
  case (Cons l ls)
  have l: "hd crlf2 \<notin> set l" "crlf2 \<noteq> []" using Cons.prems by (auto simp: crlf2_def plain_def)
  show ?case
  proof (cases ls)
    case Nil
    then show ?thesis using find_sub_skip [OF l(2,1), of "crlf @ crlf @ x"]
      by (simp add: crlf_def crlf2_def prefix_def)
  next
    case (Cons l' ls')
    define t where "t = concat (map (\<lambda>l. l @ crlf) ls) @ crlf @ x"
    have IH: "find_sub crlf2 t = Some (length (concat (map (\<lambda>l. l @ crlf) ls)) - 2)"
      unfolding t_def by (rule Cons.IH) (use Cons.prems Cons in auto)
    obtain c cs where c: "l' = c # cs" "c \<noteq> CHR 0x0D" using Cons.prems Cons by (cases l') (auto simp: plain_def)
    then have "find_sub crlf2 (crlf @ t) = map_option (\<lambda>i. i + 2) (find_sub crlf2 t)"
      by (simp add: t_def Cons crlf2_def crlf_def option.map_comp comp_def)
    moreover have "2 \<le> length (concat (map (\<lambda>l. l @ crlf) ls))" by (simp add: Cons crlf_def)
    ultimately show ?thesis
      using find_sub_skip [OF l(2,1), of "crlf @ t"] IH
      by (simp add: t_def crlf_def)
  qed
qed simp

lemma getlines_lines:
  "\<forall>l \<in> set ls. plain l \<Longrightarrow>
   getlines (CHR 0x0A) (concat (map (\<lambda>l. l @ crlf) ls) @ x) = map (\<lambda>l. l @ [CHR 0x0D]) ls @ getlines (CHR 0x0A) x"
proof (induction ls)
  case (Cons l ls)
  then have "CHR 0x0A \<notin> set (l @ [CHR 0x0D])" by (auto simp: plain_def)
  from getlines_segment [OF this, of "concat (map (\<lambda>l. l @ crlf) ls) @ x"] Cons show ?case
    by (simp add: crlf_def)
qed simp

lemma strip_cr_snoc [simp]: "strip_cr (l @ [CHR 0x0D]) = l"
  by (simp add: strip_cr_def)

lemma parse_headers_lines:
  "\<forall>h \<in> set hs. header_ok h \<Longrightarrow>
   parse_headers (map (\<lambda>h. header_line h @ [CHR 0x0D]) hs @ [CHR 0x0D] # xs) acc
     = fold (\<lambda>(k, v). AList.update k v) hs acc"
proof (induction hs arbitrary: acc)
  case (Cons h hs)
  have "find_char (\<lambda>c. c = CHR '':'') (header_line h) = Some (length (fst h))"
    using Cons.prems find_char_skip [of "fst h" "\<lambda>c. c = CHR '':''" "'': '' @ snd h"]
    by (auto simp: header_line_def header_ok_def)
  with Cons show ?case
    by (simp add: Let_def split_beta) (simp add: header_line_def)
qed (simp add: strip_cr_cr)

lemma next_word_word:
  assumes "word_ok w"
  shows "next_word (w @ CHR '' '' # s) = (w, CHR '' '' # s)" "next_word (CHR '' '' # w @ CHR '' '' # s) = (w, CHR '' '' # s)"
proof -
  have d: "dropWhile is_space (w @ CHR '' '' # s) = w @ CHR '' '' # s"
    using assms by (cases w) (auto simp: word_ok_def)
  have t: "takeWhile (\<lambda>c. \<not> is_space c) (w @ CHR '' '' # s) = w" "dropWhile (\<lambda>c. \<not> is_space c) (w @ CHR '' '' # s) = CHR '' '' # s"
    using assms takeWhile_append2 [of w "\<lambda>c. \<not> is_space c" "CHR '' '' # s"] dropWhile_append2 [of w "\<lambda>c. \<not> is_space c" "CHR '' '' # s"]
    by (simp_all add: word_ok_def)
  show "next_word (w @ CHR '' '' # s) = (w, CHR '' '' # s)" by (simp add: next_word_def d t Let_def)
  show "next_word (CHR '' '' # w @ CHR '' '' # s) = (w, CHR '' '' # s)" by (simp add: next_word_def d t Let_def)
qed

text \<open>A pattern that a line does not contain is looked for behind the end of the line.\<close>

lemma prefix_before_delim: "d \<notin> set p \<Longrightarrow> prefix p (w @ d # s) \<Longrightarrow> prefix p w"
  unfolding prefix_append prefix_Cons by auto

lemma find_sub_line:
  assumes "p \<noteq> []" "d \<notin> set p" "find_sub p u = None"
  shows "find_sub p (u @ d # s) = map_option (\<lambda>i. length u + 1 + i) (find_sub p s)"
  using assms(3)
proof (induction u)
  case Nil
  have "\<not> prefix p (d # s)" using assms(1,2) by (cases p) auto
  then show ?case by (cases "find_sub p s") simp_all
next
  case (Cons c cs)
  then have "\<not> prefix p (c # cs)" "find_sub p cs = None" by (auto split: if_splits)
  moreover from this have "\<not> prefix p (c # cs @ d # s)" using prefix_before_delim [OF assms(2), of "c # cs" s] by auto
  ultimately show ?case using Cons.IH by (cases "find_sub p s") simp_all
qed

lemma stoull_nat_str:
  assumes "n < 2 ^ 64"
  shows "stoull (nat_str n) = Inr n"
proof -
  have "read_int (nat_str n) = Some (int n)" using read_int_to_string [of "[]" "int n"] by (simp add: to_string_def)
  moreover have "\<not> 2 ^ 64 \<le> \<bar>int n\<bar>" "nat (int n mod 2 ^ 64) = n" using assms by simp_all
  ultimately show ?thesis by (simp only: stoull_def option.case if_False)
qed

lemma content_length_line:
  assumes "find_sub ''content-length:'' (map to_lower u) = None" "n < 2 ^ 64" "rest = [] \<or> hd rest = CHR 0x0D"
  shows "content_length (u @ crlf @ ''Content-Length: '' @ nat_str n @ rest) = n"
proof -
  let ?p = "''content-length:''" and ?v = "nat_str n @ rest"
  have low: "map to_lower (u @ crlf @ ''Content-Length: '' @ ?v)
      = map to_lower u @ CHR 0x0D # CHR 0x0A # ?p @ CHR '' '' # map to_lower ?v"
  proof -
    have "map to_lower ''Content-Length: '' = ''content-length: ''" "to_lower (CHR 0x0D) = CHR 0x0D" "to_lower (CHR 0x0A) = CHR 0x0A"
      by code_simp+
    then show ?thesis by (simp add: crlf_def)
  qed
  have "\<not> prefix ?p (CHR 0x0A # ?p @ CHR '' '' # map to_lower ?v)" by simp
  moreover have "find_sub ?p (?p @ CHR '' '' # map to_lower ?v) = Some 0" by (rule find_sub_self)
  ultimately have "find_sub ?p (CHR 0x0A # ?p @ CHR '' '' # map to_lower ?v) = Some 1"
    by (simp only: find_sub.simps if_False option.map One_nat_def)
  with find_sub_line [OF _ _ assms(1), of "CHR 0x0D" "CHR 0x0A # ?p @ CHR '' '' # map to_lower ?v"]
  have found: "find_sub ?p (map to_lower (u @ crlf @ ''Content-Length: '' @ ?v)) = Some (length u + 2)"
    unfolding low by simp
  have "drop (length u + 2 + 15) (u @ crlf @ ''Content-Length: '' @ ?v) = CHR '' '' # ?v"
    by (simp add: crlf_def)
  moreover obtain c cs where c: "nat_str n = c # cs" "is_digit c" using nat_str_Cons by blast
  then have "c \<noteq> CHR '' ''" by (auto simp: is_digit_def char_code_def)
  then have "dropWhile (\<lambda>c. c = CHR '' '') (CHR '' '' # ?v) = ?v" using c by simp
  moreover have "takeWhile (\<lambda>c. c \<noteq> CHR 0x0D) ?v = nat_str n"
    using plain_nat_str [of n] takeWhile_append2 [of "nat_str n" "\<lambda>c. c \<noteq> CHR 0x0D" rest] assms(3)
    by (cases rest) (auto simp: plain_def)
  ultimately show ?thesis
    using stoull_nat_str [OF assms(2)]
    unfolding content_length_def found option.case Let_def by (simp del: append_Cons)
qed

definition parsed_request :: "string \<Rightarrow> string \<Rightarrow> (string \<times> string) list \<Rightarrow> string \<Rightarrow> http_request" where
  "parsed_request m target hs body = new_request\<lparr>rq_method := m, rq_path := fst (split_query target),
     rq_query := snd (split_query target), rq_body := body,
     rq_headers := fold (\<lambda>(k, v). AList.update k v) ((''Content-Length'', nat_str (length body)) # hs) []\<rparr>"

lemma take_len_append: "take (length a + k) (a @ z) = a @ take k z"
  by simp

lemma request_text_shape:
  assumes "request_ok m target hs"
  defines "t \<equiv> concat (map (\<lambda>l. l @ crlf) (map header_line hs))"
  shows "find_sub crlf2 (request_text m target hs body) = Some (length (request_head m target hs (length body)) - 2)"
    and "take (length (request_head m target hs (length body)) - 2) (request_text m target hs body)
      = request_line m target @ crlf @ ''Content-Length: '' @ nat_str (length body) @ take (length t) (crlf @ t)"
proof -
  let ?ls = "request_line m target # map header_line ((''Content-Length'', nat_str (length body)) # hs)"
  have "header_ok (''Content-Length'', nat_str (length body))"
    using plain_nat_str by (simp add: header_ok_def) (simp add: plain_def)
  then have "\<forall>l \<in> set ?ls. plain l"
    using assms(1) by (auto simp: request_ok_def intro: plain_request_line plain_header_line)
  moreover have "\<forall>l \<in> set ?ls. l \<noteq> []" by (simp add: request_line_def header_line_def)
  ultimately have "\<forall>l \<in> set ?ls. plain l \<and> l \<noteq> []" by blast
  from find_crlf2_lines [OF this, of body]
  show "find_sub crlf2 (request_text m target hs body) = Some (length (request_head m target hs (length body)) - 2)"
    by (simp add: request_text_def request_head_def)
  have h: "request_head m target hs (length body) =
      (request_line m target @ crlf @ ''Content-Length: '' @ nat_str (length body)) @ crlf @ t"
    by (simp add: request_head_def header_line_def t_def)
  have n: "length (request_head m target hs (length body)) - 2
      = length (request_line m target @ crlf @ ''Content-Length: '' @ nat_str (length body)) + length t"
    unfolding h by (simp add: crlf_def)
  have "take (length t) (crlf @ t @ crlf @ body) = take (length t) (crlf @ t)"
    using take_append [of "length t" "crlf @ t" "crlf @ body"] by (simp add: crlf_def)
  then show "take (length (request_head m target hs (length body)) - 2) (request_text m target hs body)
      = request_line m target @ crlf @ ''Content-Length: '' @ nat_str (length body) @ take (length t) (crlf @ t)"
    unfolding n request_text_def unfolding h
    using take_len_append [of "request_line m target @ crlf @ ''Content-Length: '' @ nat_str (length body)" "length t" "crlf @ t @ crlf @ body"]
    by (simp only: append_assoc)
qed

lemma parse_request_text:
  assumes "request_ok m target hs" "length (request_text m target hs body) < 2 ^ 64"
  shows "parse_request (request_text m target hs body) (length body) = parsed_request m target hs body"
proof -
  let ?hs = "(''Content-Length'', nat_str (length body)) # hs"
  have ok: "\<forall>h \<in> set ?hs. header_ok h"
    using assms(1) plain_nat_str by (simp add: request_ok_def header_ok_def) (simp add: plain_def)
  have w: "word_ok m" "word_ok target" using assms(1) by (simp_all add: request_ok_def)
  have ls: "\<forall>l \<in> set (request_line m target # map header_line ?hs). plain l"
    using ok w plain_header_line by (auto simp: plain_request_line)
  have "getlines (CHR 0x0A) (crlf @ body) = [CHR 0x0D] # getlines (CHR 0x0A) body"
    using getlines_segment [of "CHR 0x0A" "[CHR 0x0D]" body] by (simp add: crlf_def)
  then have lines: "getlines (CHR 0x0A) (request_text m target hs body)
      = (request_line m target @ [CHR 0x0D]) # map (\<lambda>h. header_line h @ [CHR 0x0D]) ?hs @ [CHR 0x0D] # getlines (CHR 0x0A) body"
    using getlines_lines [OF ls, of "crlf @ body"] by (simp add: request_text_def request_head_def comp_def)
  have words: "next_word (request_line m target) = (m, CHR '' '' # target @ '' HTTP/1.1'')"
    "fst (next_word (CHR '' '' # target @ '' HTTP/1.1'')) = target"
    using next_word_word(1) [OF w(1), of "target @ '' HTTP/1.1''"] next_word_word(2) [OF w(2), of "''HTTP/1.1''"]
    by (simp_all add: request_line_def)
  let ?n = "length (request_head m target hs (length body))"
  have "2 \<le> ?n" by (simp add: request_head_def crlf_def)
  moreover have "drop (?n + 2) (request_text m target hs body) = body"
    by (simp add: request_text_def crlf_def)
  ultimately have "parse_body (request_text m target hs body) (length body) = body"
    using request_text_shape(1) [OF assms(1), of body] assms(2)
    by (simp add: parse_body_def size_add_def request_text_def crlf_def)
  then show ?thesis
    unfolding parse_request_def lines list.case list.sel strip_cr_snoc words prod.case Let_def
    by (simp only: parse_headers_lines [OF ok] parsed_request_def split_beta words(2)) simp
qed

text \<open>A request as a client writes it, on a connection.\<close>

lemma request_handled:
  assumes "request_ok m target hs" "segments cs" "concat cs = request_text m target hs body"
    and "length (request_head m target hs (length body)) + 2 \<le> 65536"
    and "length (concat cs) \<le> cap" "cap < 2 ^ 64"
  shows "\<exists>cont. handle_connection cap routes cs s =
    (case respond routes (parsed_request m target hs body) s of
       (Inl _, s') \<Rightarrow> (Inl Terminated, cont, s')
     | (Inr resp, s') \<Rightarrow> (Inr (), cont @ [build_response resp], s'))"
proof -
  let ?he = "length (request_head m target hs (length body)) - 2"
  let ?t = "concat (map (\<lambda>l. l @ crlf) (map header_line hs))"
  have two: "2 \<le> length (request_head m target hs (length body))" by (simp add: request_head_def crlf_def)
  have he: "find_sub crlf2 (concat cs) = Some ?he" unfolding assms(3) by (rule request_text_shape(1) [OF assms(1)])
  have small: "length (request_text m target hs body) < 2 ^ 64" using assms(3,5,6) by simp
  then have body: "length body < 2 ^ 64" by (simp add: request_text_def)
  have rest: "take (length ?t) (crlf @ ?t) = [] \<or> hd (take (length ?t) (crlf @ ?t)) = CHR 0x0D"
    by (cases "length ?t") (simp_all add: crlf_def)
  have n: "content_length (take ?he (concat cs)) = length body"
    unfolding assms(3) request_text_shape(2) [OF assms(1)]
    by (rule content_length_line [OF _ body rest]) (use assms(1) in \<open>simp add: request_ok_def\<close>)
  have all: "?he + 4 + content_length (take ?he (concat cs)) \<le> length (concat cs)"
    using two unfolding n unfolding assms(3) by (simp add: request_text_def crlf_def)
  have "?he + 4 \<le> 65536" using two assms(4) by linarith
  from segments_served [OF assms(2) he this all assms(5,6)] show ?thesis
    unfolding serve_def Let_def n unfolding assms(3) parse_request_text [OF assms(1) small] by (intro exI)
qed

text \<open>C9. A request in the form that HTTP/1.1 prescribes reaches its handler as it was written, however the
  network cuts it: method, path and query, every header and the whole body.\<close>

theorem request_received:
  assumes "request_ok m target hs" "segments cs" "concat cs = request_text m target hs body"
    and "length (request_head m target hs (length body)) + 2 \<le> 65536"
    and "length (concat cs) \<le> cap" "cap < 2 ^ 64"
  shows "\<exists>cont. handle_connection cap routes cs s =
    (case respond routes (parsed_request m target hs body) s of
       (Inl _, s') \<Rightarrow> (Inl Terminated, cont, s')
     | (Inr resp, s') \<Rightarrow> (Inr (), cont @ [build_response resp], s'))"
  by (rule request_handled [OF assms])

definition demo_request :: string where
  "demo_request = request_text ''GET'' ''/api/v1/health?x=1'' [(''Host'', ''h'')] ''hi''"

theorem request_received_witness:
  "\<exists>cont. handle_connection 1000 [] [take 10 demo_request, drop 10 demo_request] () =
     (Inr (), cont @ [build_response (error_response 404 (- 404) ''Not Found: /api/v1/health'')], ())"
proof -
  let ?cs = "[take 10 demo_request, drop 10 demo_request]"
  have r: "respond [] (parsed_request ''GET'' ''/api/v1/health?x=1'' [(''Host'', ''h'')] ''hi'') ()
      = (Inr (error_response 404 (- 404) ''Not Found: /api/v1/health''), ())"
    by (simp add: respond_def find_route_def parsed_request_def split_query_def)
  have ok: "request_ok ''GET'' ''/api/v1/health?x=1'' [(''Host'', ''h'')]" by code_simp
  have seg: "segments ?cs" by code_simp
  have c: "concat ?cs = request_text ''GET'' ''/api/v1/health?x=1'' [(''Host'', ''h'')] ''hi''"
    by (simp add: demo_request_def del: length_concat)
  have "length (request_head ''GET'' ''/api/v1/health?x=1'' [(''Host'', ''h'')] (length ''hi'')) = 61" by code_simp
  then have n: "length (request_head ''GET'' ''/api/v1/health?x=1'' [(''Host'', ''h'')] (length ''hi'')) + 2 \<le> 65536" by simp
  have "length demo_request = 65" by code_simp
  then have l: "length (concat ?cs) \<le> 1000" by simp
  have k: "(1000::nat) < 2 ^ 64" by simp
  from request_received [OF ok seg c n l k, of "[]" "()"] show ?thesis unfolding r prod.case sum.case .
qed

theorem segments_irrelevant_witness:
  "handle_connection 1000 [] [take 10 demo_request, drop 10 demo_request] () = serve [] demo_request 59 ()"
proof -
  let ?cs = "[take 10 demo_request, drop 10 demo_request]"
  have c: "concat ?cs = demo_request" by simp
  have d: "segments ?cs" "find_sub crlf2 demo_request = Some 59" "length demo_request = 65"
    "content_length (take 59 demo_request) = 2" by code_simp+
  from segments_irrelevant [of ?cs 59 1000 "[]" "()"] d show ?thesis unfolding c by simp
qed

section \<open>Dispatch\<close>

lemma route_parts_SomeD: "route_parts rk = Some (m, p) \<Longrightarrow> rk = m @ '' '' @ p \<and> CHR '' '' \<notin> set m"
proof -
  assume "route_parts rk = Some (m, p)"
  then obtain sp where sp: "find_char (\<lambda>c. c = CHR '' '') rk = Some sp" "m = take sp rk" "p = drop (sp + 1) rk"
    by (auto simp: route_parts_def split: option.splits)
  from find_char_SomeD [OF sp(1)] have s: "sp < length rk" "rk ! sp = CHR '' ''" "\<forall>j < sp. rk ! j \<noteq> CHR '' ''" by auto
  then have "CHR '' '' \<notin> set (take sp rk)" by (auto simp: in_set_conv_nth)
  with s sp(2,3) id_take_nth_drop [OF s(1)] show ?thesis by simp
qed

lemma route_parts_key [simp]: "CHR '' '' \<notin> set m \<Longrightarrow> route_parts (m @ CHR '' '' # p) = Some (m, p)"
proof -
  assume "CHR '' '' \<notin> set m"
  then have "find_char (\<lambda>c. c = CHR '' '') (m @ CHR '' '' # p) = Some (length m)"
    using find_char_skip [of m "\<lambda>c. c = CHR '' ''" "CHR '' '' # p"] by auto
  then show ?thesis by (simp add: route_parts_def)
qed

lemma exact_match_iff:
  "exact_match m p rk \<longleftrightarrow> rk = m @ '' '' @ p \<and> CHR '' '' \<notin> set m \<and> CHR 0x7B \<notin> set p"
proof
  assume e: "exact_match m p rk"
  then obtain rm rp where "route_parts rk = Some (rm, rp)" by (cases "route_parts rk") (auto simp: exact_match_def)
  with e show "rk = m @ '' '' @ p \<and> CHR '' '' \<notin> set m \<and> CHR 0x7B \<notin> set p"
    using route_parts_SomeD [of rk rm rp] by (auto simp: exact_match_def)
qed (simp add: exact_match_def)

text \<open>A search that at most one key satisfies does not depend on the order of the table.\<close>

lemma find_perm_unique:
  assumes "umap_ok xs" "set xs = set ys"
    and "\<And>k k'. k \<in> fst ` set xs \<Longrightarrow> k' \<in> fst ` set xs \<Longrightarrow> P k \<Longrightarrow> P k' \<Longrightarrow> k = k'"
  shows "List.find (\<lambda>(k, v). P k) xs = List.find (\<lambda>(k, v). P k) ys"
proof (cases "List.find (\<lambda>(k, v). P k) xs")
  case None
  then show ?thesis using assms(2) by (simp add: find_None_iff [symmetric]) (metis find_None_iff)
next
  case (Some x)
  obtain y where y: "List.find (\<lambda>(k, v). P k) ys = Some y"
    using find_SomeD [OF Some] assms(2) by (cases "List.find (\<lambda>(k, v). P k) ys") (auto simp: find_None_iff)
  have "fst x = fst y"
    using find_SomeD [OF Some] find_SomeD [OF y] assms(2,3) by (metis (no_types, lifting) case_prod_beta imageI)
  then have "x = y"
    using find_SomeD [OF Some] find_SomeD [OF y] assms(1,2) umap_mem [of xs]
    by (metis option.inject prod.collapse)
  with Some y show ?thesis by simp
qed

text \<open>Which handler runs depends on the registered routes and not on the order in which the hash table holds
  them, as long as no two patterns match the path; a registered path without parameters always
  goes to its own handler, whatever patterns match as well.\<close>

theorem dispatch_exact:
  assumes "umap_ok routes" "umap_ok routes'" "set routes = set routes'"
    and "\<And>k k'. k \<in> fst ` set routes \<Longrightarrow> k' \<in> fst ` set routes \<Longrightarrow>
       pattern_match m p k \<Longrightarrow> pattern_match m p k' \<Longrightarrow> k = k'"
  shows "find_route routes m p = find_route routes' m p
    \<and> (CHR '' '' \<notin> set m \<and> CHR 0x7B \<notin> set p \<longrightarrow>
        (\<forall>h. map_of routes (m @ '' '' @ p) = Some h \<longrightarrow> find_route routes m p = Some h))"
proof
  have e: "List.find (\<lambda>(k, v). exact_match m p k) routes = List.find (\<lambda>(k, v). exact_match m p k) routes'"
    by (rule find_perm_unique [OF assms(1,3)]) (simp add: exact_match_iff)
  have q: "List.find (\<lambda>(k, v). pattern_match m p k) routes = List.find (\<lambda>(k, v). pattern_match m p k) routes'"
    by (rule find_perm_unique [OF assms(1,3,4)])
  show "find_route routes m p = find_route routes' m p" unfolding find_route_def e q by (rule refl)
next
  show "CHR '' '' \<notin> set m \<and> CHR 0x7B \<notin> set p \<longrightarrow>
        (\<forall>h. map_of routes (m @ '' '' @ p) = Some h \<longrightarrow> find_route routes m p = Some h)"
  proof (intro impI allI)
    fix h
    assume plain: "CHR '' '' \<notin> set m \<and> CHR 0x7B \<notin> set p" and h: "map_of routes (m @ '' '' @ p) = Some h"
    have "List.find (\<lambda>(k, v). exact_match m p k) routes = Some (m @ '' '' @ p, h)"
    proof (cases "List.find (\<lambda>(k, v). exact_match m p k) routes")
      case None
      with plain map_of_SomeD [OF h] show ?thesis by (fastforce simp: find_None_iff exact_match_iff)
    next
      case (Some x)
      from find_SomeD [OF Some] h umap_mem [OF assms(1), of "fst x" "snd x"] have "x = (m @ '' '' @ p, h)"
        by (cases x) (simp add: exact_match_iff)
      with Some show ?thesis by simp
    qed
    then show "find_route routes m p = Some h" by (simp add: find_route_def)
  qed
qed

definition demo_routes :: "(string, nat) umap" where
  "demo_routes = api_get ''/api/v1/orgs/{id}'' 2 (api_get ''/api/v1/orgs/tree'' 1 [])"

theorem dispatch_exact_witness:
  "find_route demo_routes ''GET'' ''/api/v1/orgs/tree'' = find_route (rev demo_routes) ''GET'' ''/api/v1/orgs/tree''
   \<and> find_route demo_routes ''GET'' ''/api/v1/orgs/tree'' = Some 1"
proof -
  have r: "demo_routes = [(''GET /api/v1/orgs/tree'', 1), (''GET /api/v1/orgs/{id}'', 2)]"
    by (simp add: demo_routes_def api_get_def add_route_def)
  have no: "\<not> pattern_match ''GET'' ''/api/v1/orgs/tree'' ''GET /api/v1/orgs/tree''"
    by (simp add: pattern_match_def route_parts_def)
  have ok: "umap_ok demo_routes" "umap_ok (rev demo_routes)" "set demo_routes = set (rev demo_routes)"
    by (auto simp: r)
  from dispatch_exact [OF ok, of "''GET''" "''/api/v1/orgs/tree''"] no show ?thesis by (auto simp: r)
qed

text \<open>On the routes that the program registers the order does matter: a pattern with a further segment also
  matches a path without it.  A request to update account \<open>i\<close> is answered by the handler
  that changes passwords whenever the hash table happens to hold that route first.\<close>

theorem account_routes_ambiguous:
  assumes "i \<noteq> []" "CHR ''/'' \<notin> set i"
  shows "find_route (api_put ''/api/v1/accounts/{id}/password'' pw (api_put ''/api/v1/accounts/{id}'' up []))
      ''PUT'' (''/api/v1/accounts/'' @ i) = Some up
    \<and> find_route (api_put ''/api/v1/accounts/{id}'' up (api_put ''/api/v1/accounts/{id}/password'' pw []))
      ''PUT'' (''/api/v1/accounts/'' @ i) = Some pw
    \<and> find_route (api_put ''/api/v1/accounts/{id}'' up (api_put ''/api/v1/accounts/{id}/password'' pw []))
      ''PUT'' (''/api/v1/accounts/'' @ i @ ''/password'') = Some pw"
  using assms
  by (simp add: find_route_def api_put_def add_route_def exact_match_def pattern_match_def route_parts_def split: if_splits)

theorem account_routes_ambiguous_witness:
  "find_route (api_put ''/api/v1/accounts/{id}'' (1::nat) (api_put ''/api/v1/accounts/{id}/password'' 2 []))
      ''PUT'' ''/api/v1/accounts/7'' = Some 2"
  using account_routes_ambiguous [of "''7''" 2 "1 :: nat"] by simp

section \<open>Lengths\<close>

text \<open>C39. A request that announces a body longer than a string may be ends the whole program, whoever sends it and
  whatever its path is: the exception of \<^verbatim>\<open>reserve\<close> leaves the thread of the connection.\<close>

theorem huge_length_terminates:
  assumes "segments cs" "find_sub crlf2 (concat cs) = Some he" "he + 4 \<le> 65536"
    and "cap < he + 4 + content_length (take he (concat cs))"
    and "he + 4 + content_length (take he (concat cs)) < 2 ^ 64" "length (concat cs) \<le> cap"
  shows "fst (handle_connection cap routes cs s) = Inl Terminated"
proof -
  let ?n = "content_length (take he (concat cs))"
  from read_headers_found [OF assms(1), of "''''" he] assms(2,3) obtain raw rest where
    r: "read_headers '''' cs = Some (raw, rest)" "raw @ concat rest = concat cs"
      "find_sub crlf2 raw = Some he" by auto
  have he: "he + 4 \<le> length raw" using find_sub_SomeD [OF r(3)] by simp
  have hd: "take he raw = take he (concat cs)" using he r(2) by (metis add_leD1 append_eq_conv_conj min.absorb1 take_take)
  have wrap: "size_add (he + 4) ?n = he + 4 + ?n" using assms(5) by (simp add: size_add_def)
  have "length raw \<le> length (concat cs)" using r(2) by (metis length_append le_add1)
  then have big: "length raw < he + 4 + ?n \<and> cap < he + 4 + ?n" using assms(4,6) by linarith
  show ?thesis
    unfolding handle_connection_def r(1) Let_def option.case prod.case r(3) option.sel hd wrap
    by (simp only: big if_True simp_thms fst_conv)
qed

definition demo_huge :: string where
  "demo_huge = ''POST / HTTP/1.1'' @ crlf @ ''Content-Length: 9223372036854775807'' @ crlf2"

theorem huge_length_terminates_witness:
  "fst (handle_connection 4611686018427387903 [] [demo_huge] ()) = Inl Terminated"
proof -
  have d: "segments [demo_huge]" "find_sub crlf2 demo_huge = Some 52" "length demo_huge = 56" by code_simp+
  have n: "nat_str 9223372036854775807 = ''9223372036854775807''" by (simp add: nat_str.simps digit_char_def char_of_def bit_Suc_0_iff)
  have "take 52 demo_huge = ''POST / HTTP/1.1'' @ crlf @ ''Content-Length: '' @ nat_str 9223372036854775807 @ []"
    by (simp add: demo_huge_def crlf_def crlf2_def n)
  moreover have "find_sub ''content-length:'' (map to_lower ''POST / HTTP/1.1'') = None" by code_simp
  ultimately have "content_length (take 52 demo_huge) = 9223372036854775807"
    using content_length_line [of "''POST / HTTP/1.1''" 9223372036854775807 "[]"] by simp
  with huge_length_terminates [of "[demo_huge]" 52 4611686018427387903 "[]" "()"] d show ?thesis by simp
qed

definition extra_lines :: "http_response \<Rightarrow> string list \<Rightarrow> bool" where
  "extra_lines r ls \<longleftrightarrow> rs_extra_headers r = concat (map (\<lambda>l. l @ crlf) ls) \<and> (\<forall>l \<in> set ls. plain l \<and> l \<noteq> [])"

lemma extra_lines_text:
  "extra_lines r ls \<Longrightarrow> (if rs_extra_headers r \<noteq> '''' then rs_extra_headers r @ (if last (rs_extra_headers r) \<noteq> CHR 0x0A then crlf else '''') else '''')
    = concat (map (\<lambda>l. l @ crlf) ls)"
  by (cases ls rule: rev_cases) (auto simp: extra_lines_def crlf_def)

lemma plain_reason: "plain (reason c)"
  by (simp add: reason_def plain_def)

lemma plain_to_string: "plain (to_string i)"
  using to_string_chars [of _ i] digit_plain by (fastforce simp: plain_def)

text \<open>C32. Every response can be read back: the blank line that ends its header is the first one in the text,
  what follows it is the body, and one of the header lines gives the length of the body.\<close>

theorem response_framing:
  assumes "plain (rs_content_type r)" "extra_lines r ls"
  shows "\<exists>he. find_sub crlf2 (build_response r) = Some he \<and> drop (he + 4) (build_response r) = rs_body r
    \<and> (''Content-Length: '' @ nat_str (length (rs_body r)) @ [CHR 0x0D]) \<in> set (getlines (CHR 0x0A) (take (he + 2) (build_response r)))"
proof -
  let ?ls = "[''HTTP/1.1 '' @ to_string (rs_status_code r) @ '' '' @ reason (rs_status_code r),
    ''Content-Type: '' @ rs_content_type r, ''Content-Length: '' @ nat_str (length (rs_body r)), ''Connection: close''] @ ls"
  define h where "h = concat (map (\<lambda>l. l @ crlf) ?ls)"
  have out: "build_response r = h @ crlf @ rs_body r"
    unfolding build_response_def extra_lines_text [OF assms(2)] h_def by simp
  have lit: "plain ''HTTP/1.1 ''" "plain '' ''" "plain ''Content-Type: ''" "plain ''Content-Length: ''" "plain ''Connection: close''"
    by (simp_all add: plain_def)
  have "\<forall>l \<in> set ls. plain l \<and> l \<noteq> []" using assms(2) by (simp add: extra_lines_def)
  then have ls: "\<forall>l \<in> set ?ls. plain l \<and> l \<noteq> []"
    using assms(1) lit plain_reason plain_to_string plain_nat_str by (auto simp del: append_Cons)
  then have "\<forall>l \<in> set ?ls. plain l" by blast
  from getlines_lines [OF this, of "[]"]
  have lines: "getlines (CHR 0x0A) h = map (\<lambda>l. l @ [CHR 0x0D]) ?ls" by (simp add: h_def getlines_last)
  have n: "2 \<le> length h" by (simp add: h_def crlf_def)
  have "find_sub crlf2 (build_response r) = Some (length h - 2)"
    unfolding out unfolding h_def by (rule find_crlf2_lines [OF ls]) simp
  moreover have "drop (length h - 2 + 4) (build_response r) = rs_body r"
    using n by (simp add: out crlf_def)
  moreover have "take (length h - 2 + 2) (build_response r) = h" using n by (simp add: out)
  ultimately show ?thesis
    by (intro exI [of _ "length h - 2"]) (simp add: lines)
qed

theorem response_framing_witness:
  "\<exists>he. find_sub crlf2 (build_response (json_response 200 ''{}'')) = Some he
    \<and> drop (he + 4) (build_response (json_response 200 ''{}'')) = ''{}''"
proof -
  have "plain (rs_content_type (json_response 200 ''{}''))" by (simp add: json_response_def plain_def)
  moreover have "extra_lines (json_response 200 ''{}'') []" by (simp add: extra_lines_def json_response_def new_response_def)
  ultimately show ?thesis using response_framing [of "json_response 200 ''{}''" "[]"] by (auto simp: json_response_def)
qed

text \<open>The route table under registration.\<close>

lemma umap_ok_add_route: "umap_ok routes \<Longrightarrow> umap_ok (add_route m p h routes)"
  by (simp add: add_route_def)

lemma map_of_add_route: "map_of (add_route m p h routes) = (map_of routes)(m @ '' '' @ p \<mapsto> h)"
  by (simp add: add_route_def)

end
