(* ===== verification/Org_Manager.thy ===== *)
theory Org_Manager
  imports Sql_Crud Interfaces
begin

text \<open>
  \<^verbatim>\<open>OrgManager\<close> of \<^verbatim>\<open>src/app/organization/org_manager.cpp\<close>: the tree of organisations, kept as a list
  with parent links, levels and path texts.  The requests that are sent to the MQTT broker's
  HTTP interface are an output (host, port and text of each); \<open>env\<close> is the value of the
  environment variable \<^verbatim>\<open>MQTT_BROKER_API\<close>, and \<open>now\<close> the clock in epoch seconds.  What the
  socket does with a request has no effect on the program's state.
\<close>

section \<open>Requests to the broker\<close>

type_synonym broker_call = "string \<times> int \<times> string"

definition strip_http :: "string \<Rightarrow> string" where
  "strip_http url = (if starts_with url ''http://'' then drop 7 url else url)"

text \<open>Host and port.  Without a slash, or with one before the colon, the length that is passed to
  \<^verbatim>\<open>substr\<close> is huge and the port text runs to the end.\<close>

definition broker_host_port :: "string \<Rightarrow> (string \<times> int) exn" where
  "broker_host_port url0 = (let url = strip_http url0; c = find_char (\<lambda>x. x = CHR '':'') url;
       s = find_char (\<lambda>x. x = CHR ''/'') url in
     case c of
       None \<Rightarrow> Inr (case s of None \<Rightarrow> url | Some k \<Rightarrow> take k url, 8080)
     | Some i \<Rightarrow>
        (let rest = drop (i + 1) url;
             port_text = (case s of None \<Rightarrow> rest | Some k \<Rightarrow> if i + 1 \<le> k then take (k - i - 1) rest else rest)
         in exn_bind (stoi port_text) (\<lambda>port. Inr (take i url, port))))"

definition sync_tenant_to_broker :: "string option \<Rightarrow> string \<Rightarrow> unit exn \<times> broker_call list" where
  \<open>sync_tenant_to_broker env tenant_id = (case env of
       None \<Rightarrow> (Inr (), [])
     | Some url \<Rightarrow> if url = [] then (Inr (), []) else (case broker_host_port url of
          Inl e \<Rightarrow> (Inl e, [])
        | Inr (host, port) \<Rightarrow>
           (let body = ''{"tenant_id":"'' @ tenant_id @ ''"}'' in
            (Inr (), [(host, port, ''PUT /api/v1/tenants/'' @ tenant_id @ '' HTTP/1.1'' @ crlf @
               ''Host: '' @ host @ '':'' @ to_string port @ crlf @ ''Content-Type: application/json'' @ crlf @
               ''Content-Length: '' @ to_string (int (length body)) @ crlf @ ''Connection: close'' @ crlf @ crlf @ body)]))))\<close>

definition delete_tenant_from_broker :: "string option \<Rightarrow> string \<Rightarrow> unit exn \<times> broker_call list" where
  "delete_tenant_from_broker env tenant_id = (case env of
       None \<Rightarrow> (Inr (), [])
     | Some url \<Rightarrow> if url = [] then (Inr (), []) else (case broker_host_port url of
          Inl e \<Rightarrow> (Inl e, [])
        | Inr (host, port) \<Rightarrow>
            (Inr (), [(host, port, ''DELETE /api/v1/tenants/'' @ tenant_id @ '' HTTP/1.1'' @ crlf @
               ''Host: '' @ host @ '':'' @ to_string port @ crlf @ ''Connection: close'' @ crlf @ crlf)])))"

section \<open>State and operations\<close>

record org_manager =
  og_orgs :: "org_info list"
  og_next_id :: int

definition new_org_manager :: org_manager where
  "new_org_manager = \<lparr>og_orgs = [], og_next_id = 1\<rparr>"

definition get_org :: "int \<Rightarrow> org_manager \<Rightarrow> org_info option" where
  "get_org org_id s = List.find (\<lambda>o'. org_org_id o' = org_id) (og_orgs s)"

definition get_org_by_tenant :: "string \<Rightarrow> org_manager \<Rightarrow> org_info option" where
  "get_org_by_tenant tenant_id s = List.find (\<lambda>o'. org_tenant_id o' = tenant_id) (og_orgs s)"

definition tenant_exists :: "string \<Rightarrow> org_manager \<Rightarrow> bool" where
  "tenant_exists tenant_id s = list_ex (\<lambda>o'. org_tenant_id o' = tenant_id) (og_orgs s)"

definition has_children :: "int \<Rightarrow> org_manager \<Rightarrow> bool" where
  "has_children org_id s = list_ex (\<lambda>o'. org_parent_id o' = org_id \<and> org_is_active o') (og_orgs s)"

definition org_exists :: "int \<Rightarrow> org_manager \<Rightarrow> bool" where
  "org_exists org_id s \<longleftrightarrow> get_org org_id s \<noteq> None"

definition org_count :: "org_manager \<Rightarrow> int" where
  "org_count s = int (length (og_orgs s))"

text \<open>The validation at the start of \<^verbatim>\<open>create_org\<close>: the status it returns, or \<open>OK\<close>.\<close>

definition create_org_check :: "org_info \<Rightarrow> org_manager \<Rightarrow> status_code" where
  "create_org_check info s =
     (let parent_status = (if org_parent_id info \<noteq> 0 then
          (case get_org (org_parent_id info) s of
             None \<Rightarrow> ORG_NOT_FOUND
           | Some parent \<Rightarrow> if \<not> org_is_active parent then ORG_NOT_FOUND
               else if org_org_type parent = ''company'' \<and> org_org_type info \<noteq> ''department'' then ERROR
               else OK) else OK)
      in if parent_status \<noteq> OK then parent_status
         else if tenant_exists (org_tenant_id info) s then ORG_DUPLICATE_TENANT else OK)"

text \<open>Incrementing a signed integer at its maximum is undefined behaviour: the identifier, the
  level of the parent and its count of children are incremented.\<close>

definition create_org_overflows :: "org_info \<Rightarrow> org_manager \<Rightarrow> bool" where
  "create_org_overflows info s \<longleftrightarrow> og_next_id s = int32_max
     \<or> (org_parent_id info \<noteq> 0 \<and> (case get_org (org_parent_id info) s of None \<Rightarrow> False
          | Some parent \<Rightarrow> org_level parent = int32_max \<or> org_children_count parent = int32_max))"

definition created_org :: "int \<Rightarrow> org_info \<Rightarrow> org_manager \<Rightarrow> org_info" where
  "created_org now info s =
     (let i = og_next_id s;
          place = (case (if org_parent_id info = 0 then None else get_org (org_parent_id info) s) of
              None \<Rightarrow> (0, ''/'' @ to_string i)
            | Some parent \<Rightarrow> (org_level parent + 1, org_path parent @ ''/'' @ to_string i))
      in info\<lparr>org_org_id := i, org_level := fst place, org_path := snd place,
              org_created_at := iso_utc now, org_updated_at := iso_utc now\<rparr>)"

definition create_org ::
  "'pg pq_exec \<Rightarrow> string option \<Rightarrow> int \<Rightarrow> org_info \<Rightarrow> org_manager \<times> 'pg database option \<Rightarrow>
   (status_code exn \<times> org_info) \<times> broker_call list \<times> org_manager \<times> 'pg database option" where
  "create_org pq env now info st = (case st of (s, db) \<Rightarrow>
     if create_org_check info s \<noteq> OK then ((Inr (create_org_check info s), info), [], s, db)
     else if create_org_overflows info s then ((Inl Undefined_behaviour, info), [], s, db)
     else (let info' = created_org now info s;
               orgs1 = og_orgs s @ [info'];
               db' = db_do (db_insert_org pq info') db;
               orgs2 = (if org_parent_id info' \<noteq> 0
                 then modify_first (\<lambda>o'. org_org_id o' = org_parent_id info')
                        (\<lambda>o'. o'\<lparr>org_children_count := org_children_count o' + 1\<rparr>) orgs1
                 else orgs1)
           in case sync_tenant_to_broker env (org_tenant_id info') of (r, calls) \<Rightarrow>
                ((exn_bind r (\<lambda>_. Inr OK), info'), calls, \<lparr>og_orgs = orgs2, og_next_id = og_next_id s + 1\<rparr>, db')))"

definition keep_if_empty :: "string \<Rightarrow> string \<Rightarrow> string" where
  "keep_if_empty new old = (if new \<noteq> '''' then new else old)"

definition updated_org :: "int \<Rightarrow> org_info \<Rightarrow> org_info \<Rightarrow> org_info" where
  "updated_org now info o' =
     o'\<lparr>org_org_name := keep_if_empty (org_org_name info) (org_org_name o'),
        org_contact_name := keep_if_empty (org_contact_name info) (org_contact_name o'),
        org_contact_phone := keep_if_empty (org_contact_phone info) (org_contact_phone o'),
        org_contact_email := keep_if_empty (org_contact_email info) (org_contact_email o'),
        org_address := keep_if_empty (org_address info) (org_address o'),
        org_is_active := org_is_active info, org_updated_at := iso_utc now\<rparr>"

definition update_org ::
  "'pg pq_exec \<Rightarrow> int \<Rightarrow> int \<Rightarrow> org_info \<Rightarrow> org_manager \<times> 'pg database option \<Rightarrow> status_code \<times> org_manager \<times> 'pg database option" where
  "update_org pq now org_id info st = (case st of (s, db) \<Rightarrow>
     (case get_org org_id s of
        None \<Rightarrow> (ORG_NOT_FOUND, s, db)
      | Some o' \<Rightarrow> (OK,
          s\<lparr>og_orgs := modify_first (\<lambda>x. org_org_id x = org_id) (updated_org now info) (og_orgs s)\<rparr>,
          db_do (db_update_org_db pq (updated_org now info o')) db)))"

definition delete_org ::
  "'pg pq_exec \<Rightarrow> string option \<Rightarrow> int \<Rightarrow> org_manager \<times> 'pg database option \<Rightarrow>
   status_code exn \<times> broker_call list \<times> org_manager \<times> 'pg database option" where
  "delete_org pq env org_id st = (case st of (s, db) \<Rightarrow>
     (case get_org org_id s of
        None \<Rightarrow> (Inr ORG_NOT_FOUND, [], s, db)
      | Some o' \<Rightarrow> if has_children org_id s then (Inr ORG_HAS_CHILDREN, [], s, db)
          else (case delete_tenant_from_broker env (org_tenant_id o') of (r, calls) \<Rightarrow>
            (exn_bind r (\<lambda>_. Inr OK), calls,
             s\<lparr>og_orgs := erase_first (\<lambda>x. org_org_id x = org_id) (og_orgs s)\<rparr>,
             db_do (db_delete_org_db pq org_id) db))))"

definition list_orgs :: "int \<Rightarrow> string \<Rightarrow> bool \<Rightarrow> org_manager \<Rightarrow> org_info list" where
  "list_orgs parent_id org_type active_only s =
     filter (\<lambda>o'. \<not> (active_only \<and> \<not> org_is_active o') \<and> \<not> (0 \<le> parent_id \<and> org_parent_id o' \<noteq> parent_id)
                \<and> \<not> (org_type \<noteq> '''' \<and> org_org_type o' \<noteq> org_type)) (og_orgs s)"

text \<open>The recursion has no bound of its own: with a cycle of parent links it does not end.  The
  fuel bounds its depth, and \<open>None\<close> means that it ran out.\<close>

fun build_tree :: "nat \<Rightarrow> org_info list \<Rightarrow> int \<Rightarrow> org_tree_node list option" where
  "build_tree 0 orgs parent_id = None"
| "build_tree (Suc n) orgs parent_id =
     those (map (\<lambda>o'. map_option (Org_Tree_Node o') (build_tree n orgs (org_org_id o')))
       (filter (\<lambda>o'. org_parent_id o' = parent_id \<and> org_is_active o') orgs))"

definition get_org_tree :: "nat \<Rightarrow> org_manager \<Rightarrow> org_tree_node option" where
  "get_org_tree fuel s = map_option (Org_Tree_Node new_org_info) (build_tree fuel (og_orgs s) 0)"

definition get_descendants :: "int \<Rightarrow> org_manager \<Rightarrow> org_info list" where
  "get_descendants org_id s = (case get_org org_id s of
       None \<Rightarrow> []
     | Some self \<Rightarrow> filter (\<lambda>o'. starts_with (org_path o') (org_path self @ ''/'')) (og_orgs s))"

definition get_org_scope :: "int \<Rightarrow> org_manager \<Rightarrow> int list" where
  "get_org_scope org_id s = org_id # map org_org_id (get_descendants org_id s)"

definition og_load_from_database ::
  "'pg pq_exec \<Rightarrow> org_manager \<times> 'pg database option \<Rightarrow> status_code exn \<times> org_manager \<times> 'pg database option" where
  "og_load_from_database pq st = (case st of
       (s, None) \<Rightarrow> (Inr STORAGE_READ_ERROR, s, None)
     | (s, Some db) \<Rightarrow> (case db_list_orgs_db pq db of
          (Inl e, db') \<Rightarrow> (Inl e, s, Some db')
        | (Inr db_orgs, db') \<Rightarrow>
            if db_orgs = [] then (Inr OK, s, Some db')
            else (let max_id = fold (\<lambda>o' m. if m < org_org_id o' then org_org_id o' else m) db_orgs 0 in
              if max_id = int32_max then (Inl Undefined_behaviour, s, Some db')
              else (Inr OK, \<lparr>og_orgs = og_orgs s @ db_orgs, og_next_id = max_id + 1\<rparr>, Some db'))))"

section \<open>Seed data\<close>

definition seed_company :: org_info where
  "seed_company = new_org_info\<lparr>org_parent_id := 0, org_tenant_id := ''company_zhangsan'',
       org_org_name := bytes [0xE5, 0xBC, 0xA0, 0xE4, 0xB8, 0x89, 0xE5, 0x92, 0x96, 0xE5, 0x95, 0xA1, 0xE6, 0x9C, 0x89, 0xE9, 0x99, 0x90, 0xE5, 0x85, 0xAC, 0xE5, 0x8F, 0xB8],
       org_org_type := ''company'',
       org_contact_name := bytes [0xE5, 0xBC, 0xA0, 0xE4, 0xB8, 0x89],
       org_contact_phone := ''13800001111'', org_contact_email := ''zhangsan@example.com'',
       org_address := bytes [0xE4, 0xB8, 0x8A, 0xE6, 0xB5, 0xB7, 0xE5, 0xB8, 0x82, 0xE6, 0xB5, 0xA6, 0xE4, 0xB8, 0x9C, 0xE6, 0x96, 0xB0, 0xE5, 0x8C, 0xBA, 0xE5, 0xBC, 0xA0, 0xE6, 0xB1, 0x9F, 0xE9, 0xAB, 0x98, 0xE7, 0xA7, 0x91, 0xE6, 0x8A, 0x80, 0xE5, 0x9B, 0xAD, 0xE5, 0x8C, 0xBA]\<rparr>"

definition seed_dept1 :: org_info where
  "seed_dept1 = new_org_info\<lparr>org_parent_id := 1, org_tenant_id := ''dept_huadong'',
       org_org_name := bytes [0xE5, 0x8D, 0x8E, 0xE4, 0xB8, 0x9C, 0xE5, 0x8C, 0xBA],
       org_org_type := ''department'',
       org_contact_name := bytes [0xE6, 0x9D, 0x8E, 0xE7, 0xBB, 0x8F, 0xE7, 0x90, 0x86],
       org_contact_phone := ''13900002222'', org_contact_email := ''lijingli@example.com''\<rparr>"

definition seed_sub1 :: org_info where
  "seed_sub1 = new_org_info\<lparr>org_parent_id := 2, org_tenant_id := ''dept_shanghai'',
       org_org_name := bytes [0xE4, 0xB8, 0x8A, 0xE6, 0xB5, 0xB7, 0xE8, 0xBF, 0x90, 0xE8, 0x90, 0xA5, 0xE4, 0xB8, 0xAD, 0xE5, 0xBF, 0x83],
       org_org_type := ''department'',
       org_contact_name := bytes [0xE7, 0x8E, 0x8B, 0xE4, 0xBA, 0x94],
       org_contact_phone := ''13600003333'', org_contact_email := ''wangwu@example.com''\<rparr>"

definition seed_sub2 :: org_info where
  "seed_sub2 = new_org_info\<lparr>org_parent_id := 2, org_tenant_id := ''dept_hangzhou'',
       org_org_name := bytes [0xE6, 0x9D, 0xAD, 0xE5, 0xB7, 0x9E, 0xE8, 0xBF, 0x90, 0xE8, 0x90, 0xA5, 0xE4, 0xB8, 0xAD, 0xE5, 0xBF, 0x83],
       org_org_type := ''department'',
       org_contact_name := bytes [0xE8, 0xB5, 0xB5, 0xE5, 0x85, 0xAD],
       org_contact_phone := ''13500004444'', org_contact_email := ''zhaoliu@example.com''\<rparr>"

definition seed_dept2 :: org_info where
  "seed_dept2 = new_org_info\<lparr>org_parent_id := 1, org_tenant_id := ''dept_huanan'',
       org_org_name := bytes [0xE5, 0x8D, 0x8E, 0xE5, 0x8D, 0x97, 0xE5, 0x8C, 0xBA],
       org_org_type := ''department'',
       org_contact_name := bytes [0xE9, 0x99, 0x88, 0xE6, 0x80, 0xBB, 0xE7, 0x9B, 0x91],
       org_contact_phone := ''13700005555'', org_contact_email := ''chen@example.com''\<rparr>"

definition seed_dept3 :: org_info where
  "seed_dept3 = new_org_info\<lparr>org_parent_id := 1, org_tenant_id := ''dept_rnd'',
       org_org_name := bytes [0xE7, 0xA0, 0x94, 0xE5, 0x8F, 0x91, 0xE9, 0x83, 0xA8],
       org_org_type := ''department'',
       org_contact_name := bytes [0xE5, 0xAD, 0x99, 0xE5, 0xB7, 0xA5],
       org_contact_phone := ''13300006666'', org_contact_email := ''sun@example.com''\<rparr>"

text \<open>Each organisation is created in turn; an exception ends the seeding.\<close>

fun create_orgs :: "'pg pq_exec \<Rightarrow> string option \<Rightarrow> int \<Rightarrow> org_info list \<Rightarrow> org_manager \<times> 'pg database option \<Rightarrow>
   unit exn \<times> org_manager \<times> 'pg database option" where
  "create_orgs pq env now [] st = (Inr (), st)"
| "create_orgs pq env now (info # infos) st = (case create_org pq env now info st of
     ((Inl e, _), _, st') \<Rightarrow> (Inl e, st')
   | ((Inr _, _), _, st') \<Rightarrow> create_orgs pq env now infos st')"

definition og_seed_mock_data :: "'pg pq_exec \<Rightarrow> string option \<Rightarrow> int \<Rightarrow> org_manager \<times> 'pg database option \<Rightarrow>
   unit exn \<times> org_manager \<times> 'pg database option" where
  "og_seed_mock_data pq env now st =
     create_orgs pq env now [seed_company, seed_dept1, seed_sub1, seed_sub2, seed_dept2, seed_dept3] st"

section \<open>Paths\<close>

definition path_text :: "int list \<Rightarrow> string" where
  "path_text c = concat (map (\<lambda>i. CHR ''/'' # to_string i) c)"

definition path_ids :: "string \<Rightarrow> int list" where
  "path_ids p = map (\<lambda>seg. case read_int seg of Some i \<Rightarrow> i | None \<Rightarrow> 0) (tl (getlines CHR ''/'' p))"

lemma no_slash: "CHR ''/'' \<notin> set (to_string i)"
  by (auto simp: is_digit_def char_code_def dest: to_string_chars)

lemma getlines_path: "getlines CHR ''/'' (to_string i @ path_text c) = to_string i # map to_string c"
proof (induction c arbitrary: i)
  case Nil
  show ?case by (simp add: path_text_def getlines_last no_slash)
next
  case (Cons j c)
  then show ?case by (simp add: path_text_def no_slash)
qed

lemma getlines_path_text: "getlines CHR ''/'' (path_text c) = (if c = [] then [] else [] # map to_string c)"
proof (cases c)
  case Nil
  then show ?thesis by (simp add: path_text_def getlines_def)
next
  case (Cons i d)
  then show ?thesis
    using getlines_segment [of "CHR ''/''" "[]" "to_string i @ path_text d"] getlines_path [of i d]
    by (simp add: path_text_def)
qed

lemma path_ids_text [simp]: "path_ids (path_text c) = c"
proof -
  have "read_int (to_string i) = Some i" for i using read_int_to_string [of "[]" i] by simp
  then show ?thesis by (simp add: path_ids_def getlines_path_text o_def)
qed

interpretation org_path: text_codec path_text "\<lambda>p. Some (path_ids p, [])" "\<lambda>_. True" "\<lambda>r. r = []"
  by unfold_locales simp

lemma path_text_snoc: "path_text (c @ [i]) = path_text c @ ''/'' @ to_string i"
  by (simp add: path_text_def)

text \<open>A path with a slash after it is a prefix exactly of the paths further down.\<close>

lemma path_prefix: "prefix (path_text c @ ''/'') (path_text c') \<longleftrightarrow> strict_prefix c c'"
proof (induction c arbitrary: c')
  case Nil
  then show ?case by (cases c') (auto simp: path_text_def)
next
  case (Cons i c)
  show ?case
  proof (cases c')
    case Nil
    then show ?thesis by (simp add: path_text_def)
  next
    case (Cons j d)
    have split: "\<exists>y. path_text c @ ''/'' = CHR ''/'' # y" by (cases c) (auto simp: path_text_def)
    then obtain x where x: "path_text c @ ''/'' = CHR ''/'' # x" by blast
    show ?thesis
    proof (cases d)
      case Nil
      have "\<not> prefix (to_string i @ CHR ''/'' # x) (to_string j)"
        using no_slash [of j] set_mono_prefix by fastforce
      with Nil Cons x show ?thesis by (auto simp: path_text_def strict_prefix_def)
    next
      case (Cons k e)
      then obtain y where y: "path_text d = CHR ''/'' # y" by (simp add: path_text_def)
      have "prefix (path_text (i # c) @ ''/'') (path_text c') \<longleftrightarrow> prefix (to_string i @ CHR ''/'' # x) (to_string j @ CHR ''/'' # y)"
        using \<open>c' = j # d\<close> x y by (simp add: path_text_def)
      also have "\<dots> \<longleftrightarrow> i = j \<and> prefix (path_text c @ ''/'') (path_text d)"
        by (simp add: delimiter_prefix no_slash x y)
      finally show ?thesis using Cons.IH \<open>c' = j # d\<close> \<open>\<And>c'. prefix (path_text c @ ''/'') (path_text c') = strict_prefix c c'\<close>
        by (auto simp: strict_prefix_def)
    qed
  qed
qed

section \<open>The invariant\<close>

text \<open>What places an organisation in the tree; the other fields may change freely.\<close>

record place =
  pl_id :: int
  pl_tenant :: string
  pl_parent :: int
  pl_level :: int
  pl_path :: string

definition org_place :: "org_info \<Rightarrow> place" where
  "org_place o' = \<lparr>pl_id = org_org_id o', pl_tenant = org_tenant_id o', pl_parent = org_parent_id o',
     pl_level = org_level o', pl_path = org_path o'\<rparr>"

definition pl_ids :: "place \<Rightarrow> int list" where
  "pl_ids p = path_ids (pl_path p)"

text \<open>The path lists the ancestors down to the organisation itself, in the order of their
  identifiers; level and parent agree with it.\<close>

definition place_ok :: "int \<Rightarrow> place \<Rightarrow> bool" where
  "place_ok n p \<longleftrightarrow> pl_path p = path_text (pl_ids p) \<and> pl_ids p \<noteq> [] \<and> last (pl_ids p) = pl_id p
     \<and> pl_level p = int (length (pl_ids p)) - 1
     \<and> pl_parent p = (if butlast (pl_ids p) = [] then 0 else last (butlast (pl_ids p)))
     \<and> sorted_wrt (<) (pl_ids p) \<and> list_all (\<lambda>i. 1 \<le> i \<and> i < n) (pl_ids p)"

definition places_ok :: "int \<Rightarrow> place list \<Rightarrow> bool" where
  "places_ok n ps \<longleftrightarrow> distinct (map pl_id ps) \<and> distinct (map pl_tenant ps) \<and> 1 \<le> n
     \<and> list_all (place_ok n) ps
     \<and> list_all (\<lambda>p. list_all (\<lambda>q. pl_id p \<in> set (pl_ids q) \<longrightarrow> prefix (pl_ids p) (pl_ids q)) ps) ps"

definition og_inv :: "org_manager \<Rightarrow> bool" where
  "og_inv s \<longleftrightarrow> places_ok (og_next_id s) (map org_place (og_orgs s))"

lemma org_place_sel [simp]:
  "pl_id (org_place o') = org_org_id o'" "pl_tenant (org_place o') = org_tenant_id o'"
  "pl_parent (org_place o') = org_parent_id o'" "pl_level (org_place o') = org_level o'"
  "pl_path (org_place o') = org_path o'"
  by (simp_all add: org_place_def)

lemma place_ok_mono: "place_ok n p \<Longrightarrow> n \<le> m \<Longrightarrow> place_ok m p"
  by (auto simp: place_ok_def list_all_iff)

lemma places_ok_subseq:
  "places_ok n ps \<Longrightarrow> places_ok n (erase_first P ps)"
  using set_erase_first_subset [of P ps]
  by (auto simp: places_ok_def distinct_map_erase_first list_all_iff)

lemma map_org_place_erase:
  "map org_place (erase_first (\<lambda>x. org_org_id x = i) xs) = erase_first (\<lambda>p. pl_id p = i) (map org_place xs)"
  by (induction xs) auto

lemma place_ok_id: "place_ok n p \<Longrightarrow> pl_id p \<in> set (pl_ids p) \<and> 1 \<le> pl_id p \<and> pl_id p < n"
  using last_in_set [of "pl_ids p"] by (auto simp: place_ok_def list_all_iff)

lemma place_ok_last_new:
  assumes "place_ok n p" shows "n \<notin> set (pl_ids p)"
  using assms by (auto simp: place_ok_def list_all_iff)

text \<open>A new organisation under a parent (or at the top) fits into the tree.\<close>

lemma places_ok_create:
  assumes ok: "places_ok n ps" and new: "pl_id p = n" "pl_tenant p \<notin> pl_tenant ` set ps"
    and place: "pl_parent p = 0 \<and> pl_level p = 0 \<and> pl_path p = ''/'' @ to_string n
      \<or> (\<exists>q \<in> set ps. pl_parent p = pl_id q \<and> pl_level p = pl_level q + 1 \<and> pl_path p = pl_path q @ ''/'' @ to_string n)"
  shows "places_ok (n + 1) (ps @ [p])"
proof -
  from ok have ps: "\<forall>q \<in> set ps. place_ok n q" and n: "1 \<le> n"
    and pre: "\<forall>p \<in> set ps. \<forall>q \<in> set ps. pl_id p \<in> set (pl_ids q) \<longrightarrow> prefix (pl_ids p) (pl_ids q)"
    by (auto simp: places_ok_def list_all_iff)
  have fresh: "n \<notin> pl_id ` set ps" using ps place_ok_id by fastforce
  from place show ?thesis
  proof
    assume top: "pl_parent p = 0 \<and> pl_level p = 0 \<and> pl_path p = ''/'' @ to_string n"
    then have ids: "pl_ids p = [n]"
      using path_ids_text [of "[n]"] by (simp add: pl_ids_def path_text_def)
    then have "place_ok (n + 1) p" using top new n by (simp add: place_ok_def path_text_def)
    moreover have "\<forall>q \<in> set ps. pl_id q \<noteq> n \<and> n \<notin> set (pl_ids q)"
      using fresh ps place_ok_last_new by blast
    ultimately show ?thesis using ok new fresh n ids ps
      by (auto simp: places_ok_def list_all_iff intro: place_ok_mono)
  next
    assume "\<exists>q \<in> set ps. pl_parent p = pl_id q \<and> pl_level p = pl_level q + 1 \<and> pl_path p = pl_path q @ ''/'' @ to_string n"
    then obtain q where q: "q \<in> set ps" "pl_parent p = pl_id q" "pl_level p = pl_level q + 1"
      "pl_path p = pl_path q @ ''/'' @ to_string n" by blast
    with ps have qok: "place_ok n q" by blast
    then have "pl_path p = path_text (pl_ids q @ [n])" using q(4) by (simp add: place_ok_def path_text_snoc)
    then have ids: "pl_ids p = pl_ids q @ [n]" by (simp add: pl_ids_def)
    have "place_ok (n + 1) p"
      using qok q new ids n \<open>pl_path p = path_text (pl_ids q @ [n])\<close>
      by (auto simp: place_ok_def list_all_iff sorted_wrt_append butlast_append)
    moreover have "n \<notin> set (pl_ids r)" if "r \<in> set ps" for r using ps that place_ok_last_new by blast
    moreover have "prefix (pl_ids r) (pl_ids p)" if "r \<in> set ps" "pl_id r \<in> set (pl_ids p)" for r
    proof -
      have "pl_id r \<noteq> n" using fresh that(1) by auto
      then have "pl_id r \<in> set (pl_ids q)" using that(2) ids by simp
      with pre that(1) q(1) show ?thesis by (simp add: ids)
    qed
    ultimately show ?thesis using ok new fresh n ps
      by (auto simp: places_ok_def list_all_iff intro: place_ok_mono)
  qed
qed

lemma get_org_SomeD: "get_org i s = Some o' \<Longrightarrow> o' \<in> set (og_orgs s) \<and> org_org_id o' = i"
  by (auto simp: get_org_def dest: find_SomeD)

lemma org_place_created:
  assumes "create_org_check info s = OK"
  shows "let p = org_place (created_org now info s); ps = map org_place (og_orgs s); n = og_next_id s in
     pl_id p = n \<and> pl_tenant p \<notin> pl_tenant ` set ps
     \<and> (pl_parent p = 0 \<and> pl_level p = 0 \<and> pl_path p = ''/'' @ to_string n
        \<or> (\<exists>q \<in> set ps. pl_parent p = pl_id q \<and> pl_level p = pl_level q + 1 \<and> pl_path p = pl_path q @ ''/'' @ to_string n))"
proof -
  have "\<not> tenant_exists (org_tenant_id info) s"
    using assms by (auto simp: create_org_check_def Let_def split: if_splits)
  then have t: "org_tenant_id info \<notin> org_tenant_id ` set (og_orgs s)"
    by (auto simp: tenant_exists_def list_ex_iff)
  show ?thesis
  proof (cases "org_parent_id info = 0")
    case True
    with t show ?thesis by (auto simp: created_org_def Let_def)
  next
    case False
    with assms obtain parent where parent: "get_org (org_parent_id info) s = Some parent"
      by (auto simp: create_org_check_def Let_def split: option.splits if_splits)
    from get_org_SomeD [OF parent] False t parent show ?thesis
      by (auto simp: created_org_def Let_def intro!: bexI [of _ parent])
  qed
qed

lemma create_org_inv: "og_inv s \<Longrightarrow> og_inv (fst (snd (snd (create_org pq env now info (s, db)))))"
proof (cases "create_org_check info s = OK \<and> \<not> create_org_overflows info s")
  case True
  assume inv: "og_inv s"
  have "map org_place (modify_first P (\<lambda>o'. o'\<lparr>org_children_count := org_children_count o' + 1\<rparr>) xs) = map org_place xs" for P xs
    by (rule map_modify_first) (simp add: org_place_def)
  then have "map org_place (og_orgs (fst (snd (snd (create_org pq env now info (s, db))))))
      = map org_place (og_orgs s) @ [org_place (created_org now info s)]"
    and "og_next_id (fst (snd (snd (create_org pq env now info (s, db))))) = og_next_id s + 1"
    using True by (simp_all add: create_org_def Let_def case_prod_beta)
  with places_ok_create [OF inv [unfolded og_inv_def]] org_place_created [of info s now] True
  show ?thesis by (simp add: og_inv_def Let_def)
qed (auto simp: create_org_def)

lemma update_org_inv: "og_inv s \<Longrightarrow> og_inv (fst (snd (update_org pq now i info (s, db))))"
proof -
  have "map org_place (modify_first P (updated_org now info) xs) = map org_place xs" for P xs
    by (rule map_modify_first) (simp add: org_place_def updated_org_def)
  then show "og_inv s \<Longrightarrow> ?thesis"
    by (auto simp: update_org_def og_inv_def split: option.splits)
qed

lemma delete_org_inv: "og_inv s \<Longrightarrow> og_inv (fst (snd (snd (delete_org pq env i (s, db)))))"
  by (auto simp: delete_org_def og_inv_def map_org_place_erase places_ok_subseq case_prod_beta split: option.splits)

datatype org_op = Create_org int org_info | Update_org int int org_info | Delete_org int

fun og_step :: "'pg pq_exec \<Rightarrow> string option \<Rightarrow> org_op \<Rightarrow> org_manager \<times> 'pg database option \<Rightarrow> org_manager \<times> 'pg database option" where
  "og_step pq env (Create_org now info) st = snd (snd (create_org pq env now info st))"
| "og_step pq env (Update_org now i info) st = snd (update_org pq now i info st)"
| "og_step pq env (Delete_org i) st = snd (snd (delete_org pq env i st))"

interpretation og: started_machine "og_step pq env" "\<lambda>st. og_inv (fst st)" "(new_org_manager, db)"
  for pq :: "'pg pq_exec" and env db
proof
  fix st :: "org_manager \<times> 'pg database option" and op
  obtain s d where st: "st = (s, d)" by fastforce
  assume "og_inv (fst st)"
  then show "og_inv (fst (og_step pq env op st))"
    by (cases op) (simp_all add: st create_org_inv update_org_inv delete_org_inv)
qed (simp add: og_inv_def new_org_manager_def places_ok_def)

section \<open>Building the tree\<close>

lemma those_None: "those xs = None \<longleftrightarrow> None \<in> set xs"
  by (induction xs) (auto split: option.splits)

lemma those_map_mono:
  "those (map f xs) = Some ys \<Longrightarrow> (\<And>x y. x \<in> set xs \<Longrightarrow> f x = Some y \<Longrightarrow> g x = Some y) \<Longrightarrow> those (map g xs) = Some ys"
  by (induction xs arbitrary: ys) (fastforce split: option.splits)+

lemma build_tree_mono: "build_tree n orgs p = Some t \<Longrightarrow> build_tree (Suc n) orgs p = Some t"
proof (induction n arbitrary: p t)
  case (Suc n)
  from Suc.prems have "those (map (\<lambda>o'. map_option (Org_Tree_Node o') (build_tree n orgs (org_org_id o')))
      (filter (\<lambda>o'. org_parent_id o' = p \<and> org_is_active o') orgs)) = Some t" by simp
  then have "those (map (\<lambda>o'. map_option (Org_Tree_Node o') (build_tree (Suc n) orgs (org_org_id o')))
      (filter (\<lambda>o'. org_parent_id o' = p \<and> org_is_active o') orgs)) = Some t"
    by (rule those_map_mono) (use Suc.IH in \<open>auto simp del: build_tree.simps\<close>)
  then show ?case by (simp only: build_tree.simps(2) [of "Suc n"])
qed simp

lemma build_tree_fuel:
  assumes "\<forall>o' \<in> set orgs. org_parent_id o' < org_org_id o'"
  shows "length (filter (\<lambda>o'. p < org_org_id o') orgs) < n \<Longrightarrow> build_tree n orgs p \<noteq> None"
proof (induction n arbitrary: p)
  case (Suc n)
  have "build_tree n orgs (org_org_id o') \<noteq> None" if "o' \<in> set orgs" "org_parent_id o' = p" for o'
  proof (rule Suc.IH)
    have lt: "p < org_org_id o'" using assms that by auto
    have "filter (\<lambda>x. org_org_id o' < org_org_id x) orgs
        = filter (\<lambda>x. org_org_id o' < org_org_id x) (filter (\<lambda>x. p < org_org_id x) orgs)"
      using lt by (auto intro: filter_cong)
    also have "length \<dots> < length (filter (\<lambda>x. p < org_org_id x) orgs)"
      by (rule length_filter_less [of o']) (use that lt in auto)
    finally show "length (filter (\<lambda>x. org_org_id o' < org_org_id x) orgs) < n" using Suc.prems by simp
  qed
  then have "\<forall>o' \<in> set (filter (\<lambda>o'. org_parent_id o' = p \<and> org_is_active o') orgs). build_tree n orgs (org_org_id o') \<noteq> None"
    by simp
  then show ?case by (auto simp: those_None)
qed simp

lemma og_inv_parent_less: "og_inv s \<Longrightarrow> o' \<in> set (og_orgs s) \<Longrightarrow> org_parent_id o' < org_org_id o'"
proof -
  assume "og_inv s" "o' \<in> set (og_orgs s)"
  then have ok: "place_ok (og_next_id s) (org_place o')" by (auto simp: og_inv_def places_ok_def list_all_iff)
  let ?c = "pl_ids (org_place o')"
  show ?thesis
  proof (cases "butlast ?c = []")
    case True
    with ok place_ok_id [OF ok] show ?thesis by (simp add: place_ok_def)
  next
    case False
    have "?c \<noteq> []" using ok by (simp add: place_ok_def)
    then have "?c = butlast ?c @ [last ?c]" by simp
    moreover have "sorted_wrt (<) ?c" using ok by (simp add: place_ok_def)
    ultimately have "sorted_wrt (<) (butlast ?c @ [last ?c])" by simp
    then have "last (butlast ?c) < last ?c" using False by (simp add: sorted_wrt_append)
    with ok False show ?thesis by (simp add: place_ok_def)
  qed
qed

section \<open>The scope of an organisation\<close>

inductive below :: "org_info list \<Rightarrow> int \<Rightarrow> int \<Rightarrow> bool" for orgs i where
  below_child: "o' \<in> set orgs \<Longrightarrow> org_parent_id o' = i \<Longrightarrow> below orgs i (org_org_id o')"
| below_step: "below orgs i j \<Longrightarrow> o' \<in> set orgs \<Longrightarrow> org_parent_id o' = j \<Longrightarrow> below orgs i (org_org_id o')"

definition no_orphans :: "org_manager \<Rightarrow> bool" where
  "no_orphans s \<longleftrightarrow> list_all (\<lambda>o'. org_parent_id o' = 0 \<or> org_parent_id o' \<in> org_org_id ` set (og_orgs s)) (og_orgs s)"

definition org_ids :: "org_info \<Rightarrow> int list" where
  "org_ids o' = pl_ids (org_place o')"

lemma og_inv_org:
  assumes "og_inv s" "o' \<in> set (og_orgs s)"
  shows "org_path o' = path_text (org_ids o')"
    and "\<exists>c. org_ids o' = c @ [org_org_id o'] \<and> sorted_wrt (<) (c @ [org_org_id o'])
      \<and> org_parent_id o' = (if c = [] then 0 else last c) \<and> (\<forall>i \<in> set c. 1 \<le> i)"
proof -
  from assms have ok: "place_ok (og_next_id s) (org_place o')" by (auto simp: og_inv_def places_ok_def list_all_iff)
  then show "org_path o' = path_text (org_ids o')" by (simp add: place_ok_def org_ids_def)
  from ok have ne: "org_ids o' \<noteq> []" and last: "last (org_ids o') = org_org_id o'"
    by (simp_all add: place_ok_def org_ids_def)
  then have "org_ids o' = butlast (org_ids o') @ [org_org_id o']" by (metis append_butlast_last_id)
  with ok show "\<exists>c. org_ids o' = c @ [org_org_id o'] \<and> sorted_wrt (<) (c @ [org_org_id o'])
      \<and> org_parent_id o' = (if c = [] then 0 else last c) \<and> (\<forall>i \<in> set c. 1 \<le> i)"
    by (intro exI [of _ "butlast (org_ids o')"])
       (auto simp: place_ok_def org_ids_def list_all_iff dest: in_set_butlastD)
qed

lemma og_inv_pos: "og_inv s \<Longrightarrow> o' \<in> set (og_orgs s) \<Longrightarrow> 1 \<le> org_org_id o'"
proof -
  assume "og_inv s" "o' \<in> set (og_orgs s)"
  then have "place_ok (og_next_id s) (org_place o')" by (auto simp: og_inv_def places_ok_def list_all_iff)
  from place_ok_id [OF this] show ?thesis by simp
qed

lemma og_inv_prefix:
  "og_inv s \<Longrightarrow> p \<in> set (og_orgs s) \<Longrightarrow> o' \<in> set (og_orgs s) \<Longrightarrow> org_org_id p \<in> set (org_ids o') \<Longrightarrow>
   prefix (org_ids p) (org_ids o')"
  by (auto simp: og_inv_def places_ok_def list_all_iff org_ids_def)

lemma og_inv_id_inject:
  "og_inv s \<Longrightarrow> p \<in> set (og_orgs s) \<Longrightarrow> o' \<in> set (og_orgs s) \<Longrightarrow> org_org_id p = org_org_id o' \<Longrightarrow> p = o'"
proof -
  assume "og_inv s" and mem: "p \<in> set (og_orgs s)" "o' \<in> set (og_orgs s)" "org_org_id p = org_org_id o'"
  then have "distinct (map org_org_id (og_orgs s))" by (simp add: og_inv_def places_ok_def o_def)
  with mem show "p = o'" by (auto simp: distinct_map dest: inj_onD)
qed

text \<open>The identifiers in front of the last one of a strict prefix, and of a path that ends in
  the same identifier.\<close>

lemma prefix_snoc_in:
  assumes "prefix (c @ [i]) (d @ [j])" "i \<noteq> j" shows "prefix (c @ [i]) d"
  using assms by (simp add: prefix_snoc)

lemma prefix_sorted_last:
  assumes "prefix (c @ [i]) d" "d \<noteq> []" "last d = i" "sorted_wrt (<) (d :: int list)"
  shows "c @ [i] = d"
proof -
  from assms(1) obtain zs where d: "d = (c @ [i]) @ zs" by (auto simp: prefix_def)
  show ?thesis
  proof (cases zs rule: rev_cases)
    case (snoc ys y)
    with d assms(3) have "y = i" by simp
    with d snoc assms(4) show ?thesis by (simp add: sorted_wrt_append)
  qed (use d in simp)
qed

lemma below_imp_in_path:
  assumes "og_inv s" "i \<noteq> 0"
  shows "below (og_orgs s) i j \<Longrightarrow> \<forall>o' \<in> set (og_orgs s). org_org_id o' = j \<longrightarrow> i \<in> set (butlast (org_ids o'))"
proof (induction rule: below.induct)
  case (below_child o')
  then show ?case
  proof (intro ballI impI)
    fix x assume x: "x \<in> set (og_orgs s)" "org_org_id x = org_org_id o'"
    then have "x = o'" using og_inv_id_inject [OF assms(1)] below_child by blast
    with og_inv_org(2) [OF assms(1) below_child(1)] below_child assms(2) show "i \<in> set (butlast (org_ids x))"
      by (auto split: if_splits)
  qed
next
  case (below_step j o')
  show ?case
  proof (intro ballI impI)
    fix x assume x: "x \<in> set (og_orgs s)" "org_org_id x = org_org_id o'"
    then have xo: "x = o'" using og_inv_id_inject [OF assms(1)] below_step by blast
    obtain p where p: "p \<in> set (og_orgs s)" "org_org_id p = j" using below_step(1) by (auto elim: below.cases)
    obtain c where c: "org_ids o' = c @ [org_org_id o']" "org_parent_id o' = (if c = [] then 0 else last c)"
      "sorted_wrt (<) (c @ [org_org_id o'])"
      using og_inv_org(2) [OF assms(1) below_step(2)] by blast
    obtain e where e: "org_ids p = e @ [j]" "sorted_wrt (<) (e @ [j])" using og_inv_org(2) [OF assms(1) p(1)] p(2) by blast
    have i: "i \<in> set e" using below_step.IH p e by auto
    have "j \<noteq> 0" using og_inv_pos [OF assms(1) p(1)] p(2) by simp
    with below_step(3) c have jc: "c \<noteq> []" "last c = j" by (auto split: if_splits)
    then have "j \<in> set c" by auto
    with c(3) have ne: "j \<noteq> org_org_id o'" by (auto simp: sorted_wrt_append)
    have "prefix (org_ids p) (org_ids o')"
      by (rule og_inv_prefix [OF assms(1) p(1) below_step(2)]) (use c \<open>j \<in> set c\<close> p in auto)
    with e c ne have "prefix (e @ [j]) c" by (simp add: prefix_snoc_in)
    with i set_mono_prefix have "i \<in> set c" by fastforce
    with xo c show "i \<in> set (butlast (org_ids x))" by simp
  qed
qed

lemma in_path_imp_below:
  assumes "og_inv s" "no_orphans s"
  shows "o' \<in> set (og_orgs s) \<Longrightarrow> i \<in> set (butlast (org_ids o')) \<Longrightarrow> below (og_orgs s) i (org_org_id o')"
proof (induction "length (org_ids o')" arbitrary: o' rule: less_induct)
  case less
  obtain c where c: "org_ids o' = c @ [org_org_id o']" "org_parent_id o' = (if c = [] then 0 else last c)"
    "sorted_wrt (<) (c @ [org_org_id o'])" "\<forall>i \<in> set c. 1 \<le> i"
    using og_inv_org(2) [OF assms(1) less.prems(1)] by blast
  with less.prems(2) have i: "i \<in> set c" "c \<noteq> []" by auto
  show ?case
  proof (cases "i = last c")
    case True
    with c i less.prems(1) show ?thesis by (intro below_child) auto
  next
    case False
    have "1 \<le> last c" using c(4) i(2) by simp
    then have "org_parent_id o' \<noteq> 0" using c(2) i by auto
    then obtain p where p: "p \<in> set (og_orgs s)" "org_org_id p = last c"
      using assms(2) less.prems(1) c(2) i by (auto simp: no_orphans_def list_all_iff)
    obtain e where e: "org_ids p = e @ [last c]" using og_inv_org(2) [OF assms(1) p(1)] p(2) by metis
    have "prefix (org_ids p) (org_ids o')"
      by (rule og_inv_prefix [OF assms(1) p(1) less.prems(1)]) (use c p i in auto)
    moreover have ne: "last c \<noteq> org_org_id o'"
      using c(3) last_in_set [OF i(2)] by (fastforce simp: sorted_wrt_append)
    ultimately have "prefix (e @ [last c]) c" using e c by (simp add: prefix_snoc_in)
    then have ec: "e @ [last c] = c"
      by (rule prefix_sorted_last) (use c i in \<open>auto simp: sorted_wrt_append\<close>)
    with i False have "i \<in> set (butlast (org_ids p))" using e by (metis butlast_snoc in_set_conv_decomp_last last_snoc rotate1.simps(2) set_ConsD set_rotate1)
    then have "below (og_orgs s) i (org_org_id p)" using less.hyps [of p] p e ec c by simp
    then show ?thesis by (rule below_step) (use less.prems(1) p c i in auto)
  qed
qed

lemma scope_below:
  assumes "og_inv s" "no_orphans s" "org_exists i s"
  shows "set (get_org_scope i s) = {i} \<union> {j. below (og_orgs s) i j}"
proof -
  obtain self where self: "get_org i s = Some self" using assms(3) by (auto simp: org_exists_def)
  then have self': "self \<in> set (og_orgs s)" "org_org_id self = i" by (auto dest: get_org_SomeD)
  have i: "i \<noteq> 0" using og_inv_pos [OF assms(1) self'(1)] self'(2) by simp
  obtain e where e: "org_ids self = e @ [i]" using og_inv_org(2) [OF assms(1) self'(1)] self'(2) by blast
  have desc: "starts_with (org_path o') (org_path self @ ''/'') \<longleftrightarrow> i \<in> set (butlast (org_ids o'))"
    if o': "o' \<in> set (og_orgs s)" for o'
  proof -
    obtain c where c: "org_ids o' = c @ [org_org_id o']" "sorted_wrt (<) (c @ [org_org_id o'])"
      using og_inv_org(2) [OF assms(1) o'] by blast
    have "starts_with (org_path o') (org_path self @ ''/'') \<longleftrightarrow> strict_prefix (org_ids self) (org_ids o')"
      using og_inv_org(1) [OF assms(1)] self' o' path_prefix by simp
    also have "\<dots> \<longleftrightarrow> i \<in> set c"
    proof
      assume sp: "strict_prefix (org_ids self) (org_ids o')"
      then have "prefix (e @ [i]) c" using e c by (auto simp: strict_prefix_def prefix_snoc)
      then show "i \<in> set c" using set_mono_prefix by fastforce
    next
      assume ic: "i \<in> set c"
      then have "prefix (org_ids self) (org_ids o')"
        by (intro og_inv_prefix [OF assms(1) self'(1) o']) (use c self' in auto)
      moreover have "i \<noteq> org_org_id o'" using c(2) ic by (auto simp: sorted_wrt_append)
      ultimately show "strict_prefix (org_ids self) (org_ids o')" using e c by (auto simp: strict_prefix_def)
    qed
    finally show ?thesis using c by simp
  qed
  have "set (get_org_scope i s) = {i} \<union> {org_org_id o' | o'. o' \<in> set (og_orgs s) \<and> i \<in> set (butlast (org_ids o'))}"
    using desc self by (auto simp: get_org_scope_def get_descendants_def)
  also have "{org_org_id o' | o'. o' \<in> set (og_orgs s) \<and> i \<in> set (butlast (org_ids o'))} = {j. below (og_orgs s) i j}"
    using in_path_imp_below [OF assms(1,2)] below_imp_in_path [OF assms(1) i] by (blast elim: below.cases)
  finally show ?thesis .
qed

text \<open>C4. Whom a user may see: the scope of an organisation, computed from the path texts, is the
  organisation itself and everything below it along the parent links, neither more nor less,
  in every state the operations can reach without orphaning a child.\<close>

theorem org_scope_exact:
  assumes "og_inv s" "no_orphans s" "org_exists i s"
  shows "set (get_org_scope i s) = {i} \<union> {j. below (og_orgs s) i j}"
  using assms by (rule scope_below)

definition demo_ops :: "org_op list" where
  "demo_ops = [Create_org 0 (new_org_info\<lparr>org_tenant_id := ''a''\<rparr>),
     Create_org 0 (new_org_info\<lparr>org_tenant_id := ''b'', org_parent_id := 1\<rparr>)]"

definition demo_orgs :: org_manager where
  "demo_orgs = fst (fold (og_step (\<lambda>_ c. (Pg_error, c :: unit)) None) demo_ops (new_org_manager, None))"

lemma demo_orgs_inv: "og_inv demo_orgs"
  unfolding demo_orgs_def by (rule og.run_from_start)

lemmas org_eval = new_org_manager_def create_org_def create_org_check_def create_org_overflows_def created_org_def
  get_org_def tenant_exists_def sync_tenant_to_broker_def int32_max_def Let_def

lemma demo_orgs_eval: "map (\<lambda>o'. (org_org_id o', org_parent_id o', org_is_active o')) (og_orgs demo_orgs) = [(1, 0, True), (2, 1, True)]"
  by (simp add: demo_orgs_def demo_ops_def org_eval new_org_info_def)

lemma demo_orgs_ok: "no_orphans demo_orgs" "org_exists 1 demo_orgs"
  by (simp_all add: demo_orgs_def demo_ops_def org_eval new_org_info_def no_orphans_def org_exists_def)

lemma org_scope_exact_witness:
  "set (get_org_scope 1 demo_orgs) = {1} \<union> {j. below (og_orgs demo_orgs) 1 j}"
  by (rule org_scope_exact [OF demo_orgs_inv demo_orgs_ok])

section \<open>Further properties\<close>

text \<open>C19. After any sequence of creations, updates and deletions, whatever the database and the
  broker answer, organisation and tenant identifiers are unique, and level, parent and path of
  every organisation agree with each other and with those of its ancestors.\<close>

theorem org_run_invariant:
  "og_inv (fst (fold (og_step pq env) ops (new_org_manager, db)))"
  by (rule og.run_from_start)



text \<open>Creating an organisation: the validation decides, and when it refuses, nothing happens.
  Otherwise, without a broker configured, the new organisation is found under the next
  identifier, below its parent, and the organisations that were there keep their places.\<close>

theorem create_org_outcome:
  "if create_org_check info s \<noteq> OK
   then create_org pq None now info (s, db) = ((Inr (create_org_check info s), info), [], s, db)
   else create_org_overflows info s \<or>
     (fst (fst (create_org pq None now info (s, db))) = Inr OK
      \<and> map org_place (og_orgs (fst (snd (snd (create_org pq None now info (s, db))))))
        = map org_place (og_orgs s) @ [org_place (snd (fst (create_org pq None now info (s, db))))]
      \<and> org_org_id (snd (fst (create_org pq None now info (s, db)))) = og_next_id s
      \<and> (org_parent_id info = 0 \<or> (case get_org (org_parent_id info) s of
            None \<Rightarrow> False
          | Some p \<Rightarrow> org_path (snd (fst (create_org pq None now info (s, db)))) = org_path p @ ''/'' @ to_string (og_next_id s)
                \<and> org_is_active p)))"
proof -
  have "map org_place (modify_first P (\<lambda>o'. o'\<lparr>org_children_count := org_children_count o' + 1\<rparr>) xs) = map org_place xs" for P xs
    by (rule map_modify_first) (simp add: org_place_def)
  then show ?thesis
    by (auto simp: create_org_def sync_tenant_to_broker_def created_org_def create_org_check_def Let_def
        split: option.splits if_splits)
qed

text \<open>Deleting an organisation looks at its active children only: when all its children are
  inactive it is deleted, and they are left with a parent that no longer exists.\<close>

theorem delete_org_orphans:
  assumes "og_inv s" "get_org i s = Some o'" "\<not> has_children i s"
    and "child \<in> set (og_orgs s)" "org_parent_id child = i"
  shows "\<not> no_orphans (fst (snd (snd (delete_org pq env i (s, db)))))"
proof -
  let ?t = "erase_first (\<lambda>x. org_org_id x = i) (og_orgs s)"
  have i: "o' \<in> set (og_orgs s)" "org_org_id o' = i" using get_org_SomeD [OF assms(2)] by auto
  have "i \<noteq> 0" using og_inv_pos [OF assms(1) i(1)] i(2) by simp
  have dis: "distinct (map org_org_id (og_orgs s))" using assms(1) by (simp add: og_inv_def places_ok_def o_def)
  have keep: "x \<in> set (erase_first (\<lambda>x. org_org_id x = i) xs)" if "x \<in> set xs" "org_org_id x \<noteq> i" for x xs
    using that by (induction xs) auto
  have "org_org_id child \<noteq> i" using og_inv_parent_less [OF assms(1,4)] assms(5) by simp
  then have "child \<in> set ?t" using assms(4) by (rule keep [rotated])
  moreover have "i \<notin> org_org_id ` set ?t"
    using by_key_erase_first [OF dis, of i i] by (simp add: by_key_None_iff)
  ultimately show ?thesis
    using assms(2,3,5) \<open>i \<noteq> 0\<close> by (auto simp: delete_org_def no_orphans_def list_all_iff case_prod_beta)
qed

definition orphan_ops :: "org_op list" where
  "orphan_ops = demo_ops @ [Update_org 0 2 (new_org_info\<lparr>org_is_active := False\<rparr>)]"

lemma delete_org_orphans_witness:
  "\<not> no_orphans (fst (snd (snd (delete_org (\<lambda>_ c. (Pg_error, c :: unit)) None 1
     (fst (fold (og_step (\<lambda>_ c. (Pg_error, c :: unit)) None) orphan_ops (new_org_manager, None)), None)))))"
proof -
  let ?s = "fst (fold (og_step (\<lambda>_ c. (Pg_error, c :: unit)) None) orphan_ops (new_org_manager, None))"
  have inv: "og_inv ?s" by (rule og.run_from_start)
  note eval = orphan_ops_def demo_ops_def org_eval new_org_info_def update_org_def updated_org_def
  obtain p c where s: "og_orgs ?s = [p, c]" "org_org_id p = 1" "org_parent_id p = 0" "org_org_id c = 2"
      "org_parent_id c = 1" "\<not> org_is_active c"
    by (simp add: eval)
  have "get_org 1 ?s = Some p" "\<not> has_children 1 ?s" "c \<in> set (og_orgs ?s)"
    using s by (simp_all add: get_org_def has_children_def)
  from delete_org_orphans [OF inv this s(5)] show ?thesis .
qed

end
