(* ===== verification/Account_Manager.thy ===== *)
theory Account_Manager
  imports Org_Manager
begin

text \<open>
  \<^verbatim>\<open>src/app/organization/account_manager.cpp\<close>: accounts, roles, login, tokens and their
  blacklist.  The hash \<^verbatim>\<open>std::hash<std::string>\<close> is a parameter of the model, and so is the
  clock, which stands still during one call.  The organisations an account refers to are the
  state of the organisation manager, which the operations only read.
\<close>

section \<open>Roles\<close>

definition ROLE_PERMISSIONS :: "(string, string list) umap" where
  "ROLE_PERMISSIONS = [
     (''super_admin'', [''org:read'', ''org:write'', ''account:read'', ''account:write'',
        ''device:read'', ''device:write'', ''order:read'', ''recipe:read'', ''recipe:write'',
        ''ota:read'', ''ota:write'', ''fault:read'', ''fault:write'', ''config:read'', ''config:write'']),
     (''org_admin'', [''org:read'', ''org:write'', ''account:read'', ''account:write'',
        ''device:read'', ''device:write'', ''order:read'', ''recipe:read'', ''recipe:write'',
        ''ota:read'', ''ota:write'', ''fault:read'', ''fault:write'', ''config:read'']),
     (''dept_admin'', [''org:read'', ''account:read'', ''device:read'', ''device:write'',
        ''order:read'', ''recipe:read'', ''ota:read'', ''fault:read'', ''fault:write'']),
     (''operator'', [''device:read'', ''order:read'', ''recipe:read'', ''recipe:write'',
        ''ota:read'', ''fault:read'', ''fault:write'']),
     (''viewer'', [''device:read'', ''order:read'', ''recipe:read'', ''ota:read'', ''fault:read''])]"

definition VALID_ROLES :: "string list" where
  "VALID_ROLES = [''super_admin'', ''org_admin'', ''dept_admin'', ''operator'', ''viewer'']"

definition permissions_for_role :: "string \<Rightarrow> string list" where
  "permissions_for_role role_code = (case map_of ROLE_PERMISSIONS role_code of Some ps \<Rightarrow> ps | None \<Rightarrow> [])"

section \<open>Password hash and token\<close>

definition hash_password :: "(string \<Rightarrow> nat) \<Rightarrow> string \<Rightarrow> string" where
  "hash_password hash password = ''mock_hash:'' @ hex_str (hash password)"

definition generate_token :: "int \<Rightarrow> account_info \<Rightarrow> string" where
  "generate_token now account =
     ''mock_jwt:'' @ to_string (acc_account_id account) @ '':'' @ to_string (now + 86400)"

section \<open>State and operations\<close>

record account_manager =
  am_accounts :: "account_info list"
  am_next_id :: int
  am_invalidated_tokens :: "string list"

definition new_account_manager :: account_manager where
  "new_account_manager = \<lparr>am_accounts = [], am_next_id = 1, am_invalidated_tokens = []\<rparr>"

text \<open>\<^verbatim>\<open>get_account\<close> hides the password hash, \<^verbatim>\<open>get_account_by_username\<close> does not.\<close>

definition hide_hash :: "account_info \<Rightarrow> account_info" where
  "hide_hash a = a\<lparr>acc_password_hash := ''''\<rparr>"

definition get_account :: "int \<Rightarrow> account_manager \<Rightarrow> account_info option" where
  "get_account account_id s = map_option hide_hash (List.find (\<lambda>a. acc_account_id a = account_id) (am_accounts s))"

definition get_account_by_username :: "string \<Rightarrow> account_manager \<Rightarrow> account_info option" where
  "get_account_by_username username s = List.find (\<lambda>a. acc_username a = username) (am_accounts s)"

definition list_accounts :: "int \<Rightarrow> string \<Rightarrow> bool \<Rightarrow> account_manager \<Rightarrow> account_info list" where
  "list_accounts org_id role_code active_only s =
     map hide_hash (filter (\<lambda>a. \<not> (active_only \<and> \<not> acc_is_active a) \<and> \<not> (0 \<le> org_id \<and> acc_org_id a \<noteq> org_id)
        \<and> \<not> (role_code \<noteq> '''' \<and> acc_role_code a \<noteq> role_code)) (am_accounts s))"

definition account_count :: "account_manager \<Rightarrow> int" where
  "account_count s = int (length (am_accounts s))"

definition created_account :: "(string \<Rightarrow> nat) \<Rightarrow> int \<Rightarrow> org_manager \<Rightarrow> account_info \<Rightarrow> string \<Rightarrow> account_manager \<Rightarrow> account_info" where
  "created_account hash now orgs info password s =
     (let info' = info\<lparr>acc_account_id := am_next_id s, acc_password_hash := hash_password hash password,
            acc_created_at := iso_utc now, acc_updated_at := iso_utc now, acc_is_active := True\<rparr>
      in case get_org (acc_org_id info') orgs of
           Some org \<Rightarrow> info'\<lparr>acc_org_name := org_org_name org\<rparr> | None \<Rightarrow> info')"

text \<open>The account that is passed is changed in place: the result carries it too.\<close>

definition create_account ::
  "'pg pq_exec \<Rightarrow> (string \<Rightarrow> nat) \<Rightarrow> int \<Rightarrow> org_manager \<Rightarrow> account_info \<Rightarrow> string \<Rightarrow>
   account_manager \<times> 'pg database option \<Rightarrow>
   (status_code exn \<times> account_info) \<times> account_manager \<times> 'pg database option" where
  "create_account pq hash now orgs info password st = (case st of (s, db) \<Rightarrow>
     if get_account_by_username (acc_username info) s \<noteq> None then ((Inr ACCOUNT_DUPLICATE, info), s, db)
     else if \<not> org_exists (acc_org_id info) orgs then ((Inr ORG_NOT_FOUND, info), s, db)
     else if acc_role_code info \<notin> set VALID_ROLES then ((Inr ERROR, info), s, db)
     else if am_next_id s = int32_max then ((Inl Undefined_behaviour, info), s, db)
     else (let info' = created_account hash now orgs info password s in
       ((Inr OK, info'), s\<lparr>am_accounts := am_accounts s @ [info'], am_next_id := am_next_id s + 1\<rparr>,
        db_do (db_insert_account pq info') db)))"

definition updated_account :: "int \<Rightarrow> account_info \<Rightarrow> account_info \<Rightarrow> account_info" where
  "updated_account now info a =
     a\<lparr>acc_display_name := keep_if_empty (acc_display_name info) (acc_display_name a),
       acc_email := keep_if_empty (acc_email info) (acc_email a),
       acc_phone := keep_if_empty (acc_phone info) (acc_phone a),
       acc_role_code := keep_if_empty (acc_role_code info) (acc_role_code a),
       acc_is_active := acc_is_active info, acc_updated_at := iso_utc now\<rparr>"

definition update_account ::
  "'pg pq_exec \<Rightarrow> int \<Rightarrow> int \<Rightarrow> account_info \<Rightarrow> account_manager \<times> 'pg database option \<Rightarrow>
   status_code \<times> account_manager \<times> 'pg database option" where
  "update_account pq now account_id info st = (case st of (s, db) \<Rightarrow>
     (case List.find (\<lambda>a. acc_account_id a = account_id) (am_accounts s) of
        None \<Rightarrow> (ACCOUNT_NOT_FOUND, s, db)
      | Some a \<Rightarrow> (OK,
          s\<lparr>am_accounts := modify_first (\<lambda>a. acc_account_id a = account_id) (updated_account now info) (am_accounts s)\<rparr>,
          db_do (db_update_account_db pq (updated_account now info a)) db)))"

text \<open>The new hash is not written to the database.\<close>

definition change_password ::
  "(string \<Rightarrow> nat) \<Rightarrow> int \<Rightarrow> string \<Rightarrow> string \<Rightarrow> account_manager \<Rightarrow> status_code \<times> account_manager" where
  "change_password hash account_id old_password new_password s =
     (case List.find (\<lambda>a. acc_account_id a = account_id) (am_accounts s) of
        None \<Rightarrow> (ACCOUNT_NOT_FOUND, s)
      | Some a \<Rightarrow> if acc_password_hash a \<noteq> hash_password hash old_password then (ACCOUNT_BAD_PASSWORD, s)
          else (OK, s\<lparr>am_accounts := modify_first (\<lambda>a. acc_account_id a = account_id)
                    (\<lambda>a. a\<lparr>acc_password_hash := hash_password hash new_password\<rparr>) (am_accounts s)\<rparr>))"

definition delete_account ::
  "'pg pq_exec \<Rightarrow> int \<Rightarrow> account_manager \<times> 'pg database option \<Rightarrow> status_code \<times> account_manager \<times> 'pg database option" where
  "delete_account pq account_id st = (case st of (s, db) \<Rightarrow>
     (case List.find (\<lambda>a. acc_account_id a = account_id) (am_accounts s) of
        None \<Rightarrow> (ACCOUNT_NOT_FOUND, s, db)
      | Some a \<Rightarrow> (OK,
          s\<lparr>am_accounts := modify_first (\<lambda>a. acc_account_id a = account_id) (\<lambda>a. a\<lparr>acc_is_active := False\<rparr>) (am_accounts s)\<rparr>,
          db_do (db_update_account_db pq (a\<lparr>acc_is_active := False\<rparr>)) db)))"

definition login_error :: "status_code \<Rightarrow> string \<Rightarrow> login_response" where
  "login_error code msg = new_login_response\<lparr>lr_error_code := status_int code, lr_error_message := msg\<rparr>"

definition login :: "(string \<Rightarrow> nat) \<Rightarrow> int \<Rightarrow> string \<Rightarrow> string \<Rightarrow> account_manager \<Rightarrow> login_response \<times> account_manager" where
  "login hash now username password s = (case get_account_by_username username s of
       None \<Rightarrow> (login_error ACCOUNT_NOT_FOUND ''Account not found'', s)
     | Some acct \<Rightarrow>
         if \<not> acc_is_active acct then (login_error ACCOUNT_LOCKED ''Account is disabled'', s)
         else if acc_password_hash acct \<noteq> hash_password hash password
           then (login_error ACCOUNT_BAD_PASSWORD ''Invalid password'', s)
         else (new_login_response\<lparr>lr_success := True, lr_token := generate_token now acct,
                 lr_expires_at := to_string (now + 86400), lr_account := hide_hash acct,
                 lr_permissions := permissions_for_role (acc_role_code acct)\<rparr>,
               s\<lparr>am_accounts := modify_first (\<lambda>a. acc_account_id a = acc_account_id acct)
                   (\<lambda>a. a\<lparr>acc_last_login_at := iso_utc now\<rparr>) (am_accounts s)\<rparr>))"

definition logout :: "string \<Rightarrow> account_manager \<Rightarrow> status_code \<times> account_manager" where
  "logout token s = (OK, s\<lparr>am_invalidated_tokens := am_invalidated_tokens s @ [token]\<rparr>)"

text \<open>What a token of this account and expiry time is worth: nothing when it has expired or when the
  account is gone or disabled.\<close>

definition token_worth :: "int \<Rightarrow> org_manager \<Rightarrow> int \<Rightarrow> int \<Rightarrow> account_manager \<Rightarrow> token_payload option" where
  "token_worth now orgs account_id exp_at s =
     (if exp_at < now then None
      else case get_account account_id s of
        None \<Rightarrow> None
      | Some acct \<Rightarrow> if \<not> acc_is_active acct then None
          else Some \<lparr>tp_account_id = acc_account_id acct, tp_username = acc_username acct,
                 tp_org_id = acc_org_id acct, tp_org_scope = get_org_scope (acc_org_id acct) orgs,
                 tp_role_code = acc_role_code acct,
                 tp_permissions = permissions_for_role (acc_role_code acct),
                 tp_iat = now, tp_exp = exp_at\<rparr>)"

definition verify_token :: "int \<Rightarrow> org_manager \<Rightarrow> string \<Rightarrow> account_manager \<Rightarrow> token_payload option exn" where
  "verify_token now orgs token s =
     (if token \<in> set (am_invalidated_tokens s) then Inr None
      else if \<not> starts_with token ''mock_jwt:'' then Inr None
      else let payload = drop 9 token in case find_char (\<lambda>c. c = CHR '':'') payload of
        None \<Rightarrow> Inr None
      | Some colon \<Rightarrow>
          exn_bind (stoi (take colon payload)) (\<lambda>account_id.
          exn_bind (stoll (drop (colon + 1) payload)) (\<lambda>exp_at.
          Inr (token_worth now orgs account_id exp_at s))))"

definition am_load_from_database ::
  "'pg pq_exec \<Rightarrow> account_manager \<times> 'pg database option \<Rightarrow> status_code exn \<times> account_manager \<times> 'pg database option" where
  "am_load_from_database pq st = (case st of
       (s, None) \<Rightarrow> (Inr STORAGE_READ_ERROR, s, None)
     | (s, Some db) \<Rightarrow> (case db_list_accounts_db pq db of
          (Inl e, db') \<Rightarrow> (Inl e, s, Some db')
        | (Inr db_accounts, db') \<Rightarrow>
            if db_accounts = [] then (Inr OK, s, Some db')
            else (let max_id = fold (\<lambda>a m. if m < acc_account_id a then acc_account_id a else m) db_accounts 0 in
              if max_id = int32_max then (Inl Undefined_behaviour, s, Some db')
              else (Inr OK, s\<lparr>am_accounts := am_accounts s @ db_accounts, am_next_id := max_id + 1\<rparr>, Some db'))))"

section \<open>Seed data\<close>

definition seed_account_1 :: account_info where
  "seed_account_1 = new_account_info\<lparr>acc_username := ''admin'',
       acc_display_name := bytes [0xE5, 0xBC, 0xA0, 0xE4, 0xB8, 0x89, 0xEF, 0xBC, 0x88, 0xE8, 0xB6, 0x85, 0xE7, 0xBA, 0xA7, 0xE7, 0xAE, 0xA1, 0xE7, 0x90, 0x86, 0xE5, 0x91, 0x98, 0xEF, 0xBC, 0x89],
       acc_org_id := 1, acc_role_code := ''super_admin'', acc_email := ''admin@example.com'', acc_phone := ''13800000000''\<rparr>"

definition seed_account_2 :: account_info where
  "seed_account_2 = new_account_info\<lparr>acc_username := ''lijingli'',
       acc_display_name := bytes [0xE6, 0x9D, 0x8E, 0xE7, 0xBB, 0x8F, 0xE7, 0x90, 0x86],
       acc_org_id := 2, acc_role_code := ''org_admin'', acc_email := ''lijingli@example.com'', acc_phone := ''13900002222''\<rparr>"

definition seed_account_3 :: account_info where
  "seed_account_3 = new_account_info\<lparr>acc_username := ''wangwu'',
       acc_display_name := bytes [0xE7, 0x8E, 0x8B, 0xE4, 0xBA, 0x94],
       acc_org_id := 3, acc_role_code := ''dept_admin'', acc_email := ''wangwu@example.com'', acc_phone := ''13600003333''\<rparr>"

definition seed_account_4 :: account_info where
  "seed_account_4 = new_account_info\<lparr>acc_username := ''operator1'',
       acc_display_name := bytes [0xE8, 0xBF, 0x90, 0xE8, 0x90, 0xA5, 0xE5, 0x91, 0x98, 0xE5, 0xB0, 0x8F, 0xE8, 0xB5, 0xB5],
       acc_org_id := 5, acc_role_code := ''operator'', acc_email := ''zhao@example.com''\<rparr>"

definition seed_account_5 :: account_info where
  "seed_account_5 = new_account_info\<lparr>acc_username := ''viewer1'',
       acc_display_name := bytes [0xE5, 0x8F, 0xAA, 0xE8, 0xAF, 0xBB, 0xE7, 0x94, 0xA8, 0xE6, 0x88, 0xB7, 0xE5, 0xB0, 0x8F, 0xE5, 0x88, 0x98],
       acc_org_id := 6, acc_role_code := ''viewer'', acc_email := ''liu@example.com''\<rparr>"

fun create_accounts :: "'pg pq_exec \<Rightarrow> (string \<Rightarrow> nat) \<Rightarrow> int \<Rightarrow> org_manager \<Rightarrow> (account_info \<times> string) list \<Rightarrow>
   account_manager \<times> 'pg database option \<Rightarrow> unit exn \<times> account_manager \<times> 'pg database option" where
  "create_accounts pq hash now orgs [] st = (Inr (), st)"
| "create_accounts pq hash now orgs ((info, password) # infos) st =
     (case create_account pq hash now orgs info password st of
        ((Inl e, _), st') \<Rightarrow> (Inl e, st')
      | ((Inr _, _), st') \<Rightarrow> create_accounts pq hash now orgs infos st')"

definition am_seed_mock_data :: "'pg pq_exec \<Rightarrow> (string \<Rightarrow> nat) \<Rightarrow> int \<Rightarrow> org_manager \<Rightarrow>
   account_manager \<times> 'pg database option \<Rightarrow> unit exn \<times> account_manager \<times> 'pg database option" where
  "am_seed_mock_data pq hash now orgs st = create_accounts pq hash now orgs
     [(seed_account_1, ''Admin@123''), (seed_account_2, ''Org@12345''), (seed_account_3, ''Dept@12345''),
      (seed_account_4, ''Oper@12345''), (seed_account_5, ''View@12345'')] st"

section \<open>Lemmas on the text forms\<close>

lemma hash_password_eq [simp]: "hash_password hash p = hash_password hash q \<longleftrightarrow> hash p = hash q"
  by (simp add: hash_password_def)

lemma no_colon: "CHR '':'' \<notin> set (to_string i)"
  by (auto simp: is_digit_def char_code_def dest: to_string_chars)

lemma find_colon: "find_char (\<lambda>c. c = CHR '':'') (to_string i @ CHR '':'' # rest) = Some (length (to_string i))"
  using no_colon [of i] by (subst find_char_skip) auto


section \<open>Tokens\<close>

text \<open>A token is the text of an account and a time; what follows the digits is ignored.\<close>

definition token_text :: "int \<Rightarrow> int \<Rightarrow> string" where
  "token_text account_id exp_at = ''mock_jwt:'' @ to_string account_id @ '':'' @ to_string exp_at"

lemma generate_token_text: "generate_token now a = token_text (acc_account_id a) (now + 86400)"
  by (simp add: generate_token_def token_text_def)

lemma verify_token_text:
  assumes "int32_min \<le> i" "i \<le> int32_max" "int64_min \<le> e" "e \<le> int64_max" "ends_number rest"
  shows "verify_token now orgs (token_text i e @ rest) s =
     Inr (if token_text i e @ rest \<in> set (am_invalidated_tokens s) then None else token_worth now orgs i e s)"
proof -
  let ?p = "to_string i @ CHR '':'' # to_string e @ rest"
  have t: "token_text i e @ rest = ''mock_jwt:'' @ ?p" by (simp add: token_text_def)
  have "starts_with (token_text i e @ rest) ''mock_jwt:''" "drop 9 (token_text i e @ rest) = ?p"
    by (simp_all add: t)
  moreover have "take (length (to_string i)) ?p = to_string i"
    and "drop (length (to_string i) + 1) ?p = to_string e @ rest" by simp_all
  ultimately show ?thesis
    using assms by (simp add: verify_token_def find_colon stoi_to_string0 stoll_to_string Let_def
        del: starts_with_prefix)
qed

lemma token_text_inject [simp]: "token_text i e = token_text j f \<longleftrightarrow> i = j \<and> e = f"
proof
  assume eq: "token_text i e = token_text j f"
  have "takeWhile (\<lambda>c. c \<noteq> CHR '':'') (to_string i @ CHR '':'' # x) = to_string i" for i x
    using no_colon [of i] by (subst takeWhile_append2) auto
  moreover from eq have "to_string i @ CHR '':'' # to_string e = to_string j @ CHR '':'' # to_string f"
    by (simp add: token_text_def)
  ultimately have "to_string i = to_string j" by metis
  with eq show "i = j \<and> e = f" by (simp add: token_text_def)
qed simp

section \<open>Invariant\<close>

definition am_inv :: "account_manager \<Rightarrow> bool" where
  "am_inv s \<longleftrightarrow> distinct (map acc_username (am_accounts s)) \<and> distinct (map acc_account_id (am_accounts s))
     \<and> list_all (\<lambda>a. 1 \<le> acc_account_id a \<and> acc_account_id a < am_next_id s) (am_accounts s)
     \<and> 1 \<le> am_next_id s \<and> am_next_id s \<le> int32_max"

datatype account_op =
    Create_account int org_manager account_info string
  | Update_account int int account_info
  | Change_password int string string
  | Delete_account int
  | Login int string string
  | Logout string

fun am_step :: "'pg pq_exec \<Rightarrow> (string \<Rightarrow> nat) \<Rightarrow> account_op \<Rightarrow> account_manager \<times> 'pg database option \<Rightarrow>
   account_manager \<times> 'pg database option" where
  "am_step pq hash (Create_account now orgs info password) st = snd (create_account pq hash now orgs info password st)"
| "am_step pq hash (Update_account now i info) st = snd (update_account pq now i info st)"
| "am_step pq hash (Change_password i old new) st = (case st of (s, db) \<Rightarrow> (snd (change_password hash i old new s), db))"
| "am_step pq hash (Delete_account i) st = snd (delete_account pq i st)"
| "am_step pq hash (Login now u p) st = (case st of (s, db) \<Rightarrow> (snd (login hash now u p s), db))"
| "am_step pq hash (Logout token) st = (case st of (s, db) \<Rightarrow> (snd (logout token s), db))"

lemma created_account_fields [simp]:
  "acc_account_id (created_account hash now orgs info p s) = am_next_id s"
  "acc_username (created_account hash now orgs info p s) = acc_username info"
  "acc_password_hash (created_account hash now orgs info p s) = hash_password hash p"
  "acc_is_active (created_account hash now orgs info p s)"
  by (simp_all add: created_account_def Let_def split: option.splits)

lemma get_account_by_username_None: "get_account_by_username u s = None \<longleftrightarrow> u \<notin> acc_username ` set (am_accounts s)"
  by (auto simp: get_account_by_username_def find_None_iff)

lemma am_inv_modify:
  assumes "am_inv s" "\<And>a. acc_account_id (f a) = acc_account_id a" "\<And>a. acc_username (f a) = acc_username a"
  shows "am_inv (s\<lparr>am_accounts := modify_first P f (am_accounts s)\<rparr>)"
proof -
  have "map acc_account_id (modify_first P f (am_accounts s)) = map acc_account_id (am_accounts s)"
    and "map acc_username (modify_first P f (am_accounts s)) = map acc_username (am_accounts s)"
    using assms(2,3) by (auto intro: map_modify_first)
  moreover from this(1) have "acc_account_id ` set (modify_first P f (am_accounts s)) = acc_account_id ` set (am_accounts s)"
    by (metis list.set_map)
  then have "list_all (\<lambda>a. 1 \<le> acc_account_id a \<and> acc_account_id a < n) (modify_first P f (am_accounts s))
      = list_all (\<lambda>a. 1 \<le> acc_account_id a \<and> acc_account_id a < n) (am_accounts s)" for n
    by (simp add: list_all_iff) (metis (no_types, lifting) imageE imageI)
  ultimately show ?thesis using assms(1) by (simp add: am_inv_def)
qed

lemma create_account_inv: "am_inv s \<Longrightarrow> am_inv (fst (snd (create_account pq hash now orgs info p (s, db))))"
  by (auto simp: create_account_def am_inv_def Let_def get_account_by_username_None list_all_iff image_iff)

lemma am_step_inv: "am_inv (fst st) \<Longrightarrow> am_inv (fst (am_step pq hash op st))"
proof (cases st)
  case (Pair s db)
  assume "am_inv (fst st)"
  with Pair have s: "am_inv s" by simp
  show ?thesis
  proof (cases op)
    case (Create_account now orgs info p)
    with s Pair show ?thesis by (simp add: create_account_inv)
  next
    case (Logout t)
    with s Pair show ?thesis by (simp add: logout_def am_inv_def)
  qed (use s Pair in \<open>auto simp: update_account_def change_password_def delete_account_def login_def updated_account_def
      intro!: am_inv_modify split: option.splits\<close>)
qed

interpretation am: started_machine "am_step pq hash" "\<lambda>st. am_inv (fst st)" "(new_account_manager, db)"
  for pq :: "'pg pq_exec" and hash db
  by unfold_locales (simp_all add: am_step_inv, simp add: am_inv_def new_account_manager_def int32_max_def)

text \<open>The blacklist only grows.\<close>

interpretation am_log: event_log "am_step pq hash" "\<lambda>st. am_inv (fst st)" "\<lambda>st. am_invalidated_tokens (fst st)"
  for pq :: "'pg pq_exec" and hash
proof
  fix st :: "account_manager \<times> 'pg database option" and op
  show "prefix (am_invalidated_tokens (fst st)) (am_invalidated_tokens (fst (am_step pq hash op st)))"
    by (cases st; cases op) (auto simp: create_account_def update_account_def change_password_def delete_account_def
        login_def logout_def Let_def split: option.splits)
qed


section \<open>What the operations do to lookups\<close>

lemma get_account_modify:
  assumes "\<And>a. acc_account_id (f a) = acc_account_id a"
  shows "get_account i (s\<lparr>am_accounts := modify_first (\<lambda>a. acc_account_id a = j) f (am_accounts s)\<rparr>) =
     (if i = j then map_option (hide_hash \<circ> f) (by_key acc_account_id i (am_accounts s)) else get_account i s)"
  using by_key_modify_first [of acc_account_id j f i "am_accounts s"] assms
  by (auto simp: get_account_def by_key_def option.map_comp)

lemma am_inv_account:
  assumes "am_inv s" "get_account_by_username u s = Some a"
  shows "by_key acc_account_id (acc_account_id a) (am_accounts s) = Some a" "acc_username a = u"
    "1 \<le> acc_account_id a" "acc_account_id a \<le> int32_max"
proof -
  from assms(2) have a: "a \<in> set (am_accounts s)" "acc_username a = u"
    by (auto simp: get_account_by_username_def dest: find_SomeD)
  then show "by_key acc_account_id (acc_account_id a) (am_accounts s) = Some a" "acc_username a = u"
    "1 \<le> acc_account_id a" "acc_account_id a \<le> int32_max"
    using assms(1) by (auto simp: am_inv_def list_all_iff by_key_distinct)
qed

lemma find_modified: "List.find P xs = Some x \<Longrightarrow> f x \<in> set (modify_first P f xs)"
  by (auto simp: find_Some_split modify_first_split)

lemma hide_hash_simps [simp]:
  "acc_account_id (hide_hash a) = acc_account_id a" "acc_username (hide_hash a) = acc_username a"
  "acc_org_id (hide_hash a) = acc_org_id a" "acc_role_code (hide_hash a) = acc_role_code a"
  "acc_is_active (hide_hash a) = acc_is_active a" "acc_password_hash (hide_hash a) = ''''"
  by (simp_all add: hide_hash_def)

lemma by_username_append:
  "get_account_by_username u (s\<lparr>am_accounts := am_accounts s @ [a], am_next_id := n\<rparr>) =
     (case get_account_by_username u s of Some b \<Rightarrow> Some b | None \<Rightarrow> if acc_username a = u then Some a else None)"
  by (simp add: get_account_by_username_def find_append split: option.splits)

lemma login_success:
  "lr_success (fst (login hash now u p s)) \<longleftrightarrow>
     (\<exists>a. get_account_by_username u s = Some a \<and> acc_is_active a \<and> acc_password_hash a = hash_password hash p)"
  by (auto simp: login_def login_error_def new_login_response_def split: option.splits)

lemma create_account_OK:
  assumes "fst (fst (create_account pq hash now orgs info p (s, db))) = Inr OK"
  shows "get_account_by_username (acc_username info) s = None" "org_exists (acc_org_id info) orgs"
    "acc_role_code info \<in> set VALID_ROLES"
    "fst (snd (create_account pq hash now orgs info p (s, db))) =
       s\<lparr>am_accounts := am_accounts s @ [created_account hash now orgs info p s], am_next_id := am_next_id s + 1\<rparr>"
  using assms by (auto simp: create_account_def Let_def split: if_splits)

lemma token_worth_SomeD:
  assumes "token_worth now orgs i e s = Some tp"
  shows "tp_org_scope tp = get_org_scope (tp_org_id tp) orgs" "now \<le> e" "tp_account_id tp = i"
    "\<exists>a. get_account i s = Some a \<and> acc_is_active a \<and> acc_org_id a = tp_org_id tp"
proof -
  from assms obtain a where a: "get_account i s = Some a" "acc_is_active a" "\<not> e < now"
    by (auto simp: token_worth_def split: if_splits option.splits)
  moreover from a(1) have "acc_account_id a = i" by (auto simp: get_account_def dest: find_SomeD)
  ultimately show "tp_org_scope tp = get_org_scope (tp_org_id tp) orgs" "now \<le> e" "tp_account_id tp = i"
    "\<exists>a. get_account i s = Some a \<and> acc_is_active a \<and> acc_org_id a = tp_org_id tp"
    using assms by (auto simp: token_worth_def)
qed

lemma verify_token_worth: "verify_token now orgs token s = Inr (Some tp) \<Longrightarrow> \<exists>i e. token_worth now orgs i e s = Some tp"
  by (auto simp: verify_token_def exn_bind_eq_Inr Let_def split: if_splits option.splits)

text \<open>A concrete run for the witnesses: one organisation, one account with a password of two letters,
  and the length of a text as its hash.\<close>

definition demo_bob :: account_info where
  "demo_bob = new_account_info\<lparr>acc_username := ''bob'', acc_org_id := 1, acc_role_code := ''viewer''\<rparr>"

definition demo_accounts :: account_manager where
  "demo_accounts = fst (fold (am_step (\<lambda>_ c. (Pg_error, c :: unit)) length)
     [Create_account 0 demo_orgs demo_bob ''pw''] (new_account_manager, None))"

lemma demo_accounts_inv: "am_inv demo_accounts"
  unfolding demo_accounts_def by (rule am.run_from_start)

lemma demo_bob_created:
  "fst (fst (create_account (\<lambda>_ c. (Pg_error, c :: unit)) length 0 demo_orgs demo_bob ''pw'' (new_account_manager, None))) = Inr OK"
  using demo_orgs_ok(2)
  by (simp add: create_account_def get_account_by_username_def new_account_manager_def demo_bob_def new_account_info_def
      VALID_ROLES_def int32_max_def Let_def)

lemma demo_accounts_eval:
  "am_accounts demo_accounts = [created_account length 0 demo_orgs demo_bob ''pw'' new_account_manager]"
  "am_invalidated_tokens demo_accounts = []"
  unfolding demo_accounts_def using create_account_OK(4) [OF demo_bob_created]
  by (simp_all add: new_account_manager_def)

lemma demo_bob_found:
  "get_account_by_username ''bob'' demo_accounts = Some (created_account length 0 demo_orgs demo_bob ''pw'' new_account_manager)"
  by (simp add: get_account_by_username_def demo_accounts_eval demo_bob_def new_account_info_def)

section \<open>What a login hands out\<close>

lemma login_outcome:
  assumes "am_inv s" "lr_success (fst (login hash now u p s))"
  obtains a where "get_account_by_username u s = Some a" "acc_is_active a" "acc_username a = u"
    and "int32_min \<le> acc_account_id a" "acc_account_id a \<le> int32_max"
    and "fst (login hash now u p s) = new_login_response\<lparr>lr_success := True, lr_token := generate_token now a,
       lr_expires_at := to_string (now + 86400), lr_account := hide_hash a,
       lr_permissions := permissions_for_role (acc_role_code a)\<rparr>"
    and "am_invalidated_tokens (snd (login hash now u p s)) = am_invalidated_tokens s"
    and "get_account (acc_account_id a) (snd (login hash now u p s)) = Some (hide_hash (a\<lparr>acc_last_login_at := iso_utc now\<rparr>))"
proof -
  obtain a where a: "get_account_by_username u s = Some a" "acc_is_active a"
      "acc_password_hash a = hash_password hash p"
    using assms(2) by (auto simp: login_success)
  note acc = am_inv_account [OF assms(1) a(1)]
  let ?s = "s\<lparr>am_accounts := modify_first (\<lambda>b. acc_account_id b = acc_account_id a)
      (\<lambda>b. b\<lparr>acc_last_login_at := iso_utc now\<rparr>) (am_accounts s)\<rparr>"
  have login: "fst (login hash now u p s) = new_login_response\<lparr>lr_success := True, lr_token := generate_token now a,
       lr_expires_at := to_string (now + 86400), lr_account := hide_hash a,
       lr_permissions := permissions_for_role (acc_role_code a)\<rparr>" "snd (login hash now u p s) = ?s"
    using a by (simp_all add: login_def)
  have "get_account (acc_account_id a) ?s = Some (hide_hash (a\<lparr>acc_last_login_at := iso_utc now\<rparr>))"
    using acc(1) by (subst get_account_modify) simp_all
  with login a acc show thesis by (intro that [of a]) (simp_all add: int32_min_def)
qed

lemma login_then_verify:
  assumes "am_inv s" "lr_success (fst (login hash now u p s))"
    and "lr_token (fst (login hash now u p s)) \<notin> set (am_invalidated_tokens s)"
    and "0 \<le> now" "now + 86400 \<le> int64_max"
  shows "verify_token t orgs (lr_token (fst (login hash now u p s))) (snd (login hash now u p s)) =
     (let r = fst (login hash now u p s); a = lr_account r in
      Inr (if t \<le> now + 86400
        then Some \<lparr>tp_account_id = acc_account_id a, tp_username = u, tp_org_id = acc_org_id a,
               tp_org_scope = get_org_scope (acc_org_id a) orgs, tp_role_code = acc_role_code a,
               tp_permissions = lr_permissions r, tp_iat = t, tp_exp = now + 86400\<rparr>
        else None))"
proof -
  obtain a where a: "acc_is_active a" "acc_username a = u" "int32_min \<le> acc_account_id a" "acc_account_id a \<le> int32_max"
      "fst (login hash now u p s) = new_login_response\<lparr>lr_success := True, lr_token := generate_token now a,
         lr_expires_at := to_string (now + 86400), lr_account := hide_hash a,
         lr_permissions := permissions_for_role (acc_role_code a)\<rparr>"
      "am_invalidated_tokens (snd (login hash now u p s)) = am_invalidated_tokens s"
      "get_account (acc_account_id a) (snd (login hash now u p s)) = Some (hide_hash (a\<lparr>acc_last_login_at := iso_utc now\<rparr>))"
    by (rule login_outcome [OF assms(1,2)]) blast
  have "token_worth t orgs (acc_account_id a) (now + 86400) (snd (login hash now u p s)) = (if t \<le> now + 86400 then
      Some \<lparr>tp_account_id = acc_account_id a, tp_username = u, tp_org_id = acc_org_id a,
             tp_org_scope = get_org_scope (acc_org_id a) orgs, tp_role_code = acc_role_code a,
             tp_permissions = permissions_for_role (acc_role_code a), tp_iat = t, tp_exp = now + 86400\<rparr> else None)"
    using a(1,2,7) by (simp add: token_worth_def)
  moreover have "token_text (acc_account_id a) (now + 86400) \<notin> set (am_invalidated_tokens (snd (login hash now u p s)))"
    using assms(3) by (simp add: a(5,6) generate_token_text)
  ultimately show ?thesis
    using verify_token_text [of "acc_account_id a" "now + 86400" "[]" t orgs "snd (login hash now u p s)"] a(3,4) assms(4,5)
    by (simp add: a(5) generate_token_text int64_min_def Let_def)
qed

section \<open>Properties\<close>

text \<open>Whatever operations run and whatever the database answers, user names and account
  identifiers are unique and the identifier counter is above every identifier and inside the
  range of its type.\<close>

theorem account_run_invariant:
  "am_inv (fst (fold (am_step pq hash) ops (new_account_manager, db)))"
  by (rule am.run_from_start)

text \<open>After an account is created with a password, logging in under its user name succeeds with
  exactly the passwords of the same hash, and what logging in answers to everybody else is not
  affected.\<close>

theorem create_then_login:
  assumes "fst (fst (create_account pq hash now orgs info p (s, db))) = Inr OK"
  shows "let s' = fst (snd (create_account pq hash now orgs info p (s, db))) in
     (lr_success (fst (login hash t (acc_username info) q s')) \<longleftrightarrow> hash q = hash p)
     \<and> (u \<noteq> acc_username info \<longrightarrow> fst (login hash t u q s') = fst (login hash t u q s))"
proof -
  note ok = create_account_OK [OF assms]
  have "lr_success (fst (login hash t (acc_username info) q (fst (snd (create_account pq hash now orgs info p (s, db)))))) \<longleftrightarrow> hash q = hash p"
    unfolding login_success ok(4) by (auto simp: by_username_append ok(1))
  moreover have "fst (login hash t u q (fst (snd (create_account pq hash now orgs info p (s, db))))) = fst (login hash t u q s)"
    if "u \<noteq> acc_username info"
    unfolding ok(4) using that by (auto simp: login_def by_username_append split: option.splits)
  ultimately show ?thesis by (simp add: Let_def)
qed

theorem create_then_login_witness:
  "let s' = fst (snd (create_account (\<lambda>_ c. (Pg_error, c :: unit)) length 0 demo_orgs demo_bob ''pw'' (new_account_manager, None))) in
     (lr_success (fst (login length 5 (acc_username demo_bob) ''xx'' s')) \<longleftrightarrow> length ''xx'' = length ''pw'')
     \<and> (''eve'' \<noteq> acc_username demo_bob \<longrightarrow> fst (login length 5 ''eve'' ''xx'' s') = fst (login length 5 ''eve'' ''xx'' new_account_manager))"
  by (rule create_then_login [OF demo_bob_created])

text \<open>C8. The token a login hands out is good for a day: until its time it is verified as the account
  that logged in, with the permissions of the login's answer and the scope of its
  organisation, and after that it is refused.\<close>

theorem login_token_verifies:
  assumes "am_inv s" "lr_success (fst (login hash now u p s))"
    and "lr_token (fst (login hash now u p s)) \<notin> set (am_invalidated_tokens s)"
    and "0 \<le> now" "now + 86400 \<le> int64_max"
  shows "verify_token t orgs (lr_token (fst (login hash now u p s))) (snd (login hash now u p s)) =
     (let r = fst (login hash now u p s); a = lr_account r in
      Inr (if t \<le> now + 86400
        then Some \<lparr>tp_account_id = acc_account_id a, tp_username = u, tp_org_id = acc_org_id a,
               tp_org_scope = get_org_scope (acc_org_id a) orgs, tp_role_code = acc_role_code a,
               tp_permissions = lr_permissions r, tp_iat = t, tp_exp = now + 86400\<rparr>
        else None))"
  by (rule login_then_verify [OF assms])

theorem login_token_verifies_witness:
  "verify_token 100 demo_orgs (lr_token (fst (login length 5 ''bob'' ''pw'' demo_accounts))) (snd (login length 5 ''bob'' ''pw'' demo_accounts)) =
     (let r = fst (login length 5 ''bob'' ''pw'' demo_accounts); a = lr_account r in
      Inr (if (100::int) \<le> 5 + 86400
        then Some \<lparr>tp_account_id = acc_account_id a, tp_username = ''bob'', tp_org_id = acc_org_id a,
               tp_org_scope = get_org_scope (acc_org_id a) demo_orgs, tp_role_code = acc_role_code a,
               tp_permissions = lr_permissions r, tp_iat = 100, tp_exp = 5 + 86400\<rparr>
        else None))"
proof (rule login_token_verifies [OF demo_accounts_inv])
  show "lr_success (fst (login length 5 ''bob'' ''pw'' demo_accounts))"
    by (simp add: login_success demo_bob_found)
qed (simp_all add: demo_accounts_eval int64_max_def)

text \<open>A token that was logged out stays refused through every later operation.\<close>

theorem logout_revokes:
  assumes "am_inv s"
  shows "verify_token now orgs token (fst (fold (am_step pq hash) ops (snd (logout token s), db))) = Inr None"
proof -
  have "am_inv (snd (logout token s))" using assms by (simp add: logout_def am_inv_def)
  then have "token \<in> set (am_invalidated_tokens (fst (fold (am_step pq hash) ops (snd (logout token s), db))))"
    using am_log.log_keeps [of "(snd (logout token s), db)" token pq hash ops] by (simp add: logout_def)
  then show ?thesis by (simp add: verify_token_def)
qed

theorem logout_revokes_witness:
  "verify_token 9 demo_orgs (token_text 1 86405) (fst (fold (am_step (\<lambda>_ c. (Pg_error, c :: unit)) length)
     [Login 9 ''bob'' ''pw''] (snd (logout (token_text 1 86405) demo_accounts), None))) = Inr None"
  by (rule logout_revokes [OF demo_accounts_inv])

text \<open>Logging out revokes the text of the token and not the session: the same token with a space
  behind it is verified exactly as the token was before the logout.\<close>

theorem logout_bypass:
  assumes "int32_min \<le> i" "i \<le> int32_max" "int64_min \<le> e" "e \<le> int64_max"
    and "token_text i e \<notin> set (am_invalidated_tokens s)" "token_text i e @ '' '' \<notin> set (am_invalidated_tokens s)"
  shows "verify_token now orgs (token_text i e @ '' '') (snd (logout (token_text i e) s))
       = verify_token now orgs (token_text i e) s"
proof -
  have "ends_number '' ''" by (simp add: is_digit_def char_code_def)
  with verify_token_text [OF assms(1-4), of "'' ''"] verify_token_text [OF assms(1-4), of "[]"] assms(5,6)
  show ?thesis by (simp add: logout_def token_worth_def get_account_def)
qed

theorem logout_bypass_witness:
  "verify_token 9 demo_orgs (token_text 1 86405 @ '' '') (snd (logout (token_text 1 86405) demo_accounts))
     = verify_token 9 demo_orgs (token_text 1 86405) demo_accounts"
  by (rule logout_bypass) (simp_all add: demo_accounts_eval int32_min_def int32_max_def int64_min_def int64_max_def)

text \<open>A token whose account part is no number makes the verification throw instead of refusing.\<close>

theorem malformed_token_throws:
  assumes "read_int x = None" "CHR '':'' \<notin> set x" "''mock_jwt:'' @ x @ CHR '':'' # y \<notin> set (am_invalidated_tokens s)"
  shows "verify_token now orgs (''mock_jwt:'' @ x @ CHR '':'' # y) s = Inl Invalid_argument"
proof -
  have "find_char (\<lambda>c. c = CHR '':'') (x @ CHR '':'' # y) = Some (length x)"
    using assms(2) by (subst find_char_skip) auto
  with assms(1,3) show ?thesis by (simp add: verify_token_def stoi_def sto_def)
qed

theorem malformed_token_throws_witness:
  "verify_token 9 demo_orgs (''mock_jwt:'' @ ''x'' @ CHR '':'' # ''1'') demo_accounts = Inl Invalid_argument"
  by (rule malformed_token_throws)
     (simp_all add: demo_accounts_eval read_int_def read_digits_def is_space_def is_digit_def char_code_def)

text \<open>A deleted account is locked at once: it cannot log in, whatever the password, and the tokens
  it still holds are refused.\<close>

theorem delete_account_locks:
  assumes "am_inv s" "get_account_by_username u s = Some a" and "0 \<le> t" "t + 86400 \<le> int64_max"
  shows "let s' = fst (snd (delete_account pq (acc_account_id a) (s, db))) in
     fst (delete_account pq (acc_account_id a) (s, db)) = OK
     \<and> fst (login hash now u p s') = login_error ACCOUNT_LOCKED ''Account is disabled''
     \<and> verify_token now orgs (generate_token t a) s' = Inr None"
proof -
  note acc = am_inv_account [OF assms(1,2)]
  let ?s = "s\<lparr>am_accounts := modify_first (\<lambda>b. acc_account_id b = acc_account_id a) (\<lambda>b. b\<lparr>acc_is_active := False\<rparr>) (am_accounts s)\<rparr>"
  have del: "fst (delete_account pq (acc_account_id a) (s, db)) = OK" "fst (snd (delete_account pq (acc_account_id a) (s, db))) = ?s"
    using acc(1) by (simp_all add: delete_account_def by_key_def)
  have "get_account (acc_account_id a) ?s = Some (hide_hash (a\<lparr>acc_is_active := False\<rparr>))"
    using acc(1) by (subst get_account_modify) simp_all
  then have worth: "token_worth now orgs (acc_account_id a) e ?s = None" for e
    by (simp add: token_worth_def)
  have "am_inv ?s" using assms(1) by (rule am_inv_modify) simp_all
  moreover have "a\<lparr>acc_is_active := False\<rparr> \<in> set (am_accounts ?s)"
    using find_modified [OF acc(1) [unfolded by_key_def]] by simp
  ultimately have "get_account_by_username u ?s = Some (a\<lparr>acc_is_active := False\<rparr>)"
    using by_key_distinct [of acc_username "am_accounts ?s"] acc(2)
    by (fastforce simp: am_inv_def get_account_by_username_def by_key_def)
  then have "fst (login hash now u p ?s) = login_error ACCOUNT_LOCKED ''Account is disabled''"
    by (simp add: login_def)
  with del worth show ?thesis
    using verify_token_text [of "acc_account_id a" "t + 86400" "[]" now orgs ?s] acc(3,4) assms(3,4)
    by (simp add: generate_token_text int32_min_def int64_min_def Let_def)
qed

theorem delete_account_locks_witness:
  "let a = created_account length 0 demo_orgs demo_bob ''pw'' new_account_manager;
       s' = fst (snd (delete_account (\<lambda>_ c. (Pg_error, c :: unit)) (acc_account_id a) (demo_accounts, None))) in
     fst (delete_account (\<lambda>_ c. (Pg_error, c :: unit)) (acc_account_id a) (demo_accounts, None)) = OK
     \<and> fst (login length 7 ''bob'' ''pw'' s') = login_error ACCOUNT_LOCKED ''Account is disabled''
     \<and> verify_token 7 demo_orgs (generate_token 5 a) s' = Inr None"
  using delete_account_locks [OF demo_accounts_inv demo_bob_found, where t = 5 and now = 7 and p = "''pw''"
      and hash = length and orgs = demo_orgs and db = None and pq = "\<lambda>_ c. (Pg_error, c :: unit)"]
  by (simp only: Let_def int64_max_def)

end
