(* ===== verification/Device_Type_Manager.thy ===== *)
theory Device_Type_Manager
  imports Sql_Crud
begin

text \<open>
  \<^verbatim>\<open>src/app/device/device_type_manager.cpp\<close>: device types and models.  The manager keeps no
  state of its own; every operation is a sequence of database operations, in which a row that
  cannot be converted throws.
\<close>

section \<open>Sequences of database operations\<close>

definition db_ret :: "'a \<Rightarrow> ('pg, 'a exn) db_op" where
  "db_ret x db = (Inr x, db)"

definition db_lift :: "('pg, 'a) db_op \<Rightarrow> ('pg, 'a exn) db_op" where
  "db_lift m db = (case m db of (x, db') \<Rightarrow> (Inr x, db'))"

definition db_bind :: "('pg, 'a exn) db_op \<Rightarrow> ('a \<Rightarrow> ('pg, 'b exn) db_op) \<Rightarrow> ('pg, 'b exn) db_op" where
  "db_bind m f db = (case m db of (Inl e, db') \<Rightarrow> (Inl e, db') | (Inr x, db') \<Rightarrow> f x db')"

section \<open>Operations\<close>

definition list_types :: "'pg pq_exec \<Rightarrow> bool \<Rightarrow> ('pg, device_type_info list exn) db_op" where
  "list_types pq active_only = db_list_device_types pq active_only"

definition get_type :: "'pg pq_exec \<Rightarrow> string \<Rightarrow> ('pg, device_type_info option exn) db_op" where
  "get_type pq type_code = db_get_device_type pq type_code"

definition type_exists :: "'pg pq_exec \<Rightarrow> string \<Rightarrow> ('pg, bool exn) db_op" where
  "type_exists pq type_code = db_bind (db_get_device_type pq type_code) (\<lambda>t. db_ret (t \<noteq> None))"

definition model_exists :: "'pg pq_exec \<Rightarrow> string \<Rightarrow> ('pg, bool exn) db_op" where
  "model_exists pq model_code = db_bind (db_get_device_model pq model_code) (\<lambda>m. db_ret (m \<noteq> None))"

definition create_type :: "'pg pq_exec \<Rightarrow> device_type_info \<Rightarrow> ('pg, status_code exn) db_op" where
  "create_type pq info =
     (if dti_type_code info = '''' \<or> dti_display_name info = '''' then db_ret ERROR
      else db_bind (type_exists pq (dti_type_code info)) (\<lambda>ex.
        if ex then db_ret DEV_ALREADY_ACTIVE else db_lift (db_insert_device_type pq info)))"

definition update_type :: "'pg pq_exec \<Rightarrow> string \<Rightarrow> device_type_info \<Rightarrow> ('pg, status_code exn) db_op" where
  "update_type pq type_code info = db_bind (type_exists pq type_code) (\<lambda>ex.
     if \<not> ex then db_ret RECIPE_NOT_FOUND else db_lift (db_update_device_type pq info))"

definition delete_type :: "'pg pq_exec \<Rightarrow> string \<Rightarrow> ('pg, status_code exn) db_op" where
  "delete_type pq type_code =
     (if type_code = ''other'' then db_ret ERROR
      else db_bind (db_list_device_models pq type_code True) (\<lambda>models.
        if models \<noteq> [] then db_ret ORG_HAS_DEVICES else db_lift (db_delete_device_type pq type_code)))"

definition list_models :: "'pg pq_exec \<Rightarrow> string \<Rightarrow> bool \<Rightarrow> ('pg, device_model_info list exn) db_op" where
  "list_models pq type_code active_only = db_list_device_models pq type_code active_only"

definition get_model :: "'pg pq_exec \<Rightarrow> string \<Rightarrow> ('pg, device_model_info option exn) db_op" where
  "get_model pq model_code = db_get_device_model pq model_code"

definition create_model :: "'pg pq_exec \<Rightarrow> device_model_info \<Rightarrow> ('pg, status_code exn) db_op" where
  "create_model pq info =
     (if dmi_model_code info = '''' \<or> dmi_display_name info = '''' \<or> dmi_type_code info = '''' then db_ret ERROR
      else db_bind (type_exists pq (dmi_type_code info)) (\<lambda>ex.
        if \<not> ex then db_ret RECIPE_NOT_FOUND
        else db_bind (model_exists pq (dmi_model_code info)) (\<lambda>ex.
          if ex then db_ret DEV_ALREADY_ACTIVE else db_lift (db_insert_device_model pq info))))"

definition update_model :: "'pg pq_exec \<Rightarrow> string \<Rightarrow> device_model_info \<Rightarrow> ('pg, status_code exn) db_op" where
  "update_model pq model_code info = db_bind (model_exists pq model_code) (\<lambda>ex.
     if \<not> ex then db_ret RECIPE_NOT_FOUND
     else db_bind (type_exists pq (dmi_type_code info)) (\<lambda>ex.
       if \<not> ex then db_ret RECIPE_NOT_FOUND else db_lift (db_update_device_model pq info)))"

definition delete_model :: "'pg pq_exec \<Rightarrow> string \<Rightarrow> ('pg, status_code exn) db_op" where
  "delete_model pq model_code = db_lift (db_delete_device_model pq model_code)"

section \<open>The statements an operation sends\<close>

text \<open>A server that records what it is sent, in front of any other one.\<close>

definition traced :: "'pg pq_exec \<Rightarrow> (string list \<times> 'pg) pq_exec" where
  "traced pq sql st = (case st of (before, c) \<Rightarrow> (case pq sql c of (r, c') \<Rightarrow> (r, (before @ [sql], c'))))"

definition sent :: "(string list \<times> 'pg) database \<Rightarrow> string list" where
  "sent db = (case db_conn db of None \<Rightarrow> [] | Some (stmts, c) \<Rightarrow> stmts)"


definition is_select :: "string \<Rightarrow> bool" where
  "is_select sql \<longleftrightarrow> prefix ''SELECT'' sql"

definition reads_only :: "(string list \<times> 'pg, 'a) db_op \<Rightarrow> (string list \<times> 'pg) database \<Rightarrow> bool" where
  "reads_only m db \<longleftrightarrow> (\<exists>ss. sent (snd (m db)) = sent db @ ss \<and> list_all is_select ss)"

text \<open>Either nothing was written, or the outcome is one of these.\<close>

definition reads_or :: "('a \<times> (string list \<times> 'pg) database \<Rightarrow> bool) \<Rightarrow> (string list \<times> 'pg, 'a) db_op \<Rightarrow> (string list \<times> 'pg) database \<Rightarrow> bool" where
  "reads_or Q m db \<longleftrightarrow> reads_only m db \<or> Q (m db)"

definition written :: "status_code exn \<times> 'd \<Rightarrow> bool" where
  "written res \<longleftrightarrow> fst res \<in> {Inr OK, Inr STORAGE_WRITE_ERROR}"

definition writes_or_refuses :: "(string list \<times> 'pg, status_code exn) db_op \<Rightarrow> (string list \<times> 'pg) database \<Rightarrow> bool" where
  "writes_or_refuses = reads_or written"

lemma c_str_append: "CHR 0x00 \<notin> set u \<Longrightarrow> c_str (u @ s) = u @ c_str s"
  unfolding c_str_def by (rule takeWhile_append2) auto

lemma is_select_c_str: "is_select (c_str (''SELECT'' @ s))"
  by (simp add: is_select_def c_str_def)

lemma sent_query:
  "sent (snd (snd (query (traced pq) sql db))) = sent db @ (if db_opened db \<and> db_conn db \<noteq> None then [c_str sql] else [])"
  by (auto simp: query_def pq_run_def traced_def sent_def split: option.splits pg_result.splits prod.splits)

lemma sent_execute:
  "sent (snd (execute (traced pq) sql db)) = sent db @ (if db_opened db \<and> db_conn db \<noteq> None then [c_str sql] else [])"
  by (auto simp: execute_def exec_cmd_def pq_run_def traced_def sent_def split: option.splits prod.splits)

lemma reads_query: "is_select (c_str sql) \<Longrightarrow> snd (m db) = snd (snd (query (traced pq) sql db)) \<Longrightarrow> reads_only m db"
  by (simp add: reads_only_def sent_query)

lemma reads_ret: "reads_only (db_ret x) db"
  by (simp add: reads_only_def db_ret_def)

lemma reads_bind:
  assumes "reads_only m db" and "\<And>x. fst (m db) = Inr x \<Longrightarrow> reads_only (f x) (snd (m db))"
  shows "reads_only (db_bind m f) db"
proof (cases "m db")
  case (Pair r db')
  obtain ss where ss: "sent db' = sent db @ ss" "list_all is_select ss" using assms(1) Pair by (auto simp: reads_only_def)
  show ?thesis
  proof (cases r)
    case (Inl e)
    with Pair ss show ?thesis by (simp add: reads_only_def db_bind_def)
  next
    case (Inr x)
    with assms(2) Pair obtain ts where "sent (snd (f x db')) = sent db' @ ts" "list_all is_select ts"
      by (auto simp: reads_only_def)
    with Inr Pair ss show ?thesis by (simp add: reads_only_def db_bind_def)
  qed
qed

lemma reads_lift: "reads_only m db \<Longrightarrow> reads_only (db_lift m) db"
  by (simp add: reads_only_def db_lift_def case_prod_beta)

lemma select_text: "prefix ''SELECT'' sql \<Longrightarrow> is_select (c_str sql)"
  using is_select_c_str by (auto simp: prefix_def)

lemmas query_ops = db_get_device_type_def db_get_device_model_def db_get_device_model_by_key_def
  db_list_device_models_def db_get_device_by_hwuid_def db_get_device_def db_device_exists_def
  load_tenant_config_def first_row_def all_rows_def

lemma reads_queries:
  "reads_only (db_get_device_type (traced pq) c) db" "reads_only (db_get_device_model (traced pq) c) db"
  "reads_only (db_get_device_model_by_key (traced pq) c) db" "reads_only (db_list_device_models (traced pq) c b) db"
  "reads_only (db_get_device_by_hwuid (traced pq) c) db" "reads_only (db_get_device (traced pq) c) db"
  "reads_only (db_device_exists (traced pq) c) db" "reads_only (load_tenant_config (traced pq) c) db"
  by (simp_all add: reads_only_def query_ops case_prod_beta sent_query select_text model_columns_sql_def)


lemma reads_or_ret: "reads_or Q (db_ret x) db"
  by (simp add: reads_or_def reads_ret)

lemma reads_or_bind:
  assumes "reads_only m db" and "\<And>x. fst (m db) = Inr x \<Longrightarrow> reads_or Q (f x) (snd (m db))"
  shows "reads_or Q (db_bind m f) db"
proof (cases "fst (m db)")
  case (Inl e)
  then have "reads_only (db_bind m f) db" using assms(1) by (intro reads_bind) auto
  then show ?thesis by (simp add: reads_or_def)
next
  case (Inr x)
  then have eq: "db_bind m f db = f x (snd (m db))" by (simp add: db_bind_def case_prod_beta)
  from assms(2) [OF Inr] consider "reads_only (f x) (snd (m db))" | "Q (f x (snd (m db)))"
    by (auto simp: reads_or_def)
  then show ?thesis
  proof cases
    case 1
    then have "reads_only (db_bind m f) db" using assms(1) Inr by (intro reads_bind) auto
    then show ?thesis by (simp add: reads_or_def)
  qed (simp add: reads_or_def eq)
qed

lemma writes_execute: "reads_or written (db_lift (execute pq sql)) db"
  by (simp add: reads_or_def written_def db_lift_def execute_def case_prod_beta)

lemma reads_exists: "reads_only (type_exists (traced pq) c) db" "reads_only (model_exists (traced pq) c) db"
  unfolding type_exists_def model_exists_def by (intro reads_bind reads_queries reads_ret)+

lemmas write_rules = reads_or_bind reads_or_ret writes_execute reads_queries reads_exists

section \<open>Properties\<close>

text \<open>A refused operation on types and models writes nothing: unless the answer is \<^verbatim>\<open>OK\<close> or the
  write error of the statement itself, creating, updating and deleting types and creating and
  updating models have sent the database nothing but queries, whatever it answered to them and
  whichever exception a bad row raised.\<close>

theorem type_manager_refusals:
  "writes_or_refuses (create_type (traced pq) ti) db \<and> writes_or_refuses (update_type (traced pq) c ti) db
   \<and> writes_or_refuses (delete_type (traced pq) c) db \<and> writes_or_refuses (create_model (traced pq) mi) db
   \<and> writes_or_refuses (update_model (traced pq) c mi) db"
  unfolding create_type_def update_type_def delete_type_def create_model_def update_model_def
    db_insert_device_type_def [abs_def] db_update_device_type_def [abs_def] db_delete_device_type_def [abs_def]
    db_insert_device_model_def [abs_def] db_update_device_model_def [abs_def] writes_or_refuses_def
  by (auto intro!: write_rules)

end

