(* ===== verification/Device_Activation.thy ===== *)
theory Device_Activation
  imports Device_Type_Manager
begin

text \<open>
  \<^verbatim>\<open>src/app/device/device_activation.cpp\<close>: the activation of a device, its identifier and its
  token.  OpenSSL is optional at build time: the record \<open>build\<close> carries its SHA-256 when it is
  there, the hash \<^verbatim>\<open>std::hash\<close> that is used without it, and the random values that one call
  draws (32 bytes from \<^verbatim>\<open>RAND_bytes\<close>, or 8 values of \<^verbatim>\<open>std::mt19937_64\<close>).
\<close>

section \<open>Identifiers and tokens\<close>

record build =
  bld_sha256 :: "(string \<Rightarrow> nat list) option"
  bld_hash :: "string \<Rightarrow> nat"
  bld_random :: "nat list"

definition validate_request :: "activation_request \<Rightarrow> status_code" where
  "validate_request request =
     (if areq_uid request = '''' then DEV_AUTH_FAILED
      else if areq_model_key request = '''' then DEV_AUTH_FAILED
      else if length (areq_uid request) < 4 \<or> 128 < length (areq_uid request) then DEV_AUTH_FAILED
      else if 64 < length (areq_model_key request) then DEV_AUTH_FAILED
      else OK)"

definition generate_device_id :: "build \<Rightarrow> activation_request \<Rightarrow> string" where
  "generate_device_id b request = (case bld_sha256 b of
       Some sha256 \<Rightarrow> concat (map (hex_pad 2) (take 8 (sha256 (areq_uid request @ '':'' @ areq_model_key request))))
     | None \<Rightarrow> hex_str (bld_hash b (areq_uid request @ areq_model_key request)))"

definition generate_activation_token :: "build \<Rightarrow> string \<Rightarrow> string" where
  "generate_activation_token b device_id = (case bld_sha256 b of
       Some _ \<Rightarrow> concat (map (hex_pad 2) (bld_random b))
     | None \<Rightarrow> take 64 (concat (map (hex_pad 8) (bld_random b))))"

definition generate_product_id :: "device_type \<Rightarrow> string" where
  "generate_product_id type =
     (if type = COFFEE_MACHINE then ''coffee_v1''
      else if type = INSTANT_MACHINE then ''instant_v1''
      else if type = WATER_DISPENSER then ''water_v1''
      else ''other_v1'')"

section \<open>Activation\<close>

definition ttl_seconds :: int where
  "ttl_seconds = 365 * 24 * 3600"

definition refused :: "int \<Rightarrow> string \<Rightarrow> activation_response" where
  "refused code msg = new_activation_response\<lparr>ares_error_code := code, ares_error_message := msg\<rparr>"

text \<open>The tenant is not quoted.\<close>

definition insert_tenant_sql :: "string \<Rightarrow> string" where
  "insert_tenant_sql tenant = ''INSERT INTO tenants (tenant_id, name) VALUES ('' @ [CHR 0x27] @ tenant @ [CHR 0x27] @
     '','' @ [CHR 0x27] @ tenant @ [CHR 0x27] @ '') ON CONFLICT DO NOTHING''"

text \<open>A device that is known already gets its stored identity and a new token.\<close>

definition reactivated :: "'pg pq_exec \<Rightarrow> build \<Rightarrow> string \<Rightarrow> activation_request \<Rightarrow> device \<Rightarrow> ('pg, activation_response exn) db_op" where
  "reactivated pq b broker_uri request existing =
     db_bind (db_get_device_model_by_key pq (areq_model_key request)) (\<lambda>model.
     db_bind (db_get_device_type pq (case model of Some m \<Rightarrow> dmi_type_code m | None \<Rightarrow> ''other'')) (\<lambda>dtype.
     db_ret (new_activation_response\<lparr>ares_success := True, ares_device_id := dev_device_id existing,
       ares_model_key := areq_model_key request,
       ares_model_code := (case model of Some m \<Rightarrow> dmi_model_code m | None \<Rightarrow> dev_model existing),
       ares_tenant_id := dev_tenant_id existing, ares_product_id := dev_product_id existing,
       ares_device_type := (case dtype of Some t \<Rightarrow> dti_type_code t | None \<Rightarrow> ''other''),
       ares_firmware_version := dev_firmware_version existing,
       ares_activation_token := generate_activation_token b (dev_device_id existing),
       ares_mqtt_broker_uri := broker_uri, ares_ttl_seconds := ttl_seconds\<rparr>)))"

definition activated_device :: "build \<Rightarrow> int \<Rightarrow> string \<Rightarrow> activation_request \<Rightarrow> device_model_info \<Rightarrow> device_type_info \<Rightarrow> device" where
  "activated_device b now tenant request model dtype =
     new_device\<lparr>dev_device_id := generate_device_id b request, dev_tenant_id := tenant,
       dev_product_id := generate_product_id (of_int (dti_internal_type dtype)),
       dev_type := of_int (dti_internal_type dtype), dev_model := dmi_model_code model,
       dev_hardware_uid := areq_uid request, dev_firmware_version := dmi_firmware_base model,
       dev_network_status := OFFLINE, dev_work_status := WORK_IDLE, dev_activated := True,
       dev_last_heartbeat_at := 0, dev_activated_at := now\<rparr>"

text \<open>A new device: its tenant comes from the configuration in the database.\<close>

definition first_activation ::
  "'pg pq_exec \<Rightarrow> build \<Rightarrow> int \<Rightarrow> string \<Rightarrow> activation_request \<Rightarrow> string \<Rightarrow> device_model_info \<Rightarrow> device_type_info \<Rightarrow>
   ('pg, activation_response exn) db_op" where
  "first_activation pq b now broker_uri request remote_ip model dtype =
     db_bind (db_lift (load_tenant_config pq ''tenant_name'')) (\<lambda>name.
     let tenant = (if name = '''' then ''default'' else name);
         dev = activated_device b now tenant request model dtype;
         token = generate_activation_token b (dev_device_id dev) in
     db_bind (db_lift (execute pq (insert_tenant_sql tenant))) (\<lambda>_.
     db_bind (db_lift (db_insert_device pq dev)) (\<lambda>db_result.
     if db_result \<noteq> OK then db_ret (refused (status_int db_result) ''Database insert failed'')
     else
       db_bind (db_lift (db_store_activation_token pq (dev_device_id dev) token now (now + ttl_seconds))) (\<lambda>_.
       db_bind (db_lift (db_log_activation pq (dev_device_id dev) (areq_uid request) remote_ip True
         (''activated via '' @ areq_model_key request))) (\<lambda>_.
       db_ret (new_activation_response\<lparr>ares_success := True, ares_device_id := dev_device_id dev,
         ares_model_key := areq_model_key request, ares_model_code := dmi_model_code model,
         ares_tenant_id := tenant, ares_product_id := dev_product_id dev,
         ares_device_type := dti_type_code dtype, ares_firmware_version := dmi_firmware_base model,
         ares_activation_token := token, ares_mqtt_broker_uri := broker_uri,
         ares_ttl_seconds := ttl_seconds\<rparr>))))))"

definition process_activation ::
  "'pg pq_exec \<Rightarrow> build \<Rightarrow> int \<Rightarrow> string \<Rightarrow> activation_request \<Rightarrow> string \<Rightarrow> ('pg, activation_response exn) db_op" where
  "process_activation pq b now broker_uri request remote_ip =
     (let valid = validate_request request in
      if valid \<noteq> OK then db_ret (refused (status_int valid) (status_message valid))
      else db_bind (db_get_device_model_by_key pq (areq_model_key request)) (\<lambda>model_opt. case model_opt of
        None \<Rightarrow> db_ret (refused (-404) (''model_key not found: '' @ areq_model_key request))
      | Some model \<Rightarrow> db_bind (db_get_device_type pq (dmi_type_code model)) (\<lambda>dtype_opt. case dtype_opt of
          None \<Rightarrow> db_ret (refused (-404) (''device_type not found: '' @ dmi_type_code model))
        | Some dtype \<Rightarrow> db_bind (db_lift (db_device_exists pq (areq_uid request))) (\<lambda>known.
            if known then
              db_bind (db_get_device_by_hwuid pq (areq_uid request)) (\<lambda>existing_opt. case existing_opt of
                Some existing \<Rightarrow> reactivated pq b broker_uri request existing
              | None \<Rightarrow> first_activation pq b now broker_uri request remote_ip model dtype)
            else first_activation pq b now broker_uri request remote_ip model dtype))))"

section \<open>Tokens and queries\<close>

definition revoke_token_sql :: "string \<Rightarrow> string" where
  "revoke_token_sql device_id =
     ''UPDATE activation_tokens SET revoked=TRUE WHERE device_id='' @ [CHR 0x27] @ device_id @ [CHR 0x27]"

definition revoke_token :: "'pg pq_exec \<Rightarrow> string \<Rightarrow> ('pg, status_code) db_op" where
  "revoke_token pq device_id db = (OK, snd (execute pq (revoke_token_sql device_id) db))"

definition renew_token ::
  "'pg pq_exec \<Rightarrow> build \<Rightarrow> int \<Rightarrow> string \<Rightarrow> activation_response \<Rightarrow> ('pg, (status_code \<times> activation_response) exn) db_op" where
  "renew_token pq b now device_id resp =
     db_bind (db_get_device pq device_id) (\<lambda>dev. case dev of
       None \<Rightarrow> db_ret (DEV_NOT_ACTIVATED, resp)
     | Some _ \<Rightarrow> (let token = generate_activation_token b device_id in
         db_bind (db_lift (db_store_activation_token pq device_id token now (now + ttl_seconds))) (\<lambda>_.
         db_ret (OK, resp\<lparr>ares_success := True, ares_device_id := device_id, ares_activation_token := token,
           ares_ttl_seconds := ttl_seconds\<rparr>))))"

definition is_device_activated :: "'pg pq_exec \<Rightarrow> string \<Rightarrow> ('pg, bool) db_op" where
  "is_device_activated pq hwuid = db_device_exists pq hwuid"

definition get_device_by_hwuid :: "'pg pq_exec \<Rightarrow> string \<Rightarrow> ('pg, device option exn) db_op" where
  "get_device_by_hwuid pq hwuid = db_get_device_by_hwuid pq hwuid"

definition reactivate_device :: "string \<Rightarrow> activation_response" where
  "reactivate_device hwuid = refused (-500) ''Reactivation not yet implemented''"


section \<open>What an activation sends\<close>

definition live :: "'pg database \<Rightarrow> bool" where
  "live db \<longleftrightarrow> db_opened db \<and> db_conn db \<noteq> None"

lemma live_pq_run [simp]: "live (snd (pq_run pq sql db)) = live db"
  by (simp add: live_def pq_run_def split: option.splits prod.splits)

lemma live_execute [simp]: "live (snd (execute pq sql db)) = live db"
  using live_pq_run [of pq sql db] by (auto simp: execute_def exec_cmd_def case_prod_beta)

lemma live_query [simp]: "live (snd (snd (query pq sql db))) = live db"
  using live_pq_run [of pq sql db] by (auto simp: query_def simp del: live_pq_run split: pg_result.splits prod.splits)

lemma execute_OK_live: "fst (execute pq sql db) = OK \<Longrightarrow> live db"
  by (auto simp: execute_def exec_cmd_def pq_run_def check_result_def live_def split: if_splits option.splits)

lemma sent_execute_live: "live db \<Longrightarrow> sent (snd (execute (traced pq) sql db)) = sent db @ [c_str sql]"
  by (simp add: sent_execute live_def)

lemma db_bind_lift [simp]: "db_bind (db_lift m) f db = f (fst (m db)) (snd (m db))"
  by (simp add: db_bind_def db_lift_def case_prod_beta)

lemma process_activation_cases:
  "reads_or (\<lambda>res. \<exists>model dtype db'. res = first_activation (traced pq) b now uri request ip model dtype db')
     (process_activation (traced pq) b now uri request ip) db"
proof -
  have "reads_or Q (reactivated (traced pq) b uri request existing) db" for Q db existing
    unfolding reactivated_def by (intro write_rules)
  moreover have "reads_or (\<lambda>res. \<exists>model dtype db'. res = first_activation (traced pq) b now uri request ip model dtype db')
     (first_activation (traced pq) b now uri request ip model dtype) db" for model dtype db
    by (auto simp: reads_or_def)
  ultimately show ?thesis
    unfolding process_activation_def Let_def
    by (auto intro!: write_rules reads_lift split: option.split)
qed

lemma first_activation_sent:
  assumes "fst (first_activation (traced pq) b now uri request ip model dtype db) = Inr resp" "ares_success resp"
  shows "\<exists>dev. dev = activated_device b now (ares_tenant_id resp) request model dtype
     \<and> dev_device_id dev = ares_device_id resp \<and> dev_product_id dev = ares_product_id resp
     \<and> ares_activation_token resp = generate_activation_token b (ares_device_id resp)
     \<and> set [c_str (db_insert_device_sql dev),
         c_str (db_store_activation_token_sql (ares_device_id resp) (ares_activation_token resp) now (now + ttl_seconds))]
       \<subseteq> set (sent (snd (first_activation (traced pq) b now uri request ip model dtype db)))"
proof -
  let ?name = "fst (load_tenant_config (traced pq) ''tenant_name'' db)"
  let ?tenant = "if ?name = '''' then ''default'' else ?name"
  let ?dev = "activated_device b now ?tenant request model dtype"
  let ?db1 = "snd (execute (traced pq) (insert_tenant_sql ?tenant) (snd (load_tenant_config (traced pq) ''tenant_name'' db)))"
  let ?ins = "execute (traced pq) (db_insert_device_sql ?dev) ?db1"
  have ok: "fst ?ins = OK"
    using assms by (auto simp: first_activation_def Let_def db_insert_device_def db_ret_def refused_def
        new_activation_response_def split: if_splits)
  then have live: "live ?db1" by (rule execute_OK_live)
  have eval: "first_activation (traced pq) b now uri request ip model dtype db
     = (let db3 = snd (execute (traced pq) (db_store_activation_token_sql (dev_device_id ?dev)
               (generate_activation_token b (dev_device_id ?dev)) now (now + ttl_seconds)) (snd ?ins));
            db4 = snd (execute (traced pq) (db_log_activation_sql (dev_device_id ?dev) (areq_uid request) ip True
               (''activated via '' @ areq_model_key request)) db3)
        in (Inr (new_activation_response\<lparr>ares_success := True, ares_device_id := dev_device_id ?dev,
         ares_model_key := areq_model_key request, ares_model_code := dmi_model_code model,
         ares_tenant_id := ?tenant, ares_product_id := dev_product_id ?dev,
         ares_device_type := dti_type_code dtype, ares_firmware_version := dmi_firmware_base model,
         ares_activation_token := generate_activation_token b (dev_device_id ?dev), ares_mqtt_broker_uri := uri,
         ares_ttl_seconds := ttl_seconds\<rparr>), db4))"
    using ok by (simp add: first_activation_def db_insert_device_def db_store_activation_token_def
        db_log_activation_def db_ret_def Let_def)
  from assms(1) have resp: "ares_tenant_id resp = ?tenant" "ares_device_id resp = dev_device_id ?dev"
    "ares_product_id resp = dev_product_id ?dev" "ares_activation_token resp = generate_activation_token b (dev_device_id ?dev)"
    unfolding eval by (auto simp: Let_def)
  show ?thesis
    unfolding eval Let_def snd_conv using live resp
    by (intro exI [of _ ?dev]) (simp add: sent_execute_live)
qed


section \<open>Properties\<close>

text \<open>A concrete server for the witnesses: it knows one model and one type, has no device, and
  accepts every statement that is not a query.\<close>

definition demo_pq :: "unit pq_exec" where
  "demo_pq sql c = (if prefix ''SELECT id,'' sql then Pg_tuples_ok [map Some [''1'', ''ACM'', ''acm'', ''coffee'', ''n'', ''d'', ''{}'', ''1.0'', ''t'', ''0'', '''', '''']]
     else if prefix ''SELECT * FROM device_types'' sql then Pg_tuples_ok [map Some [''1'', ''coffee'', ''n'', ''d'', ''1'', '''', ''0'', ''t'', '''', '''']]
     else if prefix ''SELECT COUNT'' sql then Pg_tuples_ok [[Some ''0'']]
     else if prefix ''SELECT tenant_name'' sql then Pg_tuples_ok [[Some ''acme'']]
     else Pg_command_ok, c)"

definition demo_build :: build where
  "demo_build = \<lparr>bld_sha256 = None, bld_hash = length, bld_random = [1, 2, 3, 4, 5, 6, 7, 8]\<rparr>"

definition demo_db :: "(string list \<times> unit) database" where
  "demo_db = \<lparr>db_conn_string = '''', db_opened = True, db_conn = Some ([], ())\<rparr>"

definition demo_activation :: "activation_response exn \<times> (string list \<times> unit) database" where
  "demo_activation = process_activation (traced demo_pq) demo_build 5 ''tcp://b'' \<lparr>areq_uid = ''UID-1'', areq_model_key = ''acm''\<rparr> ''ip'' demo_db"

lemma demo_parse: "stoi ''0'' = Inr 0" "stoi ''1'' = Inr 1"
  by code_simp+

lemma demo_query:
  assumes "live db" "fst (demo_pq (c_str sql) ()) = Pg_tuples_ok ts"
  obtains db' where "query (traced demo_pq) sql db = (OK, map (map (\<lambda>v. case v of None \<Rightarrow> '''' | Some s \<Rightarrow> s)) ts, db')" "live db'"
proof -
  obtain r c where "demo_pq (c_str sql) () = (r, c)" by (cases "demo_pq (c_str sql) ()")
  with assms that show thesis
    by (auto simp: query_def pq_run_def traced_def live_def split: option.splits)
qed

lemma demo_execute:
  assumes "live db" "fst (demo_pq (c_str sql) ()) = Pg_command_ok"
  shows "fst (execute (traced demo_pq) sql db) = OK"
proof -
  obtain r c where "demo_pq (c_str sql) () = (r, c)" by (cases "demo_pq (c_str sql) ()")
  with assms show ?thesis
    by (auto simp: execute_def exec_cmd_def check_result_def pq_run_def traced_def live_def split: option.splits)
qed

lemma demo_answers:
  "fst (demo_pq (c_str (model_columns_sql @ x)) ()) = Pg_tuples_ok [map Some [''1'', ''ACM'', ''acm'', ''coffee'', ''n'', ''d'', ''{}'', ''1.0'', ''t'', ''0'', '''', '''']]"
  "fst (demo_pq (c_str (''SELECT * FROM device_types WHERE type_code='' @ x)) ()) = Pg_tuples_ok [map Some [''1'', ''coffee'', ''n'', ''d'', ''1'', '''', ''0'', ''t'', '''', '''']]"
  "fst (demo_pq (c_str (''SELECT COUNT(*) FROM devices WHERE hardware_uid='' @ x)) ()) = Pg_tuples_ok [[Some ''0'']]"
  "fst (demo_pq (c_str (''SELECT '' @ ''tenant_name'' @ '' FROM mqtt_tenant_config WHERE id=1'')) ()) = Pg_tuples_ok [[Some ''acme'']]"
  "fst (demo_pq (c_str (db_insert_device_sql dev)) ()) = Pg_command_ok"
  by (simp_all add: demo_pq_def model_columns_sql_def c_str_def db_insert_device_sql_def)

lemma demo_activation_ok: "case fst demo_activation of Inl e \<Rightarrow> False | Inr resp \<Rightarrow> ares_success resp"
proof -
  have "live demo_db" by (simp add: live_def demo_db_def)
  then obtain db1 where q1: "query (traced demo_pq) (model_columns_sql @ ''model_key='' @ sql_str ''acm'') demo_db
      = (OK, [[''1'', ''ACM'', ''acm'', ''coffee'', ''n'', ''d'', ''{}'', ''1.0'', ''t'', ''0'', '''', '''']], db1)" and l1: "live db1"
    by (rule demo_query [OF _ demo_answers(1)]) simp
  obtain db2 where q2: "query (traced demo_pq) (''SELECT * FROM device_types WHERE type_code='' @ sql_str ''coffee'') db1
      = (OK, [[''1'', ''coffee'', ''n'', ''d'', ''1'', '''', ''0'', ''t'', '''', '''']], db2)" and l2: "live db2"
    by (rule demo_query [OF l1 demo_answers(2)]) simp
  obtain db3 where q3: "query (traced demo_pq) (''SELECT COUNT(*) FROM devices WHERE hardware_uid='' @ sql_str ''UID-1'') db2
      = (OK, [[''0'']], db3)" and l3: "live db3"
    by (rule demo_query [OF l2 demo_answers(3)]) simp
  obtain db4 where q4: "query (traced demo_pq) (''SELECT '' @ ''tenant_name'' @ '' FROM mqtt_tenant_config WHERE id=1'') db3
      = (OK, [[''acme'']], db4)" and l4: "live db4"
    by (rule demo_query [OF l3 demo_answers(4)]) simp
  note ok = demo_execute [OF _ demo_answers(5)] l4
  show ?thesis
    using q1 q2 q3 q4 ok
    by (simp add: demo_activation_def process_activation_def validate_request_def first_activation_def
        db_get_device_model_by_key_def db_get_device_type_def db_device_exists_def load_tenant_config_def
        first_row_def model_from_row_def type_from_row_def demo_parse db_bind_def [of "db_get_device_model_by_key _ _"]
        db_bind_def [of "db_get_device_type _ _"] db_ret_def Let_def db_insert_device_def)
qed



text \<open>Activating a known device again answers with a freshly drawn token, but sends the database only
  queries: the token in the answer is not the one that is stored.\<close>

theorem reactivation_token_unsaved:
  "reads_only (reactivated (traced pq) b uri request existing) db
   \<and> (case fst (reactivated (traced pq) b uri request existing db) of
        Inl e \<Rightarrow> True
      | Inr resp \<Rightarrow> ares_success resp \<and> ares_device_id resp = dev_device_id existing
          \<and> ares_activation_token resp = generate_activation_token b (dev_device_id existing))"
proof
  show "reads_only (reactivated (traced pq) b uri request existing) db"
    unfolding reactivated_def by (intro reads_bind reads_queries reads_ret)
qed (simp add: reactivated_def db_bind_def db_ret_def split: sum.splits prod.splits)

lemma set_hex_str: "set (hex_str n) \<subseteq> set hex_digits"
proof (induction n rule: hex_str.induct)
  case (1 n)
  have "k < 16 \<Longrightarrow> hex_char k \<in> set hex_digits" for k
    unfolding hex_char_def by (rule nth_mem) (simp add: hex_digits_def)
  with 1 show ?case by (subst hex_str.simps) (auto dest!: subsetD)
qed

lemma set_hex_pad: "set (hex_pad w n) \<subseteq> set hex_digits"
  using set_hex_str [of n] by (auto simp: hex_pad_def hex_digits_def)

lemma length_concat_same: "(\<And>x. x \<in> set xs \<Longrightarrow> length (f x) = k) \<Longrightarrow> length (concat (map f xs)) = length xs * k"
  by (induction xs) auto

lemma length_concat_ge: "(\<And>x. x \<in> set xs \<Longrightarrow> k \<le> length (f x)) \<Longrightarrow> length xs * k \<le> length (concat (map f xs))"
  by (induction xs) (auto simp: add_mono)

text \<open>An activation token has 64 hexadecimal digits, with OpenSSL (from 32 random bytes) and without
  it (from 8 random words of any size).\<close>

theorem activation_token_shape:
  assumes "if bld_sha256 b = None then length (bld_random b) = 8
     else length (bld_random b) = 32 \<and> (\<forall>x \<in> set (bld_random b). x < 256)"
  shows "length (generate_activation_token b d) = 64
     \<and> set (generate_activation_token b d) \<subseteq> set hex_digits"
proof (cases "bld_sha256 b")
  case None
  with assms have "64 \<le> length (concat (map (hex_pad 8) (bld_random b)))"
    using length_concat_ge [of "bld_random b" 8 "hex_pad 8"] by (simp add: length_hex_pad)
  moreover have "set (concat (map (hex_pad 8) (bld_random b))) \<subseteq> set hex_digits"
    using set_hex_pad by fastforce
  ultimately show ?thesis
    using set_take_subset [of 64 "concat (map (hex_pad 8) (bld_random b))"]
    unfolding generate_activation_token_def None option.case by auto
next
  case (Some sha)
  with assms have "length (concat (map (hex_pad 2) (bld_random b))) = 64"
    using length_concat_same [of "bld_random b" "hex_pad 2" 2] by (simp add: length_hex_pad length_hex_str_2)
  moreover have "set (concat (map (hex_pad 2) (bld_random b))) \<subseteq> set hex_digits"
    using set_hex_pad by fastforce
  ultimately show ?thesis unfolding generate_activation_token_def Some option.case by simp
qed

theorem activation_token_shape_witness:
  "length (generate_activation_token demo_build ''d'') = 64
     \<and> set (generate_activation_token demo_build ''d'') \<subseteq> set hex_digits"
  by (rule activation_token_shape) (simp add: demo_build_def)

text \<open>Different devices can get the same identifier: without OpenSSL the hardware identifier and the
  model key are hashed without a separator, and with it the separator may occur in both.\<close>

theorem device_id_collision:
  "generate_device_id (b\<lparr>bld_sha256 := None\<rparr>) \<lparr>areq_uid = u @ v, areq_model_key = w\<rparr>
     = generate_device_id (b\<lparr>bld_sha256 := None\<rparr>) \<lparr>areq_uid = u, areq_model_key = v @ w\<rparr>
   \<and> generate_device_id (b\<lparr>bld_sha256 := Some sha\<rparr>) \<lparr>areq_uid = u @ '':'' @ v, areq_model_key = w\<rparr>
     = generate_device_id (b\<lparr>bld_sha256 := Some sha\<rparr>) \<lparr>areq_uid = u, areq_model_key = v @ '':'' @ w\<rparr>"
  by (simp add: generate_device_id_def)

text \<open>The statement that revokes the token of one device can be turned into one that revokes the
  tokens of all: the device identifier is not escaped, and a quote in it ends the literal.\<close>

theorem revoke_token_injection:
  "sql_shape (revoke_token_sql ''d'') = Some (''UPDATE activation_tokens SET revoked=TRUE WHERE device_id=?'', [''d''])
   \<and> sql_shape (revoke_token_sql (''d'' @ [CHR 0x27] @ '' OR '' @ [CHR 0x27, CHR 0x27] @ ''='' @ [CHR 0x27]))
     = Some (''UPDATE activation_tokens SET revoked=TRUE WHERE device_id=? OR ?=?'', [''d'', '''', ''''])"
  by (simp add: revoke_token_sql_def sql_shape_def)

end
