(* ===== verification/Main_Common.thy ===== *)
theory Main_Common
  imports Api_Server Json_Helper Order_Manager Recipe_Manager Fault_Manager Device_Manager Ota_Manager
    Org_Manager Account_Manager Device_Type_Manager Device_Activation
begin

text \<open>
  What the request handlers of \<^verbatim>\<open>src/main.cpp\<close> share: the state of the program, which is the managers
  and the database, the outside world that a handler sees (database server, clock, hash function,
  random values, configuration, which files can be written), the check of the bearer token, and the pieces of JSON text.  A
  handler is a function on the whole state.  The files are a map from
  the paths as they are written to contents.  The objects a handler writes are those of
  \<open>flat_json\<close>: the sources print keys and values in this form piece by piece.
\<close>

section \<open>State and world\<close>

record 'pg app =
  ap_devices :: tenants
  ap_orders :: order_manager
  ap_recipes :: recipe_manager
  ap_faults :: "fault_info list"
  ap_ota :: ota_manager
  ap_orgs :: org_manager
  ap_accounts :: account_manager
  ap_db :: "'pg database"
  ap_mqtt_connected :: bool
  ap_database_ok :: bool
  ap_files :: "string \<Rightarrow> string option"

record 'pg world =
  wo_pq :: "'pg pq_exec"
  wo_now :: int
  wo_uptime :: int
  wo_hash :: "string \<Rightarrow> nat"
  wo_build :: build
  wo_ulid :: string
  wo_broker_env :: "string option"
  wo_mqtt_broker_uri :: string
  wo_mqtt_broker_api :: string
  wo_can_write :: "string \<Rightarrow> bool"
  wo_max_size :: nat

type_synonym 'pg handler = "'pg world \<Rightarrow> 'pg app route_handler"

section \<open>JSON text\<close>

definition json_array :: "string list \<Rightarrow> string" where
  "json_array xs = ''['' @ join (CHR '','') xs @ '']''"

text \<open>An object without its closing brace, so that raw text can follow.\<close>

definition open_json :: "(string \<times> json_val) list \<Rightarrow> string" where
  "open_json fs = butlast (flat_json fs)"

definition list_json :: "string \<Rightarrow> string list \<Rightarrow> string" where
  \<open>list_json name xs = ''{"total":'' @ nat_str (length xs) @ '',"'' @ name @ ''":'' @ json_array xs @ ''}''\<close>

definition success_json :: "string \<Rightarrow> string" where
  \<open>success_json data = ''{"code":0,"message":"success","data":'' @ data @ ''}''\<close>

definition json_strings :: "string list \<Rightarrow> string" where
  "json_strings xs = json_array (map (\<lambda>x. CHR 0x22 # x @ [CHR 0x22]) xs)"

definition status_error :: "status_code \<Rightarrow> http_response" where
  "status_error sc = error_response 400 (status_int sc) (status_message sc)"

section \<open>Parts of a request\<close>

text \<open>\<^verbatim>\<open>req.path.substr(prefix.size())\<close>.\<close>

definition path_tail :: "string \<Rightarrow> http_request \<Rightarrow> string exn" where
  "path_tail pre req = substr_from (rq_path req) (length pre)"

text \<open>The value of a parameter: the text behind the first \<open>k=\<close> of the query, which is not always its own name.\<close>

definition query_param :: "string \<Rightarrow> http_request \<Rightarrow> string" where
  "query_param k req = (case find_sub (k @ ''='') (rq_query req) of
       None \<Rightarrow> ''''
     | Some p \<Rightarrow> takeWhile (\<lambda>c. c \<noteq> CHR ''&'') (drop (p + length k + 1) (rq_query req)))"

definition rfind_sub :: "string \<Rightarrow> string \<Rightarrow> nat option" where
  "rfind_sub p s = map_option (\<lambda>i. length s - i - length p) (find_sub (rev p) (rev s))"

text \<open>What is between a prefix and a suffix of a path: when the two overlap, the subtraction wraps and the rest of
  the path is taken.\<close>

definition between :: "string \<Rightarrow> string \<Rightarrow> string \<Rightarrow> string exn" where
  "between path pre suf = (if length path < length pre + length suf then substr_from path (length pre)
     else substr path (length pre) (length path - length pre - length suf))"

definition ends_with :: "string \<Rightarrow> string \<Rightarrow> bool" where
  "ends_with s suf \<longleftrightarrow> length suf \<le> length s \<and> drop (length s - length suf) s = suf"

definition quoted :: "string \<Rightarrow> string" where
  "quoted s = CHR 0x27 # s @ [CHR 0x27]"

section \<open>The bearer token\<close>

definition bearer :: "http_request \<Rightarrow> string" where
  "bearer req = (case map_of (rq_headers req) ''Authorization'' of
       Some v \<Rightarrow> if starts_with v ''Bearer '' then drop 7 v else ''''
     | None \<Rightarrow> '''')"

definition extract_auth :: "'pg world \<Rightarrow> http_request \<Rightarrow> 'pg app \<Rightarrow> token_payload option exn" where
  "extract_auth w req s =
     (let token = (if bearer req = '''' then get_string (rq_body req) ''token'' else bearer req) in
      if token = '''' then Inr None else verify_token (wo_now w) (ap_orgs s) token (ap_accounts s))"

text \<open>A handler that only answers.\<close>

definition answer :: "http_response \<Rightarrow> 's \<Rightarrow> http_response exn \<times> 's" where
  "answer r s = (Inr r, s)"

text \<open>A computation that may throw, then a handler.\<close>

definition try_then :: "'a exn \<Rightarrow> ('a \<Rightarrow> 's \<Rightarrow> http_response exn \<times> 's) \<Rightarrow> 's \<Rightarrow> http_response exn \<times> 's" where
  "try_then x f s = (case x of Inl e \<Rightarrow> (Inl e, s) | Inr y \<Rightarrow> f y s)"

lemma try_then_simps [simp]:
  "try_then (Inl e) f s = (Inl e, s)"
  "try_then (Inr y) f s = f y s"
  by (simp_all add: try_then_def)

text \<open>Operations of the database and of a manager that writes to it.\<close>

definition on_db :: "('pg, 'a) db_op \<Rightarrow> 'pg app \<Rightarrow> 'a \<times> 'pg app" where
  "on_db f s = (case f (ap_db s) of (x, d) \<Rightarrow> (x, s\<lparr>ap_db := d\<rparr>))"

definition db_then :: "('pg, 'a exn) db_op \<Rightarrow> ('a \<Rightarrow> 'pg app \<Rightarrow> http_response exn \<times> 'pg app) \<Rightarrow> 'pg app \<Rightarrow> http_response exn \<times> 'pg app" where
  "db_then f k s = (case on_db f s of (Inl e, s1) \<Rightarrow> (Inl e, s1) | (Inr x, s1) \<Rightarrow> k x s1)"

definition db_after :: "'pg database option \<Rightarrow> 'pg app \<Rightarrow> 'pg app" where
  "db_after d s = (case d of None \<Rightarrow> s | Some d' \<Rightarrow> s\<lparr>ap_db := d'\<rparr>)"

section \<open>A state for the witnesses\<close>

definition demo_world :: "unit world" where
  "demo_world = \<lparr>wo_pq = (\<lambda>_ c. (Pg_error, c)), wo_now = 100, wo_uptime = 7, wo_hash = length, wo_build = demo_build, wo_ulid = ''U'',
     wo_broker_env = None, wo_mqtt_broker_uri = '''', wo_mqtt_broker_api = '''', wo_can_write = (\<lambda>_. True), wo_max_size = 1000\<rparr>"

definition demo_app :: "unit app" where
  "demo_app = \<lparr>ap_devices = [], ap_orders = new_order_manager, ap_recipes = new_recipe_manager, ap_faults = [], ap_ota = new_ota_manager,
     ap_orgs = new_org_manager, ap_accounts = new_account_manager,
     ap_db = \<lparr>db_conn_string = '''', db_opened = False, db_conn = None\<rparr>, ap_mqtt_connected = False, ap_database_ok = True, ap_files = (\<lambda>_. None)\<rparr>"

end
