(* ===== verification/Main_Devices.thy ===== *)
theory Main_Devices
  imports Main_Common
begin

text \<open>
  The handlers of \<^verbatim>\<open>src/main.cpp\<close> for health, devices and tenants: what they answer, whom they show
  which devices, and what they change.
\<close>

section \<open>Health and activation\<close>

definition h_health :: "'pg handler" where
  "h_health w req s = answer (json_response 200 (flat_json [(''status'', Json_Str ''ok''),
     (''service'', Json_Str ''dev-sys-cloud''), (''version'', Json_Str ''1.0.0''), (''uptime_seconds'', Json_Int (wo_uptime w)),
     (''mqtt_connected'', Json_Bool (ap_mqtt_connected s)), (''database_ok'', Json_Bool (ap_database_ok s))])) s"

text \<open>The device that an activation puts into the registry, and the answer.\<close>

definition registered_device :: "int \<Rightarrow> activation_request \<Rightarrow> activation_response \<Rightarrow> device" where
  "registered_device now req resp = new_device\<lparr>dev_device_id := ares_device_id resp, dev_tenant_id := ares_tenant_id resp,
     dev_product_id := ares_product_id resp,
     dev_type := (if ares_device_type resp = ''coffee_machine'' then COFFEE_MACHINE
       else if ares_device_type resp = ''instant_machine'' then INSTANT_MACHINE
       else if ares_device_type resp = ''water_dispenser'' then WATER_DISPENSER else OTHER),
     dev_model := ares_model_code resp, dev_hardware_uid := areq_uid req, dev_firmware_version := ares_firmware_version resp,
     dev_network_status := ONLINE, dev_work_status := WORK_IDLE, dev_activated := True,
     dev_last_heartbeat_at := now, dev_activated_at := now\<rparr>"

definition activation_json :: "activation_response \<Rightarrow> string" where
  "activation_json resp = flat_json ([(''success'', Json_Bool (ares_success resp)), (''device_id'', Json_Str (ares_device_id resp)),
     (''model_key'', Json_Str (ares_model_key resp)), (''model_code'', Json_Str (ares_model_code resp)),
     (''tenant_name'', Json_Str (ares_tenant_id resp)), (''product_id'', Json_Str (ares_product_id resp)),
     (''device_type'', Json_Str (ares_device_type resp)), (''firmware_version'', Json_Str (ares_firmware_version resp)),
     (''activation_token'', Json_Str (ares_activation_token resp)), (''mqtt_broker_uri'', Json_Str (ares_mqtt_broker_uri resp)),
     (''ttl_seconds'', Json_Int (ares_ttl_seconds resp))] @
     (if ares_error_message resp \<noteq> '''' then [(''error_code'', Json_Int (ares_error_code resp)),
        (''error_message'', Json_Str (ares_error_message resp))] else []))"

definition h_activate :: "'pg handler" where
  "h_activate w req s =
     (let act_req = \<lparr>areq_uid = get_string (rq_body req) ''uid'', areq_model_key = get_string (rq_body req) ''model_key''\<rparr>;
          remote_ip = (if rq_remote_ip req = '''' then ''127.0.0.1'' else rq_remote_ip req) in
      case on_db (process_activation (wo_pq w) (wo_build w) (wo_now w) (wo_mqtt_broker_uri w) act_req remote_ip) s of
        (Inl e, s1) \<Rightarrow> (Inl e, s1)
      | (Inr resp, s1) \<Rightarrow>
          (let s2 = (if ares_success resp then
                 (case register_device (wo_pq w) (registered_device (wo_now w) act_req resp) (ap_devices s1, Some (ap_db s1)) of
                    (_, m, d) \<Rightarrow> db_after d (s1\<lparr>ap_devices := m\<rparr>))
               else s1)
           in answer (json_response (if ares_success resp then 201 else 400) (activation_json resp)) s2))"

section \<open>Device lists\<close>

text \<open>The tenants of the organisations in the scope of a token.\<close>

definition visible_tenants :: "token_payload \<Rightarrow> org_manager \<Rightarrow> string set" where
  "visible_tenants tp orgs = {org_tenant_id o' | oid o'. oid \<in> set (tp_org_scope tp) \<and> get_org oid orgs = Some o'}"

lemma visible_tenants_code [code]:
  "visible_tenants tp orgs = set (concat (map (\<lambda>oid. case get_org oid orgs of None \<Rightarrow> [] | Some o' \<Rightarrow> [org_tenant_id o']) (tp_org_scope tp)))"
  by (force simp: visible_tenants_def split: option.splits)

text \<open>A valid token of an account that is no super admin restricts the list; no token does not.\<close>

definition scoped_devices :: "token_payload option \<Rightarrow> org_manager \<Rightarrow> device list \<Rightarrow> device list" where
  "scoped_devices tp orgs devs = (case tp of
       Some t \<Rightarrow> if tp_role_code t \<noteq> ''super_admin'' then filter (\<lambda>d. dev_tenant_id d \<in> visible_tenants t orgs) devs else devs
     | None \<Rightarrow> devs)"

definition device_status_json :: "device \<Rightarrow> string" where
  "device_status_json d = flat_json [(''device_id'', Json_Str (dev_device_id d)), (''tenant_id'', Json_Str (dev_tenant_id d)),
     (''network_status'', Json_Int (uint (dev_network_status d))), (''work_status'', Json_Int (uint (dev_work_status d))),
     (''type'', Json_Int (uint (dev_type d)))]"

definition h_device_status :: "'pg handler" where
  "h_device_status w req s = try_then (extract_auth w req s) (\<lambda>tp.
     answer (json_response 200 (list_json ''devices''
       (map device_status_json (scoped_devices tp (ap_orgs s) (list_all_devices (ap_devices s))))))) s"

definition device_json :: "device \<Rightarrow> string" where
  "device_json d = flat_json [(''device_id'', Json_Str (dev_device_id d)), (''tenant_id'', Json_Str (dev_tenant_id d)),
     (''product_id'', Json_Str (dev_product_id d)), (''model'', Json_Str (dev_model d)),
     (''hardware_uid'', Json_Str (dev_hardware_uid d)), (''firmware_version'', Json_Str (dev_firmware_version d)),
     (''type'', Json_Int (uint (dev_type d))), (''network_status'', Json_Int (uint (dev_network_status d))),
     (''work_status'', Json_Int (uint (dev_work_status d))), (''activated'', Json_Bool (dev_activated d)),
     (''ts'', Json_Int (dev_last_heartbeat_at d)), (''activated_at'', Json_Int (dev_activated_at d))]"

definition h_devices :: "'pg handler" where
  "h_devices w req s = try_then (extract_auth w req s) (\<lambda>tp.
     answer (json_response 200 (success_json (list_json ''devices''
       (map device_json (scoped_devices tp (ap_orgs s) (list_all_devices (ap_devices s)))))))) s"

section \<open>Moving and deleting\<close>

text \<open>The texts are put into the statements as they are.\<close>

definition ensure_tenant_sql :: "string \<Rightarrow> string" where
  "ensure_tenant_sql t = ''INSERT INTO tenants (tenant_id, name) VALUES ('' @ quoted t @ '','' @ quoted t
     @ '') ON CONFLICT (tenant_id) DO NOTHING''"

definition move_device_sql :: "string \<Rightarrow> string \<Rightarrow> string" where
  "move_device_sql t d = ''UPDATE devices SET tenant_id='' @ quoted t @ '', updated_at=EXTRACT(EPOCH FROM NOW())::BIGINT ''
     @ ''WHERE device_id='' @ quoted d"

definition h_migrate_device :: "'pg handler" where
  "h_migrate_device w req s = try_then (path_tail ''/api/v1/devices/'' req) (\<lambda>rest s.
     case rfind_sub ''/tenant'' rest of
       None \<Rightarrow> answer (error_response 404 1002 ''Not found'') s
     | Some slash \<Rightarrow>
        (let device_id = take slash rest; new_tenant = get_string (rq_body req) ''tenant_id'' in
         if new_tenant = '''' then answer (error_response 400 1001 ''tenant_id is required'') s
         else (let s1 = snd (on_db (execute (wo_pq w) (ensure_tenant_sql new_tenant)) s) in
           case migrate_device device_id new_tenant (ap_devices s1) of (mg_sc, m) \<Rightarrow>
             if mg_sc \<noteq> OK then answer (error_response 404 1002 (''Device not found: '' @ device_id)) (s1\<lparr>ap_devices := m\<rparr>)
             else (case on_db (execute (wo_pq w) (move_device_sql new_tenant device_id)) (s1\<lparr>ap_devices := m\<rparr>) of (sc, s2) \<Rightarrow>
               if sc \<noteq> OK then answer (error_response 500 2000 ''Database update failed'') s2
               else answer (json_response 200 (success_json
                 (flat_json [(''device_id'', Json_Str device_id), (''tenant_id'', Json_Str new_tenant)]))) s2)))) s"

definition h_delete_device :: "'pg handler" where
  "h_delete_device w req s = try_then (path_tail ''/api/v1/devices/'' req) (\<lambda>did s.
     (let tid = (case List.find (\<lambda>d. dev_device_id d = did) (list_all_devices (ap_devices s)) of
           None \<Rightarrow> '''' | Some d \<Rightarrow> dev_tenant_id d) in
      if tid = '''' then answer (error_response 404 1002 (''Device not found: '' @ did)) s
      else (let s1 = s\<lparr>ap_devices := snd (remove_device tid did (ap_devices s))\<rparr>;
                s2 = snd (on_db (execute (wo_pq w) (''DELETE FROM activation_tokens WHERE device_id='' @ quoted did)) s1);
                s3 = snd (on_db (execute (wo_pq w) (''DELETE FROM devices WHERE device_id='' @ quoted did)) s2)
            in answer (json_response 200 (success_json (flat_json [(''device_id'', Json_Str did), (''deleted'', Json_Bool True)]))) s3))) s"

section \<open>Tenants\<close>

definition tenant_json :: "tenants \<Rightarrow> org_info \<Rightarrow> string" where
  "tenant_json m o' = flat_json [(''org_id'', Json_Int (org_org_id o')), (''tenant_id'', Json_Str (org_tenant_id o')),
     (''org_name'', Json_Str (org_org_name o')), (''org_type'', Json_Str (org_org_type o')), (''parent_id'', Json_Int (org_parent_id o')),
     (''level'', Json_Int (org_level o')), (''path'', Json_Str (org_path o')), (''active'', Json_Bool (org_is_active o')),
     (''device_count'', Json_Int (device_count (org_tenant_id o') m))]"

definition scoped_orgs :: "token_payload option \<Rightarrow> org_info list \<Rightarrow> org_info list" where
  "scoped_orgs tp orgs = (case tp of
       Some t \<Rightarrow> if tp_role_code t \<noteq> ''super_admin'' then filter (\<lambda>o'. org_org_id o' \<in> set (tp_org_scope t)) orgs else orgs
     | None \<Rightarrow> orgs)"

definition h_tenants :: "'pg handler" where
  "h_tenants w req s = try_then (extract_auth w req s) (\<lambda>tp.
     answer (json_response 200 (success_json (list_json ''tenants''
       (map (tenant_json (ap_devices s)) (scoped_orgs tp (list_orgs (- 1) '''' True (ap_orgs s)))))))) s"

text \<open>The number of devices online is the size of the tenant less the number of offline devices of all tenants.\<close>

definition tenant_detail_fields :: "string \<Rightarrow> org_info option \<Rightarrow> (string \<times> json_val) list" where
  "tenant_detail_fields tenant_id org = (''tenant_id'', Json_Str tenant_id) # (case org of
       Some o' \<Rightarrow> [(''org_id'', Json_Int (org_org_id o')), (''org_name'', Json_Str (org_org_name o')), (''org_type'', Json_Str (org_org_type o')),
         (''parent_id'', Json_Int (org_parent_id o')), (''level'', Json_Int (org_level o')), (''path'', Json_Str (org_path o')),
         (''contact_name'', Json_Str (org_contact_name o')), (''contact_phone'', Json_Str (org_contact_phone o')),
         (''contact_email'', Json_Str (org_contact_email o')), (''address'', Json_Str (org_address o')),
         (''is_active'', Json_Bool (org_is_active o'))]
     | None \<Rightarrow> [(''org_id'', Json_Int 0), (''org_name'', Json_Str ''''), (''org_type'', Json_Str ''''), (''is_active'', Json_Bool True)])"

definition h_tenant :: "'pg handler" where
  "h_tenant w req s = try_then (path_tail ''/api/v1/tenants/'' req) (\<lambda>tenant_id s.
     if CHR ''/'' \<in> set tenant_id then answer (error_response 404 1002 (''Not found: '' @ rq_path req)) s
     else (let online = int (length (list_devices tenant_id (ap_devices s))) - int (length (list_offline_devices (wo_now w) 180 (ap_devices s))) in
       answer (json_response 200 (success_json (flat_json (tenant_detail_fields tenant_id (get_org_by_tenant tenant_id (ap_orgs s)) @
         [(''device_count'', Json_Int (device_count tenant_id (ap_devices s))),
          (''online_count'', Json_Int (if 0 < online then online else 0))])))) s)) s"

definition tenant_device_json :: "device \<Rightarrow> string" where
  "tenant_device_json d = flat_json [(''device_id'', Json_Str (dev_device_id d)), (''product_id'', Json_Str (dev_product_id d)),
     (''type'', Json_Int (uint (dev_type d))), (''network_status'', Json_Int (uint (dev_network_status d))),
     (''work_status'', Json_Int (uint (dev_work_status d))), (''firmware_version'', Json_Str (dev_firmware_version d)),
     (''model'', Json_Str (dev_model d)), (''ts'', Json_Int (dev_last_heartbeat_at d))]"

definition h_tenant_devices :: "'pg handler" where
  "h_tenant_devices w req s =
     (if \<not> ends_with (rq_path req) ''/devices'' then answer (error_response 404 1002 (''Not found: '' @ rq_path req)) s
      else try_then (between (rq_path req) ''/api/v1/tenants/'' ''/devices'') (\<lambda>tenant_id.
        answer (json_response 200 (success_json (list_json ''devices''
          (map tenant_device_json (list_devices tenant_id (ap_devices s))))))) s)"

section \<open>Configuration\<close>

definition h_get_config :: "'pg handler" where
  "h_get_config w req s = answer (json_response 200 (success_json (flat_json [(''service_name'', Json_Str ''dev-sys-cloud''),
     (''version'', Json_Str ''1.0.0''), (''mqtt_broker_uri'', Json_Str (wo_mqtt_broker_uri w)),
     (''mqtt_broker_api'', Json_Str (wo_mqtt_broker_api w)), (''mqtt_client_id'', Json_Str ''cloud-platform-service-001''),
     (''heartbeat_timeout_sec'', Json_Int 180), (''offline_check_interval_sec'', Json_Int 30), (''order_expire_minutes'', Json_Int 15),
     (''max_queue_depth'', Json_Int 10), (''api_port'', Json_Int 8080), (''log_level'', Json_Str ''INFO''),
     (''db_conn'', Json_Str ''postgresql://devsys@127.0.0.1:5432/devsys_cloud'')]))) s"

definition h_put_config :: "'pg handler" where
  "h_put_config w req s = answer (json_response 200 (success_json (flat_json [(''updated'', Json_Bool True),
     (''note'', Json_Str ''Configuration update mocked. Restart required for some changes.'')]))) s"

section \<open>Who sees which devices\<close>

lemma get_org_iff:
  assumes "og_inv orgs"
  shows "get_org i orgs = Some o' \<longleftrightarrow> o' \<in> set (og_orgs orgs) \<and> org_org_id o' = i"
proof
  assume o: "o' \<in> set (og_orgs orgs) \<and> org_org_id o' = i"
  have dis: "distinct (map org_org_id (og_orgs orgs))" using assms by (simp add: og_inv_def places_ok_def comp_def)
  obtain o2 where o2: "get_org i orgs = Some o2"
    using o by (cases "get_org i orgs") (auto simp: get_org_def find_None_iff)
  then have "o2 \<in> set (og_orgs orgs)" "org_org_id o2 = i" by (auto dest: get_org_SomeD)
  with o dis have "o2 = o'" by (metis (mono_tags, lifting) eq_key_imp_eq_value distinct_map inj_onD)
  with o2 show "get_org i orgs = Some o'" by simp
qed (auto dest: get_org_SomeD)

lemma extract_auth_scope:
  assumes "extract_auth w req s = Inr (Some tp)"
  shows "tp_org_scope tp = get_org_scope (tp_org_id tp) (ap_orgs s)"
proof -
  from assms obtain token where "verify_token (wo_now w) (ap_orgs s) token (ap_accounts s) = Inr (Some tp)"
    by (auto simp: extract_auth_def Let_def split: if_splits)
  from verify_token_worth [OF this] show ?thesis by (auto dest: token_worth_SomeD(1))
qed

text \<open>The device belongs to the organisation or to one below it along the parent links.\<close>

definition belongs_below :: "org_manager \<Rightarrow> int \<Rightarrow> device \<Rightarrow> bool" where
  "belongs_below orgs i d \<longleftrightarrow> (\<exists>o' \<in> set (og_orgs orgs). org_tenant_id o' = dev_tenant_id d
     \<and> (org_org_id o' = i \<or> below (og_orgs orgs) i (org_org_id o')))"

lemma scoped_devices_below:
  assumes "extract_auth w req s = Inr (Some tp)" "tp_role_code tp \<noteq> ''super_admin''"
    and "og_inv (ap_orgs s)" "no_orphans (ap_orgs s)" "org_exists (tp_org_id tp) (ap_orgs s)"
  shows "scoped_devices (Some tp) (ap_orgs s) devs = filter (belongs_below (ap_orgs s) (tp_org_id tp)) devs"
proof -
  have "set (tp_org_scope tp) = {tp_org_id tp} \<union> {j. below (og_orgs (ap_orgs s)) (tp_org_id tp) j}"
    using extract_auth_scope [OF assms(1)] scope_below [OF assms(3-5)] by simp
  then have "dev_tenant_id d \<in> visible_tenants tp (ap_orgs s) \<longleftrightarrow> belongs_below (ap_orgs s) (tp_org_id tp) d" for d
    by (simp add: visible_tenants_def belongs_below_def get_org_iff [OF assms(3)]) metis
  with assms(2) show ?thesis by (simp add: scoped_devices_def cong: filter_cong)
qed

text \<open>C11. With a valid token of an account that is no super admin the list of devices holds exactly the devices of
  the account's organisation and of the organisations below it, and the state is not changed.\<close>

theorem device_list_scope:
  assumes "extract_auth w req s = Inr (Some tp)" "tp_role_code tp \<noteq> ''super_admin''"
    and "og_inv (ap_orgs s)" "no_orphans (ap_orgs s)" "org_exists (tp_org_id tp) (ap_orgs s)"
  shows "h_devices w req s = (Inr (json_response 200 (success_json (list_json ''devices''
      (map device_json (filter (belongs_below (ap_orgs s) (tp_org_id tp)) (list_all_devices (ap_devices s))))))), s)
    \<and> h_device_status w req s = (Inr (json_response 200 (list_json ''devices''
      (map device_status_json (filter (belongs_below (ap_orgs s) (tp_org_id tp)) (list_all_devices (ap_devices s)))))), s)"
  using scoped_devices_below [OF assms] assms(1)
  by (simp add: h_devices_def h_device_status_def answer_def)

definition demo_state :: "unit app" where
  "demo_state = demo_app\<lparr>ap_orgs := demo_orgs, ap_accounts := demo_accounts,
     ap_devices := [(''acme'', [(''d1'', new_device\<lparr>dev_tenant_id := ''acme'', dev_device_id := ''d1''\<rparr>)])]\<rparr>"

definition demo_token_request :: http_request where
  "demo_token_request = new_request\<lparr>rq_method := ''GET'', rq_path := ''/api/v1/devices'',
     rq_headers := [(''Authorization'', ''Bearer '' @ token_text 1 86405)]\<rparr>"

lemma demo_token_auth:
  "\<exists>tp. extract_auth demo_world demo_token_request demo_state = Inr (Some tp) \<and> tp_org_id tp = 1 \<and> tp_role_code tp = ''viewer''"
proof -
  let ?a = "created_account length 0 demo_orgs demo_bob ''pw'' new_account_manager"
  have a: "acc_org_id ?a = 1" "acc_role_code ?a = ''viewer''" "acc_is_active ?a"
    by (simp_all add: created_account_def demo_bob_def new_account_info_def Let_def split: option.splits)
  have "get_account 1 demo_accounts = Some (hide_hash ?a)"
    by (simp add: get_account_def demo_accounts_eval new_account_manager_def)
  moreover have "bearer demo_token_request = token_text 1 86405" "token_text 1 86405 \<noteq> ''''"
    by (simp_all add: bearer_def demo_token_request_def token_text_def)
  ultimately show ?thesis
    using verify_token_text [of 1 86405 "[]" 100 demo_orgs demo_accounts] a
    by (simp add: extract_auth_def demo_state_def demo_world_def demo_accounts_eval token_worth_def hide_hash_def
        int32_min_def int32_max_def int64_min_def int64_max_def)
qed

theorem device_list_scope_witness:
  "h_devices demo_world demo_token_request demo_state = (Inr (json_response 200 (success_json (list_json ''devices''
      (map device_json (filter (belongs_below demo_orgs 1) (list_all_devices (ap_devices demo_state))))))), demo_state)"
proof -
  obtain tp where tp: "extract_auth demo_world demo_token_request demo_state = Inr (Some tp)" "tp_org_id tp = 1" "tp_role_code tp = ''viewer''"
    using demo_token_auth by blast
  have o: "ap_orgs demo_state = demo_orgs" by (simp add: demo_state_def)
  from device_list_scope [OF tp(1)] tp demo_orgs_inv demo_orgs_ok show ?thesis by (simp add: o)
qed

text \<open>Without a token the same request is not refused: it gets every device of every tenant, and so does the
  list of the devices of a tenant, which never looks at the token.\<close>

theorem device_list_open:
  assumes "bearer req = ''''" "get_string (rq_body req) ''token'' = ''''"
  shows "h_devices w req s = (Inr (json_response 200 (success_json (list_json ''devices''
      (map device_json (list_all_devices (ap_devices s)))))), s)
    \<and> h_tenants w req s = (Inr (json_response 200 (success_json (list_json ''tenants''
      (map (tenant_json (ap_devices s)) (list_orgs (- 1) '''' True (ap_orgs s)))))), s)"
  using assms by (simp add: h_devices_def h_tenants_def extract_auth_def scoped_devices_def scoped_orgs_def answer_def)

theorem device_list_open_witness:
  "h_devices demo_world new_request demo_state = (Inr (json_response 200 (success_json (list_json ''devices''
      (map device_json (list_all_devices (ap_devices demo_state)))))), demo_state)"
proof -
  have "bearer new_request = ''''" "get_string (rq_body new_request) ''token'' = ''''" by code_simp+
  from device_list_open [OF this, of demo_world demo_state] show ?thesis by blast
qed

end
