(* ===== verification/Main_Types.thy ===== *)
theory Main_Types
  imports Main_Common
begin

text \<open>
  The handlers of \<^verbatim>\<open>src/main.cpp\<close> for device types and models, over the operations of the device type
  manager, which are sequences of database operations.
\<close>

section \<open>Types\<close>

definition type_fields :: "device_type_info \<Rightarrow> (string \<times> json_val) list" where
  "type_fields t = [(''id'', Json_Int (dti_id t)), (''type_code'', Json_Str (dti_type_code t)),
     (''display_name'', Json_Str (dti_display_name t)), (''description'', Json_Str (dti_description t)),
     (''internal_type'', Json_Int (dti_internal_type t)), (''icon_url'', Json_Str (dti_icon_url t)),
     (''sort_order'', Json_Int (dti_sort_order t)), (''is_active'', Json_Bool (dti_is_active t))]"

text \<open>The option to see inactive types is looked for in the path, from which the query has been removed.\<close>

definition h_types :: "'pg handler" where
  "h_types w req s = db_then (list_types (wo_pq w) (find_sub ''include_inactive=true'' (rq_path req) = None)) (\<lambda>types.
     answer (json_response 200 (list_json ''types'' (map (\<lambda>t. flat_json (type_fields t @
       [(''created_at'', Json_Str (dti_created_at t)), (''updated_at'', Json_Str (dti_updated_at t))])) types)))) s"

definition h_type :: "'pg handler" where
  "h_type w req s = try_then (path_tail ''/api/v1/device-types/'' req) (\<lambda>code.
     db_then (get_type (wo_pq w) code) (\<lambda>t. case t of
         None \<Rightarrow> answer (error_response 404 (- 404) (''Type not found: '' @ code))
       | Some t' \<Rightarrow> answer (json_response 200 (flat_json (type_fields t'))))) s"

definition requested_type :: "string \<Rightarrow> string \<Rightarrow> bool \<Rightarrow> device_type_info exn" where
  "requested_type body code active =
     exn_bind (get_int body ''internal_type'' 4) (\<lambda>internal.
     exn_bind (get_int body ''sort_order'' 0) (\<lambda>order.
     Inr (new_device_type_info\<lparr>dti_type_code := code, dti_display_name := get_string body ''display_name'',
       dti_description := get_string body ''description'', dti_internal_type := internal, dti_icon_url := get_string body ''icon_url'',
       dti_sort_order := order, dti_is_active := active\<rparr>)))"

definition h_create_type :: "'pg handler" where
  "h_create_type w req s =
     (let code = get_string (rq_body req) ''type_code'' in
      try_then (requested_type (rq_body req) code True) (\<lambda>i.
        db_then (create_type (wo_pq w) i) (\<lambda>sc.
          if sc \<noteq> OK then answer (status_error sc)
          else answer (json_response 201 (flat_json [(''success'', Json_Bool True), (''type_code'', Json_Str code)])))) s)"

definition h_update_type :: "'pg handler" where
  "h_update_type w req s = try_then (path_tail ''/api/v1/device-types/'' req) (\<lambda>code.
     db_then (type_exists (wo_pq w) code) (\<lambda>ex.
       if \<not> ex then answer (error_response 404 (- 404) (''Type not found: '' @ code))
       else try_then (requested_type (rq_body req) code (get_bool (rq_body req) ''is_active'' True)) (\<lambda>i.
         db_then (update_type (wo_pq w) code i) (\<lambda>sc.
           if sc \<noteq> OK then answer (status_error sc)
           else answer (json_response 200 (flat_json [(''success'', Json_Bool True), (''type_code'', Json_Str code)])))))) s"

definition h_delete_type :: "'pg handler" where
  "h_delete_type w req s = try_then (path_tail ''/api/v1/device-types/'' req) (\<lambda>code.
     db_then (delete_type (wo_pq w) code) (\<lambda>sc.
       if sc \<noteq> OK then answer (status_error sc)
       else answer (json_response 200 (flat_json [(''success'', Json_Bool True), (''type_code'', Json_Str code), (''deleted'', Json_Bool True)])))) s"

section \<open>Models\<close>

definition model_fields :: "device_model_info \<Rightarrow> (string \<times> json_val) list" where
  "model_fields m = [(''id'', Json_Int (dmi_id m)), (''model_code'', Json_Str (dmi_model_code m)), (''model_key'', Json_Str (dmi_model_key m)),
     (''type_code'', Json_Str (dmi_type_code m)), (''display_name'', Json_Str (dmi_display_name m)), (''description'', Json_Str (dmi_description m)),
     (''specs_json'', Json_Str (dmi_specs_json m)), (''firmware_base'', Json_Str (dmi_firmware_base m)),
     (''is_active'', Json_Bool (dmi_is_active m)), (''sort_order'', Json_Int (dmi_sort_order m))]"

definition model_filter :: "http_request \<Rightarrow> string" where
  "model_filter req = (case find_sub ''?type_code='' (rq_path req) of
       Some q \<Rightarrow> drop (q + 11) (rq_path req)
     | None \<Rightarrow> (case map_of (rq_headers req) ''X-Filter-Type'' of Some v \<Rightarrow> v | None \<Rightarrow> ''''))"

definition h_models :: "'pg handler" where
  "h_models w req s = db_then (list_models (wo_pq w) (model_filter req) True) (\<lambda>models.
     answer (json_response 200 (list_json ''models'' (map (\<lambda>m. flat_json (model_fields m @
       [(''created_at'', Json_Str (dmi_created_at m))])) models)))) s"

definition h_model :: "'pg handler" where
  "h_model w req s = try_then (path_tail ''/api/v1/device-models/'' req) (\<lambda>code.
     db_then (get_model (wo_pq w) code) (\<lambda>m. case m of
         None \<Rightarrow> answer (error_response 404 (- 404) (''Model not found: '' @ code))
       | Some m' \<Rightarrow> answer (json_response 200 (flat_json (model_fields m'))))) s"

definition requested_model :: "string \<Rightarrow> string \<Rightarrow> string \<Rightarrow> bool \<Rightarrow> device_model_info exn" where
  "requested_model body code key active = exn_bind (get_int body ''sort_order'' 0) (\<lambda>order.
     Inr (new_device_model_info\<lparr>dmi_model_code := code, dmi_model_key := key, dmi_type_code := get_string body ''type_code'',
       dmi_display_name := get_string body ''display_name'', dmi_description := get_string body ''description'',
       dmi_specs_json := get_string body ''specs_json'', dmi_firmware_base := get_string body ''firmware_base'',
       dmi_is_active := active, dmi_sort_order := order\<rparr>))"

definition h_create_model :: "'pg handler" where
  \<open>h_create_model w req s =
     (let code = get_string (rq_body req) ''model_code''; key = keep_if_empty (get_string (rq_body req) ''model_key'') (wo_ulid w) in
      try_then (requested_model (rq_body req) code key True) (\<lambda>i.
        (let i' = i\<lparr>dmi_specs_json := keep_if_empty (dmi_specs_json i) ''{}'', dmi_firmware_base := keep_if_empty (dmi_firmware_base i) ''1.0.0''\<rparr> in
         db_then (create_model (wo_pq w) i') (\<lambda>sc.
           if sc \<noteq> OK then answer (status_error sc)
           else answer (json_response 201 (flat_json [(''success'', Json_Bool True), (''model_code'', Json_Str code), (''model_key'', Json_Str key)]))))) s)\<close>

definition h_update_model :: "'pg handler" where
  "h_update_model w req s = try_then (path_tail ''/api/v1/device-models/'' req) (\<lambda>code.
     db_then (model_exists (wo_pq w) code) (\<lambda>ex.
       if \<not> ex then answer (error_response 404 (- 404) (''Model not found: '' @ code))
       else (let key = get_string (rq_body req) ''model_key'' in
         try_then (requested_model (rq_body req) code key (get_bool (rq_body req) ''is_active'' True)) (\<lambda>i.
           db_then (update_model (wo_pq w) code i) (\<lambda>sc.
             if sc \<noteq> OK then answer (status_error sc)
             else answer (json_response 200 (flat_json [(''success'', Json_Bool True), (''model_code'', Json_Str code), (''model_key'', Json_Str key)]))))))) s"

definition h_delete_model :: "'pg handler" where
  "h_delete_model w req s = try_then (path_tail ''/api/v1/device-models/'' req) (\<lambda>code.
     db_then (delete_model (wo_pq w) code) (\<lambda>sc.
       if sc \<noteq> OK then answer (status_error sc)
       else answer (json_response 200 (flat_json [(''success'', Json_Bool True), (''model_code'', Json_Str code), (''deleted'', Json_Bool True)])))) s"

end
