(* ===== verification/Main_Orders.thy ===== *)
theory Main_Orders
  imports Main_Common
begin

text \<open>
  The handlers of \<^verbatim>\<open>src/main.cpp\<close> for orders, recipes and faults.  The lists of recipes, whose steps
  print numbers of type \<^verbatim>\<open>double\<close>, are not modelled; what changes recipes is.
\<close>

section \<open>Orders\<close>

definition order_fields :: "(string \<times> json_val) list \<Rightarrow> order_info \<Rightarrow> (string \<times> json_val) list" where
  "order_fields name o' = [(''order_id'', Json_Str (ord_order_id o')), (''tenant_id'', Json_Str (ord_tenant_id o')),
     (''device_id'', Json_Str (ord_device_id o')), (''recipe_id'', Json_Str (ord_recipe_id o'))] @ name @
     [(''cup_size'', Json_Str (ord_cup_size o')), (''quantity'', Json_Int (ord_quantity o')),
     (''total_amount'', Json_Int (ord_total_amount o')), (''payment_method'', Json_Str (ord_payment_method o')),
     (''status'', Json_Int (uint (ord_status o')))]"

text \<open>The creation time is printed as a number: the stored text as it is.\<close>

definition order_text :: "(string \<times> json_val) list \<Rightarrow> string \<Rightarrow> order_info \<Rightarrow> string" where
  \<open>order_text name ts o' = open_json (order_fields name o') @ '',"created_at":'' @ ts
     @ (if ord_failure_reason o' \<noteq> '''' then '',"failure_reason":"'' @ ord_failure_reason o' @ ''"'' else '''') @ ''}''\<close>

definition order_list_json :: "int \<Rightarrow> recipe_manager \<Rightarrow> order_info \<Rightarrow> string" where
  "order_list_json now rm o' = order_text
     [(''recipe_name'', Json_Str (case find_by_id (ord_recipe_id o') rm of None \<Rightarrow> '''' | Some r \<Rightarrow> rec_recipe_name r))]
     (if ord_created_at o' = '''' \<or> ord_created_at o' = ''0'' then to_string now else ord_created_at o') o'"

definition h_orders :: "'pg handler" where
  "h_orders w req s = answer (json_response 200 (success_json (list_json ''orders''
     (map (order_list_json (wo_now w) (ap_recipes s)) (om_list_all_orders (ap_orders s)))))) s"

definition h_order :: "'pg handler" where
  "h_order w req s = try_then (path_tail ''/api/v1/orders/'' req) (\<lambda>order_id s.
     case om_get_order order_id (ap_orders s) of
       None \<Rightarrow> answer (error_response 404 1002 (''Order not found: '' @ order_id)) s
     | Some o' \<Rightarrow> answer (json_response 200 (success_json
         (order_text [] (if ord_created_at o' = '''' then ''0'' else ord_created_at o') o'))) s) s"

definition requested_order :: "string \<Rightarrow> order_info exn" where
  "requested_order body =
     exn_bind (get_int body ''quantity'' 1) (\<lambda>q.
     exn_bind (get_int body ''total_amount'' 0) (\<lambda>a.
     Inr (new_order_info\<lparr>ord_order_id := get_string body ''order_id'', ord_tenant_id := get_string body ''tenant_id'',
       ord_device_id := get_string body ''device_id'', ord_recipe_id := get_string body ''recipe_id'',
       ord_cup_size := get_string body ''cup_size'', ord_quantity := q, ord_total_amount := a,
       ord_payment_method := get_string body ''payment_method''\<rparr>)))"

definition h_create_order :: "'pg handler" where
  "h_create_order w req s = try_then (requested_order (rq_body req)) (\<lambda>ord s.
     if ord_order_id ord = '''' \<or> ord_device_id ord = '''' then answer (error_response 400 1001 ''order_id and device_id are required'') s
     else (let ord' = (if ord_tenant_id ord = '''' then ord\<lparr>ord_tenant_id := ''default''\<rparr> else ord) in
       case om_create_order (wo_pq w) ord' (ap_orders s, Some (ap_db s)) of (sc, om, d) \<Rightarrow>
         (let s1 = db_after d (s\<lparr>ap_orders := om\<rparr>) in
          if sc \<noteq> OK then answer (status_error sc) s1
          else answer (json_response 201 (success_json (flat_json [(''order_id'', Json_Str (ord_order_id ord'))]))) s1))) s"

definition order_action :: "string \<Rightarrow> string \<Rightarrow> string \<Rightarrow> order_manager \<Rightarrow> (status_code \<times> order_manager) option" where
  "order_action action order_id body om =
     (if action = ''confirm_payment'' then Some (om_confirm_payment order_id om)
      else if action = ''start_brewing'' then Some (om_start_brewing order_id om)
      else if action = ''complete'' then Some (om_complete_brewing order_id om)
      else if action = ''fail'' then Some (om_fail_brewing order_id (get_string body ''reason'') om)
      else if action = ''cancel'' then Some (om_cancel_order order_id om)
      else None)"

definition h_update_order :: "'pg handler" where
  "h_update_order w req s = try_then (path_tail ''/api/v1/orders/'' req) (\<lambda>order_id s.
     (let action = get_string (rq_body req) ''action'' in
      case order_action action order_id (rq_body req) (ap_orders s) of
        None \<Rightarrow> answer (error_response 400 1001
          ''Invalid action. Valid: confirm_payment, start_brewing, complete, fail, cancel'') s
      | Some (sc, om) \<Rightarrow>
          if sc \<noteq> OK then answer (status_error sc) (s\<lparr>ap_orders := om\<rparr>)
          else answer (json_response 200 (success_json
            (flat_json [(''order_id'', Json_Str order_id), (''action'', Json_Str action)]))) (s\<lparr>ap_orders := om\<rparr>))) s"

definition h_cancel_order :: "'pg handler" where
  "h_cancel_order w req s = try_then (path_tail ''/api/v1/orders/'' req) (\<lambda>order_id s.
     case om_cancel_order order_id (ap_orders s) of (sc, om) \<Rightarrow>
       if sc \<noteq> OK then answer (status_error sc) (s\<lparr>ap_orders := om\<rparr>)
       else answer (json_response 200 (success_json
         (flat_json [(''order_id'', Json_Str order_id), (''cancelled'', Json_Bool True)]))) (s\<lparr>ap_orders := om\<rparr>)) s"

section \<open>Recipes\<close>

definition requested_recipe :: "string \<Rightarrow> recipe exn" where
  "requested_recipe body =
     exn_bind (get_int body ''device_type'' (uint OTHER)) (\<lambda>dt.
     exn_bind (get_int body ''version'' 1) (\<lambda>v.
     Inr (new_recipe\<lparr>rec_recipe_id := get_string body ''recipe_id'', rec_recipe_name := get_string body ''recipe_name'',
       rec_device_type := of_int dt, rec_category := get_string body ''category'',
       rec_is_active := get_bool body ''is_active'' True, rec_version := v\<rparr>)))"

definition h_create_recipe :: "'pg handler" where
  "h_create_recipe w req s = try_then (requested_recipe (rq_body req)) (\<lambda>r s.
     if rec_recipe_id r = '''' \<or> rec_recipe_name r = '''' then answer (error_response 400 1001 ''recipe_id and recipe_name are required'') s
     else (case create_recipe r (ap_recipes s) of (sc, rm) \<Rightarrow>
       if sc \<noteq> OK then answer (status_error sc) (s\<lparr>ap_recipes := rm\<rparr>)
       else answer (json_response 201 (success_json (flat_json [(''recipe_id'', Json_Str (rec_recipe_id r))]))) (s\<lparr>ap_recipes := rm\<rparr>))) s"

definition changed_recipe :: "string \<Rightarrow> recipe \<Rightarrow> recipe exn" where
  "changed_recipe body old =
     exn_bind (get_int body ''device_type'' (- 1)) (\<lambda>dt.
     Inr (old\<lparr>rec_recipe_name := keep_if_empty (get_string body ''recipe_name'') (rec_recipe_name old),
       rec_category := keep_if_empty (get_string body ''category'') (rec_category old),
       rec_device_type := (if 0 \<le> dt then of_int dt else rec_device_type old),
       rec_is_active := get_bool body ''is_active'' (rec_is_active old)\<rparr>))"

definition h_update_recipe :: "'pg handler" where
  "h_update_recipe w req s = try_then (path_tail ''/api/v1/recipes/'' req) (\<lambda>recipe_id s.
     case find_by_id recipe_id (ap_recipes s) of
       None \<Rightarrow> answer (error_response 404 1002 (''Recipe not found: '' @ recipe_id)) s
     | Some old \<Rightarrow> try_then (changed_recipe (rq_body req) old) (\<lambda>r s.
         case update_recipe r (ap_recipes s) of (sc, rm) \<Rightarrow>
           if sc \<noteq> OK then answer (status_error sc) (s\<lparr>ap_recipes := rm\<rparr>)
           else answer (json_response 200 (success_json (flat_json [(''recipe_id'', Json_Str recipe_id)]))) (s\<lparr>ap_recipes := rm\<rparr>)) s) s"

definition h_delete_recipe :: "'pg handler" where
  "h_delete_recipe w req s = try_then (path_tail ''/api/v1/recipes/'' req) (\<lambda>recipe_id s.
     case remove_recipe recipe_id (ap_recipes s) of (sc, rm) \<Rightarrow>
       if sc \<noteq> OK then answer (status_error sc) (s\<lparr>ap_recipes := rm\<rparr>)
       else answer (json_response 200 (success_json
         (flat_json [(''recipe_id'', Json_Str recipe_id), (''deleted'', Json_Bool True)]))) (s\<lparr>ap_recipes := rm\<rparr>)) s"

section \<open>Faults\<close>

text \<open>A time stamp is printed as a number when all of it is digits.\<close>

definition fault_ts :: "fault_info \<Rightarrow> string" where
  "fault_ts f = (if flt_timestamp f = '''' \<or> \<not> list_all is_digit (flt_timestamp f) then ''0'' else flt_timestamp f)"

definition fault_snapshot :: "fault_info \<Rightarrow> string" where
  "fault_snapshot f = (if flt_sensor_snapshot f \<noteq> '''' \<and> hd (flt_sensor_snapshot f) \<in> {CHR 0x7B, CHR 0x5B}
     then flt_sensor_snapshot f else ''null'')"

definition fault_fields :: "fault_info \<Rightarrow> (string \<times> json_val) list" where
  "fault_fields f = [(''code'', Json_Int (uint (flt_code f))), (''level'', Json_Int (fault_level_int (flt_level f))),
     (''description'', Json_Str (flt_description f))]"

definition fault_owner :: "fault_info \<Rightarrow> (string \<times> json_val) list" where
  "fault_owner f = [(''tenant_id'', Json_Str (flt_tenant_id f)), (''device_id'', Json_Str (flt_device_id f))]"

definition h_faults :: "'pg handler" where
  \<open>h_faults w req s = answer (json_response 200 (success_json (list_json ''faults''
     (map (\<lambda>f. open_json (fault_owner f @ fault_fields f) @ '',"ts":'' @ fault_ts f @ '',"sensor_snapshot":'' @ fault_snapshot f @ ''}'')
        (all_faults (ap_faults s)))))) s\<close>

definition h_active_faults :: "'pg handler" where
  \<open>h_active_faults w req s = answer (json_response 200 (success_json (list_json ''faults''
     (map (\<lambda>f. open_json (fault_owner f @ fault_fields f) @ '',"ts":'' @ fault_ts f @ ''}'') (active_faults (ap_faults s)))))) s\<close>

definition fault_tenant :: "http_request \<Rightarrow> string" where
  "fault_tenant req = (case find_sub ''tenant_id='' (rq_query req) of
       None \<Rightarrow> ''default''
     | Some q \<Rightarrow> takeWhile (\<lambda>c. c \<noteq> CHR ''&'') (drop (q + 10) (rq_query req)))"

definition h_device_faults :: "'pg handler" where
  \<open>h_device_faults w req s = try_then (path_tail ''/api/v1/faults/'' req) (\<lambda>device_id s.
     answer (json_response 200 (success_json (list_json ''faults''
       (map (\<lambda>f. open_json (fault_fields f) @ '',"ts":'' @ fault_ts f @ ''}'')
          (faults_by_device (fault_tenant req) device_id (ap_faults s)))))) s) s\<close>

definition h_resolve_fault :: "'pg handler" where
  "h_resolve_fault w req s = try_then (get_int (rq_body req) ''code'' 0) (\<lambda>code s.
     (let tenant = get_string (rq_body req) ''tenant_id''; tenant_id = (if tenant = '''' then ''default'' else tenant);
          device_id = get_string (rq_body req) ''device_id'' in
      if device_id = '''' \<or> code = 0 then answer (error_response 400 1001 ''tenant_id, device_id, and code are required'') s
      else (case resolve_fault tenant_id device_id (of_int code) (ap_faults s) of (sc, fs) \<Rightarrow>
        if sc \<noteq> OK then answer (status_error sc) (s\<lparr>ap_faults := fs\<rparr>)
        else answer (json_response 200 (success_json (flat_json [(''resolved'', Json_Bool True)]))) (s\<lparr>ap_faults := fs\<rparr>)))) s"

end
