(* ===== verification/Main_Recipes.thy ===== *)
theory Main_Recipes
  imports Main_Common
begin

text \<open>
  The handlers of \<^verbatim>\<open>src/main.cpp\<close> that show recipes.  Parameters of a step are \<^verbatim>\<open>double\<close> values, written by
  \<^verbatim>\<open>ostream <<\<close> with its default format, which is that of \<^verbatim>\<open>%.6g\<close>: six significant digits, rounded to
  the nearest with ties to even, without trailing zeros, and with an exponent when the number is
  at least a million or below a ten thousandth.
\<close>

section \<open>Writing a double\<close>

definition round_half_even :: "nat \<Rightarrow> nat \<Rightarrow> nat" where
  "round_half_even n d = (let q = n div d; r = n mod d in if d < 2 * r \<or> (2 * r = d \<and> odd q) then q + 1 else q)"

text \<open>The decimal exponent of \<open>a / b\<close> with \<open>a > 0\<close>: how often it must be multiplied by ten to reach 1.\<close>

function neg_exp :: "nat \<Rightarrow> nat \<Rightarrow> nat" where
  "neg_exp a b = (if a = 0 \<or> b \<le> a then 0 else Suc (neg_exp (10 * a) b))"
  by pat_completeness auto
termination
  by (relation "measure (\<lambda>(a, b). b - a)") auto

declare neg_exp.simps [simp del]

definition dec_exp :: "nat \<Rightarrow> nat \<Rightarrow> int" where
  "dec_exp a b = (if b \<le> a then int (length (nat_str (a div b))) - 1 else - int (neg_exp a b))"

definition strip_zeros :: "string \<Rightarrow> string" where
  "strip_zeros s = rev (dropWhile (\<lambda>c. c = CHR ''0'') (rev s))"

definition zero_pad :: "nat \<Rightarrow> string \<Rightarrow> string" where
  "zero_pad k s = replicate (k - length s) (CHR ''0'') @ s"

text \<open>\<open>m\<close> divided by \<open>10 ^ k\<close>, without trailing zeros.\<close>

definition decimal_text :: "nat \<Rightarrow> nat \<Rightarrow> string" where
  "decimal_text m k = (let f = strip_zeros (zero_pad k (nat_str (m mod 10 ^ k))) in
     nat_str (m div 10 ^ k) @ (if k = 0 \<or> f = '''' then '''' else CHR ''.'' # f))"

text \<open>The six digits and the exponent; rounding up may add a digit.\<close>

definition six_digits :: "nat \<Rightarrow> nat \<Rightarrow> nat \<times> int" where
  "six_digits a b = (let e = dec_exp a b;
       m = (if e \<le> 5 then round_half_even (a * 10 ^ nat (5 - e)) b else round_half_even a (b * 10 ^ nat (e - 5)))
     in if m = 1000000 then (100000, e + 1) else (m, e))"

definition positive_text :: "nat \<Rightarrow> nat \<Rightarrow> string" where
  "positive_text a b = (case six_digits a b of (m, e) \<Rightarrow>
     if e < - 4 \<or> 6 \<le> e then decimal_text m 5 @ ''e'' @ (if e < 0 then ''-'' else ''+'') @ zero_pad 2 (nat_str (nat \<bar>e\<bar>))
     else decimal_text m (nat (5 - e)))"

definition double_text :: "rat \<Rightarrow> string" where
  "double_text x = (case quotient_of x of (p, q) \<Rightarrow>
     if p = 0 then ''0'' else (if p < 0 then ''-'' else '''') @ positive_text (nat \<bar>p\<bar>) (nat q))"

lemma digit_chars:
  "digit_char 0 = CHR ''0''" "digit_char (Suc 0) = CHR ''1''" "digit_char 2 = CHR ''2''" "digit_char 3 = CHR ''3''" "digit_char 4 = CHR ''4''" "digit_char 5 = CHR ''5''" "digit_char 6 = CHR ''6''" "digit_char 7 = CHR ''7''" "digit_char 8 = CHR ''8''" "digit_char 9 = CHR ''9''"
  by code_simp+

lemmas double_eval = positive_text_def six_digits_def dec_exp_def round_half_even_def decimal_text_def strip_zeros_def zero_pad_def
  nat_str.simps neg_exp.simps digit_chars Let_def

lemma positive_text_examples:
  "positive_text 37 4 = ''9.25''" "positive_text 1 3 = ''0.333333''" "positive_text 1234567 1 = ''1.23457e+06''"
  "positive_text 1 100000 = ''1e-05''" "positive_text 9999997 10 = ''1e+06''" "positive_text 92 1 = ''92''"
  by (simp_all add: double_eval)

section \<open>The handlers\<close>

definition params_json :: "(string \<times> rat) list \<Rightarrow> string" where
  \<open>params_json ps = (if ps = [] then '''' else '',"params":{'' @ join (CHR '','') (map (\<lambda>(k, v). ''"'' @ k @ ''":'' @ double_text v) ps) @ ''}'')\<close>

definition step_json :: "recipe_step \<Rightarrow> string" where
  "step_json st = open_json [(''action'', Json_Str (step_action st)), (''duration_ms'', Json_Int (step_duration_ms st))]
     @ params_json (step_params st) @ ''}''"

definition cup_json :: "cup_size_option \<Rightarrow> string" where
  "cup_json c = flat_json [(''size'', Json_Str (cup_size c)), (''price'', Json_Int (cup_price c)), (''volume_ml'', Json_Int (cup_volume_ml c))]"

definition recipe_json :: "recipe \<Rightarrow> string" where
  \<open>recipe_json r = open_json [(''recipe_id'', Json_Str (rec_recipe_id r)), (''recipe_name'', Json_Str (rec_recipe_name r)),
       (''device_type'', Json_Int (uint (rec_device_type r))), (''category'', Json_Str (rec_category r)),
       (''is_active'', Json_Bool (rec_is_active r)), (''version'', Json_Int (rec_version r))]
     @ '',"steps":'' @ json_array (map step_json (rec_steps r)) @ '',"cup_sizes":'' @ json_array (map cup_json (rec_cup_sizes r)) @ ''}''\<close>

definition h_recipes :: "'pg handler" where
  "h_recipes w req s = answer (json_response 200 (success_json (list_json ''recipes'' (map recipe_json (all_recipes (ap_recipes s)))))) s"

definition h_recipe :: "'pg handler" where
  "h_recipe w req s = try_then (path_tail ''/api/v1/recipes/'' req) (\<lambda>recipe_id s.
     case find_by_id recipe_id (ap_recipes s) of
       None \<Rightarrow> answer (error_response 404 1002 (''Recipe not found: '' @ recipe_id)) s
     | Some r \<Rightarrow> answer (json_response 200 (success_json (recipe_json r))) s) s"

section \<open>Whole numbers are written exactly\<close>

lemma nat_str_length_bounds: "0 < n \<Longrightarrow> 10 ^ (length (nat_str n) - 1) \<le> n \<and> n < 10 ^ length (nat_str n)"
proof (induction n rule: nat_str.induct)
  case (1 n)
  show ?case
  proof (cases "n < 10")
    case False
    then have "10 ^ (length (nat_str (n div 10)) - 1) \<le> n div 10 \<and> n div 10 < 10 ^ length (nat_str (n div 10))" using 1 by simp
    moreover have "length (nat_str n) = Suc (length (nat_str (n div 10)))" using False by (simp add: nat_str.simps [of n])
    moreover have "0 < length (nat_str (n div 10))" by simp
    ultimately show ?thesis by (cases "length (nat_str (n div 10))") (auto simp: less_mult_imp_div_less div_less_iff_less_mult)
  qed (use 1 in \<open>simp add: nat_str.simps\<close>)
qed

lemma strip_zero_text: "strip_zeros (zero_pad k (nat_str 0)) = ''''"
proof -
  have "nat_str 0 = ''0''" by (simp add: nat_str.simps digit_chars)
  then show ?thesis by (auto simp: zero_pad_def strip_zeros_def dropWhile_eq_Nil_conv)
qed

lemma positive_text_nat:
  assumes "0 < n" "n < 1000000"
  shows "positive_text n 1 = nat_str n"
proof -
  let ?d = "length (nat_str n)"
  have d: "1 \<le> ?d" "10 ^ (?d - 1) \<le> n" using nat_str_length_bounds [OF assms(1)] by (simp_all add: Suc_le_eq)
  then have d6: "?d \<le> 6"
  proof -
    have "(10 :: nat) ^ (?d - 1) < 10 ^ 6" using d(2) assms(2) by simp
    then have "?d - 1 < 6" by (rule power_less_imp_less_exp [rotated]) simp
    then show ?thesis by simp
  qed
  have e: "dec_exp n 1 = int ?d - 1" using assms(1) by (simp add: dec_exp_def)
  have k: "nat (5 - (int ?d - 1)) = 6 - ?d" using d(1) d6 by simp
  have k': "nat (6 - int ?d) = 6 - ?d" using d6 by simp
  have "n * 10 ^ (6 - ?d) < 10 ^ ?d * 10 ^ (6 - ?d)" using nat_str_length_bounds [OF assms(1)] by simp
  also have "\<dots> = 10 ^ 6" using d6 by (simp flip: power_add)
  finally have m: "n * 10 ^ (6 - ?d) \<noteq> 1000000" by simp
  have six: "six_digits n 1 = (n * 10 ^ (6 - ?d), int ?d - 1)"
    using e k m d6 by (simp add: six_digits_def round_half_even_def Let_def)
  show ?thesis using d6 d(1) k' unfolding positive_text_def six by (simp add: decimal_text_def Let_def strip_zero_text)
qed

text \<open>Whole numbers below a million are shown as they are, whatever their sign, as the parameters of the sample recipes.
  Larger ones are shown with six significant digits only.\<close>

theorem whole_parameter_exact:
  assumes "\<bar>i\<bar> < 1000000"
  shows "double_text (of_int i) = to_string i"
proof -
  have "nat_str 0 = ''0''" by (simp add: nat_str.simps digit_chars)
  then show ?thesis using assms positive_text_nat [of "nat \<bar>i\<bar>"]
    by (auto simp: double_text_def to_string_def abs_if)
qed

text \<open>Rounding to six digits confuses recipes: two different values may be shown alike.\<close>

lemma large_parameter_rounded: "double_text (of_int 1234567) = double_text (of_int 1234571)"
  by (simp add: double_text_def double_eval)

theorem whole_parameter_exact_witness: "double_text (of_int (-92)) = ''-92''"
  using whole_parameter_exact [of "-92"] by (simp add: to_string_def nat_str.simps digit_chars)

end
