(* ===== verification/Main_Ota.thy ===== *)
theory Main_Ota
  imports Main_Common
begin

text \<open>
  The handlers of \<^verbatim>\<open>src/main.cpp\<close> for firmware and upgrades: registering, uploading, downloading and
  deleting a firmware, pushing it to devices and following the upgrade.  The lists that walk
  the firmware directory are not modelled.
\<close>

section \<open>Base 64\<close>

definition b64 :: string where
  "b64 = ''ABCDEFGHIJKLMNOPQRSTUVWXYZabcdefghijklmnopqrstuvwxyz0123456789+/''"

text \<open>\<^verbatim>\<open>strchr(b64, c) - b64\<close>: the terminating NUL is found as well.\<close>

definition b64_index :: "char \<Rightarrow> int option" where
  "b64_index c = map_option int (find_char (\<lambda>x. x = c) (b64 @ [CHR 0x00]))"

text \<open>The loop over the text.  \<open>v\<close> is an \<^verbatim>\<open>int\<close> that is never masked: shifting a negative value, or shifting a
  bit out of the 32, is undefined; the sum is converted back to \<^verbatim>\<open>int\<close> and wraps.\<close>

definition wrap32 :: "int \<Rightarrow> int" where
  "wrap32 i = (i + 2 ^ 31) mod 2 ^ 32 - 2 ^ 31"

fun b64_loop :: "int \<Rightarrow> int \<Rightarrow> string \<Rightarrow> string exn" where
  "b64_loop v vb [] = Inr []"
| "b64_loop v vb (c # cs) = (if c = CHR ''='' then Inr []
     else (case b64_index c of
         None \<Rightarrow> b64_loop v vb cs
       | Some i \<Rightarrow> if v < 0 \<or> 2 ^ 32 \<le> v * 64 then Inl Undefined_behaviour
           else (let v' = wrap32 (wrap32 (v * 64) + i); vb' = vb + 6 in
             if 0 \<le> vb' then exn_bind (b64_loop v' (vb' - 8) cs) (\<lambda>r. Inr (char_of (nat (v' div 2 ^ nat vb' mod 256)) # r))
             else b64_loop v' vb' cs)))"

definition b64_decode :: "string \<Rightarrow> string exn" where
  "b64_decode s = b64_loop 0 (- 8) s"

section \<open>Firmware\<close>

definition requested_firmware :: "int \<Rightarrow> string \<Rightarrow> firmware_version exn" where
  "requested_firmware now body =
     exn_bind (get_int body ''file_size'' 0) (\<lambda>size.
     exn_bind (get_int body ''created_at'' 0) (\<lambda>created.
     Inr \<lparr>fw_version = get_string body ''version'', fw_product_id = get_string body ''product_id'',
       fw_download_url = get_string body ''download_url'', fw_file_name = get_string body ''file_name'', fw_file_size = size,
       fw_checksum_sha256 = get_string body ''checksum_sha256'', fw_changelog = get_string body ''changelog'',
       fw_force_upgrade = get_bool body ''force_upgrade'' False, fw_created_at = (if created = 0 then now else created)\<rparr>))"

definition firmware_path :: "string \<Rightarrow> string \<Rightarrow> string" where
  "firmware_path product filename = ''./firmware/'' @ product @ ''/'' @ filename"

definition write_file :: "'pg world \<Rightarrow> string \<Rightarrow> string \<Rightarrow> 'pg app \<Rightarrow> 'pg app" where
  "write_file w path data s = (if wo_can_write w path then s\<lparr>ap_files := (ap_files s)(path := Some data)\<rparr> else s)"

definition h_register_firmware :: "'pg handler" where
  "h_register_firmware w req s = try_then (requested_firmware (wo_now w) (rq_body req)) (\<lambda>fw s.
     if fw_version fw = '''' then answer (error_response 400 1001 ''version is required'') s
     else (let fw1 = fw\<lparr>fw_download_url := keep_if_empty (fw_download_url fw) (''/api/v1/ota/firmwares/'' @ fw_version fw @ ''/download'')\<rparr>;
               file_data = get_string (rq_body req) ''file_data'';
               store = (\<lambda>fw s. case register_firmware fw (ap_ota s) of (sc, ot) \<Rightarrow>
                 if sc \<noteq> OK then answer (status_error sc) (s\<lparr>ap_ota := ot\<rparr>)
                 else answer (json_response 201 (success_json (flat_json [(''version'', Json_Str (fw_version fw))]))) (s\<lparr>ap_ota := ot\<rparr>))
           in if file_data = '''' then store fw1 s
              else try_then (b64_decode file_data) (\<lambda>decoded s.
                (let path = firmware_path (keep_if_empty (fw_product_id fw1) ''default'')
                       (keep_if_empty (fw_file_name fw1) (fw_version fw1 @ ''.bin''))
                 in store (if fw_file_size fw1 = 0 then fw1\<lparr>fw_file_size := int (length decoded)\<rparr> else fw1)
                      (write_file w path decoded s))) s)) s"

definition checksum :: "build \<Rightarrow> string \<Rightarrow> string" where
  "checksum b data = (case bld_sha256 b of
       Some sha256 \<Rightarrow> concat (map (hex_pad 2) (sha256 data))
     | None \<Rightarrow> ''size:'' @ nat_str (length data))"

definition h_upload_firmware :: "'pg handler" where
  "h_upload_firmware w req s =
     (let version = query_param ''version'' req; product_id = query_param ''product_id'' req;
          filename = keep_if_empty (query_param ''filename'' req) (version @ ''.bin'');
          force = (query_param ''force_upgrade'' req \<in> {''1'', ''true''}) in
      if version = '''' \<or> product_id = '''' then answer (error_response 400 1001 ''version and product_id required'') s
      else if \<not> wo_can_write w (firmware_path product_id filename) then answer (error_response 500 2000 ''Cannot write firmware file'') s
      else (let s1 = write_file w (firmware_path product_id filename) (rq_body req) s;
                host = (case map_of (rq_headers req) ''Host'' of Some v \<Rightarrow> v | None \<Rightarrow> ''127.0.0.1:9080'');
                url = ''http://'' @ host @ ''/api/v1/ota/firmwares/download/'' @ product_id @ ''/'' @ filename;
                sum' = checksum (wo_build w) (rq_body req);
                fw = new_firmware_version\<lparr>fw_version := version, fw_product_id := product_id, fw_download_url := url,
                  fw_checksum_sha256 := sum', fw_changelog := query_param ''changelog'' req, fw_force_upgrade := force, fw_created_at := wo_now w\<rparr>
            in case register_firmware fw (ap_ota s1) of (sc, ot) \<Rightarrow>
                 if sc \<noteq> OK then answer (status_error sc) (s1\<lparr>ap_ota := ot\<rparr>)
                 else answer (json_response 201 (success_json (flat_json [(''version'', Json_Str version), (''filename'', Json_Str filename),
                   (''product_id'', Json_Str product_id), (''size'', Json_Int (int (length (rq_body req)))),
                   (''checksum_sha256'', Json_Str sum'), (''download_url'', Json_Str url)]))) (s1\<lparr>ap_ota := ot\<rparr>)))"

text \<open>The range of a download: first and last byte, and whether a range was asked for.\<close>

definition download_range :: "http_request \<Rightarrow> int \<Rightarrow> (int \<times> int \<times> bool) exn" where
  "download_range req fsize = (case map_of (rq_headers req) ''Range'' of
       None \<Rightarrow> Inr (0, fsize - 1, False)
     | Some v \<Rightarrow> if \<not> starts_with v ''bytes='' then Inr (0, fsize - 1, False)
         else (let r = drop 6 v in case find_char (\<lambda>c. c = CHR ''-'') r of
             None \<Rightarrow> Inr (0, fsize - 1, False)
           | Some d \<Rightarrow> exn_bind (stoll (take d r)) (\<lambda>off.
               exn_bind (if drop (d + 1) r = '''' then Inr (fsize - 1) else stoll (drop (d + 1) r)) (\<lambda>end.
               Inr (off, end, True)))))"

text \<open>Reading behind the end of the file leaves the NULs the buffer was made of.\<close>

definition read_at :: "string \<Rightarrow> nat \<Rightarrow> nat \<Rightarrow> string" where
  "read_at data off n = (let d = take n (drop off data) in d @ replicate (n - length d) (CHR 0x00))"

definition download_data :: "nat \<Rightarrow> string \<Rightarrow> int \<Rightarrow> int \<Rightarrow> string exn" where
  "download_data cap data off end =
     (if end - off + 1 < int64_min \<or> int64_max < end - off + 1 then Inl Undefined_behaviour
      else if end - off + 1 < 0 \<or> int cap < end - off + 1 then Inl Length_error
      else Inr (read_at data (nat off) (nat (end - off + 1))))"

definition h_download_firmware :: "'pg handler" where
  "h_download_firmware w req s = try_then (path_tail ''/api/v1/ota/firmwares/download/'' req) (\<lambda>rest s.
     case find_char (\<lambda>c. c = CHR ''/'') rest of
       None \<Rightarrow> answer (error_response 404 1002 ''Invalid path'') s
     | Some slash \<Rightarrow>
         (let product_id = take slash rest; filename = drop (slash + 1) rest in
          case ap_files s (firmware_path product_id filename) of
            None \<Rightarrow> answer (error_response 404 1002 (''Firmware not found: '' @ product_id @ ''/'' @ filename)) s
          | Some data \<Rightarrow>
              try_then (download_range req (int (length data))) (\<lambda>(off, end, partial).
                try_then (download_data (wo_max_size w) data off end) (\<lambda>body.
                  answer (new_response\<lparr>rs_status_code := if partial then 206 else 200,
                    rs_content_type := ''application/octet-stream'', rs_body := body\<rparr>))) s)) s"

definition h_delete_firmware :: "'pg handler" where
  "h_delete_firmware w req s = try_then (path_tail ''/api/v1/ota/firmwares/'' req) (\<lambda>ver s.
     case delete_firmware ver (ap_ota s) of (sc, ot) \<Rightarrow>
       if sc \<noteq> OK then answer (status_error sc) (s\<lparr>ap_ota := ot\<rparr>)
       else (let s1 = s\<lparr>ap_ota := ot\<rparr>;
                 s2 = (case get_firmware ver (ap_ota s) of
                     None \<Rightarrow> s1
                   | Some fw \<Rightarrow> if fw_file_name fw = '''' then s1
                       else s1\<lparr>ap_files := (ap_files s1)(firmware_path (keep_if_empty (fw_product_id fw) ''default'') (fw_file_name fw) := None)\<rparr>)
             in answer (json_response 200 (success_json (flat_json [(''version'', Json_Str ver), (''deleted'', Json_Bool True)]))) s2)) s"

section \<open>Upgrades\<close>

definition upgrade_json :: "ota_record \<Rightarrow> string" where
  "upgrade_json u = flat_json [(''tenant_id'', Json_Str (ota_tenant_id u)), (''device_id'', Json_Str (ota_device_id u)),
     (''current_version'', Json_Str (ota_current_version u)), (''target_version'', Json_Str (ota_target_version u)),
     (''progress'', Json_Int (ota_progress u)), (''stage'', Json_Str (ota_stage u)), (''force_upgrade'', Json_Bool (ota_force_upgrade u))]"

definition h_upgrades :: "'pg handler" where
  "h_upgrades w req s = answer (json_response 200 (success_json (list_json ''upgrades''
     (map upgrade_json (active_upgrades (ap_ota s)))))) s"

definition h_upgrade :: "'pg handler" where
  "h_upgrade w req s = try_then (path_tail ''/api/v1/ota/upgrades/'' req) (\<lambda>device_id s.
     answer (json_response 200 (success_json (upgrade_json (get_device_ota_status device_id (ap_ota s))))) s) s"

definition push_answer :: "string \<Rightarrow> string \<Rightarrow> status_code \<times> ota_manager \<Rightarrow> 'pg app \<Rightarrow> http_response exn \<times> 'pg app" where
  "push_answer version detail r s = (case r of (sc, ot) \<Rightarrow>
     if sc \<noteq> OK then answer (status_error sc) (s\<lparr>ap_ota := ot\<rparr>)
     else answer (json_response 200 (success_json (flat_json [(''version'', Json_Str version), (''detail'', Json_Str detail)]))) (s\<lparr>ap_ota := ot\<rparr>))"

definition h_push :: "'pg handler" where
  "h_push w req s =
     (let body = rq_body req; tenant_id = keep_if_empty (get_string body ''tenant_id'') ''default'';
          product_id = get_string body ''product_id''; device_id = get_string body ''device_id'';
          version = get_string body ''target_version''; mode = get_string body ''mode'';
          devs = Some (list_all_devices (ap_devices s)) in
      if mode = ''all'' then
        push_answer version (''push_all to '' @ product_id) (push_all (wo_hash w) devs product_id version (ap_ota s)) s
      else if mode = ''grayscale'' then try_then (get_int body ''percent'' 10) (\<lambda>percent s.
        push_answer version (''grayscale '' @ to_string percent @ ''% to '' @ product_id)
          (push_grayscale (wo_hash w) devs product_id version percent (ap_ota s)) s) s
      else if device_id = '''' then answer (error_response 400 1001 ''device_id is required for single-device push'') s
      else push_answer version (''push to '' @ device_id) (push_to_device tenant_id product_id device_id version (ap_ota s)) s)"

definition h_rollout_stats :: "'pg handler" where
  "h_rollout_stats w req s = try_then (path_tail ''/api/v1/ota/stats/'' req) (\<lambda>ver s.
     (let st = get_rollout_stats ver (ap_ota s) in
      answer (json_response 200 (success_json (flat_json [(''version'', Json_Str ver),
        (''total_targeted'', Json_Int (int (rs_total_targeted st))), (''downloading'', Json_Int (int (rs_downloading st))),
        (''installing'', Json_Int (int (rs_installing st))), (''completed'', Json_Int (int (rs_completed st))),
        (''failed'', Json_Int (int (rs_failed st))), (''rolled_back'', Json_Int (int (rs_rolled_back st)))]))) s)) s"

section \<open>What the decoder does with real files\<close>

lemma b64_index_bound: "b64_index c = Some i \<Longrightarrow> 0 \<le> i \<and> i \<le> 64"
  using find_char_SomeD [of "\<lambda>x. x = c" "b64 @ [CHR 0x00]" "nat i"] by (auto simp: b64_index_def b64_def)

lemma b64_index_alphabet:
  assumes "c \<in> set b64"
  shows "\<exists>i. b64_index c = Some i \<and> 0 \<le> i \<and> i < 64 \<and> (c \<noteq> CHR ''A'' \<longrightarrow> 0 < i)"
proof -
  have "find_char (\<lambda>x. x = c) (b64 @ [CHR 0x00]) \<noteq> None" using assms by (auto simp: find_char_None_iff)
  then obtain k where k: "find_char (\<lambda>x. x = c) (b64 @ [CHR 0x00]) = Some k" by auto
  from find_char_SomeD [OF k] have s: "(b64 @ [CHR 0x00]) ! k = c" "k < 65" by (auto simp: b64_def)
  have "k \<noteq> 64"
  proof
    assume "k = 64"
    with s have "c = CHR 0x00" by (simp add: b64_def)
    with assms show False by (simp add: b64_def)
  qed
  moreover have "k = 0 \<Longrightarrow> c = CHR ''A''" using s by (simp add: b64_def)
  ultimately show ?thesis using k s(2) by (auto simp: b64_index_def)
qed

lemma b64_not_pad: "c \<in> set b64 \<Longrightarrow> c \<noteq> CHR ''=''"
  by (auto simp: b64_def)

text \<open>As long as the accumulated value is at least \<open>64^k\<close>, at most \<open>5 - k\<close> more characters are read.\<close>

lemma b64_loop_overflows:
  assumes "\<forall>c \<in> set s. c \<in> set b64" "64 ^ k \<le> v" "v < 2 ^ 31" "6 \<le> k + length s" "1 \<le> length s"
  shows "b64_loop v vb s = Inl Undefined_behaviour"
  using assms
proof (induction s arbitrary: v vb k)
  case (Cons c cs)
  then obtain i where i: "b64_index c = Some i" "0 \<le> i" "i < 64" using b64_index_alphabet [of c] by auto
  have np: "c \<noteq> CHR ''=''" using Cons.prems(1) b64_not_pad by simp
  show ?case
  proof (cases "2 ^ 32 \<le> v * 64")
    case False
    have vpos: "\<not> v < 0" using Cons.prems(2) by (smt (verit) zero_le_power)
    define t where "t = v * 64 + i"
    have t: "64 ^ Suc k \<le> t" "t < 2 ^ 32" using Cons.prems(2) i(2,3) False by (simp_all add: t_def)
    have w: "wrap32 (wrap32 (v * 64) + i) = wrap32 t"
      by (simp add: wrap32_def t_def mod_simps algebra_simps)
    have rest: "b64_loop (wrap32 t) vb' cs = Inl Undefined_behaviour" for vb'
    proof -
      have "(64::int) ^ k * 64 < 2 ^ 32" using t by simp
      then have "(2::int) ^ (6 * k + 6) < 2 ^ 32" by (simp add: power_mult power_add)
      then have "6 * k + 6 < 32" by (rule power_less_imp_less_exp [rotated]) simp
      then have k: "k \<le> 4" by simp
      with Cons.prems(4) have len: "1 \<le> length cs" by simp
      show ?thesis
      proof (cases "t < 2 ^ 31")
        case True
        have "0 \<le> t" using vpos i(2) by (simp add: t_def)
        with True have "wrap32 t = t" by (simp add: wrap32_def)
        with Cons.IH [of "Suc k" t vb'] Cons.prems t True len show ?thesis by simp
      next
        case False
        then have "(t + 2 ^ 31 - 2 ^ 32) mod 2 ^ 32 = t + 2 ^ 31 - 2 ^ 32"
          using t(2) by (intro mod_pos_pos_trivial) auto
        then have "(t + 2 ^ 31) mod 2 ^ 32 = t + 2 ^ 31 - 2 ^ 32" by (simp only: minus_mod_self2)
        then have "wrap32 t < 0" using t(2) by (simp add: wrap32_def)
        moreover obtain d ds where d: "cs = d # ds" using len by (cases cs) auto
        moreover obtain j where "b64_index d = Some j" using b64_index_alphabet [of d] Cons.prems(1) d by auto
        moreover have "d \<noteq> CHR ''=''" using Cons.prems(1) d b64_not_pad by simp
        ultimately show ?thesis by simp
      qed
    qed
    from vpos False np i(1) show ?thesis by (simp add: Let_def w rest)
  qed (use np i(1) in simp)
qed simp

text \<open>A firmware that is sent inside of a JSON request, as base 64 text, cannot be decoded: from the
  seventh character on, unless the text begins with an \<open>A\<close>, the accumulator of the decoder
  overflows, which is undefined.  Seven characters are not yet six bytes of firmware.\<close>

theorem b64_undefined:
  assumes "7 \<le> length s" "\<forall>c \<in> set s. c \<in> set b64" "hd s \<noteq> CHR ''A''"
  shows "b64_decode s = Inl Undefined_behaviour"
proof -
  obtain c cs where s: "s = c # cs" "6 \<le> length cs" using assms(1) by (cases s) auto
  obtain i where i: "b64_index c = Some i" "0 < i" "i < 64"
    using b64_index_alphabet [of c] assms(2,3) s(1) by auto
  have "b64_loop i (- 2) cs = Inl Undefined_behaviour"
    by (rule b64_loop_overflows [of cs 0]) (use assms(2) s i in auto)
  with s i b64_not_pad [of c] assms(2) show ?thesis by (simp add: b64_decode_def wrap32_def)
qed

theorem b64_undefined_witness: "b64_decode ''f0VMRgI'' = Inl Undefined_behaviour"
  using b64_undefined [of "''f0VMRgI''"] by (simp add: b64_def)

section \<open>Downloads\<close>

definition download_request :: "string \<Rightarrow> string \<Rightarrow> http_request \<Rightarrow> bool" where
  "download_request product filename req \<longleftrightarrow>
     rq_path req = ''/api/v1/ota/firmwares/download/'' @ product @ ''/'' @ filename \<and> CHR ''/'' \<notin> set product"

lemma h_download_eq:
  assumes "download_request product filename req" "ap_files s (firmware_path product filename) = Some data"
  shows "h_download_firmware w req s = try_then (download_range req (int (length data))) (\<lambda>(off, end, partial).
     try_then (download_data (wo_max_size w) data off end) (\<lambda>body.
       answer (new_response\<lparr>rs_status_code := if partial then 206 else 200,
         rs_content_type := ''application/octet-stream'', rs_body := body\<rparr>))) s"
proof -
  have "path_tail ''/api/v1/ota/firmwares/download/'' req = Inr (product @ CHR ''/'' # filename)"
    using assms(1) by (simp add: path_tail_def substr_from_def download_request_def)
  moreover have "find_char (\<lambda>c. c = CHR ''/'') (product @ CHR ''/'' # filename) = Some (length product)"
    using find_char_skip [of product "\<lambda>c. c = CHR ''/''" "CHR ''/'' # filename"] assms(1) by (auto simp: download_request_def)
  ultimately show ?thesis using assms(2) by (simp add: h_download_firmware_def)
qed

lemma read_at_inside: "off + n \<le> length data \<Longrightarrow> read_at data off n = take n (drop off data)"
  by (simp add: read_at_def)

lemma dash_free: "0 \<le> i \<Longrightarrow> CHR ''-'' \<notin> set (to_string i)"
  using nat_str_digits [of "nat i"] by (auto simp: to_string_def)

lemma download_range_eq:
  assumes "map_of (rq_headers req) ''Range'' = Some (''bytes='' @ to_string a @ ''-'' @ to_string b)"
    and "0 \<le> a" "a \<le> int64_max" "0 \<le> b" "b \<le> int64_max"
  shows "download_range req n = Inr (a, b, True)"
proof -
  let ?r = "to_string a @ CHR ''-'' # to_string b"
  have d: "find_char (\<lambda>c. c = CHR ''-'') ?r = Some (length (to_string a))"
    using find_char_skip [of "to_string a" "\<lambda>c. c = CHR ''-''" "CHR ''-'' # to_string b"] dash_free [OF assms(2)] by auto
  have "stoll (to_string a) = Inr a" "stoll (to_string b) = Inr b"
    using assms(2-5) by (simp_all add: stoll_to_string0 int64_min_def)
  then show ?thesis by (simp add: download_range_def assms(1) d)
qed

lemma download_bytes:
  assumes "download_request product filename req" "ap_files s (firmware_path product filename) = Some data"
    and "length data \<le> wo_max_size w" "int (length data) \<le> int64_max"
  shows "map_of (rq_headers req) ''Range'' = None \<Longrightarrow>
      \<exists>r. h_download_firmware w req s = (Inr r, s) \<and> rs_status_code r = 200 \<and> rs_body r = data"
    and "map_of (rq_headers req) ''Range'' = Some (''bytes='' @ to_string (int a) @ ''-'' @ to_string (int b)) \<Longrightarrow>
      a \<le> b \<Longrightarrow> b < length data \<Longrightarrow>
      \<exists>r. h_download_firmware w req s = (Inr r, s) \<and> rs_status_code r = 206 \<and> rs_body r = take (b - a + 1) (drop a data)"
proof -
  assume "map_of (rq_headers req) ''Range'' = None"
  then have "download_range req (int (length data)) = Inr (0, int (length data) - 1, False)" by (simp add: download_range_def)
  moreover have "download_data (wo_max_size w) data 0 (int (length data) - 1) = Inr data"
    using assms(3,4) by (simp add: download_data_def int64_min_def read_at_def)
  ultimately show "\<exists>r. h_download_firmware w req s = (Inr r, s) \<and> rs_status_code r = 200 \<and> rs_body r = data"
    using h_download_eq [OF assms(1,2), of w] by (simp add: answer_def)
next
  assume h: "map_of (rq_headers req) ''Range'' = Some (''bytes='' @ to_string (int a) @ ''-'' @ to_string (int b))"
    and ab: "a \<le> b" "b < length data"
  have "download_range req (int (length data)) = Inr (int a, int b, True)"
    by (rule download_range_eq [OF h]) (use ab assms(4) in auto)
  moreover have "download_data (wo_max_size w) data (int a) (int b) = Inr (take (b - a + 1) (drop a data))"
  proof -
    have n: "nat (int b - int a + 1) = b - a + 1" using ab by simp
    have r: "read_at data a (b - a + 1) = take (b - a + 1) (drop a data)" by (rule read_at_inside) (use ab in simp)
    have "\<not> (int b - int a + 1 < int64_min \<or> int64_max < int b - int a + 1)"
      "\<not> (int b - int a + 1 < 0 \<or> int (wo_max_size w) < int b - int a + 1)"
      using ab assms(3,4) by (auto simp: int64_min_def)
    then show ?thesis by (simp only: download_data_def if_False n r nat_int)
  qed
  ultimately show "\<exists>r. h_download_firmware w req s = (Inr r, s) \<and> rs_status_code r = 206 \<and> rs_body r = take (b - a + 1) (drop a data)"
    using h_download_eq [OF assms(1,2), of w] by (simp add: answer_def)
qed

lemma upload_effect:
  assumes "h_upload_firmware w req s = (Inr r, s')" "rs_status_code r = 201"
  shows "ap_files s' (firmware_path (query_param ''product_id'' req)
      (keep_if_empty (query_param ''filename'' req) (query_param ''version'' req @ ''.bin''))) = Some (rq_body req)"
proof -
  let ?p = "firmware_path (query_param ''product_id'' req) (keep_if_empty (query_param ''filename'' req) (query_param ''version'' req @ ''.bin''))"
  have "\<not> (query_param ''version'' req = '''' \<or> query_param ''product_id'' req = '''')" "wo_can_write w ?p"
    using assms by (auto simp: h_upload_firmware_def Let_def answer_def error_response_def json_response_def split: if_splits)
  with assms show ?thesis
    by (auto simp: h_upload_firmware_def Let_def answer_def register_firmware_def write_file_def)
qed

text \<open>C21. What was uploaded is what is downloaded: after a successful upload a download of the same product and
  file name gets all the bytes of the upload, and one with a range exactly the bytes from the
  first to the last position that it asks for.\<close>

theorem upload_download:
  assumes "h_upload_firmware w req s = (Inr r, s')" "rs_status_code r = 201"
    and "download_request (query_param ''product_id'' req)
      (keep_if_empty (query_param ''filename'' req) (query_param ''version'' req @ ''.bin'')) dreq"
    and "length (rq_body req) \<le> wo_max_size w" "int (length (rq_body req)) \<le> int64_max"
  shows "(map_of (rq_headers dreq) ''Range'' = None \<longrightarrow>
      (\<exists>r'. h_download_firmware w dreq s' = (Inr r', s') \<and> rs_status_code r' = 200 \<and> rs_body r' = rq_body req))
    \<and> (\<forall>a b. map_of (rq_headers dreq) ''Range'' = Some (''bytes='' @ to_string (int a) @ ''-'' @ to_string (int b)) \<and>
      a \<le> b \<and> b < length (rq_body req) \<longrightarrow>
      (\<exists>r'. h_download_firmware w dreq s' = (Inr r', s') \<and> rs_status_code r' = 206
        \<and> rs_body r' = take (b - a + 1) (drop a (rq_body req))))"
  using download_bytes [OF assms(3) upload_effect [OF assms(1,2)] assms(4,5)] by blast

definition demo_upload :: http_request where
  "demo_upload = new_request\<lparr>rq_method := ''POST'', rq_path := ''/api/v1/ota/firmwares/upload'',
     rq_query := ''version=2&product_id=p&filename=f'', rq_body := ''firmware''\<rparr>"

definition demo_download :: http_request where
  "demo_download = new_request\<lparr>rq_method := ''GET'', rq_path := ''/api/v1/ota/firmwares/download/p/f'',
     rq_headers := [(''Range'', ''bytes=2-4'')]\<rparr>"

theorem upload_download_witness:
  "\<exists>r s'. h_upload_firmware demo_world demo_upload demo_app = (Inr r, s')
     \<and> (\<exists>r'. h_download_firmware demo_world demo_download s' = (Inr r', s') \<and> rs_body r' = ''rmw'')"
proof -
  have q: "query_param ''version'' demo_upload = ''2''" "query_param ''product_id'' demo_upload = ''p''"
    "query_param ''filename'' demo_upload = ''f''" by code_simp+
  obtain r s' where up: "h_upload_firmware demo_world demo_upload demo_app = (Inr r, s')" "rs_status_code r = 201"
    by (simp add: h_upload_firmware_def q keep_if_empty_def demo_world_def answer_def register_firmware_def json_response_def Let_def)
  have dr: "download_request (query_param ''product_id'' demo_upload)
      (keep_if_empty (query_param ''filename'' demo_upload) (query_param ''version'' demo_upload @ ''.bin'')) demo_download"
    by (simp add: download_request_def q keep_if_empty_def demo_download_def)
  have ts: "to_string (int 2) = ''2''" "to_string (int 4) = ''4''" by code_simp+
  have h: "map_of (rq_headers demo_download) ''Range'' = Some (''bytes='' @ to_string (int 2) @ ''-'' @ to_string (int 4))"
    unfolding ts by (simp add: demo_download_def)
  have n: "length (rq_body demo_upload) = 8" "wo_max_size demo_world = 1000" by (simp_all add: demo_upload_def demo_world_def)
  have t: "take (4 - 2 + 1) (drop 2 (rq_body demo_upload)) = ''rmw''" by (simp add: demo_upload_def)
  have "\<exists>r'. h_download_firmware demo_world demo_download s' = (Inr r', s') \<and> rs_status_code r' = 206
      \<and> rs_body r' = take (4 - 2 + 1) (drop 2 (rq_body demo_upload))"
  proof -
    have "length (rq_body demo_upload) \<le> wo_max_size demo_world" "int (length (rq_body demo_upload)) \<le> int64_max"
      using n by (simp_all add: int64_max_def)
    from upload_download [OF up dr this, THEN conjunct2, rule_format, of 2 4] h n show ?thesis by simp
  qed
  with up t show ?thesis by auto
qed

text \<open>A request for the last bytes of a file, which HTTP writes as a range without a first position, is not
  answered: \<^verbatim>\<open>stoll\<close> throws on the empty text, and the exception ends the program.\<close>

theorem suffix_range_throws:
  assumes "download_request product filename req" "ap_files s (firmware_path product filename) = Some data"
    and "map_of (rq_headers req) ''Range'' = Some (''bytes=-'' @ n)"
  shows "h_download_firmware w req s = (Inl Invalid_argument, s)"
proof -
  have "stoll '''' = Inl Invalid_argument" by code_simp
  then have "download_range req (int (length data)) = Inl Invalid_argument" by (simp add: download_range_def assms(3))
  then show ?thesis using h_download_eq [OF assms(1,2), of w] by simp
qed

theorem suffix_range_throws_witness:
  "h_download_firmware demo_world (demo_download\<lparr>rq_headers := [(''Range'', ''bytes=-100'')]\<rparr>)
     (demo_app\<lparr>ap_files := [firmware_path ''p'' ''f'' \<mapsto> ''abc'']\<rparr>) = (Inl Invalid_argument, demo_app\<lparr>ap_files := [firmware_path ''p'' ''f'' \<mapsto> ''abc'']\<rparr>)"
  by (rule suffix_range_throws [of "''p''" "''f''" _ _ "''abc''" "''100''"]) (simp_all add: download_request_def demo_download_def)

end
