(* ===== verification/Main_Firmware.thy ===== *)
theory Main_Firmware
  imports Main_Ota "HOL-Library.Product_Lexorder"
begin

text \<open>
  The handlers of \<^verbatim>\<open>src/main.cpp\<close> that look into the firmware directory: the list of all files, the newest
  file of a product by the version in its name, and one file by name; and the scan of the
  directory when the program starts.  The file system is a parameter: the names in a directory in
  the order in which the iterator gives them, and what is known of a path.
\<close>

section \<open>The file system\<close>

record file_info =
  fi_directory :: bool
  fi_regular :: bool
  fi_size :: int
  fi_mtime :: "int option"
  fi_data :: "string option"

record file_system =
  fy_entries :: "string \<Rightarrow> string list"
  fy_info :: "string \<Rightarrow> file_info option"

definition is_directory :: "file_system \<Rightarrow> string \<Rightarrow> bool" where
  "is_directory fy p = (case fy_info fy p of None \<Rightarrow> False | Some i \<Rightarrow> fi_directory i)"

definition is_regular_file :: "file_system \<Rightarrow> string \<Rightarrow> bool" where
  "is_regular_file fy p = (case fy_info fy p of None \<Rightarrow> False | Some i \<Rightarrow> fi_regular i)"

text \<open>\<^verbatim>\<open>file_size\<close> is -1 when there is no size.\<close>

definition file_size :: "file_system \<Rightarrow> string \<Rightarrow> int" where
  "file_size fy p = (case fy_info fy p of None \<Rightarrow> - 1 | Some i \<Rightarrow> fi_size i)"

definition mtime_or_0 :: "file_system \<Rightarrow> string \<Rightarrow> int" where
  "mtime_or_0 fy p = (case fy_info fy p of None \<Rightarrow> 0 | Some i \<Rightarrow> (case fi_mtime i of None \<Rightarrow> 0 | Some t \<Rightarrow> t))"

text \<open>A stream that could not be opened gives no bytes.\<close>

definition file_bytes :: "file_system \<Rightarrow> string \<Rightarrow> string" where
  "file_bytes fy p = (case fy_info fy p of None \<Rightarrow> '''' | Some i \<Rightarrow> (case fi_data i of None \<Rightarrow> '''' | Some d \<Rightarrow> d))"

definition file_checksum :: "build \<Rightarrow> file_system \<Rightarrow> string \<Rightarrow> int \<Rightarrow> string" where
  "file_checksum b fy p n = (case bld_sha256 b of
       Some sha256 \<Rightarrow> concat (map (hex_pad 2) (sha256 (file_bytes fy p)))
     | None \<Rightarrow> ''size:'' @ to_string n)"

text \<open>The list leaves the checksum empty when the file cannot be opened.\<close>

definition listed_checksum :: "build \<Rightarrow> file_system \<Rightarrow> string \<Rightarrow> int \<Rightarrow> string" where
  "listed_checksum b fy p n = (if bld_sha256 b \<noteq> None \<and> map_option fi_data (fy_info fy p) \<in> {None, Some None} then ''''
     else file_checksum b fy p n)"

section \<open>The list and one file\<close>

definition fw_root :: string where
  "fw_root = ''./firmware''"

definition product_dir :: "string \<Rightarrow> string" where
  "product_dir product_id = fw_root @ ''/'' @ product_id"

definition firmware_file_fields :: "string \<Rightarrow> string \<Rightarrow> int \<Rightarrow> (string \<times> json_val) list \<Rightarrow> int \<Rightarrow> string \<Rightarrow> (string \<times> json_val) list" where
  "firmware_file_fields product_id filename n version mtime check =
     [(''version'', Json_Str filename), (''product_id'', Json_Str product_id), (''file_name'', Json_Str filename), (''file_size'', Json_Int n)]
     @ version @ [(''created_at'', Json_Str (iso_utc mtime)),
     (''download_url'', Json_Str (''http://127.0.0.1:9081/api/v1/ota/firmwares/download/'' @ product_id @ ''/'' @ filename)),
     (''checksum_sha256'', Json_Str check)]"

definition product_items :: "build \<Rightarrow> file_system \<Rightarrow> string \<Rightarrow> string list" where
  "product_items b fy product_id = map (\<lambda>filename.
       (let p = product_dir product_id @ ''/'' @ filename; fsize = file_size fy p in
        flat_json (firmware_file_fields product_id filename fsize [] (mtime_or_0 fy p) (listed_checksum b fy p fsize))))
     (filter (\<lambda>filename. is_regular_file fy (product_dir product_id @ ''/'' @ filename)) (fy_entries fy (product_dir product_id)))"

definition firmware_products :: "file_system \<Rightarrow> string list" where
  "firmware_products fy = filter (\<lambda>p. is_directory fy (product_dir p)) (fy_entries fy fw_root)"

definition h_firmwares :: "file_system \<Rightarrow> 'pg handler" where
  "h_firmwares fy w req s = answer (json_response 200 (success_json (list_json ''firmwares''
     (if fy_info fy fw_root = None then [] else concat (map (product_items (wo_build w) fy) (firmware_products fy)))))) s"

definition product_filter :: "http_request \<Rightarrow> string" where
  "product_filter req = (case find_sub ''product_id='' (rq_query req) of
       None \<Rightarrow> ''''
     | Some qp \<Rightarrow> takeWhile (\<lambda>c. c \<noteq> CHR ''&'') (drop (qp + 11) (rq_query req)))"

definition h_firmware :: "file_system \<Rightarrow> 'pg handler" where
  "h_firmware fy w req s = try_then (path_tail ''/api/v1/ota/firmwares/'' req) (\<lambda>target.
     case List.find (\<lambda>p. \<not> (product_filter req \<noteq> '''' \<and> p \<noteq> product_filter req)
         \<and> fy_info fy (product_dir p @ ''/'' @ target) \<noteq> None) (firmware_products fy) of
       None \<Rightarrow> answer (error_response 404 1002 (''Firmware not found: '' @ target))
     | Some product_id \<Rightarrow>
         (let p = product_dir product_id @ ''/'' @ target; fsize = file_size fy p in
          answer (json_response 200 (success_json (flat_json (firmware_file_fields product_id target fsize []
            (mtime_or_0 fy p) (file_checksum (wo_build w) fy p fsize))))))) s"

section \<open>The newest file of a product\<close>

text \<open>The regular expression \<^verbatim>\<open>(\d+)\.(\d+)\.(\d+)\<close> at the beginning of a text: runs of digits are taken as a
  whole, since no shorter run is followed by a dot.\<close>

definition digit_run :: "string \<Rightarrow> (string \<times> string) option" where
  "digit_run s = (let d = takeWhile is_digit s in if d = [] then None else Some (d, drop (length d) s))"

definition after_dot :: "string \<Rightarrow> string option" where
  "after_dot s = (case s of c # r \<Rightarrow> if c = CHR ''.'' then Some r else None | [] \<Rightarrow> None)"

definition version_at :: "string \<Rightarrow> (string \<times> string \<times> string) option" where
  "version_at s =
     Option.bind (digit_run s) (\<lambda>(a, r1). Option.bind (after_dot r1) (\<lambda>s2.
     Option.bind (digit_run s2) (\<lambda>(b, r2). Option.bind (after_dot r2) (\<lambda>s3.
     Option.bind (digit_run s3) (\<lambda>(c, _). Some (a, b, c))))))"

fun parse_version :: "string \<Rightarrow> (int \<times> int \<times> int) exn" where
  "parse_version [] = Inr (0, 0, 0)"
| "parse_version (x # s) = (case version_at (x # s) of
     Some (a, b, c) \<Rightarrow> exn_bind (stoi a) (\<lambda>maj. exn_bind (stoi b) (\<lambda>min'. exn_bind (stoi c) (\<lambda>pat. Inr (maj, min', pat))))
   | None \<Rightarrow> parse_version s)"

record best =
  bs_file :: string
  bs_mtime :: int
  bs_version :: "int \<times> int \<times> int"
  bs_size :: int

definition no_best :: best where
  "no_best = \<lparr>bs_file = '''', bs_mtime = 0, bs_version = (- 1, 0, 0), bs_size = 0\<rparr>"

definition is_newer :: "int \<times> int \<times> int \<Rightarrow> int \<Rightarrow> best \<Rightarrow> bool" where
  "is_newer v mtime b = (case (v, bs_version b) of ((maj, min', pat), (best_major, best_minor, best_patch)) \<Rightarrow>
     if 0 < maj \<or> 0 < min' \<or> 0 < pat then
       best_major < maj
       \<or> maj = best_major \<and> best_minor < min'
       \<or> maj = best_major \<and> min' = best_minor \<and> best_patch < pat
       \<or> maj = best_major \<and> min' = best_minor \<and> pat = best_patch \<and> bs_mtime b < mtime
     else best_major < 1 \<and> bs_mtime b < mtime)"

text \<open>A file of the directory: its name, time and size.\<close>

fun pick_best :: "(string \<times> int \<times> int) list \<Rightarrow> best \<Rightarrow> best exn" where
  "pick_best [] b = Inr b"
| "pick_best ((fname, mtime, n) # fs) b = exn_bind (parse_version fname) (\<lambda>v.
     pick_best fs (if is_newer v mtime b then \<lparr>bs_file = fname, bs_mtime = mtime, bs_version = v, bs_size = n\<rparr> else b))"

definition product_files :: "file_system \<Rightarrow> string \<Rightarrow> (string \<times> int \<times> int) list" where
  "product_files fy product_id = concat (map (\<lambda>fname. case fy_info fy (product_dir product_id @ ''/'' @ fname) of
       None \<Rightarrow> []
     | Some i \<Rightarrow> if \<not> fi_regular i then [] else (case fi_mtime i of None \<Rightarrow> [] | Some t \<Rightarrow> [(fname, t, fi_size i)]))
     (fy_entries fy (product_dir product_id)))"

definition h_latest_firmware :: "file_system \<Rightarrow> 'pg handler" where
  "h_latest_firmware fy w req s =
     (let product_id = query_param ''product_id'' req in
      if product_id = '''' then answer (error_response 400 1001 ''product_id required'') s
      else if fy_info fy (product_dir product_id) = None then answer (error_response 404 1002 (''No firmware for product: '' @ product_id)) s
      else try_then (pick_best (product_files fy product_id) no_best) (\<lambda>b.
        if bs_file b = '''' then answer (error_response 404 1002 (''No firmware for product: '' @ product_id))
        else (case bs_version b of (maj, min', pat) \<Rightarrow>
          answer (json_response 200 (success_json (flat_json (firmware_file_fields product_id (bs_file b) (bs_size b)
            [(''version_major'', Json_Int maj), (''version_minor'', Json_Int min'), (''version_patch'', Json_Int pat)]
            (bs_mtime b) (file_checksum (wo_build w) fy (product_dir product_id @ ''/'' @ bs_file b) (bs_size b)))))))) s)"

section \<open>The scan at the start\<close>

definition strip_extension :: "string \<Rightarrow> string" where
  "strip_extension fname = (case rfind_sub ''.'' fname of None \<Rightarrow> fname | Some dot \<Rightarrow> take dot fname)"

definition scan_file :: "int \<Rightarrow> file_system \<Rightarrow> string \<Rightarrow> string \<Rightarrow> ota_manager \<Rightarrow> ota_manager" where
  "scan_file now fy product fname ot =
     (let ver = strip_extension fname in
      if get_firmware ver ot \<noteq> None then ot
      else snd (register_firmware (new_firmware_version\<lparr>fw_version := ver, fw_product_id := product, fw_file_name := fname,
        fw_file_size := file_size fy (product_dir product @ ''/'' @ fname),
        fw_download_url := ''/api/v1/ota/firmwares/'' @ ver @ ''/download'', fw_created_at := now\<rparr>) ot))"

definition scan_firmware :: "int \<Rightarrow> file_system \<Rightarrow> ota_manager \<Rightarrow> ota_manager" where
  "scan_firmware now fy ot = (if fy_info fy fw_root = None then ot
     else fold (\<lambda>product ot. fold (scan_file now fy product)
       (filter (\<lambda>fname. is_regular_file fy (product_dir product @ ''/'' @ fname)) (fy_entries fy (product_dir product))) ot)
       (firmware_products fy) ot)"

section \<open>What the newest file is\<close>

text \<open>The order that is meant: versions first, then times.\<close>

declare less_eq_prod_simp [simp del] less_prod_simp [simp del]

abbreviation file_key :: "best \<Rightarrow> (int \<times> int \<times> int) \<times> int" where
  "file_key b \<equiv> (bs_version b, bs_mtime b)"

text \<open>A name without a version, or with a major version from 1 on.\<close>

definition plain_version :: "string \<Rightarrow> bool" where
  "plain_version fname \<longleftrightarrow> (\<exists>v. parse_version fname = Inr v \<and> (v = (0, 0, 0) \<or> 1 \<le> fst v))"

definition picked_from :: "(string \<times> int \<times> int) list \<Rightarrow> best \<Rightarrow> bool" where
  "picked_from fs b \<longleftrightarrow> (bs_file b, bs_mtime b, bs_size b) \<in> set fs \<and> parse_version (bs_file b) = Inr (bs_version b)"

lemma is_newer_versioned: "1 \<le> fst v \<Longrightarrow> is_newer v t b \<longleftrightarrow> file_key b < (v, t)"
  by (cases v; cases "bs_version b") (auto simp: is_newer_def less_prod_def' split: prod.splits)

lemma is_newer_unversioned: "is_newer (0, 0, 0) t b \<longleftrightarrow> fst (bs_version b) < 1 \<and> bs_mtime b < t"
  by (simp add: is_newer_def split: prod.splits)

lemma fst_mono_lex: "((a :: int \<times> int \<times> int), (t :: int)) \<le> (b, u) \<Longrightarrow> fst a \<le> fst b"
  by (cases a; cases b) (auto simp: less_eq_prod_def less_prod_def')

lemma pick_best_max:
  assumes "list_all (\<lambda>f. plain_version (fst f)) fs"
  shows "\<exists>b'. pick_best fs b = Inr b' \<and> (b' = b \<or> picked_from fs b')
    \<and> (1 \<le> fst (bs_version b) \<longrightarrow> file_key b \<le> file_key b')
    \<and> (\<forall>n t s v. (n, t, s) \<in> set fs \<longrightarrow> parse_version n = Inr v \<longrightarrow> 1 \<le> fst v \<longrightarrow> (v, t) \<le> file_key b')"
  using assms
proof (induction fs arbitrary: b)
  case (Cons f fs)
  obtain n t s where f: "f = (n, t, s)" by (cases f)
  from Cons.prems f obtain v where v: "parse_version n = Inr v" "v = (0, 0, 0) \<or> 1 \<le> fst v" by (auto simp: plain_version_def)
  let ?b1 = "if is_newer v t b then \<lparr>bs_file = n, bs_mtime = t, bs_version = v, bs_size = s\<rparr> else b"
  have "list_all (\<lambda>f. plain_version (fst f)) fs" using Cons.prems by simp
  from Cons.IH [OF this, of ?b1] obtain b' where b': "pick_best fs ?b1 = Inr b'" "b' = ?b1 \<or> picked_from fs b'"
    "1 \<le> fst (bs_version ?b1) \<Longrightarrow> file_key ?b1 \<le> file_key b'"
    "\<And>n t s v. (n, t, s) \<in> set fs \<Longrightarrow> parse_version n = Inr v \<Longrightarrow> 1 \<le> fst v \<Longrightarrow> (v, t) \<le> file_key b'"
    by blast
  have from_fs: "b' = b \<or> picked_from (f # fs) b'"
    using b'(2) v f by (auto simp: picked_from_def)
  have up: "(v, t) \<le> file_key b'" if "1 \<le> fst v"
  proof -
    have le: "(v, t) \<le> file_key ?b1" using is_newer_versioned [OF that, of t b] by (cases "is_newer v t b") auto
    have "1 \<le> fst (bs_version ?b1)" using fst_mono_lex [OF le] that by linarith
    with b'(3) le show ?thesis by (metis order_trans)
  qed
  have keep: "file_key b \<le> file_key b'" if "1 \<le> fst (bs_version b)"
  proof (cases "v = (0, 0, 0)")
    case True
    then have "?b1 = b" using is_newer_unversioned [of t b] that by simp
    with b'(3) that show ?thesis by simp
  next
    case False
    then have "1 \<le> fst v" using v by simp
    moreover from this have "file_key b \<le> file_key ?b1"
      using is_newer_versioned [of v t b] by (cases "is_newer v t b") (simp_all add: less_imp_le)
    moreover have "1 \<le> fst (bs_version ?b1)" using \<open>1 \<le> fst v\<close> that by simp
    ultimately show ?thesis using b'(3) by (metis order_trans)
  qed
  have all: "(v', t') \<le> file_key b'" if "(n', t', s') \<in> set (f # fs)" "parse_version n' = Inr v'" "1 \<le> fst v'" for n' t' s' v'
    using that b'(4) [of n' t' s' v'] up v(1) f by (cases "(n', t', s') = f") auto
  have "pick_best (f # fs) b = Inr b'" using b'(1) v(1) f by simp
  with from_fs keep all show ?case by blast
qed simp

text \<open>C34. The newest firmware: when every file of a product has either no version in its name or a major version from
  1 on, and at least one has a version, the file that is reported is one of the highest version,
  and the latest of those.\<close>

theorem latest_highest:
  assumes "list_all (\<lambda>f. plain_version (fst f)) fs" "(n, t, s) \<in> set fs" "parse_version n = Inr v" "1 \<le> fst v"
  shows "\<exists>b. pick_best fs no_best = Inr b \<and> picked_from fs b \<and> 1 \<le> fst (bs_version b)
    \<and> (\<forall>n' t' s' v'. (n', t', s') \<in> set fs \<longrightarrow> parse_version n' = Inr v' \<longrightarrow> (v', t') \<le> file_key b)"
proof -
  from pick_best_max [OF assms(1), of no_best] obtain b where b: "pick_best fs no_best = Inr b" "b = no_best \<or> picked_from fs b"
    "\<And>n t s v. (n, t, s) \<in> set fs \<Longrightarrow> parse_version n = Inr v \<Longrightarrow> 1 \<le> fst v \<Longrightarrow> (v, t) \<le> file_key b" by blast
  have "(v, t) \<le> file_key b" by (rule b(3) [OF assms(2-4)])
  then have maj: "1 \<le> fst (bs_version b)" using fst_mono_lex [of v t "bs_version b" "bs_mtime b"] assms(4) by linarith
  then have "picked_from fs b" using b(2) by (auto simp: no_best_def)
  moreover have "(v', t') \<le> file_key b" if "(n', t', s') \<in> set fs" "parse_version n' = Inr v'" for n' t' s' v'
  proof (cases "1 \<le> fst v'")
    case False
    moreover have "plain_version n'" using assms(1) that(1) by (auto simp: list_all_iff)
    ultimately have "v' = (0, 0, 0)" using that(2) by (auto simp: plain_version_def)
    with maj show ?thesis by (cases "bs_version b") (auto simp: less_eq_prod_def less_prod_def')
  qed (rule b(3) [OF that])
  ultimately show ?thesis using b(1) maj by blast
qed

theorem latest_highest_witness:
  "\<exists>b. pick_best [(''v2.1.0.bin'', 5, 10), (''fw_10.0.3'', 4, 11), (''notes'', 9, 12)] no_best = Inr b
    \<and> (\<forall>v'. parse_version ''fw_10.0.3'' = Inr v' \<longrightarrow> (v', 4) \<le> file_key b)"
proof -
  have v: "parse_version ''v2.1.0.bin'' = Inr (2, 1, 0)" "parse_version ''fw_10.0.3'' = Inr (10, 0, 3)" "parse_version ''notes'' = Inr (0, 0, 0)"
    by code_simp+
  have "list_all (\<lambda>f. plain_version (fst f)) [(''v2.1.0.bin'', 5, 10), (''fw_10.0.3'', 4, 11), (''notes'', 9, 12 :: int)]"
    by (simp add: plain_version_def v del: parse_version.simps)
  from latest_highest [OF this, of "''v2.1.0.bin''" 5 10] v show ?thesis by (auto simp del: parse_version.simps pick_best.simps)
qed

text \<open>With versions before 1.0.0 the rule that a file without version never replaces one with a version is
  broken: a newer file of any name does, and then any version from 0.0.1 on replaces that again,
  even one lower than the first.\<close>

theorem latest_before_one:
  assumes "parse_version a = Inr (0, i, j)" "parse_version b = Inr (0, 0, 0)" "parse_version c = Inr (0, k, l)"
    and "0 < k" "k < i" "ta < tb"
  shows "\<exists>x y. pick_best [(a, ta, sa), (b, tb, sb)] no_best = Inr x \<and> bs_file x = b
    \<and> pick_best [(a, ta, sa), (b, tb, sb), (c, tc, sc)] no_best = Inr y \<and> bs_file y = c"
  using assms by (simp add: is_newer_def no_best_def)

theorem latest_before_one_witness:
  "\<exists>x y. pick_best [(''0.9.0'', 1, 2), (''readme'', 2, 3)] no_best = Inr x \<and> bs_file x = ''readme''
    \<and> pick_best [(''0.9.0'', 1, 2), (''readme'', 2, 3), (''0.2.0'', 0, 4)] no_best = Inr y \<and> bs_file y = ''0.2.0''"
proof -
  have v: "parse_version ''0.9.0'' = Inr (0, 9, 0)" "parse_version ''readme'' = Inr (0, 0, 0)" "parse_version ''0.2.0'' = Inr (0, 2, 0)"
    by code_simp+
  from latest_before_one [OF v, of 1 2 2 3 0 4] show ?thesis by simp
qed

end
