(* ===== verification/Main_Accounts.thy ===== *)
theory Main_Accounts
  imports Main_Common
begin

text \<open>
  The handlers of \<^verbatim>\<open>src/main.cpp\<close> for organisations, login and accounts.
\<close>

section \<open>Organisations\<close>

text \<open>The filters are looked for in the path, from which the server has removed the query.\<close>

definition org_filters :: "string \<Rightarrow> (int \<times> string) exn" where
  "org_filters path =
     exn_bind (case find_sub ''?parent_id='' path of None \<Rightarrow> Inr (- 1) | Some q \<Rightarrow> stoi (drop (q + 11) path)) (\<lambda>parent_id.
     Inr (parent_id, case find_sub ''?org_type='' path of
         None \<Rightarrow> '''' | Some q \<Rightarrow> takeWhile (\<lambda>c. c \<noteq> CHR ''&'') (drop (q + 10) path)))"

definition org_json :: "org_info \<Rightarrow> string" where
  "org_json o' = flat_json [(''org_id'', Json_Int (org_org_id o')), (''parent_id'', Json_Int (org_parent_id o')),
     (''tenant_id'', Json_Str (org_tenant_id o')), (''org_name'', Json_Str (org_org_name o')), (''org_type'', Json_Str (org_org_type o')),
     (''level'', Json_Int (org_level o')), (''path'', Json_Str (org_path o')), (''children_count'', Json_Int (org_children_count o')),
     (''is_active'', Json_Bool (org_is_active o'))]"

definition h_orgs :: "'pg handler" where
  "h_orgs w req s = try_then (org_filters (rq_path req)) (\<lambda>(parent_id, org_type).
     answer (json_response 200 (success_json (list_json ''list'' (map org_json (list_orgs parent_id org_type False (ap_orgs s))))))) s"

fun serialize :: "org_tree_node \<Rightarrow> string" where
  \<open>serialize (Org_Tree_Node i children) =
     (if org_org_id i = 0 \<and> children = [] then ''''
      else if org_org_id i \<noteq> 0 then open_json [(''org_id'', Json_Int (org_org_id i)), (''org_name'', Json_Str (org_org_name i)),
          (''org_type'', Json_Str (org_org_type i)), (''tenant_id'', Json_Str (org_tenant_id i)), (''parent_id'', Json_Int (org_parent_id i)),
          (''level'', Json_Int (org_level i))] @ '',"children":['' @ join (CHR '','') (map serialize children) @ '']}''
      else concat (map serialize children))\<close>

definition h_org_tree :: "'pg handler" where
  \<open>h_org_tree w req s = (case get_org_tree (length (og_orgs (ap_orgs s)) + 1) (ap_orgs s) of
       None \<Rightarrow> (Inl Undefined_behaviour, s)
     | Some tree \<Rightarrow> answer (json_response 200 (success_json
         (''{"tree":'' @ json_array (map serialize (node_children tree)) @ ''}''))) s)\<close>

definition org_detail_json :: "org_info \<Rightarrow> string" where
  "org_detail_json o' = flat_json [(''org_id'', Json_Int (org_org_id o')), (''parent_id'', Json_Int (org_parent_id o')),
     (''tenant_id'', Json_Str (org_tenant_id o')), (''org_name'', Json_Str (org_org_name o')), (''org_type'', Json_Str (org_org_type o')),
     (''contact_name'', Json_Str (org_contact_name o')), (''contact_phone'', Json_Str (org_contact_phone o')),
     (''contact_email'', Json_Str (org_contact_email o')), (''address'', Json_Str (org_address o')), (''level'', Json_Int (org_level o')),
     (''path'', Json_Str (org_path o')), (''children_count'', Json_Int (org_children_count o')), (''is_active'', Json_Bool (org_is_active o')),
     (''created_at'', Json_Str (org_created_at o')), (''updated_at'', Json_Str (org_updated_at o'))]"

text \<open>The number behind the prefix of a path: \<^verbatim>\<open>stoi\<close> throws when there is none.\<close>

definition path_id :: "string \<Rightarrow> http_request \<Rightarrow> int exn" where
  "path_id pre req = exn_bind (path_tail pre req) stoi"

definition h_org :: "'pg handler" where
  "h_org w req s = try_then (path_id ''/api/v1/orgs/'' req) (\<lambda>org_id s.
     case get_org org_id (ap_orgs s) of
       None \<Rightarrow> answer (error_response 404 1002 (''Org not found: '' @ to_string org_id)) s
     | Some o' \<Rightarrow> answer (json_response 200 (success_json (org_detail_json o'))) s) s"

definition requested_org :: "string \<Rightarrow> org_info exn" where
  "requested_org body = exn_bind (get_int body ''parent_id'' 0) (\<lambda>parent_id.
     Inr (new_org_info\<lparr>org_parent_id := parent_id,
       org_tenant_id := keep_if_empty (get_string body ''tenant_id'') (get_string body ''org_name''),
       org_org_name := get_string body ''org_name'', org_org_type := get_string body ''org_type'',
       org_contact_name := get_string body ''contact_name'', org_contact_phone := get_string body ''contact_phone'',
       org_contact_email := get_string body ''contact_email'', org_address := get_string body ''address''\<rparr>))"

definition h_create_org :: "'pg handler" where
  "h_create_org w req s = try_then (requested_org (rq_body req)) (\<lambda>i s.
     if org_org_name i = '''' then answer (error_response 400 1001 ''org_name is required'') s
     else (case create_org (wo_pq w) (wo_broker_env w) (wo_now w) i (ap_orgs s, Some (ap_db s)) of
         ((r, i'), _, og, d) \<Rightarrow> try_then r (\<lambda>sc.
           if sc \<noteq> OK then answer (status_error sc)
           else answer (json_response 201 (success_json
             (flat_json [(''org_id'', Json_Int (org_org_id i')), (''tenant_id'', Json_Str (org_tenant_id i'))])))) (db_after d (s\<lparr>ap_orgs := og\<rparr>)))) s"

definition org_changes :: "string \<Rightarrow> org_info" where
  "org_changes body = new_org_info\<lparr>org_org_name := get_string body ''org_name'',
     org_contact_name := get_string body ''contact_name'', org_contact_phone := get_string body ''contact_phone'',
     org_contact_email := get_string body ''contact_email'', org_address := get_string body ''address'',
     org_is_active := get_bool body ''is_active'' True\<rparr>"

definition h_update_org :: "'pg handler" where
  "h_update_org w req s = try_then (path_id ''/api/v1/orgs/'' req) (\<lambda>org_id s.
     if \<not> org_exists org_id (ap_orgs s) then answer (error_response 404 1002 (''Org not found: '' @ to_string org_id)) s
     else (case update_org (wo_pq w) (wo_now w) org_id (org_changes (rq_body req)) (ap_orgs s, Some (ap_db s)) of (sc, og, d) \<Rightarrow>
       (let s1 = db_after d (s\<lparr>ap_orgs := og\<rparr>) in
        if sc \<noteq> OK then answer (status_error sc) s1
        else answer (json_response 200 (success_json (flat_json [(''org_id'', Json_Int org_id)]))) s1))) s"

definition h_delete_org :: "'pg handler" where
  "h_delete_org w req s = try_then (path_id ''/api/v1/orgs/'' req) (\<lambda>org_id s.
     case delete_org (wo_pq w) (wo_broker_env w) org_id (ap_orgs s, Some (ap_db s)) of (r, _, og, d) \<Rightarrow>
       try_then r (\<lambda>sc.
         if sc \<noteq> OK then answer (status_error sc)
         else answer (json_response 200 (success_json
           (flat_json [(''org_id'', Json_Int org_id), (''deleted'', Json_Bool True)])))) (db_after d (s\<lparr>ap_orgs := og\<rparr>))) s"

section \<open>Login\<close>

definition login_json :: "login_response \<Rightarrow> string" where
  \<open>login_json resp = (let a = lr_account resp in
     open_json [(''token'', Json_Str (lr_token resp)), (''expires_at'', Json_Str (lr_expires_at resp))] @ '',"account":''
     @ open_json [(''account_id'', Json_Int (acc_account_id a)), (''username'', Json_Str (acc_username a)),
         (''display_name'', Json_Str (acc_display_name a)), (''org_id'', Json_Int (acc_org_id a)), (''org_name'', Json_Str (acc_org_name a)),
         (''role_code'', Json_Str (acc_role_code a))]
     @ '',"permissions":'' @ json_strings (lr_permissions resp) @ ''}}'')\<close>

definition h_login :: "'pg handler" where
  "h_login w req s =
     (let username = get_string (rq_body req) ''username''; password = get_string (rq_body req) ''password'' in
      if username = '''' \<or> password = '''' then answer (error_response 400 1001 ''username and password are required'') s
      else (case login (wo_hash w) (wo_now w) username password (ap_accounts s) of (resp, am) \<Rightarrow>
        (let s1 = s\<lparr>ap_accounts := am\<rparr> in
         if \<not> lr_success resp then answer (error_response 401 (lr_error_code resp) (lr_error_message resp)) s1
         else answer (json_response 200 (success_json (login_json resp))) s1)))"

definition h_logout :: "'pg handler" where
  "h_logout w req s =
     (let token = get_string (rq_body req) ''token''; token' = (if token = '''' then bearer req else token) in
      answer (json_response 200 (success_json (flat_json [(''logout'', Json_Bool True)])))
        (s\<lparr>ap_accounts := snd (logout token' (ap_accounts s))\<rparr>))"

definition profile_json :: "token_payload \<Rightarrow> account_info \<Rightarrow> string" where
  \<open>profile_json tp a = open_json [(''account_id'', Json_Int (acc_account_id a)), (''username'', Json_Str (acc_username a)),
       (''display_name'', Json_Str (acc_display_name a)), (''org_id'', Json_Int (acc_org_id a)), (''org_name'', Json_Str (acc_org_name a)),
       (''role_code'', Json_Str (acc_role_code a)), (''email'', Json_Str (acc_email a)), (''phone'', Json_Str (acc_phone a))]
     @ '',"permissions":'' @ json_strings (permissions_for_role (acc_role_code a))
     @ '',"org_scope":'' @ json_array (map to_string (tp_org_scope tp)) @ ''}''\<close>

definition h_profile :: "'pg handler" where
  "h_profile w req s =
     (if bearer req = '''' then answer (error_response 401 1004 ''Missing Authorization Bearer Token'') s
      else try_then (verify_token (wo_now w) (ap_orgs s) (bearer req) (ap_accounts s)) (\<lambda>tp.
        case tp of
          None \<Rightarrow> answer (error_response 401 1004 ''Invalid or expired token'')
        | Some t \<Rightarrow> (case get_account (tp_account_id t) (ap_accounts s) of
            None \<Rightarrow> answer (error_response 401 1004 ''Account not found'')
          | Some a \<Rightarrow> answer (json_response 200 (success_json (profile_json t a))))) s)"

section \<open>Accounts\<close>

definition account_head :: "account_info \<Rightarrow> (string \<times> json_val) list" where
  "account_head a = [(''account_id'', Json_Int (acc_account_id a)), (''username'', Json_Str (acc_username a)),
     (''display_name'', Json_Str (acc_display_name a)), (''org_id'', Json_Int (acc_org_id a)), (''org_name'', Json_Str (acc_org_name a)),
     (''role_code'', Json_Str (acc_role_code a)), (''email'', Json_Str (acc_email a)), (''phone'', Json_Str (acc_phone a)),
     (''is_active'', Json_Bool (acc_is_active a))]"

definition h_accounts :: "'pg handler" where
  "h_accounts w req s = answer (json_response 200 (success_json (list_json ''list''
     (map (flat_json \<circ> account_head) (list_accounts (- 1) '''' False (ap_accounts s)))))) s"

definition h_account :: "'pg handler" where
  "h_account w req s = try_then (path_id ''/api/v1/accounts/'' req) (\<lambda>account_id s.
     case get_account account_id (ap_accounts s) of
       None \<Rightarrow> answer (error_response 404 1002 (''Account not found: '' @ to_string account_id)) s
     | Some a \<Rightarrow> answer (json_response 200 (success_json (flat_json (account_head a @
         [(''created_at'', Json_Str (acc_created_at a)), (''last_login_at'', Json_Str (acc_last_login_at a))])))) s) s"

definition requested_account :: "string \<Rightarrow> account_info exn" where
  "requested_account body = exn_bind (get_int body ''org_id'' 0) (\<lambda>org_id.
     Inr (new_account_info\<lparr>acc_username := get_string body ''username'', acc_display_name := get_string body ''display_name'',
       acc_org_id := org_id, acc_role_code := get_string body ''role_code'', acc_email := get_string body ''email'',
       acc_phone := get_string body ''phone''\<rparr>))"

definition h_create_account :: "'pg handler" where
  "h_create_account w req s = try_then (requested_account (rq_body req)) (\<lambda>i s.
     (let password = get_string (rq_body req) ''password'' in
      if acc_username i = '''' \<or> password = '''' \<or> acc_role_code i = ''''
      then answer (error_response 400 1001 ''username, password, and role_code are required'') s
      else (case create_account (wo_pq w) (wo_hash w) (wo_now w) (ap_orgs s) i password (ap_accounts s, Some (ap_db s)) of
          ((r, i'), am, d) \<Rightarrow> try_then r (\<lambda>sc.
            if sc \<noteq> OK then answer (status_error sc)
            else answer (json_response 201 (success_json
              (flat_json [(''account_id'', Json_Int (acc_account_id i')), (''username'', Json_Str (acc_username i'))]))))
            (db_after d (s\<lparr>ap_accounts := am\<rparr>))))) s"

definition h_change_password :: "'pg handler" where
  "h_change_password w req s =
     (if \<not> ends_with (rq_path req) ''/password'' then answer (error_response 404 1002 (''Not found: '' @ rq_path req)) s
      else try_then (exn_bind (between (rq_path req) ''/api/v1/accounts/'' ''/password'') stoi) (\<lambda>account_id s.
        (let old_pwd = get_string (rq_body req) ''old_password''; new_pwd = get_string (rq_body req) ''new_password'' in
         if old_pwd = '''' \<or> new_pwd = '''' then answer (error_response 400 1001 ''old_password and new_password are required'') s
         else (case change_password (wo_hash w) account_id old_pwd new_pwd (ap_accounts s) of (sc, am) \<Rightarrow>
           if sc \<noteq> OK then answer (status_error sc) (s\<lparr>ap_accounts := am\<rparr>)
           else answer (json_response 200 (success_json (flat_json [(''updated'', Json_Bool True)]))) (s\<lparr>ap_accounts := am\<rparr>)))) s)"

definition account_changes :: "string \<Rightarrow> account_info" where
  "account_changes body = new_account_info\<lparr>acc_display_name := get_string body ''display_name'',
     acc_email := get_string body ''email'', acc_phone := get_string body ''phone'', acc_is_active := get_bool body ''is_active'' True\<rparr>"

definition h_update_account :: "'pg handler" where
  "h_update_account w req s = try_then (path_tail ''/api/v1/accounts/'' req) (\<lambda>id_str.
     if CHR ''/'' \<in> set id_str then answer (error_response 404 1002 (''Not found: '' @ rq_path req))
     else try_then (stoi id_str) (\<lambda>account_id s.
       case update_account (wo_pq w) (wo_now w) account_id (account_changes (rq_body req)) (ap_accounts s, Some (ap_db s)) of (sc, am, d) \<Rightarrow>
         (let s1 = db_after d (s\<lparr>ap_accounts := am\<rparr>) in
          if sc \<noteq> OK then answer (status_error sc) s1
          else answer (json_response 200 (success_json (flat_json [(''account_id'', Json_Int account_id)]))) s1))) s"

definition h_delete_account :: "'pg handler" where
  "h_delete_account w req s = try_then (path_id ''/api/v1/accounts/'' req) (\<lambda>account_id s.
     case delete_account (wo_pq w) account_id (ap_accounts s, Some (ap_db s)) of (sc, am, d) \<Rightarrow>
       (let s1 = db_after d (s\<lparr>ap_accounts := am\<rparr>) in
        if sc \<noteq> OK then answer (status_error sc) s1
        else answer (json_response 200 (success_json
          (flat_json [(''account_id'', Json_Int account_id), (''deleted'', Json_Bool True)]))) s1)) s"

section \<open>What requests can do\<close>

lemma login_answer:
  assumes "get_account_by_username u s = Some a" "acc_is_active a" "acc_password_hash a = hash_password hash p"
  shows "lr_success (fst (login hash t u p s))" "lr_permissions (fst (login hash t u p s)) = permissions_for_role (acc_role_code a)"
  using assms by (simp_all add: login_def)

text \<open>Nobody has to be logged in to create an account: whatever the headers of the request are, it is granted
  when the name is free, the organisation exists and the role is a known one, be it super
  admin, and the new account can log in and has all permissions of the role.\<close>

theorem anyone_creates_account:
  assumes "requested_account (rq_body req) = Inr i" "get_string (rq_body req) ''password'' \<noteq> ''''" "acc_username i \<noteq> ''''"
    and "get_account_by_username (acc_username i) (ap_accounts s) = None" "org_exists (acc_org_id i) (ap_orgs s)"
    and "acc_role_code i \<in> set VALID_ROLES" "am_next_id (ap_accounts s) < int32_max"
  shows "\<exists>r s'. h_create_account w (req\<lparr>rq_headers := hs\<rparr>) s = (Inr r, s') \<and> rs_status_code r = 201
    \<and> lr_success (fst (login (wo_hash w) t (acc_username i) (get_string (rq_body req) ''password'') (ap_accounts s')))
    \<and> lr_permissions (fst (login (wo_hash w) t (acc_username i) (get_string (rq_body req) ''password'') (ap_accounts s')))
        = permissions_for_role (acc_role_code i)"
proof -
  let ?p = "get_string (rq_body req) ''password''"
  let ?a = "created_account (wo_hash w) (wo_now w) (ap_orgs s) i ?p (ap_accounts s)"
  have role: "acc_role_code i \<noteq> ''''" using assms(6) by (auto simp: VALID_ROLES_def)
  have act: "acc_is_active i" using assms(1) by (auto simp: requested_account_def exn_bind_eq_Inr new_account_info_def)
  have a: "acc_username ?a = acc_username i" "acc_is_active ?a" "acc_password_hash ?a = hash_password (wo_hash w) ?p" "acc_role_code ?a = acc_role_code i"
    using act by (simp_all add: created_account_def Let_def split: option.splits)
  obtain d where c: "create_account (wo_pq w) (wo_hash w) (wo_now w) (ap_orgs s) i ?p (ap_accounts s, Some (ap_db s))
      = ((Inr OK, ?a), (ap_accounts s)\<lparr>am_accounts := am_accounts (ap_accounts s) @ [?a], am_next_id := am_next_id (ap_accounts s) + 1\<rparr>, d)"
    using assms(4-7) by (simp add: create_account_def Let_def)
  let ?s = "db_after d (s\<lparr>ap_accounts := (ap_accounts s)\<lparr>am_accounts := am_accounts (ap_accounts s) @ [?a], am_next_id := am_next_id (ap_accounts s) + 1\<rparr>\<rparr>)"
  have acc: "am_accounts (ap_accounts ?s) = am_accounts (ap_accounts s) @ [?a]" by (simp add: db_after_def split: option.splits)
  have found: "get_account_by_username (acc_username i) (ap_accounts ?s) = Some ?a"
    using assms(4) a(1) by (simp add: get_account_by_username_def acc find_append)
  have h: "h_create_account w (req\<lparr>rq_headers := hs\<rparr>) s = (Inr (json_response 201 (success_json
      (flat_json [(''account_id'', Json_Int (acc_account_id ?a)), (''username'', Json_Str (acc_username ?a))]))), ?s)"
    using assms(1-3) role c by (simp add: h_create_account_def Let_def answer_def)
  from h login_answer [OF found a(2,3), of t] a(4) show ?thesis by (simp add: json_response_def)
qed

definition demo_create_request :: http_request where
  "demo_create_request = new_request\<lparr>rq_body := flat_json [(''username'', Json_Str ''eve''), (''password'', Json_Str ''pw''),
     (''org_id'', Json_Int 1), (''role_code'', Json_Str ''super_admin'')]\<rparr>"

theorem anyone_creates_account_witness:
  "\<exists>r s'. h_create_account demo_world demo_create_request (demo_app\<lparr>ap_orgs := demo_orgs\<rparr>) = (Inr r, s') \<and> rs_status_code r = 201
    \<and> lr_permissions (fst (login length 5 ''eve'' ''pw'' (ap_accounts s'))) = permissions_for_role ''super_admin''"
proof -
  let ?i = "new_account_info\<lparr>acc_username := ''eve'', acc_org_id := 1, acc_role_code := ''super_admin''\<rparr>"
  have b: "get_int (rq_body demo_create_request) ''org_id'' 0 = Inr 1" "get_string (rq_body demo_create_request) ''username'' = ''eve''"
    "get_string (rq_body demo_create_request) ''display_name'' = ''''" "get_string (rq_body demo_create_request) ''role_code'' = ''super_admin''"
    "get_string (rq_body demo_create_request) ''email'' = ''''" "get_string (rq_body demo_create_request) ''phone'' = ''''"
    "get_string (rq_body demo_create_request) ''password'' = ''pw''" by code_simp+
  have i: "requested_account (rq_body demo_create_request) = Inr ?i"
    by (simp add: requested_account_def b new_account_info_def)
  have s: "get_account_by_username ''eve'' (ap_accounts (demo_app\<lparr>ap_orgs := demo_orgs\<rparr>)) = None"
    "am_next_id (ap_accounts (demo_app\<lparr>ap_orgs := demo_orgs\<rparr>)) < int32_max" "ap_orgs (demo_app\<lparr>ap_orgs := demo_orgs\<rparr>) = demo_orgs"
    by (simp_all add: demo_app_def get_account_by_username_def new_account_manager_def int32_max_def)
  have w: "wo_hash demo_world = length" by (simp add: demo_world_def)
  have r: "demo_create_request\<lparr>rq_headers := []\<rparr> = demo_create_request" by (simp add: demo_create_request_def new_request_def)
  from anyone_creates_account [OF i, of "demo_app\<lparr>ap_orgs := demo_orgs\<rparr>" demo_world "[]" 5] s demo_orgs_ok(2)
  show ?thesis by (auto simp: b w r VALID_ROLES_def)
qed

text \<open>A disabled account is enabled again by every change that does not say otherwise: an update whose body does
  not mention \<open>is_active\<close>, sent by anybody, makes a deleted account active.\<close>

theorem update_enables_account:
  assumes "rq_path req = ''/api/v1/accounts/'' @ to_string i" "int32_min \<le> i" "i \<le> int32_max"
    and "get_bool (rq_body req) ''is_active'' True" "get_account i (ap_accounts s) \<noteq> None"
  shows "\<exists>r s' a. h_update_account w req s = (Inr r, s') \<and> rs_status_code r = 200
    \<and> get_account i (ap_accounts s') = Some a \<and> acc_is_active a"
proof -
  have tail: "path_tail ''/api/v1/accounts/'' req = Inr (to_string i)" using assms(1) by (simp add: path_tail_def substr_from_def)
  have sl: "CHR ''/'' \<notin> set (to_string i)" using to_string_chars [of "CHR ''/''" i] by (auto simp: is_digit_def char_code_def)
  let ?ch = "updated_account (wo_now w) (account_changes (rq_body req))"
  from assms(5) obtain a where a: "List.find (\<lambda>a. acc_account_id a = i) (am_accounts (ap_accounts s)) = Some a"
    by (auto simp: get_account_def)
  obtain d where u: "update_account (wo_pq w) (wo_now w) i (account_changes (rq_body req)) (ap_accounts s, Some (ap_db s))
      = (OK, (ap_accounts s)\<lparr>am_accounts := modify_first (\<lambda>a. acc_account_id a = i) ?ch (am_accounts (ap_accounts s))\<rparr>, d)"
    using a by (simp add: update_account_def)
  let ?s = "db_after d (s\<lparr>ap_accounts := (ap_accounts s)\<lparr>am_accounts := modify_first (\<lambda>a. acc_account_id a = i) ?ch (am_accounts (ap_accounts s))\<rparr>\<rparr>)"
  have acc: "am_accounts (ap_accounts ?s) = modify_first (\<lambda>a. acc_account_id a = i) ?ch (am_accounts (ap_accounts s))"
    by (simp add: db_after_def split: option.splits)
  have "List.find (\<lambda>a. acc_account_id a = i) (modify_first (\<lambda>a. acc_account_id a = i) ?ch (am_accounts (ap_accounts s))) = Some (?ch a)"
    using a find_modify_first [of "\<lambda>a. acc_account_id a = i" ?ch] by (simp add: updated_account_def)
  then have "get_account i (ap_accounts ?s) = Some (hide_hash (?ch a))" by (simp add: get_account_def acc)
  moreover have "acc_is_active (hide_hash (?ch a))" using assms(4) by (simp add: hide_hash_def updated_account_def account_changes_def)
  moreover have "h_update_account w req s = (Inr (json_response 200 (success_json (flat_json [(''account_id'', Json_Int i)]))), ?s)"
    using tail sl stoi_to_string0 [OF assms(2,3)] u by (simp add: h_update_account_def Let_def answer_def)
  ultimately show ?thesis by (simp add: json_response_def)
qed

definition demo_disabled :: "unit app" where
  "demo_disabled = demo_app\<lparr>ap_accounts := new_account_manager\<lparr>am_accounts := [new_account_info\<lparr>acc_account_id := 5, acc_is_active := False\<rparr>]\<rparr>\<rparr>"

theorem update_enables_account_witness:
  "\<exists>r s' a. h_update_account demo_world (new_request\<lparr>rq_path := ''/api/v1/accounts/5'', rq_body := ''{}''\<rparr>) demo_disabled = (Inr r, s')
    \<and> rs_status_code r = 200 \<and> get_account 5 (ap_accounts s') = Some a \<and> acc_is_active a"
proof -
  have n: "to_string 5 = ''5''" by code_simp
  have b: "get_bool ''{}'' ''is_active'' True" by code_simp
  have g: "get_account 5 (ap_accounts demo_disabled) \<noteq> None" by (simp add: demo_disabled_def get_account_def)
  show ?thesis
    using update_enables_account [of "new_request\<lparr>rq_path := ''/api/v1/accounts/5'', rq_body := ''{}''\<rparr>" 5 demo_disabled demo_world] n b g
    by (simp add: int32_min_def int32_max_def)
qed

end
