(* ===== verification/Main_Keys.thy ===== *)
theory Main_Keys
  imports Main_Common
begin

text \<open>
  The tenant key of the MQTT broker in \<^verbatim>\<open>src/main.cpp\<close>: a key is verified by asking the broker's HTTP
  interface over a socket, or else in the local database, and stored in the one row of the table
  \<^verbatim>\<open>mqtt_tenant_config\<close>.  The broker is not part of the program: it is a function from the host,
  the port and the request to what the socket calls give.
\<close>

section \<open>Asking the broker\<close>

datatype net_answer = No_socket | Unresolved | Refused | No_reply | Reply string

type_synonym broker = "string \<Rightarrow> int \<Rightarrow> string \<Rightarrow> net_answer"

text \<open>Host and port of the configured address: when the slash is before the colon, or there is none, the length
  of the port wraps around and everything behind the colon is taken.\<close>

definition api_address :: "string \<Rightarrow> (string \<times> int) exn" where
  "api_address api_url =
     (let url = (if starts_with api_url ''http://'' then drop 7 api_url else api_url);
          slash = find_char (\<lambda>c. c = CHR ''/'') url in
      case find_char (\<lambda>c. c = CHR '':'') url of
        None \<Rightarrow> Inr (case slash of None \<Rightarrow> url | Some s \<Rightarrow> take s url, 8080)
      | Some c \<Rightarrow> exn_bind (stoi (case slash of
            Some s \<Rightarrow> if c < s then take (s - c - 1) (drop (c + 1) url) else drop (c + 1) url
          | None \<Rightarrow> drop (c + 1) url)) (\<lambda>port. Inr (take c url, port)))"

definition broker_request :: "string \<Rightarrow> int \<Rightarrow> string \<Rightarrow> string" where
  "broker_request host port key = ''GET /api/v1/tenant/info?key='' @ key @ '' HTTP/1.1'' @ crlf @ ''Host: '' @ host @ '':'' @ to_string port
     @ crlf @ ''Connection: close'' @ crlf @ crlf"

definition reply_body :: "nat \<Rightarrow> string \<Rightarrow> string option" where
  "reply_body n raw = (let r = take n raw in map_option (\<lambda>bs. drop (bs + 4) r) (find_sub crlf2 r))"

lemma reply_body_short: "length raw \<le> n \<Longrightarrow> reply_body n raw = map_option (\<lambda>bs. drop (bs + 4) raw) (find_sub crlf2 raw)"
  by (simp add: reply_body_def)

text \<open>The name in the reply, empty when there is none.\<close>

definition broker_tenant :: "broker \<Rightarrow> string \<Rightarrow> string \<Rightarrow> string exn" where
  "broker_tenant broker api_url key =
     (if api_url = '''' \<or> key = '''' then Inr ''''
      else exn_bind (api_address api_url) (\<lambda>(host, port). Inr (case broker host port (broker_request host port key) of
          Reply raw \<Rightarrow> (case reply_body 4095 raw of
              None \<Rightarrow> ''''
            | Some body \<Rightarrow> keep_if_empty (get_string body ''name'') (get_string body ''tenant_id''))
        | _ \<Rightarrow> '''')))"

section \<open>Asking the database\<close>

definition first_cell :: "'pg pq_exec \<Rightarrow> string \<Rightarrow> ('pg, string option) db_op" where
  "first_cell pq sql db = (case query pq sql db of (sc, rows, db') \<Rightarrow>
     (if sc = OK \<and> rows \<noteq> [] \<and> rows ! 0 \<noteq> [] then Some (rows ! 0 ! 0) else None, db'))"

definition key_queries :: "string \<Rightarrow> string list" where
  "key_queries key =
     [''SELECT org_name FROM organizations WHERE tenant_id='' @ quoted key @ '' AND is_active=TRUE'',
      ''SELECT name FROM tenants WHERE tenant_id='' @ quoted key @ '' AND active=TRUE'',
      ''SELECT tenant_name FROM mqtt_tenant_config WHERE tenant_key='' @ quoted key @ '' AND id=1'']"

fun first_found :: "'pg pq_exec \<Rightarrow> string list \<Rightarrow> ('pg, bool \<times> string) db_op" where
  "first_found pq [] db = ((False, ''''), db)"
| "first_found pq (sql # sqls) db = (case first_cell pq sql db of
     (Some name, db') \<Rightarrow> ((True, name), db')
   | (None, db') \<Rightarrow> first_found pq sqls db')"

definition verify_tenant_via_broker :: "broker \<Rightarrow> string \<Rightarrow> 'pg pq_exec \<Rightarrow> string \<Rightarrow> ('pg, (bool \<times> string) exn) db_op" where
  "verify_tenant_via_broker broker api_url pq key db = (case broker_tenant broker api_url key of
       Inl e \<Rightarrow> (Inl e, db)
     | Inr tname \<Rightarrow> if tname \<noteq> '''' then (Inr (True, tname), db)
         else if key = '''' then (Inr (False, ''''), db)
         else (case first_found pq (key_queries key) db of (res, db') \<Rightarrow> (Inr res, db')))"

section \<open>The stored key\<close>

definition load_tenant_key :: "'pg pq_exec \<Rightarrow> ('pg, string) db_op" where
  "load_tenant_key pq = load_tenant_config pq ''tenant_key''"

definition load_tenant_name :: "'pg pq_exec \<Rightarrow> ('pg, string) db_op" where
  "load_tenant_name pq = load_tenant_config pq ''tenant_name''"

definition save_tenant_key :: "'pg pq_exec \<Rightarrow> string \<Rightarrow> 'pg database \<Rightarrow> 'pg database" where
  "save_tenant_key pq k db = (case load_tenant_name pq db of (n, db1) \<Rightarrow> snd (save_tenant_config pq k n db1))"

definition save_tenant_name :: "'pg pq_exec \<Rightarrow> string \<Rightarrow> 'pg database \<Rightarrow> 'pg database" where
  "save_tenant_name pq n db = (case load_tenant_key pq db of (k, db1) \<Rightarrow> snd (save_tenant_config pq k n db1))"

definition json_or_null :: "string \<Rightarrow> string" where
  "json_or_null s = (if s = '''' then ''null'' else CHR 0x22 # s @ [CHR 0x22])"

definition h_get_tenant_key :: "'pg handler" where
  \<open>h_get_tenant_key w req s = (case on_db (load_tenant_key (wo_pq w)) s of (k, s1) \<Rightarrow>
     (case on_db (load_tenant_name (wo_pq w)) s1 of (n, s2) \<Rightarrow>
       answer (json_response 200 (success_json (''{"tenant_key":'' @ json_or_null k @ '',"tenant_name":'' @ json_or_null n @ ''}''))) s2))\<close>

text \<open>The message, in the bytes of its UTF-8 form, says that the key is invalid and no tenant was found.\<close>

definition invalid_key_message :: string where
  "invalid_key_message = [CHR 0xE6, CHR 0x97, CHR 0xA0, CHR 0xE6, CHR 0x95, CHR 0x88, CHR 0xE7, CHR 0x9A, CHR 0x84, CHR 0xE7,
     CHR 0xA7, CHR 0x9F, CHR 0xE6, CHR 0x88, CHR 0xB7, CHR 0x4B, CHR 0x65, CHR 0x79, CHR 0xEF, CHR 0xBC, CHR 0x8C, CHR 0xE6,
     CHR 0x9C, CHR 0xAA, CHR 0xE6, CHR 0x89, CHR 0xBE, CHR 0xE5, CHR 0x88, CHR 0xB0, CHR 0xE5, CHR 0xAF, CHR 0xB9, CHR 0xE5,
     CHR 0xBA, CHR 0x94, CHR 0xE7, CHR 0xA7, CHR 0x9F, CHR 0xE6, CHR 0x88, CHR 0xB7]"

definition h_put_tenant_key :: "broker \<Rightarrow> 'pg handler" where
  \<open>h_put_tenant_key broker w req s =
     (let k = get_string (rq_body req) ''tenant_key'' in
      if k = '''' then answer (error_response 400 1001 ''tenant_key required'') s
      else db_then (verify_tenant_via_broker broker (wo_mqtt_broker_api w) (wo_pq w) k) (\<lambda>(valid, tname) s1.
        if \<not> valid then answer (json_response 200 (''{"code":1001,"message":"'' @ invalid_key_message @ ''","data":null}'')) s1
        else (let s2 = s1\<lparr>ap_db := save_tenant_name (wo_pq w) tname (save_tenant_key (wo_pq w) k (ap_db s1))\<rparr> in
          answer (json_response 200 (success_json (flat_json [(''tenant_key'', Json_Str k), (''tenant_name'', Json_Str tname)]))) s2)) s)\<close>

definition h_delete_tenant_key :: "'pg handler" where
  "h_delete_tenant_key w req s = answer (json_response 200 (success_json (flat_json [(''deleted'', Json_Bool True)])))
     (s\<lparr>ap_db := save_tenant_name (wo_pq w) '''' (save_tenant_key (wo_pq w) '''' (ap_db s))\<rparr>)"

definition h_verify_tenant_key :: "broker \<Rightarrow> 'pg handler" where
  \<open>h_verify_tenant_key broker w req s =
     (let key = query_param ''key'' req in
      if key = '''' then answer (json_response 200 (success_json ''{"valid":false,"tenant_name":null}'')) s
      else db_then (verify_tenant_via_broker broker (wo_mqtt_broker_api w) (wo_pq w) key) (\<lambda>(valid, tname).
        answer (json_response 200 (success_json (''{"valid":'' @ (if valid then ''true'' else ''false'') @ '',"tenant_name":'' @ json_or_null tname @ ''}'')))) s)\<close>

definition h_tenant_by_key :: "broker \<Rightarrow> 'pg handler" where
  "h_tenant_by_key broker w req s =
     (let key = query_param ''key'' req; api_url = wo_mqtt_broker_api w in
      if key = '''' then answer (error_response 400 1001 ''key is required'') s
      else if api_url = '''' then answer (error_response 503 2000 ''MQTT broker API not configured'') s
      else try_then (api_address api_url) (\<lambda>(host, port). answer
        (case broker host port (broker_request host port key) of
           No_socket \<Rightarrow> error_response 500 2000 ''socket failed''
         | Unresolved \<Rightarrow> error_response 502 2000 ''mqtt_broker unreachable''
         | Refused \<Rightarrow> error_response 502 2000 ''mqtt_broker connect failed''
         | No_reply \<Rightarrow> error_response 502 2000 ''mqtt_broker no response''
         | Reply raw \<Rightarrow> (case reply_body 8191 raw of
               None \<Rightarrow> error_response 502 2000 ''bad response''
             | Some body \<Rightarrow> json_response 200 body))) s)"

section \<open>What is stored\<close>

text \<open>A text that a statement can hold as it is.\<close>

definition clean :: "string \<Rightarrow> bool" where
  "clean s \<longleftrightarrow> CHR 0x27 \<notin> set s \<and> CHR 0x00 \<notin> set s"

text \<open>What the program relies on: the server keeps one row with a key and a name, an update of the row replaces
  both, and a query reads them.\<close>

definition config_server :: "'pg pq_exec \<Rightarrow> ('pg \<Rightarrow> string) \<Rightarrow> ('pg \<Rightarrow> string) \<Rightarrow> bool" where
  "config_server pq key name \<longleftrightarrow>
     (\<forall>c. pq ''SELECT tenant_key FROM mqtt_tenant_config WHERE id=1'' c = (Pg_tuples_ok [[Some (key c)]], c))
   \<and> (\<forall>c. pq ''SELECT tenant_name FROM mqtt_tenant_config WHERE id=1'' c = (Pg_tuples_ok [[Some (name c)]], c))
   \<and> (\<forall>c k n. clean k \<and> clean n \<longrightarrow> (\<exists>c'. pq (save_tenant_config_sql k n) c = (Pg_command_ok, c') \<and> key c' = k \<and> name c' = n))"

lemma c_str_clean: "CHR 0x00 \<notin> set s \<Longrightarrow> c_str s = s"
  by (auto simp: c_str_def takeWhile_eq_all_conv)

lemma load_config:
  assumes "config_server pq key name" "db_opened db" "db_conn db = Some c"
  shows "load_tenant_key pq db = (key c, db)" and "load_tenant_name pq db = (name c, db)"
  using assms by (simp_all add: config_server_def load_tenant_key_def load_tenant_name_def load_tenant_config_def query_def pq_run_def c_str_def)

lemma save_config:
  assumes "config_server pq key name" "db_opened db" "db_conn db = Some c" "clean k" "clean n"
  obtains c' where "save_tenant_config pq k n db = (OK, db\<lparr>db_conn := Some c'\<rparr>)" "key c' = k" "name c' = n"
proof -
  have "c_str (save_tenant_config_sql k n) = save_tenant_config_sql k n"
    using assms(4,5) by (intro c_str_clean) (auto simp: save_tenant_config_sql_def clean_def)
  moreover from assms(1,4,5) obtain c' where "pq (save_tenant_config_sql k n) c = (Pg_command_ok, c')" "key c' = k" "name c' = n"
    unfolding config_server_def by metis
  ultimately show ?thesis using assms(2,3) that [of c']
    by (simp add: save_tenant_config_def execute_def exec_cmd_def pq_run_def check_result_def)
qed

lemma save_both:
  assumes "config_server pq key name" "db_opened db" "db_conn db = Some c" "clean k" "clean n" "clean (name c)"
  obtains c' where "save_tenant_name pq n (save_tenant_key pq k db) = db\<lparr>db_conn := Some c'\<rparr>" "key c' = k" "name c' = n"
proof -
  from save_config [OF assms(1-4,6)] obtain c1 where c1: "save_tenant_config pq k (name c) db = (OK, db\<lparr>db_conn := Some c1\<rparr>)" "key c1 = k" by blast
  let ?db1 = "db\<lparr>db_conn := Some c1\<rparr>"
  have db1: "db_opened ?db1" "db_conn ?db1 = Some c1" using assms(2) by simp_all
  from save_config [OF assms(1) db1 assms(4,5)] obtain c2 where "save_tenant_config pq k n ?db1 = (OK, ?db1\<lparr>db_conn := Some c2\<rparr>)" "key c2 = k" "name c2 = n" by blast
  with c1 load_config [OF assms(1-3)] load_config(1) [OF assms(1) db1] that [of c2] show ?thesis
    by (simp add: save_tenant_key_def save_tenant_name_def)
qed

text \<open>A key that the broker knows is stored with the name that the broker gave: asking for the key afterwards
  returns both.\<close>

theorem tenant_key_stored:
  assumes "config_server (wo_pq w) key name" "db_opened (ap_db s)" "db_conn (ap_db s) = Some c" "clean (name c)"
    and "get_string (rq_body req) ''tenant_key'' = k" "k \<noteq> ''''" "clean k"
    and "broker_tenant broker (wo_mqtt_broker_api w) k = Inr n" "n \<noteq> ''''" "clean n"
  shows \<open>\<exists>r s'. h_put_tenant_key broker w req s = (Inr r, s') \<and> rs_status_code r = 200
    \<and> h_get_tenant_key w greq s' = (Inr (json_response 200 (success_json
        (''{"tenant_key":"'' @ k @ ''","tenant_name":"'' @ n @ ''"}''))), s')\<close>
proof -
  from save_both [OF assms(1-3,7,10,4)] obtain c' where c':
    "save_tenant_name (wo_pq w) n (save_tenant_key (wo_pq w) k (ap_db s)) = (ap_db s)\<lparr>db_conn := Some c'\<rparr>" "key c' = k" "name c' = n" .
  let ?s = "s\<lparr>ap_db := (ap_db s)\<lparr>db_conn := Some c'\<rparr>\<rparr>"
  have "db_opened (ap_db ?s)" "db_conn (ap_db ?s) = Some c'" using assms(2) by simp_all
  note load = load_config [OF assms(1) this]
  have get: \<open>h_get_tenant_key w greq ?s = (Inr (json_response 200 (success_json
      (''{"tenant_key":"'' @ k @ ''","tenant_name":"'' @ n @ ''"}''))), ?s)\<close>
    using load c' assms(6,9) by (simp add: h_get_tenant_key_def on_db_def json_or_null_def answer_def)
  have "\<exists>r. h_put_tenant_key broker w req s = (Inr r, ?s) \<and> rs_status_code r = 200"
    using assms(5,6,8,9) c' by (simp add: h_put_tenant_key_def db_then_def on_db_def verify_tenant_via_broker_def answer_def json_response_def)
  with get show ?thesis by blast
qed

text \<open>A server for the witness: the row is a pair, and an update is read from its text.\<close>

definition demo_config_pq :: "(string \<times> string) pq_exec" where
  "demo_config_pq sql c =
     (if sql = ''SELECT tenant_key FROM mqtt_tenant_config WHERE id=1'' then (Pg_tuples_ok [[Some (fst c)]], c)
      else if sql = ''SELECT tenant_name FROM mqtt_tenant_config WHERE id=1'' then (Pg_tuples_ok [[Some (snd c)]], c)
      else (let r = drop (length ''UPDATE mqtt_tenant_config SET tenant_key='' + 1) sql;
                k = takeWhile (\<lambda>x. x \<noteq> CHR 0x27) r;
                n = takeWhile (\<lambda>x. x \<noteq> CHR 0x27) (drop (length k + length '', tenant_name='' + 2) r)
            in (Pg_command_ok, (k, n))))"

lemma demo_config_server: "config_server demo_config_pq fst snd"
proof -
  have tw: "takeWhile (\<lambda>x. x \<noteq> CHR 0x27) (k @ CHR 0x27 # r) = k" if "clean k" for k r
    using that by (induction k) (auto simp: clean_def)
  show ?thesis
    by (auto simp: config_server_def demo_config_pq_def save_tenant_config_sql_def Let_def tw)
qed

definition demo_broker :: broker where
  \<open>demo_broker host port request = Reply (''HTTP/1.1 200 OK'' @ crlf @ crlf @ ''{"name":"Acme"}'')\<close>

definition demo_key_world :: "(string \<times> string) world" where
  "demo_key_world = \<lparr>wo_pq = demo_config_pq, wo_now = 100, wo_uptime = 7, wo_hash = length, wo_build = demo_build, wo_ulid = ''U'',
     wo_broker_env = None, wo_mqtt_broker_uri = '''', wo_mqtt_broker_api = ''http://b:8080'', wo_can_write = (\<lambda>_. True), wo_max_size = 1000\<rparr>"

definition demo_key_app :: "(string \<times> string) app" where
  "demo_key_app = \<lparr>ap_devices = [], ap_orders = new_order_manager, ap_recipes = new_recipe_manager, ap_faults = [], ap_ota = new_ota_manager,
     ap_orgs = new_org_manager, ap_accounts = new_account_manager,
     ap_db = \<lparr>db_conn_string = '''', db_opened = True, db_conn = Some ('''', '''')\<rparr>, ap_mqtt_connected = False, ap_database_ok = True, ap_files = (\<lambda>_. None)\<rparr>"

theorem tenant_key_stored_witness:
  \<open>\<exists>r s'. h_put_tenant_key demo_broker demo_key_world (new_request\<lparr>rq_body := ''{"tenant_key":"k1"}''\<rparr>) demo_key_app = (Inr r, s')
    \<and> rs_status_code r = 200
    \<and> h_get_tenant_key demo_key_world new_request s' = (Inr (json_response 200 (success_json ''{"tenant_key":"k1","tenant_name":"Acme"}'')), s')\<close>
proof -
  have k: \<open>get_string ''{"tenant_key":"k1"}'' ''tenant_key'' = ''k1''\<close> by code_simp
  have a: "api_address ''http://b:8080'' = Inr (''b'', 8080)" by code_simp
  have r: \<open>reply_body 4095 (''HTTP/1.1 200 OK'' @ crlf @ crlf @ ''{"name":"Acme"}'') = Some ''{"name":"Acme"}''\<close>
    by (subst reply_body_short) (simp add: crlf_def, code_simp)
  have n: \<open>get_string ''{"name":"Acme"}'' ''name'' = ''Acme''\<close> by code_simp
  have b: "broker_tenant demo_broker ''http://b:8080'' ''k1'' = Inr ''Acme''"
    by (simp add: broker_tenant_def a demo_broker_def r n keep_if_empty_def del: append.simps)
  show ?thesis
    using tenant_key_stored [of demo_key_world fst snd demo_key_app "('''', '''')" \<open>new_request\<lparr>rq_body := ''{"tenant_key":"k1"}''\<rparr>\<close>
        "''k1''" demo_broker "''Acme''" new_request]
      demo_config_server k b
    by (simp add: demo_key_world_def demo_key_app_def clean_def)
qed

lemma first_found_reads:
  assumes "list_all is_select (map c_str sqls)"
  shows "reads_only (first_found (traced pq) sqls) db"
  using assms
proof (induction sqls arbitrary: db)
  case (Cons sql sqls db)
  obtain x db' where c: "first_cell (traced pq) sql db = (x, db')" by (cases "first_cell (traced pq) sql db")
  then have "db' = snd (snd (query (traced pq) sql db))" by (auto simp: first_cell_def split: prod.splits)
  then have s: "\<exists>ss. sent db' = sent db @ ss \<and> list_all is_select ss" using Cons.prems by (auto simp: sent_query)
  show ?case
  proof (cases x)
    case None
    from Cons.IH [of db'] Cons.prems s c None show ?thesis by (auto simp: reads_only_def)
  qed (use s c in \<open>auto simp: reads_only_def\<close>)
qed (simp add: reads_only_def)

lemma key_queries_select: "list_all is_select (map c_str (key_queries k))"
  by (simp add: key_queries_def select_text)

text \<open>A key that neither the broker nor the database knows changes nothing: the request is answered with an error
  text and the database was sent nothing but queries.\<close>

theorem unknown_key_reads_only:
  assumes "wo_pq w = traced pq" "get_string (rq_body req) ''tenant_key'' = k" "k \<noteq> ''''"
    and "broker_tenant broker (wo_mqtt_broker_api w) k = Inr ''''"
    and "\<not> fst (fst (first_found (traced pq) (key_queries k) (ap_db s)))"
  shows \<open>\<exists>s' ss. h_put_tenant_key broker w req s
      = (Inr (json_response 200 (''{"code":1001,"message":"'' @ invalid_key_message @ ''","data":null}'')), s')
    \<and> sent (ap_db s') = sent (ap_db s) @ ss \<and> list_all is_select ss\<close>
proof -
  obtain v n d where f: "first_found (traced pq) (key_queries k) (ap_db s) = ((v, n), d)"
    by (metis surj_pair)
  have "\<not> v" using assms(5) f by simp
  then have \<open>h_put_tenant_key broker w req s
      = (Inr (json_response 200 (''{"code":1001,"message":"'' @ invalid_key_message @ ''","data":null}'')), s\<lparr>ap_db := d\<rparr>)\<close>
    using assms f by (simp add: h_put_tenant_key_def db_then_def on_db_def verify_tenant_via_broker_def answer_def)
  moreover obtain ss where "sent d = sent (ap_db s) @ ss" "list_all is_select ss"
    using first_found_reads [OF key_queries_select, of pq k "ap_db s"] f by (auto simp: reads_only_def)
  ultimately show ?thesis by auto
qed

definition demo_silent_world :: "(string list \<times> unit) world" where
  "demo_silent_world = \<lparr>wo_pq = traced (\<lambda>_ c. (Pg_tuples_ok [], c)), wo_now = 100, wo_uptime = 7, wo_hash = length, wo_build = demo_build, wo_ulid = ''U'',
     wo_broker_env = None, wo_mqtt_broker_uri = '''', wo_mqtt_broker_api = '''', wo_can_write = (\<lambda>_. True), wo_max_size = 1000\<rparr>"

definition demo_silent_app :: "(string list \<times> unit) app" where
  "demo_silent_app = \<lparr>ap_devices = [], ap_orders = new_order_manager, ap_recipes = new_recipe_manager, ap_faults = [], ap_ota = new_ota_manager,
     ap_orgs = new_org_manager, ap_accounts = new_account_manager,
     ap_db = \<lparr>db_conn_string = '''', db_opened = True, db_conn = Some ([], ())\<rparr>, ap_mqtt_connected = False, ap_database_ok = True, ap_files = (\<lambda>_. None)\<rparr>"

theorem unknown_key_reads_only_witness:
  \<open>\<exists>r s' ss. h_put_tenant_key demo_broker demo_silent_world (new_request\<lparr>rq_body := ''{"tenant_key":"k1"}''\<rparr>) demo_silent_app = (Inr r, s')
    \<and> sent (ap_db s') = ss \<and> list_all is_select ss\<close>
proof -
  have k: \<open>get_string ''{"tenant_key":"k1"}'' ''tenant_key'' = ''k1''\<close> by code_simp
  show ?thesis
    using unknown_key_reads_only [of demo_silent_world "\<lambda>_ c. (Pg_tuples_ok [], c)" \<open>new_request\<lparr>rq_body := ''{"tenant_key":"k1"}''\<rparr>\<close>
        "''k1''" demo_broker demo_silent_app] k
    by (auto simp: demo_silent_world_def demo_silent_app_def broker_tenant_def key_queries_def first_cell_def query_def
        pq_run_def traced_def sent_def)
qed

end
