(* ===== verification/Main_Routes.thy ===== *)
theory Main_Routes
  imports Main_Devices Main_Types Main_Orders Main_Recipes Main_Firmware Main_Accounts Main_Keys
begin

text \<open>
  All routes that \<^verbatim>\<open>src/main.cpp\<close> registers, in the order of their registration, and what a request on a
  connection to the whole program does.  The table of the server is a hash map: theorems hold
  for every order in which it may hold the routes.
\<close>

section \<open>The table\<close>

definition route_list :: "file_system \<Rightarrow> broker \<Rightarrow> 'pg world \<Rightarrow> (string \<times> string \<times> 'pg app route_handler) list" where
  "route_list fy br w =
    [(''GET'', ''/api/v1/health'', h_health w),
     (''POST'', ''/api/v1/device/activate'', h_activate w),
     (''GET'', ''/api/v1/device/status'', h_device_status w),
     (''GET'', ''/api/v1/devices'', h_devices w),
     (''PUT'', ''/api/v1/devices/{device_id}/tenant'', h_migrate_device w),
     (''DELETE'', ''/api/v1/devices/{device_id}'', h_delete_device w),
     (''GET'', ''/api/v1/device-types'', h_types w),
     (''GET'', ''/api/v1/device-types/{code}'', h_type w),
     (''POST'', ''/api/v1/device-types'', h_create_type w),
     (''PUT'', ''/api/v1/device-types/{code}'', h_update_type w),
     (''DELETE'', ''/api/v1/device-types/{code}'', h_delete_type w),
     (''GET'', ''/api/v1/device-models'', h_models w),
     (''GET'', ''/api/v1/device-models/{code}'', h_model w),
     (''POST'', ''/api/v1/device-models'', h_create_model w),
     (''PUT'', ''/api/v1/device-models/{code}'', h_update_model w),
     (''DELETE'', ''/api/v1/device-models/{code}'', h_delete_model w),
     (''GET'', ''/api/v1/orders'', h_orders w),
     (''GET'', ''/api/v1/orders/{id}'', h_order w),
     (''POST'', ''/api/v1/orders'', h_create_order w),
     (''PUT'', ''/api/v1/orders/{id}'', h_update_order w),
     (''DELETE'', ''/api/v1/orders/{id}'', h_cancel_order w),
     (''GET'', ''/api/v1/recipes'', h_recipes w),
     (''GET'', ''/api/v1/recipes/{id}'', h_recipe w),
     (''POST'', ''/api/v1/recipes'', h_create_recipe w),
     (''PUT'', ''/api/v1/recipes/{id}'', h_update_recipe w),
     (''DELETE'', ''/api/v1/recipes/{id}'', h_delete_recipe w),
     (''GET'', ''/api/v1/ota/firmwares'', h_firmwares fy w),
     (''GET'', ''/api/v1/ota/firmwares/latest'', h_latest_firmware fy w),
     (''GET'', ''/api/v1/ota/firmwares/{filename}'', h_firmware fy w),
     (''POST'', ''/api/v1/ota/firmwares'', h_register_firmware w),
     (''POST'', ''/api/v1/ota/firmwares/upload'', h_upload_firmware w),
     (''GET'', ''/api/v1/ota/firmwares/download/{product_id}/{filename}'', h_download_firmware w),
     (''DELETE'', ''/api/v1/ota/firmwares/{version}'', h_delete_firmware w),
     (''GET'', ''/api/v1/ota/upgrades'', h_upgrades w),
     (''GET'', ''/api/v1/ota/upgrades/{device_id}'', h_upgrade w),
     (''POST'', ''/api/v1/ota/push'', h_push w),
     (''GET'', ''/api/v1/ota/stats/{version}'', h_rollout_stats w),
     (''GET'', ''/api/v1/faults'', h_faults w),
     (''GET'', ''/api/v1/faults/active'', h_active_faults w),
     (''GET'', ''/api/v1/faults/{device_id}'', h_device_faults w),
     (''PUT'', ''/api/v1/faults/resolve'', h_resolve_fault w),
     (''GET'', ''/api/v1/tenants'', h_tenants w),
     (''GET'', ''/api/v1/tenants/{tenant_id}'', h_tenant w),
     (''GET'', ''/api/v1/tenants/{tenant_id}/devices'', h_tenant_devices w),
     (''GET'', ''/api/v1/config'', h_get_config w),
     (''PUT'', ''/api/v1/config'', h_put_config w),
     (''GET'', ''/api/v1/mqtt-tenant-key'', h_get_tenant_key w),
     (''PUT'', ''/api/v1/mqtt-tenant-key'', h_put_tenant_key br w),
     (''DELETE'', ''/api/v1/mqtt-tenant-key'', h_delete_tenant_key w),
     (''GET'', ''/api/v1/mqtt-tenant-key/verify'', h_verify_tenant_key br w),
     (''GET'', ''/api/v1/tenants/by-key'', h_tenant_by_key br w),
     (''GET'', ''/api/v1/orgs'', h_orgs w),
     (''GET'', ''/api/v1/orgs/tree'', h_org_tree w),
     (''GET'', ''/api/v1/orgs/{id}'', h_org w),
     (''POST'', ''/api/v1/orgs'', h_create_org w),
     (''PUT'', ''/api/v1/orgs/{id}'', h_update_org w),
     (''DELETE'', ''/api/v1/orgs/{id}'', h_delete_org w),
     (''POST'', ''/api/v1/auth/login'', h_login w),
     (''POST'', ''/api/v1/auth/logout'', h_logout w),
     (''GET'', ''/api/v1/auth/profile'', h_profile w),
     (''GET'', ''/api/v1/accounts'', h_accounts w),
     (''GET'', ''/api/v1/accounts/{id}'', h_account w),
     (''POST'', ''/api/v1/accounts'', h_create_account w),
     (''PUT'', ''/api/v1/accounts/{id}/password'', h_change_password w),
     (''PUT'', ''/api/v1/accounts/{id}'', h_update_account w),
     (''DELETE'', ''/api/v1/accounts/{id}'', h_delete_account w)]"

definition main_routes :: "file_system \<Rightarrow> broker \<Rightarrow> 'pg world \<Rightarrow> (string, 'pg app route_handler) umap" where
  "main_routes fy br w = fold (\<lambda>(m, p, h). add_route m p h) (route_list fy br w) []"

text \<open>The same table in another order.\<close>

definition same_table :: "(string, 'h) umap \<Rightarrow> (string, 'h) umap \<Rightarrow> bool" where
  "same_table t t' \<longleftrightarrow> umap_ok t \<and> set t = set t'"

definition route_key :: "string \<times> string \<times> 'h \<Rightarrow> string" where
  "route_key r = fst r @ '' '' @ fst (snd r)"

definition route_names :: "(string \<times> string) list" where
  "route_names = [(''GET'', ''/api/v1/health''), (''POST'', ''/api/v1/device/activate''), (''GET'', ''/api/v1/device/status''), (''GET'', ''/api/v1/devices''), 
    (''PUT'', ''/api/v1/devices/{device_id}/tenant''), (''DELETE'', ''/api/v1/devices/{device_id}''), (''GET'', ''/api/v1/device-types''), 
    (''GET'', ''/api/v1/device-types/{code}''), (''POST'', ''/api/v1/device-types''), (''PUT'', ''/api/v1/device-types/{code}''), 
    (''DELETE'', ''/api/v1/device-types/{code}''), (''GET'', ''/api/v1/device-models''), (''GET'', ''/api/v1/device-models/{code}''), 
    (''POST'', ''/api/v1/device-models''), (''PUT'', ''/api/v1/device-models/{code}''), (''DELETE'', ''/api/v1/device-models/{code}''), 
    (''GET'', ''/api/v1/orders''), (''GET'', ''/api/v1/orders/{id}''), (''POST'', ''/api/v1/orders''), (''PUT'', ''/api/v1/orders/{id}''), 
    (''DELETE'', ''/api/v1/orders/{id}''), (''GET'', ''/api/v1/recipes''), (''GET'', ''/api/v1/recipes/{id}''), (''POST'', ''/api/v1/recipes''), 
    (''PUT'', ''/api/v1/recipes/{id}''), (''DELETE'', ''/api/v1/recipes/{id}''), (''GET'', ''/api/v1/ota/firmwares''), 
    (''GET'', ''/api/v1/ota/firmwares/latest''), (''GET'', ''/api/v1/ota/firmwares/{filename}''), (''POST'', ''/api/v1/ota/firmwares''), 
    (''POST'', ''/api/v1/ota/firmwares/upload''), (''GET'', ''/api/v1/ota/firmwares/download/{product_id}/{filename}''), 
    (''DELETE'', ''/api/v1/ota/firmwares/{version}''), (''GET'', ''/api/v1/ota/upgrades''), (''GET'', ''/api/v1/ota/upgrades/{device_id}''), 
    (''POST'', ''/api/v1/ota/push''), (''GET'', ''/api/v1/ota/stats/{version}''), (''GET'', ''/api/v1/faults''), 
    (''GET'', ''/api/v1/faults/active''), (''GET'', ''/api/v1/faults/{device_id}''), (''PUT'', ''/api/v1/faults/resolve''), 
    (''GET'', ''/api/v1/tenants''), (''GET'', ''/api/v1/tenants/{tenant_id}''), (''GET'', ''/api/v1/tenants/{tenant_id}/devices''), 
    (''GET'', ''/api/v1/config''), (''PUT'', ''/api/v1/config''), (''GET'', ''/api/v1/mqtt-tenant-key''), (''PUT'', ''/api/v1/mqtt-tenant-key''), 
    (''DELETE'', ''/api/v1/mqtt-tenant-key''), (''GET'', ''/api/v1/mqtt-tenant-key/verify''), (''GET'', ''/api/v1/tenants/by-key''), 
    (''GET'', ''/api/v1/orgs''), (''GET'', ''/api/v1/orgs/tree''), (''GET'', ''/api/v1/orgs/{id}''), (''POST'', ''/api/v1/orgs''), 
    (''PUT'', ''/api/v1/orgs/{id}''), (''DELETE'', ''/api/v1/orgs/{id}''), (''POST'', ''/api/v1/auth/login''), 
    (''POST'', ''/api/v1/auth/logout''), (''GET'', ''/api/v1/auth/profile''), (''GET'', ''/api/v1/accounts''), 
    (''GET'', ''/api/v1/accounts/{id}''), (''POST'', ''/api/v1/accounts''), (''PUT'', ''/api/v1/accounts/{id}/password''), 
    (''PUT'', ''/api/v1/accounts/{id}''), (''DELETE'', ''/api/v1/accounts/{id}'')]"

definition route_name :: "string \<times> string \<Rightarrow> string" where
  "route_name r = fst r @ '' '' @ snd r"

lemma route_names_list: "map (\<lambda>r. (fst r, fst (snd r))) (route_list fy br w) = route_names"
  by (simp add: route_list_def route_names_def)

lemma route_key_names: "map route_key (route_list fy br w) = map route_name route_names"
  by (simp add: route_names_list [of fy br w, symmetric] route_key_def route_name_def comp_def)

lemma route_names_distinct: "distinct (map route_name route_names)"
  by code_simp

lemma update_fresh: "k \<notin> fst ` set al \<Longrightarrow> AList.update k v al = al @ [(k, v)]"
  by (induction al) auto

lemma add_routes_fresh:
  "distinct (map route_key rs) \<Longrightarrow> route_key ` set rs \<inter> fst ` set t = {} \<Longrightarrow>
     fold (\<lambda>(m, p, h). add_route m p h) rs t = t @ map (\<lambda>r. (route_key r, snd (snd r))) rs"
proof (induction rs arbitrary: t)
  case (Cons r rs)
  obtain m p h where r: "r = (m, p, h)" by (cases r)
  have "add_route m p h t = t @ [(route_key r, h)]"
    using Cons.prems(2) by (simp add: r add_route_def route_key_def update_fresh)
  moreover have "route_key ` set rs \<inter> fst ` set (t @ [(route_key r, h)]) = {}" using Cons.prems by auto
  ultimately show ?case using Cons by (simp add: r)
qed simp

lemma main_routes_list: "main_routes fy br w = map (\<lambda>r. (route_key r, snd (snd r))) (route_list fy br w)"
  unfolding main_routes_def by (subst add_routes_fresh) (simp_all add: route_key_names route_names_distinct)

lemma main_routes_ok: "umap_ok (main_routes fy br w)"
  using route_names_distinct route_key_names [of fy br w] by (simp add: umap_ok_def main_routes_list comp_def)

text \<open>No registration replaces another one: each of the 66 handlers is in the table under its own method and path.\<close>

theorem routes_registered:
  "length (main_routes fy br w) = 66 \<and> (\<forall>(m, p, h) \<in> set (route_list fy br w). map_of (main_routes fy br w) (m @ '' '' @ p) = Some h)"
proof
  have "length (main_routes fy br w) = length route_names"
    using arg_cong [OF route_names_list [of fy br w], of length] unfolding main_routes_list length_map .
  then show "length (main_routes fy br w) = 66" by (simp add: route_names_def)
  show "\<forall>(m, p, h) \<in> set (route_list fy br w). map_of (main_routes fy br w) (m @ '' '' @ p) = Some h"
  proof safe
    fix m p h
    assume "(m, p, h) \<in> set (route_list fy br w)"
    then have "(route_key (m, p, h), h) \<in> set (main_routes fy br w)" unfolding main_routes_list set_map by (rule rev_image_eqI) simp
    then have "(m @ '' '' @ p, h) \<in> set (main_routes fy br w)" by (simp add: route_key_def)
    then show "map_of (main_routes fy br w) (m @ '' '' @ p) = Some h" by (rule iffD1 [OF umap_mem [OF main_routes_ok]])
  qed
qed

section \<open>Which paths are ambiguous\<close>

text \<open>The text of a pattern before its first parameter, and whether more segments follow.\<close>

definition pattern_prefix :: "string \<Rightarrow> string" where
  "pattern_prefix p = takeWhile (\<lambda>c. c \<noteq> CHR 0x7B) p"

definition pattern_deep :: "string \<Rightarrow> bool" where
  "pattern_deep p \<longleftrightarrow> CHR ''/'' \<in> set (dropWhile (\<lambda>c. c \<noteq> CHR 0x7B) p)"

definition patterns :: "(string \<times> string) list" where
  "patterns = filter (\<lambda>r. CHR 0x7B \<in> set (snd r)) route_names"

fun is_pre :: "string \<Rightarrow> string \<Rightarrow> bool" where
  "is_pre [] ys = True"
| "is_pre (x # xs) [] = False"
| "is_pre (x # xs) (y # ys) = (if x = y then is_pre xs ys else False)"

lemma is_pre_prefix: "is_pre xs ys \<longleftrightarrow> prefix xs ys"
  by (induction xs ys rule: is_pre.induct) auto

definition pattern_table :: "(string \<times> string \<times> string) list" where
  "pattern_table = map (\<lambda>r. (fst r, pattern_prefix (snd r), snd r)) patterns"

definition comparable_later :: "(string \<times> string \<times> string) \<Rightarrow> (string \<times> string \<times> string) list \<Rightarrow> (string \<times> string \<times> string) list" where
  "comparable_later a t = concat (map (\<lambda>b. if fst a = fst b then if is_pre (fst (snd a)) (fst (snd b)) then [(fst a, snd (snd a), snd (snd b))]
     else if is_pre (fst (snd b)) (fst (snd a)) then [(fst a, snd (snd a), snd (snd b))] else [] else []) t)"

fun comparable_pairs :: "(string \<times> string \<times> string) list \<Rightarrow> (string \<times> string \<times> string) list" where
  "comparable_pairs [] = []"
| "comparable_pairs (a # t) = comparable_later a t @ comparable_pairs t"

lemma comparable_eval: "comparable_pairs pattern_table =
  [(''GET'', ''/api/v1/ota/firmwares/{filename}'', ''/api/v1/ota/firmwares/download/{product_id}/{filename}''),
   (''GET'', ''/api/v1/tenants/{tenant_id}'', ''/api/v1/tenants/{tenant_id}/devices''),
   (''PUT'', ''/api/v1/accounts/{id}/password'', ''/api/v1/accounts/{id}'')]"
  by code_simp

lemma comparable_laterI:
  assumes "b \<in> set t" "fst a = fst b" "prefix (fst (snd a)) (fst (snd b)) \<or> prefix (fst (snd b)) (fst (snd a))"
  shows "(fst a, snd (snd a), snd (snd b)) \<in> set (comparable_later a t)"
proof -
  let ?f = "\<lambda>b. if fst a = fst b then if is_pre (fst (snd a)) (fst (snd b)) then [(fst a, snd (snd a), snd (snd b))]
     else if is_pre (fst (snd b)) (fst (snd a)) then [(fst a, snd (snd a), snd (snd b))] else [] else []"
  have "(fst a, snd (snd a), snd (snd b)) \<in> set (?f b)" using assms(2,3) by (auto simp: is_pre_prefix)
  moreover have "?f b \<in> set (map ?f t)" using assms(1) unfolding set_map by (rule imageI)
  ultimately show ?thesis unfolding comparable_later_def set_concat by blast
qed

lemma comparable_pairsI:
  "a \<in> set t \<Longrightarrow> b \<in> set t \<Longrightarrow> a \<noteq> b \<Longrightarrow> fst a = fst b \<Longrightarrow>
     prefix (fst (snd a)) (fst (snd b)) \<or> prefix (fst (snd b)) (fst (snd a)) \<Longrightarrow>
     (fst a, snd (snd a), snd (snd b)) \<in> set (comparable_pairs t) \<or> (fst a, snd (snd b), snd (snd a)) \<in> set (comparable_pairs t)"
proof (induction t)
  case (Cons x t)
  consider "x = a" "b \<in> set t" | "x = b" "a \<in> set t" | "a \<in> set t" "b \<in> set t" using Cons.prems(1-3) by auto
  then show ?case
  proof cases
    case 1
    with comparable_laterI [of b t a] Cons.prems(4,5) show ?thesis by simp
  next
    case 2
    with comparable_laterI [of a t b] Cons.prems(4,5) show ?thesis by auto
  next
    case 3
    with Cons.IH Cons.prems(3-5) show ?thesis by auto
  qed
qed simp

text \<open>A path that matches a pattern starts with the pattern's prefix.\<close>

lemma pattern_matchD:
  assumes "pattern_match m path (route_name (rm, rp))" "CHR '' '' \<notin> set rm"
  shows "rm = m" "CHR 0x7B \<in> set rp" "prefix (pattern_prefix rp) path"
    "pattern_deep rp \<or> CHR ''/'' \<notin> set (drop (length (pattern_prefix rp)) path)"
proof -
  have "find_char (\<lambda>c. c = CHR '' '') (rm @ CHR '' '' # rp) = Some (length rm)" using assms(2) by (subst find_char_skip) auto
  then have parts: "route_parts (route_name (rm, rp)) = Some (rm, rp)" by (simp add: route_parts_def route_name_def)
  from assms(1) obtain b where b: "find_char (\<lambda>c. c = CHR 0x7B) rp = Some b" and r: "rm = m" "prefix (take b rp) path"
    "CHR ''/'' \<in> set (drop b rp) \<or> CHR ''/'' \<notin> set (drop b path)"
    by (auto simp: pattern_match_def parts split: option.splits)
  have "b < length rp" "rp ! b = CHR 0x7B" "\<forall>j < b. rp ! j \<noteq> CHR 0x7B" using find_char_SomeD [OF b] by auto
  then have rp: "rp = take b rp @ CHR 0x7B # drop (Suc b) rp" and d: "drop b rp = CHR 0x7B # drop (Suc b) rp"
    and n: "\<forall>c \<in> set (take b rp). c \<noteq> CHR 0x7B" and l: "length (take b rp) = b"
    using id_take_nth_drop [of b rp] Cons_nth_drop_Suc [of b rp] by (auto simp: in_set_conv_nth)
  have "takeWhile (\<lambda>c. c \<noteq> CHR 0x7B) (take b rp @ CHR 0x7B # drop (Suc b) rp) = take b rp"
    "dropWhile (\<lambda>c. c \<noteq> CHR 0x7B) (take b rp @ CHR 0x7B # drop (Suc b) rp) = CHR 0x7B # drop (Suc b) rp"
    using n by (simp_all add: takeWhile_append2 dropWhile_append2)
  then have t: "takeWhile (\<lambda>c. c \<noteq> CHR 0x7B) rp = take b rp" "dropWhile (\<lambda>c. c \<noteq> CHR 0x7B) rp = drop b rp" "CHR 0x7B \<in> set rp"
    unfolding rp [symmetric] d by (simp_all, metis rp in_set_conv_decomp)
  show "rm = m" "CHR 0x7B \<in> set rp" "prefix (pattern_prefix rp) path" using r t by (simp_all add: pattern_prefix_def)
  show "pattern_deep rp \<or> CHR ''/'' \<notin> set (drop (length (pattern_prefix rp)) path)"
    using r(3) unfolding pattern_deep_def pattern_prefix_def t(1,2) l .
qed

lemma names_spaceless: "list_all (\<lambda>r. CHR '' '' \<notin> set (fst r)) route_names"
  by code_simp

lemma main_route_keys: "fst ` set (main_routes fy br w) = route_name ` set route_names"
proof -
  have "map fst (main_routes fy br w) = map route_name route_names"
    using route_key_names [of fy br w] by (simp add: main_routes_list comp_def)
  then have "set (map fst (main_routes fy br w)) = set (map route_name route_names)" by (rule arg_cong)
  then show ?thesis unfolding set_map .
qed

lemma table_name:
  assumes "k \<in> fst ` set (main_routes fy br w)"
  obtains rm rp where "k = route_name (rm, rp)" "(rm, rp) \<in> set route_names" "CHR '' '' \<notin> set rm"
proof -
  have "k \<in> route_name ` set route_names" using assms unfolding main_route_keys .
  then obtain r where "k = route_name r" "r \<in> set route_names" by blast
  then show thesis using that [of "fst r" "snd r"] names_spaceless by (auto simp: list_all_iff)
qed

text \<open>C30. Which requests are ambiguous: when two registered patterns match a request, these are the patterns of one account and of its
  password, or of one tenant and of its devices; no other pair ever matches the same request.\<close>

theorem route_conflicts:
  assumes "k \<in> fst ` set (main_routes fy br w)" "k' \<in> fst ` set (main_routes fy br w)" "k \<noteq> k'"
    and "pattern_match m path k" "pattern_match m path k'"
  shows "{k, k'} = {''PUT /api/v1/accounts/{id}/password'', ''PUT /api/v1/accounts/{id}''}
    \<or> {k, k'} = {''GET /api/v1/tenants/{tenant_id}'', ''GET /api/v1/tenants/{tenant_id}/devices''}"
proof -
  obtain rm rp where k: "k = route_name (rm, rp)" "(rm, rp) \<in> set route_names" "CHR '' '' \<notin> set rm" by (rule table_name [OF assms(1)])
  obtain rm' rp' where k': "k' = route_name (rm', rp')" "(rm', rp') \<in> set route_names" "CHR '' '' \<notin> set rm'" by (rule table_name [OF assms(2)])
  note q = pattern_matchD [OF assms(4) [unfolded k(1)] k(3)] and q' = pattern_matchD [OF assms(5) [unfolded k'(1)] k'(3)]
  have ne: "rp \<noteq> rp'" using assms(3) k(1) k'(1) q(1) q'(1) by auto
  have t: "(m, pattern_prefix p, p) \<in> set pattern_table" if "(m, p) \<in> set route_names" "CHR 0x7B \<in> set p" for p
    using that by (force simp: pattern_table_def patterns_def)
  have "prefix (pattern_prefix rp) (pattern_prefix rp') \<or> prefix (pattern_prefix rp') (pattern_prefix rp)"
    using prefix_same_cases [OF q(3) q'(3)] .
  then have "(m, rp, rp') \<in> set (comparable_pairs pattern_table) \<or> (m, rp', rp) \<in> set (comparable_pairs pattern_table)"
    using comparable_pairsI [OF t t, of rp rp'] k(2) k'(2) q(1,2) q'(1,2) ne by simp
  then have c: "(m, rp, rp') \<in> S \<or> (m, rp', rp) \<in> S" if "S = set (comparable_pairs pattern_table)" for S using that by blast
  have shallow: "\<not> pattern_deep ''/api/v1/ota/firmwares/{filename}''"
    "pattern_prefix ''/api/v1/ota/firmwares/{filename}'' = ''/api/v1/ota/firmwares/''"
    "pattern_prefix ''/api/v1/ota/firmwares/download/{product_id}/{filename}'' = ''/api/v1/ota/firmwares/download/''" by code_simp+
  have no: False if "{rp, rp'} = {''/api/v1/ota/firmwares/{filename}'', ''/api/v1/ota/firmwares/download/{product_id}/{filename}''}"
  proof -
    from that have "prefix ''/api/v1/ota/firmwares/download/'' path" "CHR ''/'' \<notin> set (drop (length ''/api/v1/ota/firmwares/'') path)"
      using q(3,4) q'(3,4) shallow by (auto simp: doubleton_eq_iff)
    then show False by (auto simp: prefix_def)
  qed
  from c [unfolded comparable_eval, OF refl] no q(1) q'(1) show ?thesis by (auto simp: k(1) k'(1) route_name_def doubleton_eq_iff)
qed

definition demo_fy :: file_system where
  "demo_fy = \<lparr>fy_entries = (\<lambda>_. []), fy_info = (\<lambda>_. None)\<rparr>"

theorem route_conflicts_witness:
  "\<exists>k k'. k \<noteq> k' \<and> pattern_match ''PUT'' ''/api/v1/accounts/7'' k \<and> pattern_match ''PUT'' ''/api/v1/accounts/7'' k'
     \<and> ({k, k'} = {''PUT /api/v1/accounts/{id}/password'', ''PUT /api/v1/accounts/{id}''}
      \<or> {k, k'} = {''GET /api/v1/tenants/{tenant_id}'', ''GET /api/v1/tenants/{tenant_id}/devices''})"
proof -
  let ?k = "''PUT /api/v1/accounts/{id}/password''" and ?k' = "''PUT /api/v1/accounts/{id}''"
  let ?t = "main_routes demo_fy demo_broker demo_world"
  have "route_name (''PUT'', ''/api/v1/accounts/{id}/password'') = ?k" "route_name (''PUT'', ''/api/v1/accounts/{id}'') = ?k'"
    by (simp_all add: route_name_def)
  moreover have "(''PUT'', ''/api/v1/accounts/{id}/password'') \<in> set route_names" "(''PUT'', ''/api/v1/accounts/{id}'') \<in> set route_names"
    by code_simp+
  ultimately have "?k \<in> fst ` set ?t" "?k' \<in> fst ` set ?t" unfolding main_route_keys by (metis imageI)+
  moreover have m: "pattern_match ''PUT'' ''/api/v1/accounts/7'' ?k" "pattern_match ''PUT'' ''/api/v1/accounts/7'' ?k'" by code_simp+
  ultimately show ?thesis using route_conflicts [of ?k demo_fy demo_broker demo_world ?k' "''PUT''" "''/api/v1/accounts/7''"]
    by (intro exI [of _ ?k] exI [of _ ?k']) simp
qed

section \<open>From the connection to the handler\<close>

lemma exact_route_found:
  assumes "umap_ok t" "(m @ '' '' @ p, h) \<in> set t" "CHR '' '' \<notin> set m" "CHR 0x7B \<notin> set p"
  shows "find_route t m p = Some h"
proof -
  have "List.find (\<lambda>(rk, h). exact_match m p rk) t \<noteq> None"
    using assms(2-4) by (auto simp: find_None_iff exact_match_iff)
  then obtain rk h' where f: "List.find (\<lambda>(rk, h). exact_match m p rk) t = Some (rk, h')" by auto
  then have "rk = m @ '' '' @ p" "(rk, h') \<in> set t" using find_SomeD [OF f] by (auto simp: exact_match_iff)
  then have "h' = h" using assms(1,2) by (metis umap_mem option.inject)
  then show ?thesis using f by (simp add: find_route_def)
qed

lemma names_no_options: "list_all (\<lambda>r. fst r \<noteq> ''OPTIONS'') route_names"
  by code_simp

lemma registered_served:
  assumes "same_table table (main_routes fy br w)" "(m, p, h) \<in> set (route_list fy br w)" "CHR 0x7B \<notin> set p"
    and "request_ok m target hs" "fst (split_query target) = p" "segments cs" "concat cs = request_text m target hs body"
    and "length (request_head m target hs (length body)) + 2 \<le> 65536" "length (concat cs) \<le> cap" "cap < 2 ^ 64"
  shows "\<exists>cont. handle_connection cap table cs s =
    (case h (parsed_request m target hs body) s of
       (Inl _, s') \<Rightarrow> (Inl Terminated, cont, s')
     | (Inr resp, s') \<Rightarrow> (Inr (), cont @ [build_response resp], s'))"
proof -
  have "(m, p) \<in> set route_names" using imageI [OF assms(2), of "\<lambda>r. (fst r, fst (snd r))"] arg_cong [OF route_names_list [of fy br w], of set] by simp
  then have m: "CHR '' '' \<notin> set m" "m \<noteq> ''OPTIONS''" using names_spaceless names_no_options by (auto simp: list_all_iff)
  have "(route_key (m, p, h), h) \<in> set (main_routes fy br w)" unfolding main_routes_list set_map using assms(2) by (rule rev_image_eqI) simp
  then have "(m @ '' '' @ p, h) \<in> set table" using assms(1) by (simp add: same_table_def route_key_def)
  then have "find_route table m p = Some h"
    using assms(1) m(1) assms(3) by (intro exact_route_found) (simp_all add: same_table_def)
  moreover have "rq_method (parsed_request m target hs body) = m" "rq_path (parsed_request m target hs body) = p"
    using assms(5) by (simp_all add: parsed_request_def split: prod.splits)
  ultimately have r: "respond table (parsed_request m target hs body) s = h (parsed_request m target hs body) s"
    using m(2) by (simp add: respond_def)
  show ?thesis using request_handled [OF assms(4,6,7,8,9,10), of table s] unfolding r .
qed

text \<open>C15. From the bytes on a connection to the handler: a request in the form of HTTP/1.1, cut into pieces however the
  network likes, for a registered path without parameters is answered by exactly the handler that
  was registered for it, in whatever order the hash table holds the routes; a handler that throws ends
  the program.\<close>

theorem exact_request_served:
  assumes "same_table table (main_routes fy br w)" "(m, p, h) \<in> set (route_list fy br w)" "CHR 0x7B \<notin> set p"
    and "request_ok m target hs" "fst (split_query target) = p" "segments cs" "concat cs = request_text m target hs body"
    and "length (request_head m target hs (length body)) + 2 \<le> 65536" "length (concat cs) \<le> cap" "cap < 2 ^ 64"
  shows "\<exists>cont. handle_connection cap table cs s =
    (case h (parsed_request m target hs body) s of
       (Inl _, s') \<Rightarrow> (Inl Terminated, cont, s')
     | (Inr resp, s') \<Rightarrow> (Inr (), cont @ [build_response resp], s'))"
  by (rule registered_served [OF assms])

theorem exact_request_served_witness:
  "fst (handle_connection 1000 (main_routes demo_fy demo_broker demo_world) [take 10 demo_request, drop 10 demo_request] demo_app) = Inr ()"
proof -
  let ?cs = "[take 10 demo_request, drop 10 demo_request]"
  have tab: "same_table (main_routes demo_fy demo_broker demo_world) (main_routes demo_fy demo_broker demo_world)"
    by (simp add: same_table_def main_routes_ok)
  have h: "(''GET'', ''/api/v1/health'', h_health demo_world) \<in> set (route_list demo_fy demo_broker demo_world)"
    by (simp add: route_list_def)
  have ok: "request_ok ''GET'' ''/api/v1/health?x=1'' [(''Host'', ''h'')]" "segments ?cs" by code_simp+
  have p: "fst (split_query ''/api/v1/health?x=1'') = ''/api/v1/health''" "CHR 0x7B \<notin> set ''/api/v1/health''" by code_simp+
  have c: "concat ?cs = request_text ''GET'' ''/api/v1/health?x=1'' [(''Host'', ''h'')] ''hi''"
    by (simp add: demo_request_def del: length_concat)
  have "length (request_head ''GET'' ''/api/v1/health?x=1'' [(''Host'', ''h'')] (length ''hi'')) = 61" "length demo_request = 65" by code_simp+
  then have n: "length (request_head ''GET'' ''/api/v1/health?x=1'' [(''Host'', ''h'')] (length ''hi'')) + 2 \<le> 65536" "length (concat ?cs) \<le> 1000"
    "(1000 :: nat) < 2 ^ 64" by simp_all
  from exact_request_served [OF tab h p(2) ok(1) p(1) ok(2) c n, of demo_app]
  show ?thesis by (auto simp: h_health_def answer_def)
qed

end
