(* ===== verification/Main_Loop.thy ===== *)
theory Main_Loop
  imports Main_Common Log_Manager
begin

text \<open>
  The main loop of \<^verbatim>\<open>src/main.cpp\<close>: every 100 milliseconds it looks at the clock, checks for silent
  devices every 30 seconds, copies the state of the MQTT connection every 5 seconds and writes
  statistics every 5 minutes.  What the loop reads from outside at one turn is a \<open>tick\<close>: the
  steady clock in nanoseconds, the wall clock in seconds, whether the client is connected, and
  what the log needs.  The threads of the server and of the MQTT client run between the turns;
  they reach the devices through the same manager, one operation at a time.
\<close>

section \<open>One turn of the loop\<close>

record tick =
  tk_steady :: int
  tk_now :: int
  tk_connected :: bool
  tk_log_ok :: bool
  tk_ms :: nat

record 'pg service =
  sv_app :: "'pg app"
  sv_log :: "log_manager \<times> fs"
  sv_last_offline_check :: int
  sv_last_mqtt_status_sync :: int
  sv_last_stats_report :: int

definition ns_per_sec :: int where
  "ns_per_sec = 1000000000"

text \<open>The steady clock never goes back, so that truncation is rounding down.\<close>

definition elapsed_sec :: "int \<Rightarrow> int \<Rightarrow> int" where
  "elapsed_sec since now = (now - since) div ns_per_sec"

definition offline_warning :: "tick \<Rightarrow> string \<times> string \<Rightarrow> log_manager \<times> fs \<Rightarrow> log_manager \<times> fs" where
  "offline_warning tk c = log_warn (tk_log_ok tk) (tk_ms tk) ''device'' (''Device offline: '' @ fst c @ ''/'' @ snd c)"

definition offline_turn :: "tick \<Rightarrow> 'pg service \<Rightarrow> 'pg service" where
  "offline_turn tk sv = (if 30 \<le> elapsed_sec (sv_last_offline_check sv) (tk_steady tk) then
     (case check_offline_devices True (tk_now tk) (ap_devices (sv_app sv)) of (calls, m) \<Rightarrow>
        sv\<lparr>sv_app := (sv_app sv)\<lparr>ap_devices := m\<rparr>, sv_log := fold (offline_warning tk) calls (sv_log sv),
          sv_last_offline_check := tk_steady tk\<rparr>)
     else sv)"

definition sync_turn :: "tick \<Rightarrow> 'pg service \<Rightarrow> 'pg service" where
  "sync_turn tk sv = (if 5 \<le> elapsed_sec (sv_last_mqtt_status_sync sv) (tk_steady tk) then
     (let sv1 = (if ap_mqtt_connected (sv_app sv) \<noteq> tk_connected tk then
          sv\<lparr>sv_app := (sv_app sv)\<lparr>ap_mqtt_connected := tk_connected tk\<rparr>,
             sv_log := (if \<not> tk_connected tk then log_warn (tk_log_ok tk) (tk_ms tk) ''main'' ''MQTT connection lost''
               else log_info (tk_log_ok tk) (tk_ms tk) ''main'' ''MQTT connection restored'') (sv_log sv)\<rparr>
        else sv)
      in sv1\<lparr>sv_last_mqtt_status_sync := tk_steady tk\<rparr>)
     else sv)"

definition stats_turn :: "tick \<Rightarrow> 'pg service \<Rightarrow> 'pg service" where
  "stats_turn tk sv = (if 300 \<le> elapsed_sec (sv_last_stats_report sv) (tk_steady tk) then
     sv\<lparr>sv_log := log_info (tk_log_ok tk) (tk_ms tk) ''main'' (''Stats: '' @ to_string (total_device_count (ap_devices (sv_app sv)))
          @ '' devices, '' @ nat_str (length (list_tenants (ap_devices (sv_app sv)))) @ '' tenants'') (sv_log sv),
        sv_last_stats_report := tk_steady tk\<rparr>
     else sv)"

definition loop_turn :: "tick \<Rightarrow> 'pg service \<Rightarrow> 'pg service" where
  "loop_turn tk sv = stats_turn tk (sync_turn tk (offline_turn tk sv))"

section \<open>The loop among the other threads\<close>

text \<open>A run: turns of the loop, and operations of other threads on the devices.\<close>

datatype loop_event = Turn tick | Other "tenants \<Rightarrow> tenants"

fun loop_step :: "loop_event \<Rightarrow> 'pg service \<Rightarrow> 'pg service" where
  "loop_step (Turn tk) sv = loop_turn tk sv"
| "loop_step (Other f) sv = sv\<lparr>sv_app := (sv_app sv)\<lparr>ap_devices := f (ap_devices (sv_app sv))\<rparr>\<rparr>"

text \<open>No event of the run brings a sign of life of the device: other operations keep its entry, and the clocks do
  not go back behind the given times.\<close>

fun silent_event :: "string \<Rightarrow> string \<Rightarrow> int \<Rightarrow> int \<Rightarrow> loop_event \<Rightarrow> bool" where
  "silent_event t d steady now (Turn tk) \<longleftrightarrow> steady \<le> tk_steady tk \<and> now \<le> tk_now tk"
| "silent_event t d steady now (Other f) \<longleftrightarrow>
     (\<forall>m. dm_inv m \<longrightarrow> dm_inv (f m) \<and> get_device t d (f m) = get_device t d m)"

lemma turn_devices:
  "ap_devices (sv_app (loop_turn tk sv)) = ap_devices (sv_app (offline_turn tk sv))"
  "sv_last_offline_check (loop_turn tk sv) = sv_last_offline_check (offline_turn tk sv)"
  by (simp_all add: loop_turn_def stats_turn_def sync_turn_def Let_def)

lemma offline_turn_eq:
  "ap_devices (sv_app (offline_turn tk sv)) = (if 30 \<le> elapsed_sec (sv_last_offline_check sv) (tk_steady tk)
     then snd (check_offline_devices True (tk_now tk) (ap_devices (sv_app sv))) else ap_devices (sv_app sv))"
  "sv_last_offline_check (offline_turn tk sv) = (if 30 \<le> elapsed_sec (sv_last_offline_check sv) (tk_steady tk)
     then tk_steady tk else sv_last_offline_check sv)"
  by (simp_all add: offline_turn_def split: prod.splits)

lemma stale_turn:
  assumes "dm_inv (ap_devices (sv_app sv))" "get_device t d (ap_devices (sv_app sv)) = Some dev"
    and "180 < tk_now tk - dev_last_heartbeat_at dev"
  shows "dm_inv (ap_devices (sv_app (loop_turn tk sv)))"
    and "get_device t d (ap_devices (sv_app (loop_turn tk sv))) =
      Some (if 30 \<le> elapsed_sec (sv_last_offline_check sv) (tk_steady tk) then dev\<lparr>dev_network_status := OFFLINE\<rparr> else dev)"
  using check_offline_facts [OF assms(1), of t d True "tk_now tk"] dm.step_inv [OF assms(1), of "Check_offline True (tk_now tk)"] assms
  by (simp_all add: turn_devices offline_turn_eq)

text \<open>What holds of a device that is silent since a turn: it is known and its last heartbeat old, and it is marked
  or has not been looked at since.\<close>

definition watched :: "string \<Rightarrow> string \<Rightarrow> int \<Rightarrow> (int \<Rightarrow> bool) \<Rightarrow> 'pg service \<Rightarrow> bool" where
  "watched t d now early sv \<longleftrightarrow> dm_inv (ap_devices (sv_app sv)) \<and>
     (\<exists>dev. get_device t d (ap_devices (sv_app sv)) = Some dev \<and> 180 < now - dev_last_heartbeat_at dev
        \<and> (dev_network_status dev = OFFLINE \<or> early (sv_last_offline_check sv)))"

lemma loop_step_watched:
  assumes "watched t d now early sv" "silent_event t d steady now e"
  shows "watched t d now early (loop_step e sv)"
proof (cases e)
  case (Turn tk)
  from assms(1) obtain dev where inv: "dm_inv (ap_devices (sv_app sv))"
    and dev: "get_device t d (ap_devices (sv_app sv)) = Some dev" "180 < now - dev_last_heartbeat_at dev"
      "dev_network_status dev = OFFLINE \<or> early (sv_last_offline_check sv)" by (auto simp: watched_def)
  have "180 < tk_now tk - dev_last_heartbeat_at dev" using assms(2) Turn dev(2) by simp
  from stale_turn [OF inv dev(1) this] dev Turn show ?thesis by (auto simp: watched_def turn_devices offline_turn_eq)
next
  case (Other f)
  with assms show ?thesis by (auto simp: watched_def)
qed

lemma run_watched:
  "watched t d now early sv \<Longrightarrow> list_all (silent_event t d steady now) es \<Longrightarrow> watched t d now early (fold loop_step es sv)"
  by (induction es arbitrary: sv) (auto dest: loop_step_watched)

lemma late_turn_marks:
  assumes "watched t d now (\<lambda>c. c \<le> steady) sv" "silent_event t d steady now (Turn tk)" "steady + 30 * ns_per_sec \<le> tk_steady tk"
  shows "watched t d now (\<lambda>c. False) (loop_turn tk sv)"
proof -
  from assms(1) obtain dev where inv: "dm_inv (ap_devices (sv_app sv))"
    and dev: "get_device t d (ap_devices (sv_app sv)) = Some dev" "180 < now - dev_last_heartbeat_at dev"
      "dev_network_status dev = OFFLINE \<or> sv_last_offline_check sv \<le> steady" by (auto simp: watched_def)
  have late: "30 \<le> elapsed_sec (sv_last_offline_check sv) (tk_steady tk)" if "sv_last_offline_check sv \<le> steady"
    using that assms(3) by (simp add: elapsed_sec_def ns_per_sec_def)
  have "180 < tk_now tk - dev_last_heartbeat_at dev" using assms(2) dev(2) by simp
  from stale_turn [OF inv dev(1) this] dev late show ?thesis by (auto simp: watched_def)
qed

text \<open>C35. A device that falls silent is noticed: when its last heartbeat is more than 180 seconds old at some moment
  and nothing is heard of it any more, then it is marked offline as soon as the loop takes a turn
  30 seconds later, whatever the other threads do to other devices in between, and it stays so.\<close>

theorem silent_device_offline:
  assumes "dm_inv (ap_devices (sv_app sv))" "get_device t d (ap_devices (sv_app sv)) = Some dev"
    and "180 < now - dev_last_heartbeat_at dev" "sv_last_offline_check sv \<le> steady"
    and "list_all (silent_event t d steady now) (es @ Turn tk # es')" "steady + 30 * ns_per_sec \<le> tk_steady tk"
  shows "\<exists>dev'. get_device t d (ap_devices (sv_app (fold loop_step (es @ Turn tk # es') sv))) = Some dev'
    \<and> dev_network_status dev' = OFFLINE"
proof -
  have "watched t d now (\<lambda>c. c \<le> steady) sv" using assms(1-4) by (auto simp: watched_def)
  then have "watched t d now (\<lambda>c. c \<le> steady) (fold loop_step es sv)" using run_watched assms(5) by fastforce
  then have "watched t d now (\<lambda>c. False) (loop_turn tk (fold loop_step es sv))"
    by (rule late_turn_marks) (use assms(5,6) in auto)
  then have "watched t d now (\<lambda>c. False) (fold loop_step (es @ Turn tk # es') sv)"
    using run_watched [of t d now _ _ steady es'] assms(5) by simp
  then show ?thesis by (auto simp: watched_def)
qed

definition demo_tick :: tick where
  "demo_tick = \<lparr>tk_steady = 30000000000, tk_now = 230, tk_connected = True, tk_log_ok = True, tk_ms = 0\<rparr>"

definition demo_service :: "unit service" where
  "demo_service = \<lparr>sv_app = demo_app\<lparr>ap_devices := [(''t'', [(''d'', new_device\<lparr>dev_tenant_id := ''t'', dev_device_id := ''d'',
       dev_network_status := ONLINE\<rparr>)])]\<rparr>, sv_log = (new_log_manager, \<lambda>_. None),
     sv_last_offline_check = 0, sv_last_mqtt_status_sync = 0, sv_last_stats_report = 0\<rparr>"

theorem silent_device_offline_witness:
  "\<exists>dev'. get_device ''t'' ''d'' (ap_devices (sv_app (fold loop_step [Turn demo_tick] demo_service))) = Some dev' \<and> dev_network_status dev' = OFFLINE"
  using silent_device_offline [of demo_service "''t''" "''d''" "new_device\<lparr>dev_tenant_id := ''t'', dev_device_id := ''d'', dev_network_status := ONLINE\<rparr>"
      200 0 "[]" demo_tick "[]"]
  by (simp add: demo_service_def demo_tick_def dm_inv_def get_device_def new_device_def ns_per_sec_def)

end
