(* ===== verification/Main_Service.thy ===== *)
theory Main_Service
  imports Main_Start Main_Loop Message_Router Mqtt_Client
begin

text \<open>
  The rest of \<^verbatim>\<open>main\<close> in \<^verbatim>\<open>src/main.cpp\<close> around the loop: the port of the server, the connection to the broker with its
  subscriptions, and the shutdown.  The calls of the log take the time and whether a file can be reopened from
  \<open>lt\<close>, call by call.  The receive thread is taken to run after the subscriptions: when the connection
  breaks in between, the calls that are left send nothing.
\<close>

section \<open>Going online\<close>

definition api_port :: "string option \<Rightarrow> int exn" where
  "api_port env = (case env of None \<Rightarrow> Inr 9080 | Some s \<Rightarrow> stoi s)"

text \<open>Starting the server; \<^term>\<open>Inr None\<close> is \<^verbatim>\<open>return 1\<close>.\<close>

definition start_api :: "string option \<Rightarrow> listen_result \<Rightarrow> 's api_server \<Rightarrow> 's api_server option exn" where
  "start_api env net api = exn_bind (api_port env) (\<lambda>port. case api_start net port api of
     (Inl e, _) \<Rightarrow> Inl e | (Inr sc, api') \<Rightarrow> Inr (if sc \<noteq> OK then None else Some api'))"

type_synonym log_calls = "nat \<Rightarrow> bool \<times> nat"

definition info_call :: "log_calls \<Rightarrow> nat \<Rightarrow> string \<Rightarrow> log_manager \<times> fs \<Rightarrow> log_manager \<times> fs" where
  "info_call lt n msg = log_info (fst (lt n)) (snd (lt n)) ''main'' msg"

definition warn_call :: "log_calls \<Rightarrow> nat \<Rightarrow> string \<Rightarrow> log_manager \<times> fs \<Rightarrow> log_manager \<times> fs" where
  "warn_call lt n msg = log_warn (fst (lt n)) (snd (lt n)) ''main'' msg"

definition service_topics :: "string list" where
  "service_topics = subscription_topics @ [''+/iot/+/+/status'']"

fun subscribe_all ::
  "log_calls \<Rightarrow> nat \<Rightarrow> string list \<Rightarrow> mqtt_client \<times> (log_manager \<times> fs) \<Rightarrow> string list \<times> mqtt_client \<times> (log_manager \<times> fs)" where
  "subscribe_all lt n [] (m, lg) = ([], m, lg)"
| "subscribe_all lt n (t # ts) (m, lg) = (case mqtt_subscribe t 1 m of (_, ps, m1) \<Rightarrow>
     (case subscribe_all lt (Suc n) ts (m1, info_call lt n (''Subscribed: '' @ t) lg) of (qs, r) \<Rightarrow> (ps @ qs, r)))"

definition status_topic :: string where
  "status_topic = ''cloud-platform/status''"

definition status_payload :: "string \<Rightarrow> string" where
  \<open>status_payload s = ''{"service":"dev-sys-cloud","status":"'' @ s @ ''"}''\<close>

record 'pg online =
  on_sent :: "string list"
  on_rest :: "string option"
  on_mqtt :: mqtt_client
  on_service :: "'pg service"

definition go_online :: "net_result \<Rightarrow> log_calls \<Rightarrow> int \<Rightarrow> ('pg, 'x, 'k) started \<Rightarrow> 'pg online exn" where
  "go_online net lt steady st =
     (case mqtt_connect net (st_broker_uri st) ''cloud-platform-service-001'' (st_mqtt_user st) (st_mqtt_pass st)
        (set_message_callback True new_mqtt_client) of
        (Inl e, _) \<Rightarrow> Inl e
      | (Inr sc, ps, rest, m1) \<Rightarrow>
          (let app = (st_app st)\<lparr>ap_mqtt_connected := (sc = OK)\<rparr>;
               lg1 = (if mqtt_is_connected m1 then info_call lt 0 (''MQTT connected to '' @ st_broker_uri st)
                 else warn_call lt 0 (''MQTT stub mode '' @ bytes [0xE2, 0x80, 0x94] @ '' broker not connected, running with simulated status'')) (st_log st)
           in case subscribe_all lt 1 service_topics (m1, lg1) of (qs, m2, lg2) \<Rightarrow>
              (case mqtt_publish status_topic (status_payload ''online'') 1 m2 of (_, rs, m3) \<Rightarrow>
                Inr \<lparr>on_sent = ps @ qs @ rs, on_rest = rest, on_mqtt = m3,
                  on_service = \<lparr>sv_app = app, sv_log = info_call lt 9 (''Cloud platform service started. Watching ''
                      @ to_string (total_device_count (ap_devices app)) @ '' devices.'') lg2,
                    sv_last_offline_check = steady, sv_last_mqtt_status_sync = steady, sv_last_stats_report = steady\<rparr>\<rparr>)))"

section \<open>Shutdown\<close>

definition shutdown ::
  "log_calls \<Rightarrow> 's api_server \<Rightarrow> mqtt_client \<Rightarrow> 'pg service \<Rightarrow> string list \<times> 's api_server \<times> mqtt_client \<times> 'pg service" where
  "shutdown lt api m sv =
     (case mqtt_publish status_topic (status_payload ''offline'') 1 m of (_, ps, m1) \<Rightarrow>
      (case mqtt_disconnect m1 of (_, qs, m2) \<Rightarrow>
        (ps @ qs, snd (api_stop api), m2,
         sv\<lparr>sv_app := (sv_app sv)\<lparr>ap_db := snd (close_database (ap_db (sv_app sv)))\<rparr>,
            sv_log := info_call lt 0 ''Cloud platform service stopped.'' (sv_log sv)\<rparr>)))"

section \<open>The address is understood by the client\<close>

lemma parse_broker_uri:
  assumes "CHR '':'' \<notin> set host" "int32_min \<le> port" "port \<le> int32_max"
  shows "parse_uri (broker_uri host port) = Inr (host, port)"
proof -
  have "find_char (\<lambda>c. c = CHR '':'') (host @ CHR '':'' # to_string port) = Some (length host)"
    using assms(1) by (subst find_char_skip) auto
  moreover have "drop 6 (broker_uri host port) = host @ CHR '':'' # to_string port" "starts_with (broker_uri host port) ''tcp://''"
    by (simp_all add: broker_uri_def)
  ultimately show ?thesis using assms(2,3)
    by (simp add: parse_uri_def Let_def stoi_to_string0 del: starts_with_prefix)
qed

text \<open>A host with colons, an address of IPv6, ends the program when it connects.\<close>

lemma parse_ipv6_uri: "parse_uri (broker_uri ''fe80::1'' 1883) = Inl Invalid_argument"
  by code_simp

section \<open>What the broker is sent\<close>

lemma subscribe_all_sent:
  assumes "mc_connected m" "mc_open m" "mc_pid_counter m = of_nat k"
  shows "\<exists>lg'. subscribe_all lt n ts (m, lg) =
     (map (\<lambda>(i, t). subscribe_packet (of_nat i) t 1) (enumerate k ts), m\<lparr>mc_pid_counter := of_nat (k + length ts)\<rparr>, lg')"
  using assms
proof (induction ts arbitrary: n k m lg)
  case (Cons t ts)
  let ?m = "m\<lparr>mc_pid_counter := mc_pid_counter m + 1\<rparr>"
  obtain lg' where "subscribe_all lt (Suc n) ts (?m, info_call lt n (''Subscribed: '' @ t) lg) =
      (map (\<lambda>(i, t). subscribe_packet (of_nat i) t 1) (enumerate (Suc k) ts), ?m\<lparr>mc_pid_counter := of_nat (Suc k + length ts)\<rparr>, lg')"
    using Cons.IH [of ?m "Suc k" "Suc n" "info_call lt n (''Subscribed: '' @ t) lg"] Cons.prems by auto
  then show ?case using Cons.prems by (simp add: mqtt_subscribe_def)
next
  case Nil
  then have "m\<lparr>mc_pid_counter := of_nat k\<rparr> = m" by simp
  then show ?case by simp
qed

lemma subscribe_all_off:
  "\<not> mc_connected m \<Longrightarrow> \<exists>lg'. subscribe_all lt n ts (m, lg) = ([], m, lg')"
  by (induction ts arbitrary: n lg) (auto simp: mqtt_subscribe_def split: prod.splits)


definition demo_started :: "(unit, unit, unit) started" where
  "demo_started = \<lparr>st_app = demo_app, st_log = (new_log_manager, \<lambda>_. None), st_tls = new_tls_manager, st_broker_uri = broker_uri ''b'' 1883,
     st_broker_api = '''', st_mqtt_user = '''', st_mqtt_pass = '''', st_default_tenant = ''default''\<rparr>"


text \<open>Without the broker the program goes on: nothing is sent, and the state of the managers is as it was.\<close>

theorem offline_start:
  assumes "st_broker_uri st = broker_uri host port" "CHR '':'' \<notin> set host" "int32_min \<le> port" "port \<le> int32_max"
    and "net \<in> {No_socket, No_address, Refused}"
  shows "\<exists>on. go_online net lt steady st = Inr on \<and> on_sent on = [] \<and> \<not> mqtt_is_connected (on_mqtt on)
    \<and> sv_app (on_service on) = (st_app st)\<lparr>ap_mqtt_connected := False\<rparr>"
proof -
  let ?m = "new_mqtt_client\<lparr>mc_callback := True, mc_broker_uri := st_broker_uri st, mc_client_id := ''cloud-platform-service-001'', mc_username := st_mqtt_user st,
     mc_password := st_mqtt_pass st, mc_broker_host := host, mc_broker_port := port\<rparr>"
  have c: "mqtt_connect net (st_broker_uri st) ''cloud-platform-service-001'' (st_mqtt_user st) (st_mqtt_pass st)
      (set_message_callback True new_mqtt_client) = (Inr COMM_DISCONNECTED, [], None, ?m)"
    using assms(5) parse_broker_uri [OF assms(2-4)] by (auto simp: mqtt_connect_def assms(1) set_message_callback_def Let_def)
  have m: "\<not> mc_connected ?m" by (simp add: new_mqtt_client_def)
  obtain lg' where "subscribe_all lt 1 service_topics (?m, warn_call lt 0 (''MQTT stub mode '' @ bytes [0xE2, 0x80, 0x94] @ '' broker not connected, running with simulated status'') (st_log st)) = ([], ?m, lg')"
    using subscribe_all_off [OF m] by blast
  then show ?thesis using m unfolding go_online_def c by (simp add: Let_def mqtt_is_connected_def mqtt_publish_def)
qed

text \<open>The shutdown says goodbye to a connected broker and closes everything.\<close>

theorem shutdown_closes:
  "shutdown lt api m sv = (ps, api', m', sv') \<Longrightarrow> \<not> is_running api' \<and> \<not> mqtt_is_connected m' \<and> \<not> is_open (ap_db (sv_app sv'))
    \<and> (mc_connected m \<and> mc_open m \<longrightarrow>
        ps = [publish_packet (mc_pid_counter m) status_topic (status_payload ''offline'') 1, [CHR 0xE0, CHR 0x00]])"
  by (auto simp: shutdown_def mqtt_publish_def mqtt_disconnect_def api_stop_def is_running_def mqtt_is_connected_def is_open_def
      close_database_def Let_def split: if_splits)

end
