(* ===== verification/Main_Session.thy ===== *)
theory Main_Session
  imports Main_Routes
begin

text \<open>
  A session over the network: what two connections to the running program amount to, from the bytes of the login
  to the answer that the token opens.  The parts are shown in the theories of the server, the accounts and the
  routes; this theory composes them.
\<close>

section \<open>The token in the answer\<close>

lemma token_text_no_quote: "CHR 0x22 \<notin> set (token_text i e)"
  using to_string_chars [of "CHR 0x22" i] to_string_chars [of "CHR 0x22" e] by (auto simp: token_text_def is_digit_def char_code_def)

lemma token_text_not_Nil [simp]: "token_text i e \<noteq> ''''"
  by (simp add: token_text_def)

lemma plain_token_text: "plain (token_text i e)"
  using plain_to_string [of i] plain_to_string [of e] by (auto simp: token_text_def plain_def)

definition login_prefix :: string where
  \<open>login_prefix = ''{"code":0,"message":"success","data":{''\<close>

lemma login_json_token:
  "\<exists>w. success_json (login_json resp) = login_prefix @ search_text ''token'' [CHR 0x22] @ lr_token resp @ CHR 0x22 # w"
  by (simp add: success_json_def login_json_def open_json_def flat_json_def field_text_def butlast_append search_text_def login_prefix_def Let_def)

lemma token_in_answer:
  assumes "CHR 0x22 \<notin> set (lr_token resp)"
  shows "get_string (success_json (login_json resp)) ''token'' = lr_token resp"
proof -
  obtain w where w: "success_json (login_json resp) = login_prefix @ search_text ''token'' [CHR 0x22] @ lr_token resp @ CHR 0x22 # w"
    using login_json_token by blast
  have "find_sub (search_text ''token'' [CHR 0x22]) (login_prefix @ search_text ''token'' [CHR 0x22] @ x) = Some (length login_prefix)" for x
    by (simp add: search_text_def login_prefix_def)
  then show ?thesis unfolding w by (intro get_string_at [OF _ refl assms])
qed

section \<open>The token in the next request\<close>

definition bearer_header :: "string \<Rightarrow> string \<times> string" where
  "bearer_header token = (''Authorization'', ''Bearer '' @ token)"

lemma bearer_read: "bearer (parsed_request m target [bearer_header token] body) = token"
  by (simp add: bearer_def parsed_request_def bearer_header_def starts_with_def new_request_def)

definition profile_path :: string where
  "profile_path = ''/api/v1/auth/profile''"

definition login_path :: string where
  "login_path = ''/api/v1/auth/login''"

lemma profile_line: "word_ok ''GET''" "word_ok profile_path" "find_sub ''content-length:'' (map to_lower (request_line ''GET'' profile_path)) = None"
  by code_simp+

lemma bearer_header_ok: "plain token \<Longrightarrow> header_ok (bearer_header token)"
  by (simp add: header_ok_def bearer_header_def plain_def)

lemma profile_request_ok: "plain token \<Longrightarrow> request_ok ''GET'' profile_path [bearer_header token]"
  by (simp add: request_ok_def profile_line bearer_header_ok)

lemma session_routes:
  "(''POST'', login_path, h_login w) \<in> set (route_list fy br w)" "(''GET'', profile_path, h_profile w) \<in> set (route_list fy br w)"
  by (simp_all add: route_list_def login_path_def profile_path_def)

lemma session_paths: "CHR 0x7B \<notin> set login_path" "CHR 0x7B \<notin> set profile_path"
  "fst (split_query login_path) = login_path" "fst (split_query profile_path) = profile_path"
  by code_simp+

section \<open>The handlers\<close>

lemma h_login_success:
  assumes "get_string (rq_body req) ''username'' = u" "get_string (rq_body req) ''password'' = p" "u \<noteq> ''''" "p \<noteq> ''''"
    and "lr_success (fst (login (wo_hash w) (wo_now w) u p (ap_accounts s)))"
  shows "h_login w req s = (Inr (json_response 200 (success_json (login_json (fst (login (wo_hash w) (wo_now w) u p (ap_accounts s)))))),
    s\<lparr>ap_accounts := snd (login (wo_hash w) (wo_now w) u p (ap_accounts s))\<rparr>)"
  using assms by (simp add: h_login_def answer_def case_prod_beta Let_def)

lemma h_profile_success:
  assumes "bearer req = token" "token \<noteq> ''''" "verify_token (wo_now w) (ap_orgs s) token (ap_accounts s) = Inr (Some tp)"
    and "get_account (tp_account_id tp) (ap_accounts s) = Some a"
  shows "h_profile w req s = (Inr (json_response 200 (success_json (profile_json tp a))), s)"
  using assms by (simp add: h_profile_def try_then_def answer_def)

section \<open>A session\<close>

definition login_body :: "string \<Rightarrow> string \<Rightarrow> string" where
  "login_body u p = flat_json [(''username'', Json_Str u), (''password'', Json_Str p)]"

lemma login_body_read:
  assumes "CHR 0x22 \<notin> set u" "CHR 0x22 \<notin> set p"
  shows "get_string (rq_body (parsed_request m target hs (login_body u p))) ''username'' = u"
    "get_string (rq_body (parsed_request m target hs (login_body u p))) ''password'' = p"
proof -
  have "fields_ok [(''username'', Json_Str u), (''password'', Json_Str p)]" using assms by (simp add: fields_ok_def key_ok_def)
  then show "get_string (rq_body (parsed_request m target hs (login_body u p))) ''username'' = u"
    "get_string (rq_body (parsed_request m target hs (login_body u p))) ''password'' = p"
    by (simp_all add: parsed_request_def login_body_def get_string_flat)
qed

text \<open>The bytes of a profile request that carries a token, as they may arrive.\<close>

definition profile_request :: "nat \<Rightarrow> string \<Rightarrow> string list \<Rightarrow> bool" where
  "profile_request cap token cs \<longleftrightarrow> segments cs \<and> concat cs = request_text ''GET'' profile_path [bearer_header token] ''''
     \<and> length (request_head ''GET'' profile_path [bearer_header token] 0) + 2 \<le> 65536 \<and> length (concat cs) \<le> cap"

lemma profile_served:
  assumes "same_table table (main_routes fy br w)" "profile_request cap token cs" "cap < 2 ^ 64" "plain token" "token \<noteq> ''''"
    and "verify_token (wo_now w) (ap_orgs s) token (ap_accounts s) = Inr (Some tp)"
    and "get_account (tp_account_id tp) (ap_accounts s) = Some a"
  shows "\<exists>cont. handle_connection cap table cs s
    = (Inr (), cont @ [build_response (json_response 200 (success_json (profile_json tp a)))], s)"
proof -
  have r: "segments cs" "concat cs = request_text ''GET'' profile_path [bearer_header token] ''''"
    "length (request_head ''GET'' profile_path [bearer_header token] (length '''')) + 2 \<le> 65536" "length (concat cs) \<le> cap"
    using assms(2) unfolding profile_request_def list.size(3) by blast+
  show ?thesis
    using registered_served [OF assms(1) session_routes(2) session_paths(2) profile_request_ok [OF assms(4)] session_paths(4) r assms(3), of s]
    unfolding h_profile_success [OF bearer_read assms(5-7)] by simp
qed

text \<open>C5. A user who logs in over one connection gets a token in the answer; on any later connection within a day, however the
  network cuts the bytes of either, the profile request with that token is answered with the user's
  own account and the scope of its organisation.\<close>

theorem session_over_http:
  assumes tables: "same_table t1 (main_routes fy br w)" "same_table t2 (main_routes fy br (w\<lparr>wo_now := t\<rparr>))"
    and account: "am_inv (ap_accounts s)" "lr_success (fst (login (wo_hash w) (wo_now w) u p (ap_accounts s)))"
      "lr_token (fst (login (wo_hash w) (wo_now w) u p (ap_accounts s))) \<notin> set (am_invalidated_tokens (ap_accounts s))"
    and time: "0 \<le> wo_now w" "wo_now w + 86400 \<le> int64_max" "t \<le> wo_now w + 86400"
    and name: "u \<noteq> ''''" "p \<noteq> ''''" "CHR 0x22 \<notin> set u" "CHR 0x22 \<notin> set p"
    and bytes: "request_ok ''POST'' login_path hs" "segments cs" "concat cs = request_text ''POST'' login_path hs (login_body u p)"
      "length (request_head ''POST'' login_path hs (length (login_body u p))) + 2 \<le> 65536" "length (concat cs) \<le> cap" "cap < 2 ^ 64"
  shows "\<exists>cont body tp a s1.
     handle_connection cap t1 cs s = (Inr (), cont @ [build_response (json_response 200 body)], s1)
   \<and> acc_username a = u \<and> tp_account_id tp = acc_account_id a \<and> tp_org_scope tp = get_org_scope (acc_org_id a) (ap_orgs s)
   \<and> (\<forall>cs2. profile_request cap (get_string body ''token'') cs2 \<longrightarrow> (\<exists>cont2. handle_connection cap t2 cs2 s1
       = (Inr (), cont2 @ [build_response (json_response 200 (success_json (profile_json tp a)))], s1)))"
proof -
  let ?l = "login (wo_hash w) (wo_now w) u p (ap_accounts s)"
  let ?s1 = "s\<lparr>ap_accounts := snd ?l\<rparr>" and ?body = "success_json (login_json (fst ?l))"
  obtain a where a: "acc_username a = u" "int32_min \<le> acc_account_id a" "acc_account_id a \<le> int32_max"
      "fst ?l = new_login_response\<lparr>lr_success := True, lr_token := generate_token (wo_now w) a,
         lr_expires_at := to_string (wo_now w + 86400), lr_account := hide_hash a,
         lr_permissions := permissions_for_role (acc_role_code a)\<rparr>"
      "get_account (acc_account_id a) (snd ?l) = Some (hide_hash (a\<lparr>acc_last_login_at := iso_utc (wo_now w)\<rparr>))"
    by (rule login_outcome [OF account(1,2)]) blast
  let ?a = "hide_hash (a\<lparr>acc_last_login_at := iso_utc (wo_now w)\<rparr>)" and ?tok = "token_text (acc_account_id a) (wo_now w + 86400)"
  have tok: "lr_token (fst ?l) = ?tok" by (simp add: a(4) generate_token_text)
  obtain cont where c: "handle_connection cap t1 cs s = (Inr (), cont @ [build_response (json_response 200 ?body)], ?s1)"
    using registered_served [OF tables(1) session_routes(1) session_paths(1) bytes(1) session_paths(3) bytes(2-6), of s]
    unfolding h_login_success [OF login_body_read [OF name(3,4)] name(1,2) account(2)] by auto
  have body: "get_string ?body ''token'' = ?tok" using token_in_answer [of "fst ?l"] token_text_no_quote by (simp add: tok)
  obtain tp where tp: "verify_token t (ap_orgs s) ?tok (snd ?l) = Inr (Some tp)" "tp_account_id tp = acc_account_id a"
      "tp_org_scope tp = get_org_scope (acc_org_id a) (ap_orgs s)"
    using login_then_verify [OF account time(1,2), of t "ap_orgs s"] time(3) unfolding tok by (simp add: a(4) Let_def)
  have "\<exists>cont2. handle_connection cap t2 cs2 ?s1 = (Inr (), cont2 @ [build_response (json_response 200 (success_json (profile_json tp ?a)))], ?s1)"
    if "profile_request cap (get_string ?body ''token'') cs2" for cs2
    by (rule profile_served [OF tables(2) that [unfolded body] bytes(6) plain_token_text token_text_not_Nil]) (simp_all add: tp(1,2) a(5))
  then show ?thesis using c tp(2,3) a(1)
    by (intro exI [of _ cont] exI [of _ ?body] exI [of _ tp] exI [of _ ?a] exI [of _ ?s1]) simp
qed

theorem session_over_http_witness:
  "\<exists>cont body s1. handle_connection 1000 (main_routes demo_fy demo_broker demo_world)
       [request_text ''POST'' login_path [] (login_body ''bob'' ''pw'')] (demo_app\<lparr>ap_accounts := demo_accounts\<rparr>)
     = (Inr (), cont @ [build_response (json_response 200 body)], s1)"
proof -
  let ?w = demo_world and ?cs = "[request_text ''POST'' login_path [] (login_body ''bob'' ''pw'')]"
  have tab: "same_table (main_routes demo_fy demo_broker v) (main_routes demo_fy demo_broker v)" for v
    by (simp add: same_table_def main_routes_ok)
  have w: "wo_hash ?w = length" "wo_now ?w = 100" by (simp_all add: demo_world_def)
  have l: "lr_success (fst (login (wo_hash ?w) (wo_now ?w) ''bob'' ''pw'' demo_accounts))"
    by (simp add: w login_success demo_bob_found)
  have req: "request_ok ''POST'' login_path []" "segments ?cs"
    "length (request_head ''POST'' login_path [] (length (login_body ''bob'' ''pw''))) \<le> 1000"
    "length (request_text ''POST'' login_path [] (login_body ''bob'' ''pw'')) \<le> 1000" by code_simp+
  from session_over_http [OF tab tab, where w = ?w and t = 200 and s = "demo_app\<lparr>ap_accounts := demo_accounts\<rparr>" and u = "''bob''" and p = "''pw''"
      and hs = "[]" and cs = ?cs and cap = 1000] req l demo_accounts_inv
  show ?thesis by (simp add: w demo_accounts_eval int64_max_def) blast
qed

end
