(* ===== verification/Main_Uplink.thy ===== *)
theory Main_Uplink
  imports Main_Service
begin

text \<open>
  Messages of devices from the bytes on the connection to the broker to the registry that the main loop watches:
  the receive thread of the client (\<open>Mqtt_Client\<close>), the callback that \<^verbatim>\<open>main\<close> sets, the router over the
  managers of the program (\<open>Message_Router\<close>), and the offline check (\<open>Device_Manager\<close>).
\<close>

section \<open>The callback\<close>

text \<open>The router works on the managers of the program; no alert callback is set in \<^verbatim>\<open>main\<close>.\<close>

definition app_router :: "'pg app \<Rightarrow> 'pg router" where
  "app_router s = set_recipe_manager (Some (ap_recipes s)) (set_fault_manager (Some (ap_faults s))
     (set_ota_manager (Some (ap_ota s)) (set_order_manager (Some (ap_orders s))
       (set_device_manager (Some (ap_devices s)) (new_router (Some (ap_db s)))))))"

definition router_app :: "'pg router \<Rightarrow> 'pg app \<Rightarrow> 'pg app" where
  "router_app r s = s\<lparr>ap_devices := the (rt_device_mgr r), ap_orders := the (rt_order_mgr r), ap_ota := the (rt_ota_mgr r),
     ap_faults := the (rt_fault_mgr r), ap_recipes := the (rt_recipe_mgr r), ap_db := the (rt_db r)\<rparr>"

definition deliver :: "'pg pq_exec \<Rightarrow> int \<times> string \<times> string \<Rightarrow> 'pg app \<Rightarrow> unit exn \<times> 'pg app" where
  "deliver pq msg s = (case msg of (now, topic, payload) \<Rightarrow>
     (case on_message pq False now topic payload (app_router s) of (res, r) \<Rightarrow> (exn_bind res (\<lambda>_. Inr ()), router_app r s)))"

text \<open>Call after call, each at its time; an exception leaves the receive thread, which ends the program.\<close>

fun deliver_all :: "'pg pq_exec \<Rightarrow> (int \<times> string \<times> string) list \<Rightarrow> 'pg app \<Rightarrow> unit exn \<times> 'pg app" where
  "deliver_all pq [] s = (Inr (), s)"
| "deliver_all pq (msg # msgs) s = (case deliver pq msg s of
     (Inl e, s1) \<Rightarrow> (Inl e, s1) | (Inr _, s1) \<Rightarrow> deliver_all pq msgs s1)"

lemma router_app_id: "router_app ((app_router s)\<lparr>rt_device_mgr := Some m\<rparr>) s = s\<lparr>ap_devices := m\<rparr>"
  by (simp add: router_app_def app_router_def set_recipe_manager_def set_fault_manager_def set_ota_manager_def
      set_order_manager_def set_device_manager_def new_router_def)

lemma app_router_devices [simp]: "rt_device_mgr (app_router s) = Some (ap_devices s)"
  by (simp add: app_router_def set_recipe_manager_def set_fault_manager_def set_ota_manager_def
      set_order_manager_def set_device_manager_def)

section \<open>Heartbeats\<close>

definition heartbeat_topic :: "string \<Rightarrow> string" where
  "heartbeat_topic d = d @ ''/v1/heartbeat''"

definition beat :: "int \<Rightarrow> string \<Rightarrow> string \<Rightarrow> tenants \<Rightarrow> tenants" where
  "beat now d payload m = process_heartbeat now (resolve_tenant (Some m) d) d (resolve_product (Some m) d) payload m"

lemma deliver_heartbeat:
  assumes "topic_id d"
  shows "deliver pq (now, heartbeat_topic d, payload) s = (Inr (), s\<lparr>ap_devices := beat now d payload (ap_devices s)\<rparr>)"
proof -
  have "parse_topic (heartbeat_topic d) = new_parsed_topic\<lparr>pt_raw_topic := heartbeat_topic d,
      pt_device_id := d, pt_message_type := ''heartbeat'', pt_valid := True\<rparr>"
    using parse_topic_uplink [of d "''heartbeat''"] assms by (simp add: topic_id_def heartbeat_topic_def)
  then show ?thesis by (simp add: deliver_def on_message_def handle_heartbeat_def router_app_id beat_def)
qed

lemma beat_owned: "owned m \<Longrightarrow> owned (beat now d payload m)"
  unfolding beat_def by (rule heartbeat_owned)

definition heard :: "int \<Rightarrow> string \<Rightarrow> tenants \<Rightarrow> bool" where
  "heard since d m \<longleftrightarrow> (\<exists>t dev. get_device t d m = Some dev \<and> dev_network_status dev = ONLINE \<and> since \<le> dev_last_heartbeat_at dev)"

lemma beat_heard:
  assumes "since \<le> now"
  shows "heard since d (beat now d payload m)" "heard since d' m \<Longrightarrow> heard since d' (beat now d payload m)"
proof -
  let ?t = "resolve_tenant (Some m) d"
  show d: "heard since d (beat now d payload m)"
    unfolding heard_def using assms by (intro exI [of _ ?t]) (simp add: beat_def process_heartbeat_def get_put_device split: option.splits)
  show "heard since d' (beat now d payload m)" if h: "heard since d' m"
  proof (cases "d' = d")
    case False
    then have "get_device t d' (beat now d payload m) = get_device t d' m" for t
      by (simp add: beat_def process_heartbeat_def get_put_device split: option.splits)
    then show ?thesis using h by (simp add: heard_def)
  qed (simp add: d)
qed

lemma heard_stays_online:
  assumes "owned m" "heard since d m" "now \<le> since + 180"
  shows "\<exists>t dev. get_device t d (snd (check_offline_devices cb now m)) = Some dev \<and> dev_network_status dev = ONLINE"
proof -
  obtain t dev where dev: "get_device t d m = Some dev" "dev_network_status dev = ONLINE" "since \<le> dev_last_heartbeat_at dev"
    using assms(2) by (auto simp: heard_def)
  have "get_device t d (snd (check_offline_devices cb now m)) =
      map_option (\<lambda>dev. if 180 < now - dev_last_heartbeat_at dev then dev\<lparr>dev_network_status := OFFLINE\<rparr> else dev) (get_device t d m)"
    using check_offline_facts assms(1) unfolding owned_def by blast
  with dev assms(3) show ?thesis by (intro exI [of _ t] exI [of _ dev]) simp
qed

text \<open>A heartbeat: when it arrives, of which device, with which payload and quality of service.\<close>

type_synonym heartbeat = "int \<times> string \<times> string \<times> nat"

fun beat_call :: "heartbeat \<Rightarrow> int \<times> string \<times> string" where
  "beat_call (now, d, payload, q) = (now, heartbeat_topic d, payload)"

fun beat_publish :: "heartbeat \<Rightarrow> string \<times> string \<times> nat" where
  "beat_publish (now, d, payload, q) = (heartbeat_topic d, payload, q)"

fun beat_ok :: "int \<Rightarrow> heartbeat \<Rightarrow> bool" where
  "beat_ok since (now, d, payload, q) \<longleftrightarrow> topic_id d \<and> msg_fits (heartbeat_topic d) payload \<and> (q = 1 \<or> q = 2) \<and> since \<le> now"

fun beat_device :: "heartbeat \<Rightarrow> string" where
  "beat_device (now, d, payload, q) = d"

lemma deliver_heartbeats:
  assumes "\<forall>h \<in> set hs. beat_ok since h" "owned (ap_devices s)"
  shows "\<exists>m. deliver_all pq (map beat_call hs) s = (Inr (), s\<lparr>ap_devices := m\<rparr>) \<and> owned m
     \<and> (\<forall>h \<in> set hs. heard since (beat_device h) m) \<and> (\<forall>d. heard since d (ap_devices s) \<longrightarrow> heard since d m)"
  using assms
proof (induction hs arbitrary: s)
  case (Cons h hs)
  obtain now d payload q where h: "h = (now, d, payload, q)" by (cases h)
  let ?s = "s\<lparr>ap_devices := beat now d payload (ap_devices s)\<rparr>"
  have ok: "topic_id d" "since \<le> now" using Cons.prems(1) by (simp_all add: h)
  obtain m where m: "deliver_all pq (map beat_call hs) ?s = (Inr (), ?s\<lparr>ap_devices := m\<rparr>)" "owned m"
    "\<forall>h \<in> set hs. heard since (beat_device h) m" "\<forall>d. heard since d (ap_devices ?s) \<longrightarrow> heard since d m"
    using Cons.IH [of ?s] Cons.prems beat_owned [of "ap_devices s"] by auto
  then show ?case using beat_heard(1) [OF ok(2), of d payload "ap_devices s"] beat_heard(2) [OF ok(2), where d = d and m = "ap_devices s"]
    by (intro exI [of _ m]) (simp add: h deliver_heartbeat [OF ok(1)])
next
  case Nil
  then show ?case by (intro exI [of _ "ap_devices s"]) simp
qed

text \<open>C6. Heartbeats of any devices, published with quality of service 1 or 2, arrive in one stream: the receive thread takes them
  all without an exception, nothing but the registry changes, it keeps one tenant for every device,
  and each of the devices is online and stays so at every offline check of the next 180 seconds.\<close>

theorem heartbeats_keep_online:
  assumes "mc_connected c" "mc_open c" "mc_callback r" "\<forall>h \<in> set hs. beat_ok since h" "owned (ap_devices s)"
  shows "\<exists>calls m. receive (concat (fst (publish_run (map beat_publish hs) c))) r = (Inr (), calls, r\<lparr>mc_connected := False\<rparr>)
    \<and> deliver_all pq (zip (map fst hs) calls) s = (Inr (), s\<lparr>ap_devices := m\<rparr>) \<and> owned m
    \<and> (\<forall>h \<in> set hs. \<forall>now \<le> since + 180. \<exists>t dev.
         get_device t (beat_device h) (snd (check_offline_devices True now m)) = Some dev \<and> dev_network_status dev = ONLINE)"
proof -
  have "\<forall>(t, p, q) \<in> set (map beat_publish hs). msg_fits t p \<and> (q = 1 \<or> q = 2)" using assms(4) by auto
  then have "receive (concat (fst (publish_run (map beat_publish hs) c))) r
      = (Inr (), map (\<lambda>(t, p, q). (t, p)) (map beat_publish hs), r\<lparr>mc_connected := False\<rparr>)"
    using recv_published_at_least_once [OF assms(1,2), of "map beat_publish hs" "[]"] assms(3) by (simp add: receive_def)
  moreover have "zip (map fst hs) (map (\<lambda>(t, p, q). (t, p)) (map beat_publish hs)) = map beat_call hs"
    by (induction hs) auto
  moreover obtain m where "deliver_all pq (map beat_call hs) s = (Inr (), s\<lparr>ap_devices := m\<rparr>)" "owned m"
      "\<forall>h \<in> set hs. heard since (beat_device h) m"
    using deliver_heartbeats [OF assms(4,5)] by blast
  ultimately show ?thesis using heard_stays_online by (metis (no_types, lifting))
qed

theorem heartbeats_keep_online_witness:
  "\<exists>calls m. receive (concat (fst (publish_run [(''d/v1/heartbeat'', ''{}'', 1)] demo_mqtt))) demo_mqtt = (Inr (), calls, demo_mqtt\<lparr>mc_connected := False\<rparr>)
    \<and> deliver_all (\<lambda>_ c. (Pg_error, c)) (zip [7] calls) demo_app = (Inr (), demo_app\<lparr>ap_devices := m\<rparr>)
    \<and> (\<exists>t dev. get_device t ''d'' (snd (check_offline_devices True 187 m)) = Some dev \<and> dev_network_status dev = ONLINE)"
proof -
  have "owned (ap_devices demo_app)" by (simp add: demo_app_def owned_def dm_inv_def umap_ok_def only_tenant_of_def get_device_def)
  moreover have "\<forall>h \<in> set [(7, ''d'', ''{}'', 1)]. beat_ok 7 h" by (simp add: topic_id_def msg_fits_def heartbeat_topic_def)
  ultimately show ?thesis
    using heartbeats_keep_online [of demo_mqtt demo_mqtt "[(7, ''d'', ''{}'', 1)]" 7 demo_app "\<lambda>_ c. (Pg_error, c)"]
    by (simp add: demo_mqtt_def heartbeat_topic_def) blast
qed

end
