(* ===== verification/Sql_Memory.thy ===== *)
theory Sql_Memory
  imports Sql_Crud
begin

text \<open>
  The second build of \<^verbatim>\<open>src/middleware/storage/database.cpp\<close>: without libpq the class accepts every statement and
  has no rows.  \<open>memory_refines\<close> shows that it answers every sequence of calls as the build with libpq does over one
  particular server, so that whatever is shown for every server holds for both builds.  \<open>database_build\<close> is the
  contract of the two.
\<close>

section \<open>Operations\<close>

record memory_database =
  md_conn_string :: string
  md_opened :: bool

definition new_memory_database :: memory_database where
  "new_memory_database = \<lparr>md_conn_string = '''', md_opened = False\<rparr>"

definition md_execute :: "string \<Rightarrow> memory_database \<Rightarrow> status_code" where
  "md_execute sql d =
     (if \<not> md_opened d then STORAGE_WRITE_ERROR
      else if prefix ''CREATE TABLE'' sql \<or> prefix ''CREATE INDEX'' sql \<or> prefix ''INSERT'' sql \<or> prefix ''UPDATE'' sql \<or>
        prefix ''DELETE'' sql \<or> prefix ''ALTER'' sql then OK
      else OK)"

definition md_query :: "string \<Rightarrow> memory_database \<Rightarrow> status_code \<times> rows" where
  "md_query sql d = (if \<not> md_opened d then (STORAGE_READ_ERROR, []) else (OK, []))"

fun md_execute_all :: "string list \<Rightarrow> memory_database \<Rightarrow> status_code" where
  "md_execute_all [] d = OK"
| "md_execute_all (sql # sqls) d = (let sc = md_execute sql d in if sc \<noteq> OK then sc else md_execute_all sqls d)"

definition md_init_schema :: "memory_database \<Rightarrow> status_code" where
  "md_init_schema d = md_execute_all schema_texts d"

definition md_migrate :: "memory_database \<Rightarrow> status_code" where
  "md_migrate d = OK"

text \<open>The result of the schema statements is not looked at.\<close>

definition md_open :: "string \<Rightarrow> memory_database \<Rightarrow> status_code \<times> memory_database" where
  "md_open connection_string d =
     (let d1 = d\<lparr>md_conn_string := connection_string, md_opened := True\<rparr>
      in case md_init_schema d1 of _ \<Rightarrow> (md_migrate d1, d1))"

definition md_close :: "memory_database \<Rightarrow> status_code \<times> memory_database" where
  "md_close d = (OK, d\<lparr>md_opened := False\<rparr>)"

definition md_is_open :: "memory_database \<Rightarrow> bool" where
  "md_is_open d = md_opened d"

definition md_backup :: "string \<Rightarrow> memory_database \<Rightarrow> status_code" where
  "md_backup path d = ERROR"

section \<open>The server it amounts to\<close>

text \<open>Every connection succeeds, every statement is answered with a table without rows.\<close>

definition memory_pq :: "unit pq_exec" where
  "memory_pq sql c = (Pg_tuples_ok [], c)"

definition as_pg :: "memory_database \<Rightarrow> unit database" where
  "as_pg d = \<lparr>db_conn_string = md_conn_string d, db_opened = md_opened d, db_conn = (if md_opened d then Some () else None)\<rparr>"

lemma md_execute_refines: "execute memory_pq sql (as_pg d) = (md_execute sql d, as_pg d)"
  by (simp add: execute_def exec_cmd_def pq_run_def memory_pq_def check_result_def as_pg_def md_execute_def)

lemma md_query_refines: "query memory_pq sql (as_pg d) = (fst (md_query sql d), snd (md_query sql d), as_pg d)"
  by (simp add: query_def pq_run_def memory_pq_def as_pg_def md_query_def)

lemma md_close_refines: "close_database (as_pg d) = (fst (md_close d), as_pg (snd (md_close d)))"
  by (simp add: close_database_def as_pg_def md_close_def)

lemma md_exec_all_refines: "exec_all memory_pq sqls (as_pg d) = (md_execute_all sqls d, as_pg d)"
  by (induction sqls) (simp_all add: md_execute_refines Let_def)

lemma md_execute_all_OK: "md_opened d \<Longrightarrow> md_execute_all sqls d = OK"
  by (induction sqls) (simp_all add: md_execute_def)

lemma md_exec_ignore [simp]: "exec_ignore memory_pq sqls (as_pg d) = as_pg d"
  unfolding exec_ignore_def by (induction sqls) (simp_all add: md_execute_refines)

lemma md_open_refines:
  "open_database (\<lambda>_. Some ()) memory_pq cs (as_pg d) = (Inr (fst (md_open cs d)), as_pg (snd (md_open cs d)))"
proof -
  let ?d = "d\<lparr>md_conn_string := cs, md_opened := True\<rparr>"
  have "(as_pg d)\<lparr>db_conn_string := cs, db_conn := Some (), db_opened := True\<rparr> = as_pg ?d" by (simp add: as_pg_def)
  moreover have "init_schema memory_pq (as_pg ?d) = (OK, as_pg ?d)"
    by (simp add: init_schema_def md_exec_all_refines md_execute_all_OK)
  moreover have "migrate_if_needed memory_pq (as_pg ?d) = (Inr OK, as_pg ?d)"
    by (simp add: migrate_if_needed_def md_query_refines md_query_def)
  ultimately show ?thesis by (simp add: open_database_def md_open_def md_migrate_def Let_def)
qed

section \<open>Sequences of calls\<close>

datatype db_call = Open_call string | Execute_call string | Query_call string | Close_call

fun pg_call :: "(string \<Rightarrow> 'pg option) \<Rightarrow> 'pg pq_exec \<Rightarrow> db_call \<Rightarrow> 'pg database \<Rightarrow> (status_code exn \<times> rows) \<times> 'pg database" where
  "pg_call connect pq (Open_call cs) db = (case open_database connect pq cs db of (r, db') \<Rightarrow> ((r, []), db'))"
| "pg_call connect pq (Execute_call sql) db = (case execute pq sql db of (sc, db') \<Rightarrow> ((Inr sc, []), db'))"
| "pg_call connect pq (Query_call sql) db = (case query pq sql db of (sc, rows, db') \<Rightarrow> ((Inr sc, rows), db'))"
| "pg_call connect pq Close_call db = (case close_database db of (sc, db') \<Rightarrow> ((Inr sc, []), db'))"

fun md_call :: "db_call \<Rightarrow> memory_database \<Rightarrow> (status_code exn \<times> rows) \<times> memory_database" where
  "md_call (Open_call cs) d = (case md_open cs d of (sc, d') \<Rightarrow> ((Inr sc, []), d'))"
| "md_call (Execute_call sql) d = ((Inr (md_execute sql d), []), d)"
| "md_call (Query_call sql) d = (case md_query sql d of (sc, rows) \<Rightarrow> ((Inr sc, rows), d))"
| "md_call Close_call d = (case md_close d of (sc, d') \<Rightarrow> ((Inr sc, []), d'))"

fun run_calls :: "('c \<Rightarrow> 's \<Rightarrow> 'r \<times> 's) \<Rightarrow> 'c list \<Rightarrow> 's \<Rightarrow> 'r list \<times> 's" where
  "run_calls f [] s = ([], s)"
| "run_calls f (c # cs) s = (case f c s of (r, s1) \<Rightarrow> case run_calls f cs s1 of (rs, s2) \<Rightarrow> (r # rs, s2))"

lemma md_call_refines: "pg_call (\<lambda>_. Some ()) memory_pq c (as_pg d) = (fst (md_call c d), as_pg (snd (md_call c d)))"
  by (cases c) (simp_all add: md_open_refines md_execute_refines md_query_refines md_close_refines case_prod_beta)

lemma new_as_pg: "as_pg new_memory_database = new_database"
  by (simp add: as_pg_def new_memory_database_def new_database_def)

text \<open>C28. Whatever calls are made, the build without libpq answers as the build with libpq connected to a server that accepts
  every statement and keeps nothing.\<close>

theorem memory_refines:
  "fst (run_calls (pg_call (\<lambda>_. Some ()) memory_pq) calls new_database) = fst (run_calls md_call calls new_memory_database)"
proof -
  have "run_calls (pg_call (\<lambda>_. Some ()) memory_pq) calls (as_pg d)
      = (fst (run_calls md_call calls d), as_pg (snd (run_calls md_call calls d)))" for d
    by (induction calls arbitrary: d) (simp_all add: md_call_refines case_prod_beta)
  then show ?thesis by (simp add: new_as_pg [symmetric])
qed

section \<open>What both builds promise\<close>

text \<open>A database that is not open refuses statements and has no rows; closing closes it, and a statement does not open it.\<close>

locale database_build =
  fixes exec :: "string \<Rightarrow> 's \<Rightarrow> status_code \<times> 's"
    and quer :: "string \<Rightarrow> 's \<Rightarrow> status_code \<times> rows \<times> 's"
    and clos :: "'s \<Rightarrow> status_code \<times> 's"
    and is_opened :: "'s \<Rightarrow> bool"
  assumes exec_closed: "\<not> is_opened s \<Longrightarrow> exec sql s = (STORAGE_WRITE_ERROR, s)"
    and quer_closed: "\<not> is_opened s \<Longrightarrow> quer sql s = (STORAGE_READ_ERROR, [], s)"
    and clos_closes: "fst (clos s) = OK \<and> \<not> is_opened (snd (clos s))"
    and exec_opened: "is_opened (snd (exec sql s)) = is_opened s"
begin

definition exec_list :: "string list \<Rightarrow> 's \<Rightarrow> status_code list \<times> 's" where
  "exec_list sqls s = run_calls exec sqls s"

lemma closed_refuses_all:
  assumes "\<not> is_opened s"
  shows "exec_list sqls s = (replicate (length sqls) STORAGE_WRITE_ERROR, s)"
  unfolding exec_list_def by (induction sqls) (simp_all add: exec_closed [OF assms])

lemma after_close: "exec_list sqls (snd (clos s)) = (replicate (length sqls) STORAGE_WRITE_ERROR, snd (clos s))"
  "fst (snd (quer sql (snd (clos s)))) = []"
  using clos_closes [of s] by (simp_all add: closed_refuses_all quer_closed)

lemma exec_list_opened: "is_opened (snd (exec_list sqls s)) = is_opened s"
  unfolding exec_list_def
proof (induction sqls arbitrary: s)
  case (Cons sql sqls)
  then show ?case using exec_opened [of sql s] by (simp add: case_prod_beta)
qed simp

end

interpretation pgb: database_build "execute pq" "query pq" close_database is_open for pq :: "'pg pq_exec"
  by unfold_locales (auto simp: execute_def query_def close_database_def is_open_def exec_cmd_def pq_run_def split: prod.splits option.splits)

interpretation mdb: database_build "\<lambda>sql d. (md_execute sql d, d)" "\<lambda>sql d. (fst (md_query sql d), snd (md_query sql d), d)" md_close md_is_open
  by unfold_locales (auto simp: md_execute_def md_query_def md_close_def md_is_open_def)

text \<open>After closing, statements are refused and nothing is read, whatever the server would say.\<close>

lemma closed_database_refuses:
  "fst (run_calls (execute pq) sqls (snd (close_database db))) = replicate (length sqls) STORAGE_WRITE_ERROR"
  "fst (snd (query pq sql (snd (close_database db)))) = []"
  using pgb.after_close(1) [of pq sqls db] pgb.after_close(2) [of pq sql db] by (simp_all add: pgb.exec_list_def)

section \<open>Nothing is kept\<close>

lemma memory_get: "md_opened d \<Longrightarrow> first_row conv (query memory_pq sql (as_pg d)) = (Inr None, as_pg d)"
  by (simp add: md_query_refines md_query_def first_row_def)

lemma memory_list: "md_opened d \<Longrightarrow> all_rows conv (query memory_pq sql (as_pg d)) = (Inr [], as_pg d)"
  by (simp add: md_query_refines md_query_def all_rows_def)

text \<open>A device whose insertion was acknowledged is not found afterwards.\<close>

lemma memory_forgets:
  assumes "md_opened d"
  shows "fst (db_insert_device memory_pq dev (as_pg d)) = OK"
    "fst (db_get_device memory_pq (dev_device_id dev) (snd (db_insert_device memory_pq dev (as_pg d)))) = Inr None"
  using assms by (simp_all add: db_insert_device_def db_get_device_def md_execute_refines memory_get md_execute_def)

end
