(* ===== verification/Main_Memory.thy ===== *)
theory Main_Memory
  imports Main_Start Main_Devices Sql_Memory
begin

text \<open>
  The program built without libpq: since that build of the database answers as the server \<open>memory_pq\<close> does
  (\<open>Sql_Memory\<close>), the definitions of the other theories are those of this build when they are given that server.  No
  activation succeeds, and every start is a first start.
\<close>

section \<open>Activation\<close>

lemma memory_model: "md_opened d \<Longrightarrow> db_get_device_model_by_key memory_pq k (as_pg d) = (Inr None, as_pg d)"
  by (simp add: db_get_device_model_by_key_def memory_get)

definition refusal :: "activation_request \<Rightarrow> activation_response" where
  "refusal request = (let valid = validate_request request in
     if valid \<noteq> OK then refused (status_int valid) (status_message valid)
     else refused (- 404) (''model_key not found: '' @ areq_model_key request))"

lemma memory_activation:
  "md_opened d \<Longrightarrow> process_activation memory_pq b now uri request ip (as_pg d) = (Inr (refusal request), as_pg d)"
  by (simp add: process_activation_def refusal_def db_bind_def db_ret_def memory_model Let_def)

text \<open>C40. Whatever a device sends to be activated, the program without libpq refuses it with 400, says why, and keeps nothing.\<close>

theorem memory_refuses_activation:
  assumes "wo_pq w = memory_pq" "ap_db s = as_pg d" "md_opened d"
  shows "h_activate w req s = (Inr (json_response 400 (activation_json (refusal
     \<lparr>areq_uid = get_string (rq_body req) ''uid'', areq_model_key = get_string (rq_body req) ''model_key''\<rparr>))), s)"
proof -
  have "\<not> ares_success (refusal request)" for request
    by (simp add: refusal_def refused_def new_activation_response_def Let_def)
  moreover have "s\<lparr>ap_db := as_pg d\<rparr> = s" by (simp add: assms(2) [symmetric])
  ultimately show ?thesis by (simp add: h_activate_def on_db_def assms memory_activation answer_def Let_def)
qed

theorem memory_refuses_activation_witness:
  "\<exists>body. h_activate (demo_world\<lparr>wo_pq := memory_pq\<rparr>) new_request (demo_app\<lparr>ap_db := as_pg \<lparr>md_conn_string = '''', md_opened = True\<rparr>\<rparr>)
    = (Inr (json_response 400 body), demo_app\<lparr>ap_db := as_pg \<lparr>md_conn_string = '''', md_opened = True\<rparr>\<rparr>)"
  using memory_refuses_activation [of "demo_world\<lparr>wo_pq := memory_pq\<rparr>" "demo_app\<lparr>ap_db := as_pg \<lparr>md_conn_string = '''', md_opened = True\<rparr>\<rparr>"
    "\<lparr>md_conn_string = '''', md_opened = True\<rparr>" new_request] by (intro exI) simp

section \<open>Starting\<close>

lemma memory_empty: "empty_server memory_pq"
  by (simp add: empty_server_def memory_pq_def)

text \<open>Every start begins with the sample data, whatever was stored before: no device is known, and orders and recipes are the
  ones in the sources.\<close>

theorem memory_start_forgets:
  assumes "wo_pq w = memory_pq" "su_connect su = (\<lambda>_. Some ())" "load_settings (su_config su) = Inr ms" "wo_broker_env w = None"
  shows "\<exists>st. boot su w = Inr (Some st) \<and> list_all_devices (ap_devices (st_app st)) = [] \<and> ap_faults (st_app st) = []
    \<and> ap_orders (st_app st) = om_seed_mock_data new_order_manager \<and> ap_recipes (st_app st) = rm_seed_mock_data new_recipe_manager
    \<and> map acc_username (am_accounts (ap_accounts (st_app st))) = [''admin'', ''lijingli'', ''wangwu'', ''operator1'', ''viewer1'']"
proof -
  have pq: "empty_server (wo_pq w)" by (simp add: assms(1) memory_empty)
  obtain db where 0: "open_database (su_connect su) (wo_pq w) (connection_string (su_db_env su)) new_database = (Inr OK, db)" "db_live db"
    by (rule open_empty [of "wo_pq w" "su_connect su" "connection_string (su_db_env su)" "()", OF pq]) (simp add: assms(2))
  obtain db1 where 1: "load_business w (su_firmware su) (Some db) = Inr ([], rm_seed_mock_data new_recipe_manager,
      om_seed_mock_data new_order_manager, scan_firmware (wo_now w) (su_firmware su) new_ota_manager, [], Some db1)" "db_live db1"
    by (rule load_business_empty [OF 0(2) pq])
  obtain og db2 where 2: "load_orgs w (Some db1) = Inr (og, Some db2)" "db_live db2"
    "map org_summary (og_orgs og) = [(1, 0, True), (2, 1, True), (3, 2, True), (4, 2, True), (5, 1, True), (6, 1, True)]"
    by (rule load_orgs_empty [OF 1(2) pq assms(4)])
  obtain am db3 where 3: "load_accounts w og (Some db2) = Inr (am, db3)"
    "map account_summary (am_accounts am) = [(''admin'', 1, ''super_admin'', hash_password (wo_hash w) ''Admin@123'', True),
       (''lijingli'', 2, ''org_admin'', hash_password (wo_hash w) ''Org@12345'', True), (''wangwu'', 3, ''dept_admin'', hash_password (wo_hash w) ''Dept@12345'', True),
       (''operator1'', 5, ''operator'', hash_password (wo_hash w) ''Oper@12345'', True), (''viewer1'', 6, ''viewer'', hash_password (wo_hash w) ''View@12345'', True)]"
    by (rule load_accounts_empty [OF 2(2) pq 2(3)])
  have "map acc_username (am_accounts am) = map fst (map account_summary (am_accounts am))" by (simp add: account_summary_def)
  then have "map acc_username (am_accounts am) = [''admin'', ''lijingli'', ''wangwu'', ''operator1'', ''viewer1'']" unfolding 3(2) by simp
  then show ?thesis
    by (simp add: boot_def assms(3) 0(1) 1(1) 2(1) 3(1) Let_def list_all_devices_def split: prod.splits)
qed

theorem memory_start_forgets_witness:
  "\<exists>st. boot demo_startup (demo_world\<lparr>wo_pq := memory_pq\<rparr>) = Inr (Some st) \<and> list_all_devices (ap_devices (st_app st)) = []"
  using memory_start_forgets [of "demo_world\<lparr>wo_pq := memory_pq\<rparr>" demo_startup default_settings]
  by (auto simp: demo_startup_def demo_world_def load_settings_def)

end
