(* ===== verification/Repository_Tests.thy ===== *)
theory Repository_Tests
  imports Order_Manager Fault_Manager Ota_Manager Mqtt_Client Log_Manager Sql_Memory
begin

text \<open>
  The unit tests of \<^verbatim>\<open>test/\<close>, run on the model.  The tests of orders, upgrades, MQTT, logging and of the database without
  libpq hold; they are stated here for every input of their form where that costs nothing.  The tests of faults and
  of heartbeats were written for an earlier state of the sources (they name members that no longer exist): what their inputs
  do now is shown instead.
\<close>

section \<open>Orders\<close>

text \<open>\<^verbatim>\<open>QueueDepthLimit\<close> and \<^verbatim>\<open>CreateOrderIncreasesQueue\<close>: of any sequence of new orders the first ten are accepted.\<close>

fun create_orders :: "'pg pq_exec \<Rightarrow> order_info list \<Rightarrow> order_manager \<times> 'pg database option \<Rightarrow> status_code list \<times> order_manager \<times> 'pg database option" where
  "create_orders pq [] st = ([], st)"
| "create_orders pq (ord # ords) st = (case om_create_order pq ord st of (sc, st1) \<Rightarrow>
     case create_orders pq ords st1 of (scs, st2) \<Rightarrow> (sc # scs, st2))"

lemma create_orders_codes:
  "fst (create_orders pq ords (s, db)) =
     replicate (min (ORDER_MAX_QUEUE_DEPTH - length (om_order_queue s)) (length ords)) OK
     @ replicate (length ords - (ORDER_MAX_QUEUE_DEPTH - length (om_order_queue s))) ORDER_QUEUE_FULL"
proof (induction ords arbitrary: s db)
  case (Cons ord ords)
  let ?k = "ORDER_MAX_QUEUE_DEPTH - length (om_order_queue s)"
  show ?case
  proof (cases "ORDER_MAX_QUEUE_DEPTH \<le> length (om_order_queue s)")
    case True
    then show ?thesis using Cons [of s db] by (simp add: om_create_order_def case_prod_beta)
  next
    case False
    then obtain k where k: "?k = Suc k" by (cases ?k) auto
    then have "ORDER_MAX_QUEUE_DEPTH - Suc (length (om_order_queue s)) = k" by simp
    with False k Cons show ?thesis by (simp add: om_create_order_def case_prod_beta)
  qed
qed simp

lemma test_queue_depth_limit:
  "length ords = 15 \<Longrightarrow> fst (create_orders pq ords (new_order_manager, db)) = replicate 10 OK @ replicate 5 ORDER_QUEUE_FULL"
  by (simp add: create_orders_codes new_order_manager_def ORDER_MAX_QUEUE_DEPTH_def)

lemma test_create_order:
  "fst (om_create_order pq ord (new_order_manager, db)) = OK"
  "om_queue_depth (fst (snd (om_create_order pq ord (new_order_manager, db)))) = 1"
  by (simp_all add: om_create_order_def new_order_manager_def om_queue_depth_def ORDER_MAX_QUEUE_DEPTH_def)

lemma test_cancel_order_not_found: "fst (om_cancel_order order_id new_order_manager) = ORDER_NOT_FOUND"
  by (simp add: om_cancel_order_def new_order_manager_def is_current_def)

section \<open>Upgrades\<close>

lemma test_register_firmware:
  "fst (register_firmware fw new_ota_manager) = OK" "list_firmwares (snd (register_firmware fw new_ota_manager)) = [fw]"
  by (simp_all add: register_firmware_def list_firmwares_def new_ota_manager_def)

lemma test_get_firmware:
  "get_firmware v (snd (register_firmware fw new_ota_manager)) = (if fw_version fw = v then Some fw else None)"
  by (simp add: register_firmware_def get_firmware_def find_firmware_def new_ota_manager_def)

lemma test_delete_firmware:
  "fst (delete_firmware (fw_version fw) (snd (register_firmware fw new_ota_manager))) = OK"
  "list_firmwares (snd (delete_firmware (fw_version fw) (snd (register_firmware fw new_ota_manager)))) = []"
  by (simp_all add: register_firmware_def delete_firmware_def find_firmware_def list_firmwares_def new_ota_manager_def)

lemma test_push_to_device:
  assumes "r = push_to_device t p dev (fw_version fw) (snd (register_firmware fw new_ota_manager))"
  shows "fst r = OK" "ota_target_version (get_device_ota_status dev (snd r)) = fw_version fw"
    "ota_stage (get_device_ota_status dev (snd r)) = ''pending''"
  unfolding assms
  by (simp_all add: register_firmware_def push_to_device_def find_firmware_def new_ota_manager_def get_device_ota_status_def pending_record_def)

lemma test_active_upgrades:
  assumes "dev \<noteq> dev'"
  shows "length (active_upgrades (snd (push_to_device t p dev' (fw_version fw)
     (snd (push_to_device t p dev (fw_version fw) (snd (register_firmware fw new_ota_manager))))))) = 2"
  using assms by (simp add: register_firmware_def push_to_device_def find_firmware_def new_ota_manager_def active_upgrades_def pending_record_def)

section \<open>MQTT, database and log\<close>

lemma test_mqtt_initial: "\<not> mqtt_is_connected new_mqtt_client" "fst (mqtt_publish t p q new_mqtt_client) = COMM_DISCONNECTED"
  by (simp_all add: mqtt_is_connected_def mqtt_publish_def new_mqtt_client_def)

lemma test_database:
  "fst (md_open cs new_memory_database) = OK" "fst (execute pq sql new_database) \<noteq> OK" "md_execute sql new_memory_database \<noteq> OK"
  by (simp_all add: md_open_def md_migrate_def execute_def md_execute_def new_database_def new_memory_database_def Let_def)

lemma test_levels_filtered:
  assumes "lg_min_level (fst s) = WARN_LEVEL"
  shows "log_debug ok ms m msg s = s" "log_info ok ms m msg s = s"
  using assms by (simp_all add: log_debug_def log_info_def log_write_def less_log_level_def less_eq_log_level_def case_prod_beta)

section \<open>Faults\<close>

text \<open>\<^verbatim>\<open>OnFaultEventCreatesFault\<close> sends the code as \<^verbatim>\<open>code\<close> and the level as a number; \<^verbatim>\<open>on_fault_event\<close> reads
  \<^verbatim>\<open>fault_code\<close> and a text: the fault is recorded without code and as a warning.\<close>

definition test_payload :: string where
  \<open>test_payload = ''{"event_type": "fault_alert", "code": 3, "level": 3, "description": "Pump failure detected"}''\<close>

lemma test_fault_event:
  "\<exists>f. on_fault_event pq alert t d test_payload ([], None) = (Inr [], [f], None)
     \<and> flt_tenant_id f = t \<and> flt_device_id f = d \<and> flt_code f = FAULT_NONE \<and> flt_level f = Level_WARNING \<and> flt_description f = ''''"
proof -
  have "get_int test_payload ''fault_code'' 0 = Inr 0" "get_int test_payload ''ts'' 0 = Inr 0" "get_string test_payload ''level'' = ''''"
    "get_string test_payload ''description'' = ''''" by code_simp+
  then show ?thesis by (simp add: on_fault_event_def add_fault_def db_do_def new_fault_info_def FAULT_NONE_def)
qed

text \<open>\<^verbatim>\<open>ResolveFault\<close> expects a resolved fault to stay among all faults: there is one list only.\<close>

lemma test_resolve_fault:
  "resolve_fault t d c [f] = (if fault_matches t d c f then (OK, []) else (ORDER_NOT_FOUND, [f]))"
  "all_faults (snd (resolve_fault t d c fs)) = active_faults (snd (resolve_fault t d c fs))"
  by (simp_all add: resolve_fault_def all_faults_def active_faults_def)

end
