(* ===== verification/Spec2Isabelle.thy ===== *)
theory Spec2Isabelle
  imports Persistence Parsed_Topic Ulid Message_Router Mqtt_Client Mqtt_Paho Http_Client Tls_Manager Log_Manager Log_Export Hal
    Main_Devices Main_Types Main_Orders Main_Recipes Main_Ota Main_Firmware Main_Accounts Main_Keys Main_Routes
    Main_Start Main_Loop Main_Service Main_Session Main_Uplink Main_Memory Repository_Tests
begin

text \<open>
  This library verifies the cloud service of the IoT device system: the C++ program under \<^verbatim>\<open>src/\<close> that
  devices reach over MQTT and people over HTTP, with its managers, its persistence in PostgreSQL and
  the hardware layer of the devices.

  \<^bold>\<open>The program.\<close>  \<^verbatim>\<open>src/main.cpp\<close> wires the parts together.  Messages of devices come from the MQTT client
  (\<^verbatim>\<open>middleware/communication/mqtt_client.cpp\<close>) to the message router (\<^verbatim>\<open>app/message_router.cpp\<close>), which
  calls the managers of devices, orders, faults, firmware and recipes.  Requests come from the HTTP
  server (\<^verbatim>\<open>middleware/communication/api_server.cpp\<close>), which calls one of the handlers that
  \<^verbatim>\<open>main.cpp\<close> registers; the handlers call the same managers, the managers of organisations and
  accounts, and the activation of devices.  The managers keep their state in memory and write
  through \<^verbatim>\<open>middleware/storage/database.cpp\<close>.  A loop in \<^verbatim>\<open>main\<close> looks for silent devices.

  \<^bold>\<open>Foundations.\<close>
  \<^item> \<open>Cpp_Prelude\<close>, \<open>Cpp_Strings\<close>, \<open>Cpp_Containers\<close>: exceptions as values (\<open>'a exn\<close> is \<open>cpp_exn + 'a\<close>; undefined behaviour
    and the end of the process are exceptions too), \<^verbatim>\<open>std::stoi\<close> and its relatives with their ranges,
    \<^verbatim>\<open>find\<close>, \<^verbatim>\<open>substr\<close> and \<^verbatim>\<open>getline\<close>, dates, vectors searched by key, and hash maps as
    association lists whose order is not fixed.
  \<^item> \<open>Interfaces\<close>: the contracts that components share, as locales: \<open>text_codec\<close>, \<open>machine\<close>, \<open>started_machine\<close>,
    \<open>event_log\<close>, \<open>entity_store\<close>; each is interpreted on the operations of the components that provide
    it.  \<open>device_directory\<close> (in \<open>Device_Manager\<close>) and \<open>actuator\<close> (in \<open>Hal\<close>) are contracts of one part.
  \<^item> \<open>Dev_Types\<close>: the structures of \<^verbatim>\<open>include/dev_sys/common\<close> as records; enumerations are words of their width.

  \<^bold>\<open>Texts.\<close>  \<open>Json_Helper\<close> (reading fields by searching for the key; exact on flat objects, exceptions
  otherwise), \<open>Parsed_Topic\<close> (topics are parsed back as they were built), \<open>Ulid\<close> (shape, order and injectivity).

  \<^bold>\<open>Persistence.\<close>  \<open>Sql_Text\<close> (escaping, with the lexical rules of SQL as reader), \<open>Sql_Schema\<close> (the tables),
  \<open>Sql_Database\<close> (connection, statements, migration, rows to structures), \<open>Sql_Crud\<close> (every operation),
  \<open>Sql_Memory\<close> (the build without libpq: it answers as the other build does over a server that keeps nothing, so that what holds
  for every server holds for it; the contract \<open>database_build\<close> of both),
  \<open>Persistence\<close> (what is written is read back, and where it is not).

  \<^bold>\<open>Managers.\<close>  Each has its record, one definition per operation, an invariant that every operation keeps and
  theorems on what the operations do: \<open>Order_Manager\<close> (no order is lost but by an emergency stop, bounded
  queue), \<open>Recipe_Manager\<close> (a map refined by a list, and the small configuration manager),
  \<open>Fault_Manager\<close>, \<open>Device_Manager\<close> (every device under one tenant, offline check,
  migration), \<open>Ota_Manager\<close> (grey rollouts reach exactly the bucket), \<open>Org_Manager\<close> (paths describe the tree,
  scopes are exactly what is below), \<open>Account_Manager\<close> (login, tokens, revocation), \<open>Device_Type_Manager\<close> and
  \<open>Device_Activation\<close> (what is sent to the database and what is stored), \<open>Message_Router\<close> (messages do not move
  devices; each message has its effect).

  \<^bold>\<open>Communication and middleware.\<close>  \<open>Mqtt_Client\<close> (packets, connecting, receiving), \<open>Mqtt_Paho\<close> (the
  build over the Paho library, and the contract \<open>message_link\<close> of both builds), \<open>Api_Server\<close> (reading a connection
  piece by piece, parsing, dispatch, responses), \<open>Http_Client\<close> (requests and resumed downloads over a
  handle whose options stay set), \<open>Tls_Manager\<close> (certificates and the store of credentials), \<open>Log_Manager\<close>
  (levels, lines and rotation), \<open>Log_Export\<close> (the entries of the last hours, with the calendar), \<open>Hal\<close> (actuators, sensors, provisioning).

  \<^bold>\<open>The main program.\<close>  \<open>Main_Common\<close> has the state of the program (\<open>app\<close>: the managers, the database, the files) and
  what it sees of the world (\<open>world\<close>); a handler is a function on both and the request.  The handlers are in
  \<open>Main_Devices\<close> (devices, tenants, configuration), \<open>Main_Types\<close>, \<open>Main_Orders\<close> (orders, recipes, faults), \<open>Main_Recipes\<close> (showing recipes, with
  the text of a \<^verbatim>\<open>double\<close>), \<open>Main_Ota\<close>
  (upload, download, rollouts), \<open>Main_Firmware\<close> (the firmware directory), \<open>Main_Accounts\<close> (organisations, login,
  accounts) and \<open>Main_Keys\<close> (the key of the broker).  \<open>Main_Routes\<close> has the table of all of them: what a request
  on a connection to the whole program does, and which routes compete.  \<open>Main_Start\<close> has the start (configuration, address,
  database, loading and filling the managers), \<open>Main_Loop\<close> the loop and its interleaving with the other
  threads, \<open>Main_Service\<close> going online and the shutdown.  \<open>Main_Session\<close> composes them: a login over one connection and what its
  token opens on the next.  \<open>Main_Uplink\<close> does so for heartbeats: from the bytes on the connection to the broker to the registry and
  its offline check.  \<open>Main_Memory\<close> is the program built without libpq: no activation succeeds and every start is
  a first start.  \<open>Repository_Tests\<close> runs the unit tests of \<^verbatim>\<open>test/\<close> on the model.  The theorem of this theory is about accounts and organisations together.

  \<^bold>\<open>Parameters.\<close>  What is not part of the program is an argument of the definitions: the PostgreSQL server
  (\<^verbatim>\<open>PQexec\<close>, \<^verbatim>\<open>PQconnectdb\<close>), \<^verbatim>\<open>std::hash\<close>, SHA-256 and the other functions of OpenSSL, libcurl, the Paho library, the clocks, random
  values, environment variables, the pieces in which the network delivers bytes, the broker, the
  file system, and the largest size of a string.  What a theorem needs of them is a hypothesis that states
  documented behaviour, and its witness instantiates it.

  \<^bold>\<open>Bounds.\<close>  Integers are unbounded where the sources cannot overflow them, and otherwise range over
  \<open>int32_min\<close> to \<open>int32_max\<close> (or 64 bits), leaving which is undefined behaviour and a branch of the model.  The one
  recursion with fuel is the tree of organisations: \<open>org_tree_terminates\<close> shows that the number of
  organisations plus one, which the handler passes, is enough on every reachable state.

  \<^bold>\<open>Concurrency.\<close>  Every operation of a manager holds the manager's mutex and is one step; interleavings are
  sequences of steps.

  \<^bold>\<open>Not modelled.\<close>  Output on the console; the operations of the display, whose bodies are empty; signals beyond the end of the loop; the destructors, which repeat
  operations that are modelled.
\<close>

section \<open>Accounts and organisations together\<close>

text \<open>C10. What a request with a token may see: whatever token is accepted, its account is active and the
  scope of the session is exactly the account's organisation and everything below it along the
  parent links.\<close>

theorem token_scope_exact:
  assumes "verify_token now orgs token s = Inr (Some tp)"
    and "og_inv orgs" "no_orphans orgs" "org_exists (tp_org_id tp) orgs"
  shows "set (tp_org_scope tp) = {tp_org_id tp} \<union> {j. below (og_orgs orgs) (tp_org_id tp) j}
    \<and> (\<exists>a. get_account (tp_account_id tp) s = Some a \<and> acc_is_active a \<and> acc_org_id a = tp_org_id tp)"
proof -
  from verify_token_worth [OF assms(1)] obtain i e where "token_worth now orgs i e s = Some tp" by blast
  from token_worth_SomeD [OF this] scope_below [OF assms(2-4)] show ?thesis by simp
qed

theorem token_scope_exact_witness:
  "\<exists>tp. verify_token 9 demo_orgs (token_text 1 86405) demo_accounts = Inr (Some tp)
     \<and> set (tp_org_scope tp) = {tp_org_id tp} \<union> {j. below (og_orgs demo_orgs) (tp_org_id tp) j}
     \<and> (\<exists>a. get_account (tp_account_id tp) demo_accounts = Some a \<and> acc_is_active a \<and> acc_org_id a = tp_org_id tp)"
proof -
  let ?a = "created_account length 0 demo_orgs demo_bob ''pw'' new_account_manager"
  have org: "acc_org_id ?a = 1"
    by (simp add: created_account_def demo_bob_def Let_def split: option.splits)
  have "get_account 1 demo_accounts = Some (hide_hash ?a)"
    by (simp add: get_account_def demo_accounts_eval new_account_manager_def)
  then obtain tp where tp: "verify_token 9 demo_orgs (token_text 1 86405) demo_accounts = Inr (Some tp)" "tp_org_id tp = 1"
    using verify_token_text [of 1 86405 "[]" 9 demo_orgs demo_accounts] org
    by (simp add: demo_accounts_eval token_worth_def int32_min_def int32_max_def int64_min_def int64_max_def)
  from token_scope_exact [OF tp(1) demo_orgs_inv demo_orgs_ok(1)] tp demo_orgs_ok(2) show ?thesis by auto
qed

end
